(* ===== verification/Go_Prelude.thy ===== *)
theory Go_Prelude
  imports
    Main
    "HOL-Library.Finite_Map"
    "HOL-Library.Monad_Syntax"
    "HOL-Library.Signed_Division"
    "HOL-Library.Char_ord"
    "HOL-Library.List_Lexorder"
    "HOL-Library.Sublist"
begin

text \<open>
  The part of the Go language and of its standard library that the operator's code relies on:
  fixed-width integers and their conversions, division that truncates towards zero, the functions
  of the packages \<^verbatim>\<open>strings\<close>, \<^verbatim>\<open>strconv\<close> and
  \<^verbatim>\<open>sort\<close> that the sources call, \<^verbatim>\<open>map[string]string\<close>
  as finite maps, and slices as lists.

  A Go panic (nil pointer dereference, index out of range) is the value \<open>None\<close> of the option
  monad: a function that may panic returns an option, \<open>Option.bind\<close> propagates the panic, and
  the do-notation of the library reads like the statements of the source.

  A string is the list of its bytes, as in Go.
\<close>

section \<open>Collections of facts\<close>

named_theorems go_simps \<open>unfolding rules of the Go layer\<close>
named_theorems req_simps \<open>what one client call returns and appends to the history\<close>
named_theorems emits_intros \<open>which requests an operation may issue\<close>

section \<open>Panics\<close>

text \<open>Indexing a slice: out of range panics.\<close>

definition index :: "'a list \<Rightarrow> nat \<Rightarrow> 'a option" where
  "index xs i = (if i < length xs then Some (xs ! i) else None)"

text \<open>Assigning through an index (\<^verbatim>\<open>xs[i] = v\<close>): out of range panics.\<close>

definition store_index :: "'a list \<Rightarrow> nat \<Rightarrow> 'a \<Rightarrow> 'a list option" where
  "store_index xs i v = (if i < length xs then Some (xs[i := v]) else None)"

section \<open>Integers\<close>

definition int32 :: "int \<Rightarrow> int" where
  "int32 x = signed_take_bit 31 x"

definition int64 :: "int \<Rightarrow> int" where
  "int64 x = signed_take_bit 63 x"

section \<open>Package strings\<close>

fun Split :: "string \<Rightarrow> char \<Rightarrow> string list" where
  "Split [] c = [[]]"
| "Split (x # xs) c =
     (if x = c then [] # Split xs c
      else (case Split xs c of [] \<Rightarrow> [[x]] | w # ws \<Rightarrow> (x # w) # ws))"

fun Join :: "string list \<Rightarrow> string \<Rightarrow> string" where
  "Join [] sep = []"
| "Join [w] sep = w"
| "Join (w # v # ws) sep = w @ sep @ Join (v # ws) sep"

fun Contains :: "string \<Rightarrow> string \<Rightarrow> bool" where
  "Contains [] sub = (sub = [])"
| "Contains (x # xs) sub = (prefix sub (x # xs) \<or> Contains xs sub)"

fun Index :: "string \<Rightarrow> string \<Rightarrow> nat option" where
  "Index [] sub = (if sub = [] then Some 0 else None)"
| "Index (x # xs) sub =
     (if prefix sub (x # xs) then Some 0 else map_option Suc (Index xs sub))"

fun LastIndex :: "string \<Rightarrow> string \<Rightarrow> nat option" where
  "LastIndex [] sub = (if sub = [] then Some 0 else None)"
| "LastIndex (x # xs) sub =
     (case LastIndex xs sub of
        Some i \<Rightarrow> Some (Suc i)
      | None \<Rightarrow> if prefix sub (x # xs) then Some 0 else None)"

text \<open>The ASCII white space that \<^verbatim>\<open>strings.TrimSpace\<close> removes.\<close>

definition is_space :: "char \<Rightarrow> bool" where
  "is_space c \<longleftrightarrow> c \<in> set [CHR 0x09, CHR 0x0A, CHR 0x0B, CHR 0x0C, CHR 0x0D, CHR 0x20]"

definition TrimSpace :: "string \<Rightarrow> string" where
  "TrimSpace s = rev (dropWhile is_space (rev (dropWhile is_space s)))"

definition TrimPrefix :: "string \<Rightarrow> string \<Rightarrow> string" where
  "TrimPrefix s p = (if prefix p s then drop (length p) s else s)"

text \<open>
  \<^verbatim>\<open>strings.Replace(s, old, new, 1)\<close> and \<^verbatim>\<open>strings.ReplaceAll\<close>
  (the same as \<^verbatim>\<open>Replace\<close> with a negative count); an empty \<open>old\<close> matches before
  every byte and at the end, as Go documents it.
\<close>

fun ReplaceOne :: "string \<Rightarrow> string \<Rightarrow> string \<Rightarrow> string" where
  "ReplaceOne [] old new = (if old = [] then new else [])"
| "ReplaceOne (x # xs) old new =
     (if prefix old (x # xs) then new @ drop (length old) (x # xs)
      else x # ReplaceOne xs old new)"

function ReplaceAll :: "string \<Rightarrow> string \<Rightarrow> string \<Rightarrow> string" where
  "ReplaceAll s old new =
     (if old = [] then concat (map (\<lambda>c. new @ [c]) s) @ new
      else if prefix old s then new @ ReplaceAll (drop (length old) s) old new
      else (case s of [] \<Rightarrow> [] | c # cs \<Rightarrow> c # ReplaceAll cs old new))"
  by pat_completeness auto
termination
  by (relation "measure (\<lambda>(s, old, new). length s)") (auto simp: prefix_def)

declare ReplaceAll.simps [simp del]

section \<open>Package strconv\<close>

fun digit_char :: "nat \<Rightarrow> char" where
  "digit_char d = char_of (48 + d)"

fun nat_string :: "nat \<Rightarrow> string" where
  "nat_string n =
     (if n < 10 then [digit_char n] else nat_string (n div 10) @ [digit_char (n mod 10)])"

declare nat_string.simps [simp del]

definition Itoa :: "int \<Rightarrow> string" where
  "Itoa i = (if i < 0 then CHR ''-'' # nat_string (nat (- i)) else nat_string (nat i))"

definition FormatBool :: "bool \<Rightarrow> string" where
  "FormatBool b = (if b then ''true'' else ''false'')"

definition ParseBool :: "string \<Rightarrow> bool option" where
  "ParseBool s =
     (if s \<in> set [''1'', ''t'', ''T'', ''true'', ''TRUE'', ''True''] then Some True
      else if s \<in> set [''0'', ''f'', ''F'', ''false'', ''FALSE'', ''False''] then Some False
      else None)"

definition is_digit :: "char \<Rightarrow> bool" where
  "is_digit c \<longleftrightarrow> 48 \<le> (of_char c :: nat) \<and> (of_char c :: nat) \<le> 57"

definition digits_value :: "string \<Rightarrow> nat" where
  "digits_value = foldl (\<lambda>n c. 10 * n + (of_char c - 48)) 0"

text \<open>
  \<^verbatim>\<open>strconv.Atoi\<close> returns a value and an error: a syntax error comes with 0, a value
  out of the 64-bit range with the nearest bound. The flag says whether there was no error.
\<close>

definition Atoi :: "string \<Rightarrow> int \<times> bool" where
  "Atoi s =
     (let (neg, ds) = (case s of
            [] \<Rightarrow> (False, [])
          | c # cs \<Rightarrow> if c = CHR ''-'' then (True, cs)
                      else if c = CHR ''+'' then (False, cs) else (False, s))
      in if ds = [] \<or> \<not> list_all is_digit ds then (0, False)
         else let v = (if neg then - int (digits_value ds) else int (digits_value ds))
              in if v > 2 ^ 63 - 1 then (2 ^ 63 - 1, False)
                 else if v < - (2 ^ 63) then (- (2 ^ 63), False)
                 else (v, True))"

section \<open>Maps\<close>

type_synonym strmap = "(string, string) fmap"

text \<open>\<^verbatim>\<open>m[k]\<close> of a missing key is the zero value.\<close>

definition lookup :: "strmap \<Rightarrow> string \<Rightarrow> string" where
  "lookup m k = (case fmlookup m k of None \<Rightarrow> [] | Some v \<Rightarrow> v)"

section \<open>Lemmas\<close>

lemma index_Some_iff: "index xs i = Some x \<longleftrightarrow> i < length xs \<and> xs ! i = x"
  by (auto simp: index_def)

lemma index_None_iff: "index xs i = None \<longleftrightarrow> length xs \<le> i"
  by (auto simp: index_def)

lemma index_Cons_0 [simp]: "index (x # xs) 0 = Some x"
  by (simp add: index_def)

lemma index_Nil [simp]: "index [] i = None"
  by (simp add: index_def)

lemma int32_id: "- (2 ^ 31) \<le> x \<Longrightarrow> x < 2 ^ 31 \<Longrightarrow> int32 x = x"
  by (simp add: int32_def signed_take_bit_int_eq_self)

lemma int64_id: "- (2 ^ 63) \<le> x \<Longrightarrow> x < 2 ^ 63 \<Longrightarrow> int64 x = x"
  by (simp add: int64_def signed_take_bit_int_eq_self)

lemma int32_range: "- (2 ^ 31) \<le> int32 x \<and> int32 x < 2 ^ 31"
  using signed_take_bit_int_greater_eq_minus_exp [of 31 x] signed_take_bit_int_less_exp [of 31 x]
  by (simp add: int32_def)

lemma Split_not_Nil [simp]: "Split s c \<noteq> []"
  by (induction s) (auto split: list.splits)

lemma Split_no_sep: "c \<notin> set w \<Longrightarrow> Split w c = [w]"
  by (induction w) auto

lemma Split_append_sep: "c \<notin> set w \<Longrightarrow> Split (w @ c # s) c = w # Split s c"
  by (induction w) auto

lemma Split_Join:
  "ws \<noteq> [] \<Longrightarrow> \<forall>w \<in> set ws. c \<notin> set w \<Longrightarrow> Split (Join ws [c]) c = ws"
  by (induction ws "[c]" rule: Join.induct) (auto simp: Split_no_sep Split_append_sep)

lemma Join_Split: "Join (Split s c) [c] = s"
proof (induction s)
  case (Cons x xs)
  obtain w ws where *: "Split xs c = w # ws" by (meson Split_not_Nil neq_Nil_conv)
  then show ?case using Cons by (cases ws) auto
qed simp

lemma Contains_iff_sublist: "Contains s sub \<longleftrightarrow> sublist sub s"
  by (induction s) (auto simp: sublist_Cons_right)

lemma Contains_append_mid: "Contains (a @ b @ c) b"
  by (auto simp: Contains_iff_sublist sublist_def)

lemma LastIndex_None_iff: "LastIndex s sub = None \<longleftrightarrow> \<not> Contains s sub"
  by (induction s) (auto split: option.splits)

lemma Index_None_iff: "Index s sub = None \<longleftrightarrow> \<not> Contains s sub"
  by (induction s) auto

lemma bind_Some_iff:
  "Option.bind x f = Some y \<longleftrightarrow> (\<exists>z. x = Some z \<and> f z = Some y)"
  by (cases x) auto

lemma bind_SomeE:
  "Option.bind x f = Some y \<Longrightarrow> (\<And>z. x = Some z \<Longrightarrow> f z = Some y \<Longrightarrow> P) \<Longrightarrow> P"
  by (cases x) auto

lemma lookup_empty [simp]: "lookup fmempty k = []"
  by (simp add: lookup_def)

lemma lookup_fmupd [simp]: "lookup (fmupd k v m) k' = (if k = k' then v else lookup m k')"
  by (simp add: lookup_def)

end
