(* ===== verification/K8s_Types.thy ===== *)
theory K8s_Types
  imports Go_Prelude
begin

text \<open>
  The Kubernetes, Gateway API and Prometheus operator objects the operator reads and writes. These
  types come from packages outside the repository; each record has the fields that the sources
  read or write, under the names of the Go fields with a prefix for the record. A pointer field is
  an option. A map, a list of maps or a quantity stands for its class under
  \<^verbatim>\<open>apiequality.Semantic.DeepEqual\<close>, which identifies a nil map with an empty one
  and compares quantities by value, so that the comparison of the sources is equality of the model.
  Values the sources only carry along (affinities, tolerations, the fields of a security context
  they never name) are tokens of type \<^verbatim>\<open>opaque\<close>.
\<close>

type_synonym opaque = nat

section \<open>Metadata and errors\<close>

record ObjectKey =
  key_Namespace :: string
  key_Name :: string

record OwnerReference =
  owner_Kind :: string
  owner_Name :: string

record ObjectMeta =
  Name :: string
  Namespace :: string
  Labels :: strmap
  Annotations :: strmap
  DeletionTimestamp :: "string option"
  OwnerReferences :: "OwnerReference list"

text \<open>
  An error value: what the client returns (\<open>NotFound\<close> is what
  \<^verbatim>\<open>apierrors.IsNotFound\<close> recognises), an error the sources make with
  \<^verbatim>\<open>fmt.Errorf\<close> or \<^verbatim>\<open>errors.New\<close>, and an error wrapped in a
  message (\<^verbatim>\<open>fmt.Errorf\<close> with \<^verbatim>\<open>%w\<close>, \<^verbatim>\<open>errors.Wrap\<close>),
  printed as the message, a colon and the error it wraps.
\<close>

datatype error =
    NotFound string
  | ApiError string
  | GoError string
  | Wrap string error

fun IsNotFound :: "error \<Rightarrow> bool" where
  "IsNotFound (NotFound s) = True"
| "IsNotFound (ApiError s) = False"
| "IsNotFound (GoError s) = False"
| "IsNotFound (Wrap s e) = IsNotFound e"

fun Error :: "error \<Rightarrow> string" where
  "Error (NotFound s) = s"
| "Error (ApiError s) = s"
| "Error (GoError s) = s"
| "Error (Wrap s e) = s @ '': '' @ Error e"

definition ObjectKeyFromObject :: "ObjectMeta \<Rightarrow> ObjectKey" where
  "ObjectKeyFromObject m = \<lparr>key_Namespace = Namespace m, key_Name = Name m\<rparr>"

section \<open>Conditions\<close>

datatype ConditionStatus = ConditionTrue | ConditionFalse | ConditionUnknown

text \<open>The string behind the constant: \<^verbatim>\<open>string(condition.Status)\<close>.\<close>

fun status_string :: "ConditionStatus \<Rightarrow> string" where
  "status_string ConditionTrue = ''True''"
| "status_string ConditionFalse = ''False''"
| "status_string ConditionUnknown = ''Unknown''"

record Condition =
  cond_Type :: string
  cond_Status :: ConditionStatus
  cond_Reason :: string
  cond_Message :: string

record PodCondition =
  pc_Type :: string
  pc_Status :: ConditionStatus
  pc_Reason :: string
  pc_Message :: string

section \<open>Core objects\<close>

record ConfigMap =
  cm_meta :: ObjectMeta
  cm_Data :: strmap

record Secret =
  sec_meta :: ObjectMeta
  sec_Type :: string
  sec_Immutable :: "bool option"
  sec_Data :: strmap

datatype PodPhase = PodPending | PodRunning | PodSucceeded | PodFailed | PodUnknown

record Pod =
  pod_meta :: ObjectMeta
  pod_Phase :: PodPhase
  pod_PodIP :: string
  pod_Conditions :: "PodCondition list"

record Endpoint =
  ep_Addresses :: "string list"
  ep_TargetRef_Kind :: "string option"

record EndpointSlice =
  es_meta :: ObjectMeta
  es_Endpoints :: "Endpoint list"

record ServicePort =
  sp_Name :: string
  sp_Protocol :: string
  sp_Port :: int
  sp_TargetPort :: int

record Service =
  svc_meta :: ObjectMeta
  svc_Type :: string
  svc_ClusterIP :: string
  svc_PublishNotReadyAddresses :: bool
  svc_Selector :: strmap
  svc_Ports :: "ServicePort list"

section \<open>Pod templates\<close>

type_synonym Quantity = int \<comment> \<open>in thousandths of the unit\<close>

record ResourceRequirements =
  rr_Limits :: "(string, Quantity) fmap"
  rr_Requests :: "(string, Quantity) fmap"

text \<open>\<^verbatim>\<open>resource.MustParse\<close> of the literals with the suffixes m and Mi.\<close>

definition milli :: "int \<Rightarrow> Quantity" where
  "milli n = n"

definition Mi :: "int \<Rightarrow> Quantity" where
  "Mi n = n * 2 ^ 20 * 1000"

record SecurityContext =
  sc_ReadOnlyRootFilesystem :: "bool option"
  sc_other :: opaque

record PodSecurityContext =
  psc_RunAsUser :: "int option"
  psc_FSGroup :: "int option"
  psc_RunAsGroup :: "int option"
  psc_RunAsNonRoot :: "bool option"
  psc_other :: opaque

datatype EnvVarSource =
    SecretKeyRef string string \<comment> \<open>key, secret name\<close>
  | FieldRef string

record EnvVar =
  env_Name :: string
  env_Value :: string
  env_ValueFrom :: "EnvVarSource option"

datatype EnvFromSource =
    ConfigMapRef string
  | SecretRef string

record ContainerPort =
  cp_Name :: string
  cp_ContainerPort :: int

record VolumeMount =
  vm_Name :: string
  vm_MountPath :: string
  vm_SubPath :: string
  vm_ReadOnly :: bool

datatype VolumeSource =
    ConfigMapVolume string "int option" \<comment> \<open>name, default mode\<close>
  | PersistentVolumeClaim string
  | OtherVolume opaque

record Volume =
  vol_Name :: string
  vol_Source :: VolumeSource

record Container =
  c_Name :: string
  c_Image :: string
  c_ImagePullPolicy :: string
  c_SecurityContext :: "SecurityContext option"
  c_Ports :: "ContainerPort list"
  c_Env :: "EnvVar list"
  c_EnvFrom :: "EnvFromSource list"
  c_Resources :: ResourceRequirements
  c_VolumeMounts :: "VolumeMount list"

record TopologySpreadConstraint =
  tsc_LabelSelector :: "strmap option"
  tsc_other :: opaque

record PodSpec =
  ps_SecurityContext :: "PodSecurityContext option"
  ps_TerminationGracePeriodSeconds :: "int option"
  ps_ReadinessGates :: "string list"
  ps_PriorityClassName :: string
  ps_ImagePullSecrets :: "string list"
  ps_RestartPolicy :: string
  ps_Containers :: "Container list"
  ps_Affinity :: "opaque option"
  ps_NodeSelector :: strmap
  ps_Tolerations :: "opaque list"
  ps_TopologySpreadConstraints :: "TopologySpreadConstraint list"
  ps_Volumes :: "Volume list"

record PodTemplateSpec =
  pt_meta :: ObjectMeta
  pt_spec :: PodSpec

section \<open>Workloads\<close>

record PersistentVolumeClaimTemplate =
  pvc_Name :: string
  pvc_Labels :: strmap
  pvc_Annotations :: strmap
  pvc_AccessModes :: "string list"
  pvc_Storage :: Quantity
  pvc_StorageClassName :: "string option"

record StatefulSet =
  sts_meta :: ObjectMeta
  sts_ServiceName :: string
  sts_PodManagementPolicy :: string
  sts_Replicas :: "int option"
  sts_Selector :: "strmap option"
  sts_Template :: PodTemplateSpec
  sts_VolumeClaimTemplates :: "PersistentVolumeClaimTemplate list"
  sts_StatusReplicas :: int
  sts_StatusReadyReplicas :: int

record Deployment =
  dep_meta :: ObjectMeta
  dep_Replicas :: "int option"
  dep_Selector :: strmap
  dep_Template :: PodTemplateSpec

record CronJob =
  cj_meta :: ObjectMeta
  cj_ConcurrencyPolicy :: string
  cj_SuccessfulJobsHistoryLimit :: "int option"
  cj_FailedJobsHistoryLimit :: "int option"
  cj_Schedule :: string
  cj_BackoffLimit :: "int option"
  cj_Template :: PodTemplateSpec

section \<open>Routing and monitoring\<close>

record IngressPath =
  ip_Path :: string
  ip_PathType :: "string option"
  ip_ServiceName :: string
  ip_ServicePort :: int

record IngressRule =
  ir_Host :: string
  ir_HTTP :: "IngressPath list option"

record IngressTLS =
  tls_Hosts :: "string list"
  tls_SecretName :: string

record Ingress =
  ing_meta :: ObjectMeta
  ing_IngressClassName :: "string option"
  ing_TLS :: "IngressTLS list"
  ing_Rules :: "IngressRule list"

record ParentReference =
  pr_Group :: "string option"
  pr_Kind :: "string option"
  pr_Name :: string
  pr_Namespace :: "string option"
  pr_SectionName :: "string option"

record HTTPPathMatch =
  pm_Type :: "string option"
  pm_Value :: "string option"

record HTTPBackendRef =
  br_Group :: "string option"
  br_Kind :: "string option"
  br_Name :: string
  br_Namespace :: "string option"
  br_Port :: "int option"
  br_Weight :: "int option"

record HTTPRouteRule =
  rule_Matches :: "HTTPPathMatch option list"
  rule_BackendRefs :: "HTTPBackendRef list"

record HTTPRoute =
  hr_meta :: ObjectMeta
  hr_ParentRefs :: "ParentReference list"
  hr_Hostnames :: "string list"
  hr_Rules :: "HTTPRouteRule list"

record ReferenceGrant =
  rg_meta :: ObjectMeta
  rg_From :: "(string \<times> string \<times> string) list" \<comment> \<open>group, kind, namespace\<close>
  rg_To :: "(string \<times> string \<times> string option) list" \<comment> \<open>group, kind, name\<close>

record PodMetricsEndpoint =
  pme_Port :: string
  pme_Path :: string
  pme_Interval :: string
  pme_Scheme :: string

record PodMonitor =
  pmon_meta :: ObjectMeta
  pmon_Selector :: strmap
  pmon_NamespaceSelector :: "string list"
  pmon_PodMetricsEndpoints :: "PodMetricsEndpoint list"

section \<open>Zero values\<close>

text \<open>What Go's \<^verbatim>\<open>T{}\<close> is, for the types the sources declare empty and then fill.\<close>

definition empty_meta :: ObjectMeta where
  "empty_meta = \<lparr>Name = [], Namespace = [], Labels = fmempty, Annotations = fmempty,
     DeletionTimestamp = None, OwnerReferences = []\<rparr>"

definition empty_ConfigMap :: ConfigMap where
  "empty_ConfigMap = \<lparr>cm_meta = empty_meta, cm_Data = fmempty\<rparr>"

definition empty_Secret :: Secret where
  "empty_Secret = \<lparr>sec_meta = empty_meta, sec_Type = [], sec_Immutable = None,
     sec_Data = fmempty\<rparr>"

definition empty_HTTPRoute :: HTTPRoute where
  "empty_HTTPRoute = \<lparr>hr_meta = empty_meta, hr_ParentRefs = [], hr_Hostnames = [],
     hr_Rules = []\<rparr>"

definition empty_PodSpec :: PodSpec where
  "empty_PodSpec = \<lparr>ps_SecurityContext = None, ps_TerminationGracePeriodSeconds = None,
     ps_ReadinessGates = [], ps_PriorityClassName = [], ps_ImagePullSecrets = [],
     ps_RestartPolicy = [], ps_Containers = [], ps_Affinity = None, ps_NodeSelector = fmempty,
     ps_Tolerations = [], ps_TopologySpreadConstraints = [], ps_Volumes = []\<rparr>"

definition empty_Resources :: ResourceRequirements where
  "empty_Resources = \<lparr>rr_Limits = fmempty, rr_Requests = fmempty\<rparr>"

definition empty_Container :: Container where
  "empty_Container = \<lparr>c_Name = [], c_Image = [], c_ImagePullPolicy = [],
     c_SecurityContext = None, c_Ports = [], c_Env = [], c_EnvFrom = [],
     c_Resources = empty_Resources, c_VolumeMounts = []\<rparr>"

end
