(* ===== verification/V1alpha1.thy ===== *)
theory V1alpha1
  imports K8s_Types
begin

text \<open>
  The custom resource of package \<^verbatim>\<open>api/v1alpha1\<close>: the TypesenseCluster specification
  and status and the accessors that fill in defaults. A record field keeps the name of the Go field
  after a prefix for its struct. A slice whose nil value the sources tell apart from an empty one
  (\<^verbatim>\<open>HttpRoutes\<close>, \<^verbatim>\<open>Scrapers\<close>) is an optional list.
\<close>

section \<open>Specification\<close>

record StorageSpec =
  st_Size :: Quantity
  st_StorageClassName :: string
  st_AccessMode :: string
  st_Annotations :: strmap

record ReadOnlyRootFilesystemSpec =
  ro_SecurityContext :: "SecurityContext option"
  ro_Volumes :: "Volume list"
  ro_VolumeMounts :: "VolumeMount list"

record IngressSpec =
  is_Referer :: "string option"
  is_Host :: string
  is_HttpDirectives :: "string option"
  is_ServerDirectives :: "string option"
  is_LocationDirectives :: "string option"
  is_ClusterIssuer :: "string option"
  is_IngressClassName :: string
  is_ServiceAnnotations :: strmap
  is_Annotations :: strmap
  is_TLSSecretName :: "string option"
  is_Resources :: "ResourceRequirements option"
  is_Image :: string
  is_ReadOnlyRootFilesystem :: "ReadOnlyRootFilesystemSpec option"
  is_Path :: string
  is_PathType :: "string option"

record GatewayParentRef =
  gp_Name :: string
  gp_Namespace :: "string option"
  gp_SectionName :: "string option"

record HttpRouteSpec =
  hrs_Enabled :: bool
  hrs_Name :: string
  hrs_ParentRef :: GatewayParentRef
  hrs_Hostnames :: "string list"
  hrs_Path :: string
  hrs_PathType :: "string option"
  hrs_Labels :: strmap
  hrs_Annotations :: strmap
  hrs_ReferenceGrant :: "bool option"

record DocSearchScraperSpec =
  dss_Name :: string
  dss_Image :: string
  dss_Config :: string
  dss_Schedule :: string
  dss_AuthConfiguration :: "string option"

record MetricsExporterSpec =
  mes_Release :: string
  mes_Image :: string
  mes_IntervalInSeconds :: int
  mes_Resources :: "ResourceRequirements option"
  mes_LogLevel :: int

record HealthCheckSpec =
  hcs_Image :: string
  hcs_Resources :: "ResourceRequirements option"
  hcs_LogLevel :: int

record SecurityContextSpec =
  scs_PodSecurityContext :: "PodSecurityContext option"
  scs_TypesenseSecurityContext :: "SecurityContext option"
  scs_HealthcheckSecurityContext :: "SecurityContext option"
  scs_MetricsSecurityContext :: "SecurityContext option"

record TypesenseClusterSpec =
  spec_Image :: string
  spec_ImagePullSecrets :: "string list"
  spec_AdminApiKey :: "string option"
  spec_Replicas :: int
  spec_ApiPort :: int
  spec_PeeringPort :: int
  spec_HealthProbeTimeoutInMilliseconds :: int
  spec_ResetPeersOnError :: bool
  spec_EnableCors :: bool
  spec_CorsDomains :: "string option"
  spec_ForceResetPeersConfigOnUpdate :: bool
  spec_Resources :: "ResourceRequirements option"
  spec_Affinity :: "opaque option"
  spec_NodeSelector :: strmap
  spec_Tolerations :: "opaque list"
  spec_AdditionalServerConfiguration :: "string option"
  spec_ServiceAnnotations :: strmap
  spec_StatefulSetAnnotations :: strmap
  spec_PodAnnotations :: strmap
  spec_PodsInheritStatefulSetAnnotations :: bool
  spec_Storage :: "StorageSpec option"
  spec_Ingress :: "IngressSpec option"
  spec_HttpRoutes :: "HttpRouteSpec list option"
  spec_Scrapers :: "DocSearchScraperSpec list option"
  spec_Metrics :: "MetricsExporterSpec option"
  spec_HealthCheck :: "HealthCheckSpec option"
  spec_TopologySpreadConstraints :: "TopologySpreadConstraint list"
  spec_PriorityClassName :: "string option"
  spec_SecurityContext :: "SecurityContextSpec option"
  spec_IgnoreAnnotationsFromExternalMutations :: "string list"
  spec_IncrementalQuorumRecovery :: bool
  spec_PodManagementPolicy :: "string option"
  spec_TerminationGracePeriodSeconds :: "int option"

record TypesenseClusterStatus =
  status_Conditions :: "Condition list"
  status_Phase :: string

record TypesenseCluster =
  ts_meta :: ObjectMeta
  ts_Spec :: TypesenseClusterSpec
  ts_Status :: TypesenseClusterStatus

text \<open>The promoted fields \<^verbatim>\<open>ts.Name\<close> and \<^verbatim>\<open>ts.Namespace\<close>.\<close>

abbreviation ts_Name :: "TypesenseCluster \<Rightarrow> string" where
  "ts_Name ts \<equiv> Name (ts_meta ts)"

abbreviation ts_Namespace :: "TypesenseCluster \<Rightarrow> string" where
  "ts_Namespace ts \<equiv> Namespace (ts_meta ts)"

section \<open>Accessors with defaults\<close>

definition default_resources :: "int \<Rightarrow> int \<Rightarrow> int \<Rightarrow> int \<Rightarrow> ResourceRequirements" where
  "default_resources lim_cpu lim_mem req_cpu req_mem =
     \<lparr>rr_Limits = fmap_of_list [(''cpu'', milli lim_cpu), (''memory'', Mi lim_mem)],
      rr_Requests = fmap_of_list [(''cpu'', milli req_cpu), (''memory'', Mi req_mem)]\<rparr>"

definition GetResources :: "TypesenseClusterSpec \<Rightarrow> ResourceRequirements" where
  "GetResources s =
     (case spec_Resources s of Some r \<Rightarrow> r | None \<Rightarrow> default_resources 1000 512 100 256)"

definition GetAdditionalServerConfiguration :: "TypesenseClusterSpec \<Rightarrow> EnvFromSource list" where
  "GetAdditionalServerConfiguration s =
     (case spec_AdditionalServerConfiguration s of
        Some name \<Rightarrow> [ConfigMapRef name]
      | None \<Rightarrow> [])"

definition GetCorsDomains :: "TypesenseClusterSpec \<Rightarrow> string" where
  "GetCorsDomains s = (case spec_CorsDomains s of None \<Rightarrow> [] | Some d \<Rightarrow> d)"

definition GetTopologySpreadConstraints ::
  "TypesenseClusterSpec \<Rightarrow> strmap \<Rightarrow> TopologySpreadConstraint list" where
  "GetTopologySpreadConstraints s labels =
     map (\<lambda>tsc. if tsc_LabelSelector tsc = None
                then tsc\<lparr>tsc_LabelSelector := Some labels\<rparr> else tsc)
       (spec_TopologySpreadConstraints s)"

definition GetPodManagementPolicy :: "TypesenseClusterSpec \<Rightarrow> string" where
  "GetPodManagementPolicy s =
     (case spec_PodManagementPolicy s of Some p \<Rightarrow> p | None \<Rightarrow> ''Parallel'')"

definition GetTerminationGracePeriodSeconds :: "TypesenseClusterSpec \<Rightarrow> int" where
  "GetTerminationGracePeriodSeconds s =
     (case spec_TerminationGracePeriodSeconds s of Some n \<Rightarrow> n | None \<Rightarrow> 5)"

definition GetStorage :: "TypesenseClusterSpec \<Rightarrow> StorageSpec" where
  "GetStorage s =
     (case spec_Storage s of
        Some st \<Rightarrow> st
      | None \<Rightarrow> \<lparr>st_Size = Mi 100, st_StorageClassName = ''standard'',
                  st_AccessMode = ''ReadWriteOnce'', st_Annotations = fmempty\<rparr>)"

definition GetReverseProxyResources :: "IngressSpec \<Rightarrow> ResourceRequirements" where
  "GetReverseProxyResources s =
     (case is_Resources s of Some r \<Rightarrow> r | None \<Rightarrow> default_resources 150 64 100 32)"

definition GetMetricsExporterSpecs :: "TypesenseClusterSpec \<Rightarrow> MetricsExporterSpec" where
  "GetMetricsExporterSpecs s =
     (case spec_Metrics s of
        Some m \<Rightarrow> m
      | None \<Rightarrow>
          \<lparr>mes_Release = ''promstack'',
           mes_Image = ''quay.io/akyriako/typesense-prometheus-exporter:0.1.9'',
           mes_IntervalInSeconds = 15, mes_Resources = None, mes_LogLevel = 0\<rparr>)"

definition GetMetricsExporterResources :: "TypesenseClusterSpec \<Rightarrow> ResourceRequirements" where
  "GetMetricsExporterResources s =
     (case Option.bind (spec_Metrics s) mes_Resources of
        Some r \<Rightarrow> r
      | None \<Rightarrow> default_resources 100 64 100 32)"

definition GetHealthCheckSidecarSpecs :: "TypesenseClusterSpec \<Rightarrow> HealthCheckSpec" where
  "GetHealthCheckSidecarSpecs s =
     (case spec_HealthCheck s of
        Some h \<Rightarrow> h
      | None \<Rightarrow> \<lparr>hcs_Image = ''quay.io/akyriako/typesense-healthcheck:0.1.8'',
                  hcs_Resources = None, hcs_LogLevel = 0\<rparr>)"

definition GetHealthCheckSidecarResources :: "TypesenseClusterSpec \<Rightarrow> ResourceRequirements" where
  "GetHealthCheckSidecarResources s =
     (case Option.bind (spec_HealthCheck s) hcs_Resources of
        Some r \<Rightarrow> r
      | None \<Rightarrow> default_resources 100 64 100 32)"

definition GetScraperAuthConfiguration :: "DocSearchScraperSpec \<Rightarrow> EnvFromSource list" where
  "GetScraperAuthConfiguration s =
     (case dss_AuthConfiguration s of Some name \<Rightarrow> [SecretRef name] | None \<Rightarrow> [])"

definition GetPodSecurityContext :: "TypesenseClusterSpec \<Rightarrow> PodSecurityContext option" where
  "GetPodSecurityContext s =
     (case Option.bind (spec_SecurityContext s) scs_PodSecurityContext of
        Some c \<Rightarrow> Some c
      | None \<Rightarrow> Some \<lparr>psc_RunAsUser = Some 10000, psc_FSGroup = Some 2000,
                       psc_RunAsGroup = Some 3000, psc_RunAsNonRoot = Some True, psc_other = 0\<rparr>)"

definition GetTypesenseSecurityContext :: "TypesenseClusterSpec \<Rightarrow> SecurityContext option" where
  "GetTypesenseSecurityContext s =
     (case spec_SecurityContext s of None \<Rightarrow> None | Some c \<Rightarrow> scs_TypesenseSecurityContext c)"

definition GetHealthcheckSecurityContext :: "TypesenseClusterSpec \<Rightarrow> SecurityContext option" where
  "GetHealthcheckSecurityContext s =
     (case spec_SecurityContext s of None \<Rightarrow> None | Some c \<Rightarrow> scs_HealthcheckSecurityContext c)"

definition GetMetricsSecurityContext :: "TypesenseClusterSpec \<Rightarrow> SecurityContext option" where
  "GetMetricsSecurityContext s =
     (case spec_SecurityContext s of None \<Rightarrow> None | Some c \<Rightarrow> scs_MetricsSecurityContext c)"

section \<open>Admission\<close>

text \<open>
  The bounds the kubebuilder markers of \<^verbatim>\<open>TypesenseClusterSpec\<close> put into the custom
  resource definition, which the API server enforces on every specification the operator reads:
  one, three, five or seven replicas, ports above 1024, a grace period between 1 and 300 seconds.
\<close>

definition admitted :: "TypesenseClusterSpec \<Rightarrow> bool" where
  "admitted s \<longleftrightarrow>
     spec_Replicas s \<in> set [1, 3, 5, 7] \<and>
     1024 < spec_ApiPort s \<and> spec_ApiPort s \<le> 65535 \<and>
     1024 < spec_PeeringPort s \<and> spec_PeeringPort s \<le> 65535 \<and>
     500 \<le> spec_HealthProbeTimeoutInMilliseconds s \<and>
     spec_HealthProbeTimeoutInMilliseconds s \<le> 60000 \<and>
     (case spec_TerminationGracePeriodSeconds s of None \<Rightarrow> True | Some n \<Rightarrow> 1 \<le> n \<and> n \<le> 300)"

lemma admitted_grace:
  "admitted s \<Longrightarrow> 1 \<le> GetTerminationGracePeriodSeconds s \<and>
     GetTerminationGracePeriodSeconds s \<le> 300"
  by (auto simp: admitted_def GetTerminationGracePeriodSeconds_def split: option.splits)

lemma GetTopologySpreadConstraints_selected:
  "tsc \<in> set (GetTopologySpreadConstraints s labels) \<Longrightarrow> tsc_LabelSelector tsc \<noteq> None"
  by (auto simp: GetTopologySpreadConstraints_def)

end
