(* ===== verification/Quorum_Types.thy ===== *)
theory Quorum_Types
  imports V1alpha1
begin

text \<open>
  The data of \<^verbatim>\<open>typesensecluster_quorum_types.go\<close>, the name templates of
  \<^verbatim>\<open>typesensecluster_constants.go\<close>, the condition reasons of
  \<^verbatim>\<open>typesensecluster_condition_types.go\<close> and the node errors of
  \<^verbatim>\<open>typesensecluster_server_errors.go\<close>. A Go string type (\<^verbatim>\<open>NodeState\<close>,
  \<^verbatim>\<open>ConditionQuorum\<close>) that is filled from outside or printed stays a string; a string
  type that only ever holds its declared constants is a datatype.
\<close>

section \<open>Nodes\<close>

type_synonym NodeState = string

definition LeaderState :: NodeState where "LeaderState = ''LEADER''"
definition FollowerState :: NodeState where "FollowerState = ''FOLLOWER''"
definition CandidateState :: NodeState where "CandidateState = ''CANDIDATE''"
definition NotReadyState :: NodeState where "NotReadyState = ''NOT_READY''"
definition ErrorState :: NodeState where "ErrorState = ''ERROR''"
definition UnreachableState :: NodeState where "UnreachableState = ''UNREACHABLE''"

lemmas state_defs = LeaderState_def FollowerState_def CandidateState_def NotReadyState_def
  ErrorState_def UnreachableState_def

record NodeStatus =
  CommittedIndex :: int
  QueuedWrites :: int
  State :: NodeState

text \<open>The zero value \<^verbatim>\<open>NodeStatus{State: s}\<close>.\<close>

definition node_status :: "NodeState \<Rightarrow> NodeStatus" where
  "node_status s = \<lparr>CommittedIndex = 0, QueuedWrites = 0, State = s\<rparr>"

datatype ClusterStatus =
    ClusterStatusOK
  | ClusterStatusSplitBrain
  | ClusterStatusNotReady
  | ClusterStatusElectionDeadlock

type_synonym NodeHealthResourceError = string

definition OutOfMemory :: NodeHealthResourceError where "OutOfMemory = ''OUT_OF_MEMORY''"
definition OutOfDisk :: NodeHealthResourceError where "OutOfDisk = ''OUT_OF_DISK''"

record NodeHealth =
  Ok :: bool
  ResourceError :: "NodeHealthResourceError option"

record NodeEndpoint =
  ne_PodName :: string
  ne_IP :: string

record Quorum =
  MinRequiredNodes :: int
  AvailableNodes :: int
  Nodes :: "(string \<times> string) list" \<comment> \<open>pod name to address, keys distinct\<close>
  NodesListConfigMap :: ConfigMap

section \<open>Errors in the node logs that require a restart\<close>

definition ErrFailedToStartPeeringState :: string where
  "ErrFailedToStartPeeringState = ''Failed to start peering state''"

definition ErrCannotTruncateLogsBeforeAppliedID :: string where
  "ErrCannotTruncateLogsBeforeAppliedID = ''Can'' @ [CHR 0x27] @ ''t truncate logs before _applied_id''"

definition ErrorsRequirePodTermination :: "string list" where
  "ErrorsRequirePodTermination =
     [ErrFailedToStartPeeringState, ErrCannotTruncateLogsBeforeAppliedID]"

section \<open>Names\<close>

definition ClusterNodesConfigMap :: "string \<Rightarrow> string" where
  "ClusterNodesConfigMap n = n @ ''-nodeslist''"

definition ClusterAdminApiKeySecret :: "string \<Rightarrow> string" where
  "ClusterAdminApiKeySecret n = n @ ''-admin-key''"

definition ClusterAdminApiKeySecretKeyName :: string where
  "ClusterAdminApiKeySecretKeyName = ''typesense-api-key''"

definition ClusterHeadlessService :: "string \<Rightarrow> string" where
  "ClusterHeadlessService n = n @ ''-sts-svc''"

definition ClusterRestService :: "string \<Rightarrow> string" where
  "ClusterRestService n = n @ ''-svc''"

definition ClusterStatefulSet :: "string \<Rightarrow> string" where
  "ClusterStatefulSet n = n @ ''-sts''"

definition ClusterAppLabel :: "string \<Rightarrow> string" where
  "ClusterAppLabel n = n @ ''-sts''"

definition ClusterReverseProxyAppLabel :: "string \<Rightarrow> string" where
  "ClusterReverseProxyAppLabel n = n @ ''-rp''"

definition ClusterReverseProxyIngress :: "string \<Rightarrow> string" where
  "ClusterReverseProxyIngress n = n @ ''-reverse-proxy''"

definition ClusterReverseProxyConfigMap :: "string \<Rightarrow> string" where
  "ClusterReverseProxyConfigMap n = n @ ''-reverse-proxy-config''"

definition ClusterReverseProxy :: "string \<Rightarrow> string" where
  "ClusterReverseProxy n = n @ ''-reverse-proxy''"

definition ClusterReverseProxyService :: "string \<Rightarrow> string" where
  "ClusterReverseProxyService n = n @ ''-reverse-proxy-svc''"

definition ClusterHttpRoute :: "string \<Rightarrow> string \<Rightarrow> string" where
  "ClusterHttpRoute n route = n @ ''-'' @ route"

definition ClusterHttpRouteReferenceGrant :: "string \<Rightarrow> string \<Rightarrow> string" where
  "ClusterHttpRouteReferenceGrant n route = n @ ''-'' @ route @ ''-reference-grant''"

definition ClusterPrometheusExporterDeployment :: "string \<Rightarrow> string" where
  "ClusterPrometheusExporterDeployment n = n @ ''-prometheus-exporter''"

definition ClusterMetricsPodMonitorAppLabel :: "string \<Rightarrow> string" where
  "ClusterMetricsPodMonitorAppLabel n = n @ ''-sts''"

definition ClusterMetricsPodMonitor :: "string \<Rightarrow> string" where
  "ClusterMetricsPodMonitor n = n @ ''-podmonitor''"

definition ClusterScraperCronJob :: "string \<Rightarrow> string" where
  "ClusterScraperCronJob n = n @ ''-scraper''"

definition ClusterScraperCronJobContainer :: "string \<Rightarrow> string" where
  "ClusterScraperCronJobContainer n = n @ ''-docsearch-scraper''"

section \<open>Condition reasons\<close>

type_synonym ConditionQuorum = string

definition ConditionTypeReady :: string where "ConditionTypeReady = ''Ready''"

definition ConditionReasonReconciliationInProgress :: string where
  "ConditionReasonReconciliationInProgress = ''ReconciliationInProgress''"
definition ConditionReasonSecretNotReady :: string where
  "ConditionReasonSecretNotReady = ''SecretNotReady''"
definition ConditionReasonConfigMapNotReady :: string where
  "ConditionReasonConfigMapNotReady = ''ConfigMapNotReady''"
definition ConditionReasonServicesNotReady :: string where
  "ConditionReasonServicesNotReady = ''ServicesNotReady''"
definition ConditionReasonIngressNotReady :: string where
  "ConditionReasonIngressNotReady = ''IngressNotReady''"
definition ConditionReasonHttpRouteNotReady :: string where
  "ConditionReasonHttpRouteNotReady = ''HttpRouteNotReady''"
definition ConditionReasonScrapersNotReady :: string where
  "ConditionReasonScrapersNotReady = ''ScrapersNotReady''"
definition ConditionReasonMetricsExporterNotReady :: string where
  "ConditionReasonMetricsExporterNotReady = ''MetricsExporterNotReady''"
definition ConditionReasonStatefulSetNotReady :: string where
  "ConditionReasonStatefulSetNotReady = ''StatefulSetNotReady''"
definition ConditionReasonQuorumStateUnknown :: ConditionQuorum where
  "ConditionReasonQuorumStateUnknown = ''QuorumStateUnknown''"
definition ConditionReasonQuorumReady :: ConditionQuorum where
  "ConditionReasonQuorumReady = ''QuorumReady''"
definition ConditionReasonQuorumNotReady :: ConditionQuorum where
  "ConditionReasonQuorumNotReady = ''QuorumNotReady''"
definition ConditionReasonQuorumNotReadyWaitATerm :: ConditionQuorum where
  "ConditionReasonQuorumNotReadyWaitATerm = ''QuorumNotReadyWaitATerm''"
definition ConditionReasonQuorumDowngraded :: ConditionQuorum where
  "ConditionReasonQuorumDowngraded = ''QuorumDowngraded''"
definition ConditionReasonQuorumUpgraded :: ConditionQuorum where
  "ConditionReasonQuorumUpgraded = ''QuorumUpgraded''"
definition ConditionReasonQuorumPurged :: ConditionQuorum where
  "ConditionReasonQuorumPurged = ''QuorumPurged''"
definition ConditionReasonQuorumNeedsAttentionMemoryOrDiskIssue :: ConditionQuorum where
  "ConditionReasonQuorumNeedsAttentionMemoryOrDiskIssue = ''QuorumNeedsAttentionMemoryOrDiskIssue''"
definition ConditionReasonQuorumNeedsAttentionClusterIsLagging :: ConditionQuorum where
  "ConditionReasonQuorumNeedsAttentionClusterIsLagging = ''QuorumNeedsAttentionClusterIsLagging''"
definition ConditionReasonQuorumQueuedWrites :: ConditionQuorum where
  "ConditionReasonQuorumQueuedWrites = ''QuorumQueuedWrites''"

lemmas reason_defs =
  ConditionReasonReconciliationInProgress_def ConditionReasonSecretNotReady_def
  ConditionReasonConfigMapNotReady_def ConditionReasonServicesNotReady_def
  ConditionReasonIngressNotReady_def ConditionReasonHttpRouteNotReady_def
  ConditionReasonScrapersNotReady_def ConditionReasonMetricsExporterNotReady_def
  ConditionReasonStatefulSetNotReady_def ConditionReasonQuorumStateUnknown_def
  ConditionReasonQuorumReady_def ConditionReasonQuorumNotReady_def
  ConditionReasonQuorumNotReadyWaitATerm_def ConditionReasonQuorumDowngraded_def
  ConditionReasonQuorumUpgraded_def ConditionReasonQuorumPurged_def
  ConditionReasonQuorumNeedsAttentionMemoryOrDiskIssue_def
  ConditionReasonQuorumNeedsAttentionClusterIsLagging_def ConditionReasonQuorumQueuedWrites_def

end
