(* ===== verification/Requests.thy ===== *)
theory Requests
  imports Quorum_Types
begin

text \<open>
  The calls the operator makes to the outside, as data: to the API server on the objects of the
  kinds it handles, to the nodes of the cluster, to the clock and the random source. A history is the
  list of the calls made so far, oldest first.
\<close>

section \<open>Objects and calls\<close>

datatype kind =
    KTypesenseCluster | KSecret | KConfigMap | KService | KStatefulSet | KPod | KEndpointSlice
  | KIngress | KDeployment | KHTTPRoute | KReferenceGrant | KCronJob | KPodMonitor

datatype obj =
    OTypesenseCluster TypesenseCluster
  | OSecret Secret
  | OConfigMap ConfigMap
  | OService Service
  | OStatefulSet StatefulSet
  | OPod Pod
  | OEndpointSlice EndpointSlice
  | OIngress Ingress
  | ODeployment Deployment
  | OHTTPRoute HTTPRoute
  | OReferenceGrant ReferenceGrant
  | OCronJob CronJob
  | OPodMonitor PodMonitor

record ListOptions =
  lo_Namespace :: "string option" \<comment> \<open>all namespaces when absent\<close>
  lo_LabelSelector :: strmap

record HttpRequest =
  http_URL :: string
  http_ApiKey :: "string option" \<comment> \<open>the header x-typesense-api-key\<close>
  http_Timeout :: int \<comment> \<open>milliseconds\<close>

datatype http_response =
    RequestFailed error
  | ReadFailed error
  | HttpBody int string \<comment> \<open>status code, body\<close>

datatype request =
    ReqGet kind ObjectKey
  | ReqList kind ListOptions
  | ReqCreate obj
  | ReqUpdate obj
  | ReqPatch obj obj \<comment> \<open>the object the patch is computed from, the object sent\<close>
  | ReqStatusPatch obj obj
  | ReqDelete obj
  | ReqEvent ObjectKey string string string \<comment> \<open>about, type, reason, message\<close>
  | ReqHttp HttpRequest
  | ReqPodLogs string string
  | ReqServerVersion
  | ReqServerGroups
  | ReqHttpClient
  | ReqNow
  | ReqRand nat

type_synonym history = "request list"

section \<open>Reads and writes\<close>

fun kind_of :: "obj \<Rightarrow> kind" where
  "kind_of (OTypesenseCluster x) = KTypesenseCluster"
| "kind_of (OSecret x) = KSecret"
| "kind_of (OConfigMap x) = KConfigMap"
| "kind_of (OService x) = KService"
| "kind_of (OStatefulSet x) = KStatefulSet"
| "kind_of (OPod x) = KPod"
| "kind_of (OEndpointSlice x) = KEndpointSlice"
| "kind_of (OIngress x) = KIngress"
| "kind_of (ODeployment x) = KDeployment"
| "kind_of (OHTTPRoute x) = KHTTPRoute"
| "kind_of (OReferenceGrant x) = KReferenceGrant"
| "kind_of (OCronJob x) = KCronJob"
| "kind_of (OPodMonitor x) = KPodMonitor"

text \<open>The kind of object a call changes, if it changes one.\<close>

fun write_kind :: "request \<Rightarrow> kind option" where
  "write_kind (ReqCreate x) = Some (kind_of x)"
| "write_kind (ReqUpdate x) = Some (kind_of x)"
| "write_kind (ReqPatch x y) = Some (kind_of y)"
| "write_kind (ReqStatusPatch x y) = Some (kind_of y)"
| "write_kind (ReqDelete x) = Some (kind_of x)"
| "write_kind _ = None"

definition is_write :: "request \<Rightarrow> bool" where
  "is_write q \<longleftrightarrow> write_kind q \<noteq> None"

definition is_read :: "request \<Rightarrow> bool" where
  "is_read q \<longleftrightarrow> write_kind q = None \<and> (\<forall>k t re m. q \<noteq> ReqEvent k t re m)"

end
