(* ===== verification/Role.thy ===== *)
theory Role
  imports Requests
begin

text \<open>
  The role the operator runs with: the \<^verbatim>\<open>+kubebuilder:rbac\<close> markers above
  \<^verbatim>\<open>Reconcile\<close> in \<^verbatim>\<open>typesensecluster_controller.go\<close>, from which
  the cluster role of the manifests and of the chart is generated. A call that no rule covers is refused
  by the API server.
\<close>

record rbac_rule =
  rule_group :: string
  rule_resource :: string
  rule_verbs :: "string list"

definition rbac :: "string \<Rightarrow> string \<Rightarrow> string list \<Rightarrow> rbac_rule" where
  "rbac g res vs = \<lparr>rule_group = g, rule_resource = res, rule_verbs = vs\<rparr>"

definition all_verbs :: "string list" where
  "all_verbs = [''get'', ''list'', ''watch'', ''create'', ''update'', ''patch'', ''delete'']"

text \<open>The generator writes the group \<^verbatim>\<open>core\<close> as the empty group, its name in the API.\<close>

definition manager_role :: "rbac_rule list" where
  "manager_role =
     [rbac ''ts.opentelekomcloud.com'' ''typesenseclusters'' all_verbs,
      rbac ''ts.opentelekomcloud.com'' ''typesenseclusters/status'' [''get'', ''update'', ''patch''],
      rbac ''ts.opentelekomcloud.com'' ''typesenseclusters/finalizers'' [''update''],
      rbac [] ''secrets'' all_verbs,
      rbac [] ''configmaps'' all_verbs,
      rbac [] ''services'' all_verbs,
      rbac [] ''pods'' [''get'', ''list'', ''watch'', ''delete'', ''update'', ''patch''],
      rbac [] ''pods/status'' [''get'', ''update'', ''patch''],
      rbac [] ''pods/log'' [''get''],
      rbac ''apps'' ''deployments'' all_verbs,
      rbac ''apps'' ''statefulsets'' all_verbs,
      rbac [] ''events'' [''create'', ''patch''],
      rbac ''networking.k8s.io'' ''ingresses'' all_verbs,
      rbac ''batch'' ''cronjobs'' all_verbs,
      rbac ''monitoring.coreos.com'' ''servicemonitors'' all_verbs,
      rbac ''monitoring.coreos.com'' ''podmonitors'' all_verbs,
      rbac ''discovery.k8s.io'' ''endpointslices'' [''get'', ''list'', ''watch''],
      rbac ''gateway.networking.k8s.io'' ''httproutes'' all_verbs,
      rbac ''gateway.networking.k8s.io'' ''referencegrants'' all_verbs]"

section \<open>What a call needs\<close>

fun kind_resource :: "kind \<Rightarrow> string \<times> string" where
  "kind_resource KTypesenseCluster = (''ts.opentelekomcloud.com'', ''typesenseclusters'')"
| "kind_resource KSecret = ([], ''secrets'')"
| "kind_resource KConfigMap = ([], ''configmaps'')"
| "kind_resource KService = ([], ''services'')"
| "kind_resource KStatefulSet = (''apps'', ''statefulsets'')"
| "kind_resource KPod = ([], ''pods'')"
| "kind_resource KEndpointSlice = (''discovery.k8s.io'', ''endpointslices'')"
| "kind_resource KIngress = (''networking.k8s.io'', ''ingresses'')"
| "kind_resource KDeployment = (''apps'', ''deployments'')"
| "kind_resource KHTTPRoute = (''gateway.networking.k8s.io'', ''httproutes'')"
| "kind_resource KReferenceGrant = (''gateway.networking.k8s.io'', ''referencegrants'')"
| "kind_resource KCronJob = (''batch'', ''cronjobs'')"
| "kind_resource KPodMonitor = (''monitoring.coreos.com'', ''podmonitors'')"

text \<open>
  The group, resource and verb the API server authorises a call with. The version and the groups of
  the server may be read by every client. The nodes of the cluster are asked directly when the
  operator runs in the cluster, that is, when it runs with this role.
\<close>

fun needs :: "request \<Rightarrow> (string \<times> string \<times> string) option" where
  "needs (ReqGet k key) = Some (fst (kind_resource k), snd (kind_resource k), ''get'')"
| "needs (ReqList k opts) = Some (fst (kind_resource k), snd (kind_resource k), ''list'')"
| "needs (ReqCreate x) = Some (fst (kind_resource (kind_of x)), snd (kind_resource (kind_of x)), ''create'')"
| "needs (ReqUpdate x) = Some (fst (kind_resource (kind_of x)), snd (kind_resource (kind_of x)), ''update'')"
| "needs (ReqPatch x y) = Some (fst (kind_resource (kind_of y)), snd (kind_resource (kind_of y)), ''patch'')"
| "needs (ReqStatusPatch x y) =
     Some (fst (kind_resource (kind_of y)), snd (kind_resource (kind_of y)) @ ''/status'', ''patch'')"
| "needs (ReqDelete x) = Some (fst (kind_resource (kind_of x)), snd (kind_resource (kind_of x)), ''delete'')"
| "needs (ReqEvent key t re m) = Some ([], ''events'', ''create'')"
| "needs (ReqPodLogs ns pod) = Some ([], ''pods/log'', ''get'')"
| "needs _ = None"

definition grants_access :: "rbac_rule \<Rightarrow> string \<times> string \<times> string \<Rightarrow> bool" where
  "grants_access rl a \<longleftrightarrow> (case a of (g, res, v) \<Rightarrow>
     rule_group rl = g \<and> rule_resource rl = res \<and> v \<in> set (rule_verbs rl))"

definition permitted :: "request \<Rightarrow> bool" where
  "permitted q \<longleftrightarrow> (case needs q of None \<Rightarrow> True | Some a \<Rightarrow> list_ex (\<lambda>rl. grants_access rl a) manager_role)"

lemmas role_defs = permitted_def manager_role_def rbac_def grants_access_def all_verbs_def

text \<open>What the rules amount to for the calls of the operator.\<close>

lemma permitted_reads [simp]:
  "permitted (ReqGet k key)" "permitted (ReqList k opts)"
  by (cases k; simp add: role_defs)+

lemma permitted_writes [simp]:
  "permitted (ReqCreate x) \<longleftrightarrow> kind_of x \<noteq> KPod \<and> kind_of x \<noteq> KEndpointSlice"
  "permitted (ReqUpdate x) \<longleftrightarrow> kind_of x \<noteq> KEndpointSlice"
  "permitted (ReqPatch y x) \<longleftrightarrow> kind_of x \<noteq> KEndpointSlice"
  "permitted (ReqStatusPatch y x) \<longleftrightarrow> kind_of x = KTypesenseCluster \<or> kind_of x = KPod"
  "permitted (ReqDelete x) \<longleftrightarrow> kind_of x \<noteq> KEndpointSlice"
  by (cases "kind_of x"; simp add: role_defs)+

lemma permitted_others [simp]:
  "permitted (ReqEvent key t re m)" "permitted (ReqHttp q)" "permitted (ReqPodLogs a b)"
  "permitted ReqServerVersion" "permitted ReqServerGroups" "permitted ReqHttpClient"
  "permitted ReqNow" "permitted (ReqRand n)"
  by (simp_all add: role_defs)

lemma read_permitted: "is_read q \<Longrightarrow> permitted q"
  by (cases q) (simp_all add: is_read_def)

end
