(* ===== verification/Client.thy ===== *)
theory Client
  imports Role
begin

text \<open>
  The reconciler's receiver and the calls it makes to the outside. The Kubernetes client, the
  event recorder, the HTTP client, the clock and the random source are code outside the
  repository: what they answer is a parameter of every definition, a function of the whole history
  of the calls made so far and of the call itself. Nothing is assumed of the answers, so the
  model covers an API server that other actors change between two calls, a cache that lags behind,
  and calls that fail at any point.

  The history is the list of the calls, oldest first; an operation takes a history and returns its
  result and the extended history, so what an operation does to the cluster is what it appends.
\<close>

section \<open>The receiver\<close>

record 'o store_api =
  on_get :: "history \<Rightarrow> ObjectKey \<Rightarrow> error + 'o"
  on_list :: "history \<Rightarrow> ListOptions \<Rightarrow> error + 'o list"
  on_create :: "history \<Rightarrow> 'o \<Rightarrow> error + 'o"
  on_update :: "history \<Rightarrow> 'o \<Rightarrow> error + 'o"
  on_patch :: "history \<Rightarrow> 'o \<Rightarrow> 'o \<Rightarrow> error + 'o"
  on_status_patch :: "history \<Rightarrow> 'o \<Rightarrow> 'o \<Rightarrow> error + 'o"
  on_delete :: "history \<Rightarrow> 'o \<Rightarrow> error option"

record specsHashInput =
  StsSpecAnnotations :: strmap
  PodSpecTemplate :: PodSpec
  TypesenseContainerResources :: ResourceRequirements
  MetricsContainerResources :: ResourceRequirements
  HealthcheckContainerResources :: ResourceRequirements
  AdditionalConfigurationData :: "(string, strmap) fmap"

type_synonym version = nat

record Reconciler =
  api_TypesenseCluster :: "TypesenseCluster store_api"
  api_Secret :: "Secret store_api"
  api_ConfigMap :: "ConfigMap store_api"
  api_Service :: "Service store_api"
  api_StatefulSet :: "StatefulSet store_api"
  api_Pod :: "Pod store_api"
  api_EndpointSlice :: "EndpointSlice store_api"
  api_Ingress :: "Ingress store_api"
  api_Deployment :: "Deployment store_api"
  api_HTTPRoute :: "HTTPRoute store_api"
  api_ReferenceGrant :: "ReferenceGrant store_api"
  api_CronJob :: "CronJob store_api"
  api_PodMonitor :: "PodMonitor store_api"
  InCluster :: bool
  on_now :: "history \<Rightarrow> string"
  on_rand :: "history \<Rightarrow> nat \<Rightarrow> error + string"
  on_http :: "history \<Rightarrow> HttpRequest \<Rightarrow> http_response"
  on_logs :: "history \<Rightarrow> string \<Rightarrow> string \<Rightarrow> error + string"
  on_ServerVersion :: "history \<Rightarrow> error + string"
  on_ServerGroups :: "history \<Rightarrow> error + string list"
  on_HTTPClientFor :: "history \<Rightarrow> error option"
  ext_SetControllerReference :: "string \<Rightarrow> ObjectMeta \<Rightarrow> ObjectMeta \<Rightarrow> error + OwnerReference list"
  ext_SetStatusCondition :: "Condition list \<Rightarrow> Condition \<Rightarrow> Condition list"
  ext_Title :: "string \<Rightarrow> string"
  ext_JoinPath :: "string \<Rightarrow> string \<Rightarrow> error + string"
  ext_ProxyURL :: "string \<Rightarrow> string \<Rightarrow> string \<Rightarrow> string"
  ext_NewRequest :: "string \<Rightarrow> error option"
  ext_UnmarshalNodeStatus :: "string \<Rightarrow> NodeStatus option"
  ext_UnmarshalNodeHealth :: "string \<Rightarrow> NodeHealth option"
  ext_ParseGeneric :: "string \<Rightarrow> error + version"
  ext_AtLeast :: "version \<Rightarrow> version \<Rightarrow> bool"
  ext_Hash :: "specsHashInput \<Rightarrow> error + nat"
  ext_Sha256Hex :: "string \<Rightarrow> string"
  ext_ParseIP :: "string \<Rightarrow> string"

text \<open>
  A resource ties the object type of a call to its kind, to the union of objects and to the part
  of the receiver that answers for it, so that one definition of each client call serves all kinds.
\<close>

record 'o resource =
  res_kind :: kind
  res_obj :: "'o \<Rightarrow> obj"
  res_api :: "Reconciler \<Rightarrow> 'o store_api"

definition TypesenseClusters :: "TypesenseCluster resource" where
  "TypesenseClusters = \<lparr>res_kind = KTypesenseCluster, res_obj = OTypesenseCluster,
     res_api = api_TypesenseCluster\<rparr>"
definition Secrets :: "Secret resource" where
  "Secrets = \<lparr>res_kind = KSecret, res_obj = OSecret, res_api = api_Secret\<rparr>"
definition ConfigMaps :: "ConfigMap resource" where
  "ConfigMaps = \<lparr>res_kind = KConfigMap, res_obj = OConfigMap, res_api = api_ConfigMap\<rparr>"
definition Services :: "Service resource" where
  "Services = \<lparr>res_kind = KService, res_obj = OService, res_api = api_Service\<rparr>"
definition StatefulSets :: "StatefulSet resource" where
  "StatefulSets = \<lparr>res_kind = KStatefulSet, res_obj = OStatefulSet, res_api = api_StatefulSet\<rparr>"
definition Pods :: "Pod resource" where
  "Pods = \<lparr>res_kind = KPod, res_obj = OPod, res_api = api_Pod\<rparr>"
definition EndpointSlices :: "EndpointSlice resource" where
  "EndpointSlices = \<lparr>res_kind = KEndpointSlice, res_obj = OEndpointSlice,
     res_api = api_EndpointSlice\<rparr>"
definition Ingresses :: "Ingress resource" where
  "Ingresses = \<lparr>res_kind = KIngress, res_obj = OIngress, res_api = api_Ingress\<rparr>"
definition Deployments :: "Deployment resource" where
  "Deployments = \<lparr>res_kind = KDeployment, res_obj = ODeployment, res_api = api_Deployment\<rparr>"
definition HTTPRoutes :: "HTTPRoute resource" where
  "HTTPRoutes = \<lparr>res_kind = KHTTPRoute, res_obj = OHTTPRoute, res_api = api_HTTPRoute\<rparr>"
definition ReferenceGrants :: "ReferenceGrant resource" where
  "ReferenceGrants = \<lparr>res_kind = KReferenceGrant, res_obj = OReferenceGrant,
     res_api = api_ReferenceGrant\<rparr>"
definition CronJobs :: "CronJob resource" where
  "CronJobs = \<lparr>res_kind = KCronJob, res_obj = OCronJob, res_api = api_CronJob\<rparr>"
definition PodMonitors :: "PodMonitor resource" where
  "PodMonitors = \<lparr>res_kind = KPodMonitor, res_obj = OPodMonitor, res_api = api_PodMonitor\<rparr>"

lemmas resource_defs =
  TypesenseClusters_def Secrets_def ConfigMaps_def Services_def StatefulSets_def Pods_def
  EndpointSlices_def Ingresses_def Deployments_def HTTPRoutes_def ReferenceGrants_def
  CronJobs_def PodMonitors_def

section \<open>Client calls\<close>

definition Get :: "Reconciler \<Rightarrow> 'o resource \<Rightarrow> ObjectKey \<Rightarrow> history \<Rightarrow> (error + 'o) \<times> history" where
  "Get r R key h = (on_get (res_api R r) h key, h @ [ReqGet (res_kind R) key])"

definition List :: "Reconciler \<Rightarrow> 'o resource \<Rightarrow> ListOptions \<Rightarrow> history \<Rightarrow> (error + 'o list) \<times> history" where
  "List r R opts h = (on_list (res_api R r) h opts, h @ [ReqList (res_kind R) opts])"

definition Create :: "Reconciler \<Rightarrow> 'o resource \<Rightarrow> 'o \<Rightarrow> history \<Rightarrow> (error + 'o) \<times> history" where
  "Create r R x h = (on_create (res_api R r) h x, h @ [ReqCreate (res_obj R x)])"

definition Update :: "Reconciler \<Rightarrow> 'o resource \<Rightarrow> 'o \<Rightarrow> history \<Rightarrow> (error + 'o) \<times> history" where
  "Update r R x h = (on_update (res_api R r) h x, h @ [ReqUpdate (res_obj R x)])"

definition Patch :: "Reconciler \<Rightarrow> 'o resource \<Rightarrow> 'o \<Rightarrow> 'o \<Rightarrow> history \<Rightarrow> (error + 'o) \<times> history" where
  "Patch r R orig x h =
     (on_patch (res_api R r) h orig x, h @ [ReqPatch (res_obj R orig) (res_obj R x)])"

definition StatusPatch :: "Reconciler \<Rightarrow> 'o resource \<Rightarrow> 'o \<Rightarrow> 'o \<Rightarrow> history \<Rightarrow> (error + 'o) \<times> history" where
  "StatusPatch r R orig x h =
     (on_status_patch (res_api R r) h orig x, h @ [ReqStatusPatch (res_obj R orig) (res_obj R x)])"

definition Delete :: "Reconciler \<Rightarrow> 'o resource \<Rightarrow> 'o \<Rightarrow> history \<Rightarrow> error option \<times> history" where
  "Delete r R x h = (on_delete (res_api R r) h x, h @ [ReqDelete (res_obj R x)])"

definition Eventf :: "ObjectMeta \<Rightarrow> string \<Rightarrow> string \<Rightarrow> string \<Rightarrow> history \<Rightarrow> history" where
  "Eventf m typ reason msg h = h @ [ReqEvent (ObjectKeyFromObject m) typ reason msg]"

definition Now :: "Reconciler \<Rightarrow> history \<Rightarrow> string \<times> history" where
  "Now r h = (on_now r h, h @ [ReqNow])"

definition RandRead :: "Reconciler \<Rightarrow> nat \<Rightarrow> history \<Rightarrow> (error + string) \<times> history" where
  "RandRead r n h = (on_rand r h n, h @ [ReqRand n])"

definition HttpDo :: "Reconciler \<Rightarrow> HttpRequest \<Rightarrow> history \<Rightarrow> http_response \<times> history" where
  "HttpDo r q h = (on_http r h q, h @ [ReqHttp q])"

definition GetLogs :: "Reconciler \<Rightarrow> string \<Rightarrow> string \<Rightarrow> history \<Rightarrow> (error + string) \<times> history" where
  "GetLogs r ns pod h = (on_logs r h ns pod, h @ [ReqPodLogs ns pod])"

definition ServerVersion :: "Reconciler \<Rightarrow> history \<Rightarrow> (error + string) \<times> history" where
  "ServerVersion r h = (on_ServerVersion r h, h @ [ReqServerVersion])"

definition ServerGroups :: "Reconciler \<Rightarrow> history \<Rightarrow> (error + string list) \<times> history" where
  "ServerGroups r h = (on_ServerGroups r h, h @ [ReqServerGroups])"

definition HTTPClientFor :: "Reconciler \<Rightarrow> history \<Rightarrow> error option \<times> history" where
  "HTTPClientFor r h = (on_HTTPClientFor r h, h @ [ReqHttpClient])"

lemmas client_defs [req_simps] =
  Get_def List_def Create_def Update_def Patch_def StatusPatch_def Delete_def Eventf_def Now_def
  RandRead_def HttpDo_def GetLogs_def ServerVersion_def ServerGroups_def HTTPClientFor_def

section \<open>Reading a history\<close>

text \<open>Calls that change objects of the given kinds only, or none, as far as the role permits.\<close>

definition writes_only :: "kind set \<Rightarrow> request \<Rightarrow> bool" where
  "writes_only K q \<longleftrightarrow> permitted q \<and> (\<forall>k. write_kind q = Some k \<longrightarrow> k \<in> K)"

text \<open>The calls that write, in order.\<close>

definition writes :: "history \<Rightarrow> history" where
  "writes h = filter is_write h"

section \<open>What an operation may append\<close>

definition emits :: "(request \<Rightarrow> bool) \<Rightarrow> history \<Rightarrow> history \<Rightarrow> bool" where
  "emits P h h' \<longleftrightarrow> (\<exists>t. h' = h @ t \<and> list_all P t)"

definition run_ok :: "(request \<Rightarrow> bool) \<Rightarrow> history \<Rightarrow> ('a \<times> history) option \<Rightarrow> bool" where
  "run_ok P h m \<longleftrightarrow> (\<forall>x h'. m = Some (x, h') \<longrightarrow> emits P h h')"

lemma emits_refl [simp, intro]: "emits P h h"
  by (simp add: emits_def)

lemma emits_here [simp]: "emits P h (h @ t) \<longleftrightarrow> list_all P t"
  by (simp add: emits_def)

lemma emits_append [intro]: "emits P h h1 \<Longrightarrow> list_all P t \<Longrightarrow> emits P h (h1 @ t)"
  by (auto simp: emits_def)

lemma emits_append_iff [simp]: "emits P h h1 \<Longrightarrow> emits P h (h1 @ t) \<longleftrightarrow> list_all P t"
  by (auto simp: emits_def)

lemma emits_after: "emits P (h @ t) h' \<Longrightarrow> list_all P t \<Longrightarrow> emits P h h'"
  by (auto simp: emits_def)

lemma emits_trans: "emits P h h1 \<Longrightarrow> emits P h1 h2 \<Longrightarrow> emits P h h2"
  by (auto simp: emits_def)

lemma emits_mono: "emits P h h' \<Longrightarrow> (\<And>q. P q \<Longrightarrow> Q q) \<Longrightarrow> emits Q h h'"
  by (auto simp: emits_def list_all_iff)

lemma emits_prefix: "emits P h h' \<Longrightarrow> prefix h h'"
  by (auto simp: emits_def)

lemma run_ok_None [simp, intro]: "run_ok P h None"
  by (simp add: run_ok_def)

lemma run_ok_Some [simp]: "run_ok P h (Some (x, h')) \<longleftrightarrow> emits P h h'"
  by (auto simp: run_ok_def)

lemma run_okD: "run_ok P h m \<Longrightarrow> m = Some (x, h') \<Longrightarrow> emits P h h'"
  by (simp add: run_ok_def)

lemma run_ok_mono: "run_ok P h m \<Longrightarrow> (\<And>q. P q \<Longrightarrow> Q q) \<Longrightarrow> run_ok Q h m"
  unfolding run_ok_def using emits_mono [of P h _ Q] by blast

lemma run_ok_call:
  "run_ok P h1 m \<Longrightarrow> emits P h h1 \<Longrightarrow> run_ok P h m"
  unfolding run_ok_def using emits_trans [of P h h1] by blast

lemma run_ok_bind:
  assumes "run_ok P h1 m" and "emits P h h1"
    and "\<And>x h2. m = Some (x, h2) \<Longrightarrow> emits P h h2 \<Longrightarrow> run_ok P h (f (x, h2))"
  shows "run_ok P h (Option.bind m f)"
  using assms by (cases m) (auto simp: run_ok_def dest: emits_trans)

lemma run_ok_deref:
  "(\<And>x. m = Some x \<Longrightarrow> run_ok P h (f x)) \<Longrightarrow> run_ok P h (Option.bind m f)"
  by (cases m) auto

lemma run_ok_if:
  "(b \<Longrightarrow> run_ok P h m) \<Longrightarrow> (\<not> b \<Longrightarrow> run_ok P h n) \<Longrightarrow> run_ok P h (if b then m else n)"
  by simp

lemma run_ok_sum:
  "(\<And>e. x = Inl e \<Longrightarrow> run_ok P h (f e)) \<Longrightarrow> (\<And>y. x = Inr y \<Longrightarrow> run_ok P h (g y)) \<Longrightarrow>
     run_ok P h (case x of Inl e \<Rightarrow> f e | Inr y \<Rightarrow> g y)"
  by (cases x) auto

lemma run_ok_option:
  "(x = None \<Longrightarrow> run_ok P h f) \<Longrightarrow> (\<And>y. x = Some y \<Longrightarrow> run_ok P h (g y)) \<Longrightarrow>
     run_ok P h (case x of None \<Rightarrow> f | Some y \<Rightarrow> g y)"
  by (cases x) auto

lemma run_ok_pair:
  "(\<And>a b. p = (a, b) \<Longrightarrow> run_ok P h (f a b)) \<Longrightarrow> run_ok P h (case p of (a, b) \<Rightarrow> f a b)"
  by (cases p) auto

text \<open>A step that cannot panic, with what it appends.\<close>

lemma run_ok_seq:
  assumes "\<And>x h2. m = (x, h2) \<Longrightarrow> emits P h1 h2" and "emits P h h1"
    and "\<And>x h2. m = (x, h2) \<Longrightarrow> emits P h h2 \<Longrightarrow> run_ok P h (f x h2)"
  shows "run_ok P h (case m of (x, h2) \<Rightarrow> f x h2)"
  using assms by (cases m) (auto dest: emits_trans)

lemma run_ok_seq3:
  assumes "\<And>x y h2. m = (x, y, h2) \<Longrightarrow> emits P h1 h2" and "emits P h h1"
    and "\<And>x y h2. m = (x, y, h2) \<Longrightarrow> emits P h h2 \<Longrightarrow> run_ok P h (f x y h2)"
  shows "run_ok P h (case m of (x, y, h2) \<Rightarrow> f x y h2)"
  using assms by (cases m) (auto dest: emits_trans)

lemmas run_ok_rules = run_ok_if run_ok_sum run_ok_option run_ok_pair

lemma writes_append [simp]: "writes (h @ t) = writes h @ writes t"
  by (simp add: writes_def)

lemma writes_Nil [simp]: "writes [] = []"
  by (simp add: writes_def)

lemma writes_Cons: "writes (q # t) = (if is_write q then q # writes t else writes t)"
  by (simp add: writes_def)

lemma emits_read_writes: "emits is_read h h' \<Longrightarrow> writes h' = writes h"
  by (auto simp: emits_def writes_def is_read_def is_write_def list_all_iff filter_empty_conv)

lemma writes_only_simps [simp]:
  "writes_only K (ReqCreate x) \<longleftrightarrow> kind_of x \<in> K \<and> kind_of x \<noteq> KPod \<and> kind_of x \<noteq> KEndpointSlice"
  "writes_only K (ReqUpdate x) \<longleftrightarrow> kind_of x \<in> K \<and> kind_of x \<noteq> KEndpointSlice"
  "writes_only K (ReqPatch x y) \<longleftrightarrow> kind_of y \<in> K \<and> kind_of y \<noteq> KEndpointSlice"
  "writes_only K (ReqStatusPatch x y) \<longleftrightarrow> kind_of y \<in> K \<and> (kind_of y = KTypesenseCluster \<or> kind_of y = KPod)"
  "writes_only K (ReqDelete x) \<longleftrightarrow> kind_of x \<in> K \<and> kind_of x \<noteq> KEndpointSlice"
  "writes_only K (ReqGet k key)" "writes_only K (ReqList k opts)"
  "writes_only K (ReqEvent key t re m)" "writes_only K (ReqHttp q)" "writes_only K (ReqPodLogs a b)"
  "writes_only K ReqServerVersion" "writes_only K ReqServerGroups" "writes_only K ReqHttpClient"
  "writes_only K ReqNow" "writes_only K (ReqRand n)"
  by (auto simp: writes_only_def)

lemma is_write_simps [simp]:
  "is_write (ReqCreate x)" "is_write (ReqUpdate x)" "is_write (ReqPatch x y)"
  "is_write (ReqStatusPatch x y)" "is_write (ReqDelete x)"
  "\<not> is_write (ReqGet k key)" "\<not> is_write (ReqList k opts)" "\<not> is_write (ReqEvent key t re m)"
  "\<not> is_write (ReqHttp q)" "\<not> is_write (ReqPodLogs a b)" "\<not> is_write ReqServerVersion"
  "\<not> is_write ReqServerGroups" "\<not> is_write ReqHttpClient" "\<not> is_write ReqNow"
  "\<not> is_write (ReqRand n)"
  by (simp_all add: is_write_def)

lemma is_read_simps [simp]:
  "\<not> is_read (ReqCreate x)" "\<not> is_read (ReqUpdate x)" "\<not> is_read (ReqPatch x y)"
  "\<not> is_read (ReqStatusPatch x y)" "\<not> is_read (ReqDelete x)" "\<not> is_read (ReqEvent key t re m)"
  "is_read (ReqGet k key)" "is_read (ReqList k opts)" "is_read (ReqHttp q)"
  "is_read (ReqPodLogs a b)" "is_read ReqServerVersion" "is_read ReqServerGroups"
  "is_read ReqHttpClient" "is_read ReqNow" "is_read (ReqRand n)"
  by (simp_all add: is_read_def)

lemma is_read_writes_only: "is_read q \<Longrightarrow> writes_only K q"
  using read_permitted by (simp add: is_read_def writes_only_def)

lemma writes_only_permitted: "writes_only K q \<Longrightarrow> permitted q"
  by (simp add: writes_only_def)

lemma emits_read_writes_only: "emits is_read h h' \<Longrightarrow> emits (writes_only K) h h'"
  by (erule emits_mono) (rule is_read_writes_only)

lemma writes_only_mono: "writes_only K q \<Longrightarrow> K \<subseteq> L \<Longrightarrow> writes_only L q"
  by (auto simp: writes_only_def)

lemma run_ok_read_writes_only: "run_ok is_read h m \<Longrightarrow> run_ok (writes_only K) h m"
  by (erule run_ok_mono) (rule is_read_writes_only)

section \<open>The interface of an operation\<close>

text \<open>
  An operation is used through two facts: it only ever appends to the history, and what it appends
  satisfies its footprint. The reconciliation of the cluster calls its phases through this
  interface.
\<close>

locale operation =
  fixes run :: "history \<Rightarrow> ('a \<times> history) option"
    and footprint :: "request \<Rightarrow> bool"
  assumes run_footprint: "run_ok footprint h (run h)"
begin

lemma appends:
  assumes "run h = Some (x, h')"
  obtains t where "h' = h @ t" and "list_all footprint t"
  using run_okD [OF run_footprint assms] by (auto simp: emits_def)

lemma new_requests:
  assumes "run h = Some (x, h')" and "q \<in> set (drop (length h) h')"
  shows "footprint q"
proof -
  obtain t where "h' = h @ t" and "list_all footprint t"
    using appends [OF assms(1)] by blast
  with assms(2) show ?thesis by (simp add: list_all_iff)
qed

lemma widen: "(\<And>q. footprint q \<Longrightarrow> Q q) \<Longrightarrow> run_ok Q h (run h)"
  by (rule run_ok_mono [OF run_footprint])

lemma emits_widen: "run h = Some (x, h') \<Longrightarrow> (\<And>q. footprint q \<Longrightarrow> Q q) \<Longrightarrow> emits Q h h'"
  by (rule run_okD [OF widen])

lemma keeps_past: "run h = Some (x, h') \<Longrightarrow> prefix h h'"
  by (erule appends) simp

lemma no_write_outside:
  assumes "run h = Some (x, h')" and "\<And>q. footprint q \<Longrightarrow> writes_only K q" and "k \<notin> K"
  shows "filter (\<lambda>q. write_kind q = Some k) h' = filter (\<lambda>q. write_kind q = Some k) h"
proof -
  obtain t where "h' = h @ t" and "list_all footprint t"
    using appends [OF assms(1)] by blast
  moreover have "filter (\<lambda>q. write_kind q = Some k) t = []"
    using \<open>list_all footprint t\<close> assms(2,3)
    by (fastforce simp: filter_empty_conv list_all_iff writes_only_def)
  ultimately show ?thesis by simp
qed

end

text \<open>A resource's call carries an object of the resource's kind, and tells objects apart.\<close>

locale typed_resource =
  fixes R :: "'o resource"
  assumes kind_ok: "kind_of (res_obj R x) = res_kind R"
    and obj_inj: "res_obj R x = res_obj R y \<longleftrightarrow> x = y"
begin

lemma create_writes: "writes (snd (Create r R x h)) = writes h @ [ReqCreate (res_obj R x)]"
  by (simp add: Create_def writes_def is_write_def)

lemma update_writes: "writes (snd (Update r R x h)) = writes h @ [ReqUpdate (res_obj R x)]"
  by (simp add: Update_def writes_def is_write_def)

lemma delete_writes: "writes (snd (Delete r R x h)) = writes h @ [ReqDelete (res_obj R x)]"
  by (simp add: Delete_def writes_def is_write_def)

lemma get_writes: "writes (snd (Get r R key h)) = writes h"
  by (simp add: Get_def writes_def is_write_def)

lemma write_kinds [simp]:
  "write_kind (ReqCreate (res_obj R x)) = Some (res_kind R)"
  "write_kind (ReqUpdate (res_obj R x)) = Some (res_kind R)"
  "write_kind (ReqDelete (res_obj R x)) = Some (res_kind R)"
  "write_kind (ReqPatch (res_obj R y) (res_obj R x)) = Some (res_kind R)"
  by (simp_all add: kind_ok)

end

interpretation tss: typed_resource TypesenseClusters
  by unfold_locales (simp_all add: resource_defs)
interpretation secrets: typed_resource Secrets
  by unfold_locales (simp_all add: resource_defs)
interpretation cms: typed_resource ConfigMaps
  by unfold_locales (simp_all add: resource_defs)
interpretation svcs: typed_resource Services
  by unfold_locales (simp_all add: resource_defs)
interpretation stss: typed_resource StatefulSets
  by unfold_locales (simp_all add: resource_defs)
interpretation pods: typed_resource Pods
  by unfold_locales (simp_all add: resource_defs)
interpretation routes: typed_resource HTTPRoutes
  by unfold_locales (simp_all add: resource_defs)
interpretation grants: typed_resource ReferenceGrants
  by unfold_locales (simp_all add: resource_defs)
interpretation cronjobs: typed_resource CronJobs
  by unfold_locales (simp_all add: resource_defs)

lemma resource_simps [simp]:
  "res_obj TypesenseClusters = OTypesenseCluster" "res_kind TypesenseClusters = KTypesenseCluster"
  "res_obj Secrets = OSecret" "res_kind Secrets = KSecret"
  "res_obj ConfigMaps = OConfigMap" "res_kind ConfigMaps = KConfigMap"
  "res_obj Services = OService" "res_kind Services = KService"
  "res_obj StatefulSets = OStatefulSet" "res_kind StatefulSets = KStatefulSet"
  "res_obj Pods = OPod" "res_kind Pods = KPod"
  "res_obj EndpointSlices = OEndpointSlice" "res_kind EndpointSlices = KEndpointSlice"
  "res_obj Ingresses = OIngress" "res_kind Ingresses = KIngress"
  "res_obj Deployments = ODeployment" "res_kind Deployments = KDeployment"
  "res_obj HTTPRoutes = OHTTPRoute" "res_kind HTTPRoutes = KHTTPRoute"
  "res_obj ReferenceGrants = OReferenceGrant" "res_kind ReferenceGrants = KReferenceGrant"
  "res_obj CronJobs = OCronJob" "res_kind CronJobs = KCronJob"
  "res_obj PodMonitors = OPodMonitor" "res_kind PodMonitors = KPodMonitor"
  by (simp_all add: resource_defs)

lemma resource_api_simps [simp]:
  "res_api TypesenseClusters = api_TypesenseCluster" "res_api Secrets = api_Secret"
  "res_api ConfigMaps = api_ConfigMap" "res_api Services = api_Service"
  "res_api StatefulSets = api_StatefulSet" "res_api Pods = api_Pod"
  "res_api EndpointSlices = api_EndpointSlice" "res_api Ingresses = api_Ingress"
  "res_api Deployments = api_Deployment" "res_api HTTPRoutes = api_HTTPRoute"
  "res_api ReferenceGrants = api_ReferenceGrant" "res_api CronJobs = api_CronJob"
  "res_api PodMonitors = api_PodMonitor"
  by (simp_all add: resource_defs)

end
