(* ===== verification/Utils.thy ===== *)
theory Utils
  imports Client
begin

text \<open>
  The helper functions of \<^verbatim>\<open>internal/controller/utils.go\<close>: tokens, labels and object
  metadata, list search, normalised volumes, the IPv4 prefix test, annotation filters, image tags.
\<close>

section \<open>Tokens\<close>

definition base64_alphabet :: string where
  "base64_alphabet = ''ABCDEFGHIJKLMNOPQRSTUVWXYZabcdefghijklmnopqrstuvwxyz0123456789+/''"

definition b64 :: "nat \<Rightarrow> char" where
  "b64 n = base64_alphabet ! (n mod 64)"

abbreviation byte :: "char \<Rightarrow> nat" where
  "byte c \<equiv> of_char c"

text \<open>\<^verbatim>\<open>base64.StdEncoding.EncodeToString\<close>.\<close>

fun EncodeToString :: "string \<Rightarrow> string" where
  "EncodeToString (x # y # z # rest) =
     [b64 (byte x div 4), b64 (byte x mod 4 * 16 + byte y div 16),
      b64 (byte y mod 16 * 4 + byte z div 64), b64 (byte z mod 64)] @ EncodeToString rest"
| "EncodeToString [x, y] =
     [b64 (byte x div 4), b64 (byte x mod 4 * 16 + byte y div 16), b64 (byte y mod 16 * 4),
      CHR ''='']"
| "EncodeToString [x] = [b64 (byte x div 4), b64 (byte x mod 4 * 16), CHR ''='', CHR ''='']"
| "EncodeToString [] = []"

definition generateToken :: "Reconciler \<Rightarrow> history \<Rightarrow> (error + string) \<times> history" where
  "generateToken r h =
     (case RandRead r 256 h of
        (Inl err, h) \<Rightarrow> (Inl err, h)
      | (Inr token, h) \<Rightarrow> (Inr (EncodeToString token), h))"

definition letters :: string where
  "letters = ''abcdefghijklmnopqrstuvwxyzABCDEFGHIJKLMNOPQRSTUVWXYZ0123456789''"

definition generateSecureRandomString ::
  "Reconciler \<Rightarrow> nat \<Rightarrow> history \<Rightarrow> (error + string) \<times> history" where
  "generateSecureRandomString r len h =
     (case RandRead r len h of
        (Inl err, h) \<Rightarrow> (Inl err, h)
      | (Inr result, h) \<Rightarrow> (Inr (map (\<lambda>b. letters ! (byte b mod length letters)) result), h))"

section \<open>Labels and metadata\<close>

definition mergeLabels :: "strmap list \<Rightarrow> strmap" where
  "mergeLabels maps =
     (let sz = sum_list (map (\<lambda>m. fcard (fmdom m)) maps)
      in if sz = 0 then fmempty else foldl fmadd fmempty maps)"

definition getMergedLabels :: "strmap \<Rightarrow> strmap \<Rightarrow> strmap" where
  "getMergedLabels def scoped = mergeLabels [def, scoped]"

definition getDefaultLabels :: "TypesenseCluster \<Rightarrow> strmap" where
  "getDefaultLabels ts = fmap_of_list
     [(''app.kubernetes.io/managed-by'', ''typesense-operator''),
      (''app.kubernetes.io/name'', ''typesense''),
      (''app.kubernetes.io/instance'', ts_Name ts)]"

definition getLabels :: "TypesenseCluster \<Rightarrow> strmap" where
  "getLabels ts = fmap_of_list [(''app'', ClusterAppLabel (ts_Name ts))]"

text \<open>The shape all metadata constructors of the file share; \<open>name = None\<close> is the nil pointer.\<close>

definition object_meta :: "TypesenseCluster \<Rightarrow> string option \<Rightarrow> strmap \<Rightarrow> strmap \<Rightarrow> ObjectMeta" where
  "object_meta ts name labels annotations =
     \<lparr>Name = (case name of None \<Rightarrow> ts_Name ts | Some n \<Rightarrow> n), Namespace = ts_Namespace ts,
      Labels = labels, Annotations = annotations, DeletionTimestamp = None,
      OwnerReferences = []\<rparr>"

definition getObjectMeta :: "TypesenseCluster \<Rightarrow> string option \<Rightarrow> strmap \<Rightarrow> ObjectMeta" where
  "getObjectMeta ts name annotations =
     object_meta ts name (getMergedLabels (getDefaultLabels ts) (getLabels ts)) annotations"

definition getReverseProxyLabels :: "TypesenseCluster \<Rightarrow> strmap" where
  "getReverseProxyLabels ts = fmap_of_list [(''app'', ClusterReverseProxyAppLabel (ts_Name ts))]"

definition getReverseProxyObjectMeta ::
  "TypesenseCluster \<Rightarrow> string option \<Rightarrow> strmap \<Rightarrow> ObjectMeta" where
  "getReverseProxyObjectMeta ts name annotations =
     object_meta ts name (getMergedLabels (getDefaultLabels ts) (getReverseProxyLabels ts)) annotations"

definition getPodMonitorLabels :: "TypesenseCluster \<Rightarrow> strmap" where
  "getPodMonitorLabels ts =
     fmap_of_list [(''app'', ClusterMetricsPodMonitorAppLabel (ts_Name ts))]"

definition getPodMonitorObjectMeta ::
  "TypesenseCluster \<Rightarrow> string option \<Rightarrow> strmap \<Rightarrow> ObjectMeta" where
  "getPodMonitorObjectMeta ts name annotations =
     object_meta ts name (getMergedLabels (getDefaultLabels ts) (getPodMonitorLabels ts)) annotations"

definition getHttpRouteLabels :: "TypesenseCluster \<Rightarrow> HttpRouteSpec \<Rightarrow> strmap" where
  "getHttpRouteLabels ts spec =
     (let route = fmap_of_list
        [(''app'', ClusterAppLabel (ts_Name ts)),
         (''route'', ClusterHttpRoute (ts_Name ts) (hrs_Name spec))]
      in mergeLabels [getDefaultLabels ts, route])"

definition getHttpRouteObjectMeta ::
  "TypesenseCluster \<Rightarrow> HttpRouteSpec \<Rightarrow> string option \<Rightarrow> strmap \<Rightarrow> strmap \<Rightarrow> ObjectMeta" where
  "getHttpRouteObjectMeta ts spec name labels annotations =
     object_meta ts name (mergeLabels [getHttpRouteLabels ts spec, labels]) annotations"

text \<open>A route without a gateway namespace makes this panic (nil pointer dereference).\<close>

definition getReferenceGrantObjectMeta :: "TypesenseCluster \<Rightarrow> HttpRouteSpec \<Rightarrow> ObjectMeta option" where
  "getReferenceGrantObjectMeta ts spec = do {
     ns \<leftarrow> gp_Namespace (hrs_ParentRef spec);
     Some \<lparr>Name = ClusterHttpRouteReferenceGrant (ts_Name ts) (hrs_Name spec), Namespace = ns,
           Labels = getHttpRouteLabels ts spec, Annotations = fmempty,
           DeletionTimestamp = None, OwnerReferences = []\<rparr>
   }"

section \<open>Small functions\<close>

definition minDelayPerReplicaFactor :: int where "minDelayPerReplicaFactor = 1"
definition maxDelayPerReplicaFactor :: int where "maxDelayPerReplicaFactor = 3"

definition getDelayPerReplicaFactor :: "int \<Rightarrow> int" where
  "getDelayPerReplicaFactor n =
     (if n \<noteq> 0 then
        if n \<le> maxDelayPerReplicaFactor then int64 n else maxDelayPerReplicaFactor
      else minDelayPerReplicaFactor)"

fun contains_from :: "int \<Rightarrow> string list \<Rightarrow> string \<Rightarrow> int \<times> bool" where
  "contains_from i [] value = (-1, False)"
| "contains_from i (v # vs) value = (if v = value then (i, True) else contains_from (i + 1) vs value)"

definition contains :: "string list \<Rightarrow> string \<Rightarrow> int \<times> bool" where
  "contains values value = contains_from 0 values value"

text \<open>
  \<^verbatim>\<open>normalizeVolumes\<close> copies the slice but not the volume sources behind its pointers,
  so clearing the default mode is visible in the caller's slice as well: the second component is
  the caller's slice afterwards.
\<close>

definition clear_mode :: "Volume \<Rightarrow> Volume" where
  "clear_mode v =
     (case vol_Source v of
        ConfigMapVolume name mode \<Rightarrow> v\<lparr>vol_Source := ConfigMapVolume name None\<rparr>
      | _ \<Rightarrow> v)"

definition normalizeVolumes :: "Volume list \<Rightarrow> Volume list \<times> Volume list" where
  "normalizeVolumes vols =
     (let vcopy = map clear_mode vols in (sort_key vol_Name vcopy, map clear_mode vols))"

definition normalizeVolumeMounts :: "VolumeMount list \<Rightarrow> VolumeMount list" where
  "normalizeVolumeMounts mounts = sort_key vm_Name mounts"

definition needsSyncVolumes :: "Volume list \<Rightarrow> Volume list \<Rightarrow> bool \<times> Volume list \<times> Volume list" where
  "needsSyncVolumes desired existing =
     (let (d, desired') = normalizeVolumes desired; (e, existing') = normalizeVolumes existing
      in (d \<noteq> e, desired', existing'))"

definition needsSyncMounts :: "VolumeMount list \<Rightarrow> VolumeMount list \<Rightarrow> bool" where
  "needsSyncMounts desired existing \<longleftrightarrow> normalizeVolumeMounts desired \<noteq> normalizeVolumeMounts existing"

text \<open>
  The regular expression \<open>ip4Prefix\<close>: three times an octet and a dot, then an octet, anchored at
  the start only. \<open>octet_rests\<close> lists what may follow an octet at the start of a string: the
  alternatives are one digit, two digits, three digits of at most 255.
\<close>

definition octet3 :: "char \<Rightarrow> char \<Rightarrow> char \<Rightarrow> bool" where
  "octet3 a b c \<longleftrightarrow> is_digit a \<and> is_digit b \<and> is_digit c \<and>
     (a = CHR ''2'' \<and> b = CHR ''5'' \<and> c \<le> CHR ''5'' \<or> a = CHR ''2'' \<and> b \<le> CHR ''4'' \<or>
      a = CHR ''0'' \<or> a = CHR ''1'')"

definition octet_rests :: "string \<Rightarrow> string list" where
  "octet_rests s =
     (case s of a # s1 \<Rightarrow> if is_digit a then [s1] else [] | [] \<Rightarrow> []) @
     (case s of a # b # s2 \<Rightarrow> if is_digit a \<and> is_digit b then [s2] else [] | _ \<Rightarrow> []) @
     (case s of a # b # c # s3 \<Rightarrow> if octet3 a b c then [s3] else [] | _ \<Rightarrow> [])"

definition octet_dot_rests :: "string \<Rightarrow> string list" where
  "octet_dot_rests s =
     concat (map (\<lambda>t. case t of c # u \<Rightarrow> if c = CHR ''.'' then [u] else [] | [] \<Rightarrow> []) (octet_rests s))"

definition hasIP4Prefix :: "string \<Rightarrow> bool" where
  "hasIP4Prefix s \<longleftrightarrow>
     (let three = concat (map octet_dot_rests (concat (map octet_dot_rests (octet_dot_rests s))))
      in concat (map octet_rests three) \<noteq> [])"

definition toTitle :: "Reconciler \<Rightarrow> string \<Rightarrow> string" where
  "toTitle r s = ext_Title r s"

definition filterMap :: "strmap \<Rightarrow> string list \<Rightarrow> strmap" where
  "filterMap m filters =
     (if m = fmempty then m
      else fmfilter (\<lambda>key. \<not> list_ex (\<lambda>f. Contains key f) filters) m)"

definition getImageTag :: "string \<Rightarrow> string" where
  "getImageTag img =
     (case LastIndex img '':'' of None \<Rightarrow> img | Some pos \<Rightarrow> drop (Suc pos) img)"

section \<open>Lemmas\<close>

lemma length_EncodeToString: "length (EncodeToString s) = 4 * ((length s + 2) div 3)"
proof (induction s rule: EncodeToString.induct)
  case (1 x y z rest)
  have "(length rest + 5) div 3 = Suc ((length rest + 2) div 3)" by arith
  with "1" show ?case by (simp add: add.commute)
qed simp_all

lemma fmdom_empty_iff: "fmdom m = {||} \<longleftrightarrow> m = fmempty"
  by (auto intro!: fmap_ext simp: fmdom_notD)

lemma mergeLabels_eq: "mergeLabels maps = foldl fmadd fmempty maps"
proof (cases "sum_list (map (\<lambda>m. fcard (fmdom m)) maps) = 0")
  case True
  then have "\<forall>m \<in> set maps. m = fmempty"
    by (simp add: fmdom_empty_iff)
  then have "foldl fmadd m maps = m" for m
    by (induction maps) auto
  with True show ?thesis by (simp add: mergeLabels_def)
qed (auto simp: mergeLabels_def)

lemma fmlookup_mergeLabels2:
  "fmlookup (mergeLabels [a, b]) k = (case fmlookup b k of None \<Rightarrow> fmlookup a k | Some v \<Rightarrow> Some v)"
  by (auto simp: mergeLabels_eq fmlookup_dom_iff split: option.splits)

lemma contains_from_snd: "snd (contains_from i vs v) \<longleftrightarrow> v \<in> set vs"
  by (induction i vs v rule: contains_from.induct) auto

lemma snd_contains [simp]: "snd (contains vs v) \<longleftrightarrow> v \<in> set vs"
  by (simp add: contains_def contains_from_snd)

lemma fmlookup_filterMap:
  "fmlookup (filterMap m fs) k =
     (if \<exists>f \<in> set fs. Contains k f then None else fmlookup m k)"
  by (auto simp: filterMap_def list_ex_iff)

end
