(* ===== verification/Conditions.thy ===== *)
theory Conditions
  imports Utils
begin

text \<open>
  The cluster status: \<^verbatim>\<open>typesensecluster_helpers.go\<close> (the status patch, the version
  and API group checks) and the condition setters of
  \<^verbatim>\<open>typesensecluster_condition_types.go\<close>. The functions receive a pointer to the cluster
  and change it, so they return the cluster afterwards: the local change stays when the patch is
  refused, the server's answer replaces it when the patch is accepted.
\<close>

definition patchStatus ::
  "Reconciler \<Rightarrow> TypesenseCluster \<Rightarrow> (TypesenseClusterStatus \<Rightarrow> TypesenseClusterStatus) \<Rightarrow> history
     \<Rightarrow> error option \<times> TypesenseCluster \<times> history" where
  "patchStatus r ts patcher h =
     (let patched = ts\<lparr>ts_Status := patcher (ts_Status ts)\<rparr>
      in case StatusPatch r TypesenseClusters ts patched h of
           (Inl err, h) \<Rightarrow> (Some err, patched, h)
         | (Inr answer, h) \<Rightarrow> (None, answer, h))"

definition IsFeatureSupported ::
  "Reconciler \<Rightarrow> string \<Rightarrow> history \<Rightarrow> (bool \<times> string \<times> error option) \<times> history" where
  "IsFeatureSupported r minimum h =
     (case ServerVersion r h of
        (Inl err, h) \<Rightarrow> ((False, [], Some err), h)
      | (Inr git, h) \<Rightarrow>
          (case ext_ParseGeneric r git of
             Inl err \<Rightarrow> ((False, git, Some err), h)
           | Inr ver \<Rightarrow>
               (case ext_ParseGeneric r (''v'' @ minimum) of
                  Inl err \<Rightarrow> ((False, git, Some err), h)
                | Inr req \<Rightarrow> ((ext_AtLeast r ver req, git, None), h))))"

definition IsApiGroupDeployed ::
  "Reconciler \<Rightarrow> string \<Rightarrow> history \<Rightarrow> (error + bool) \<times> history" where
  "IsApiGroupDeployed r apiGroup h =
     (case ServerGroups r h of
        (Inl err, h) \<Rightarrow> (Inl err, h)
      | (Inr groups, h) \<Rightarrow> (Inr (list_ex (\<lambda>ag. ag = apiGroup) groups), h))"

definition ready_condition :: "ConditionStatus \<Rightarrow> string \<Rightarrow> string \<Rightarrow> Condition" where
  "ready_condition status reason msg =
     \<lparr>cond_Type = ConditionTypeReady, cond_Status = status, cond_Reason = reason,
      cond_Message = msg\<rparr>"

definition InitReconciliationMessage :: string where
  "InitReconciliationMessage = ''Starting reconciliation''"

definition initConditions ::
  "Reconciler \<Rightarrow> TypesenseCluster \<Rightarrow> history \<Rightarrow> error option \<times> TypesenseCluster \<times> history" where
  "initConditions r ts h =
     (if length (status_Conditions (ts_Status ts)) = 0 then
        patchStatus r ts
          (\<lambda>status. status\<lparr>
             status_Conditions := ext_SetStatusCondition r (status_Conditions status)
               (ready_condition ConditionUnknown ConditionReasonReconciliationInProgress
                  InitReconciliationMessage),
             status_Phase := ''Bootstrapping''\<rparr>) h
      else (None, ts, h))"

definition setConditionNotReady ::
  "Reconciler \<Rightarrow> TypesenseCluster \<Rightarrow> string \<Rightarrow> error \<Rightarrow> history
     \<Rightarrow> error option \<times> TypesenseCluster \<times> history" where
  "setConditionNotReady r ts reason err h =
     patchStatus r ts
       (\<lambda>status. status\<lparr>
          status_Conditions := ext_SetStatusCondition r (status_Conditions status)
            (ready_condition ConditionFalse reason (Error err)),
          status_Phase := reason\<rparr>) h"

definition setConditionReady ::
  "Reconciler \<Rightarrow> TypesenseCluster \<Rightarrow> string \<Rightarrow> history
     \<Rightarrow> error option \<times> TypesenseCluster \<times> history" where
  "setConditionReady r ts reason h =
     patchStatus r ts
       (\<lambda>status. status\<lparr>
          status_Conditions := ext_SetStatusCondition r (status_Conditions status)
            (ready_condition ConditionTrue reason ''Cluster is Ready''),
          status_Phase := reason\<rparr>) h"

text \<open>An empty condition list makes this panic; a first condition of another type is nil.\<close>

definition getConditionReady :: "TypesenseCluster \<Rightarrow> Condition option option" where
  "getConditionReady ts = do {
     condition \<leftarrow> index (status_Conditions (ts_Status ts)) 0;
     Some (if cond_Type condition \<noteq> ConditionTypeReady then None else Some condition)
   }"

section \<open>The contract of SetStatusCondition\<close>

text \<open>
  \<^verbatim>\<open>meta.SetStatusCondition\<close> of apimachinery, as it is documented: the condition of
  the given type is overwritten in place if there is one and appended otherwise; no other condition
  changes.
\<close>

definition sets_condition :: "(Condition list \<Rightarrow> Condition \<Rightarrow> Condition list) \<Rightarrow> bool" where
  "sets_condition f \<longleftrightarrow>
     (\<forall>cs c. (\<forall>d \<in> set cs. cond_Type d \<noteq> cond_Type c) \<longrightarrow> f cs c = cs @ [c]) \<and>
     (\<forall>pre d post c. (\<forall>x \<in> set pre. cond_Type x \<noteq> cond_Type c) \<and> cond_Type d = cond_Type c \<longrightarrow>
        f (pre @ d # post) c = pre @ c # post)"

text \<open>A function with this contract, for the witnesses.\<close>

fun set_condition :: "Condition list \<Rightarrow> Condition \<Rightarrow> Condition list" where
  "set_condition [] c = [c]"
| "set_condition (d # ds) c = (if cond_Type d = cond_Type c then c # ds else d # set_condition ds c)"

lemma set_condition_append:
  "\<forall>d \<in> set cs. cond_Type d \<noteq> cond_Type c \<Longrightarrow> set_condition (cs @ ds) c = cs @ set_condition ds c"
  by (induction cs) auto

lemma sets_condition_set_condition: "sets_condition set_condition"
  unfolding sets_condition_def
  using set_condition_append [where ds = "[]"] by (auto simp: set_condition_append)

lemma sets_condition_fresh:
  "sets_condition f \<Longrightarrow> \<forall>d \<in> set cs. cond_Type d \<noteq> cond_Type c \<Longrightarrow> f cs c = cs @ [c]"
  by (simp add: sets_condition_def)

lemma sets_condition_overwrite:
  "sets_condition f \<Longrightarrow> \<forall>x \<in> set pre. cond_Type x \<noteq> cond_Type c \<Longrightarrow> cond_Type d = cond_Type c \<Longrightarrow>
     f (pre @ d # post) c = pre @ c # post"
  by (simp add: sets_condition_def)

lemma sets_condition_member:
  assumes "sets_condition f"
  shows "c \<in> set (f cs c) \<and> (\<forall>d \<in> set (f cs c). d = c \<or> d \<in> set cs)"
proof (cases "\<exists>d \<in> set cs. cond_Type d = cond_Type c")
  case True
  obtain pre d post where "cs = pre @ d # post" and "cond_Type d = cond_Type c"
    and "\<forall>x \<in> set pre. cond_Type x \<noteq> cond_Type c"
    using split_list_first_prop [OF True] by blast
  then show ?thesis using sets_condition_overwrite [OF assms] by simp
next
  case False
  then show ?thesis using sets_condition_fresh [OF assms] by simp
qed

lemma sets_condition_head:
  assumes "sets_condition f" and "\<forall>d \<in> set cs. cond_Type d = cond_Type c" and "length cs \<le> 1"
  shows "f cs c = [c]"
proof (cases cs)
  case Nil
  then show ?thesis using sets_condition_fresh [OF assms(1), of "[]"] by simp
next
  case (Cons d ds)
  with assms(2,3) have "cs = [d]" and "cond_Type d = cond_Type c" by auto
  then show ?thesis using sets_condition_overwrite [OF assms(1), of "[]" c d "[]"] by simp
qed

section \<open>Footprints\<close>

lemma patchStatus_writes:
  assumes "patchStatus r ts f h = (e, ts', h')"
  shows "writes h' = writes h @
     [ReqStatusPatch (OTypesenseCluster ts) (OTypesenseCluster (ts\<lparr>ts_Status := f (ts_Status ts)\<rparr>))]"
  using assms
  by (auto simp: patchStatus_def Let_def req_simps writes_Cons is_write_def split: sum.splits)

lemma patchStatus_emits:
  "patchStatus r ts f h = (e, ts', h') \<Longrightarrow> emits (writes_only {KTypesenseCluster}) h h'"
  by (auto simp: patchStatus_def Let_def req_simps split: sum.splits)

lemma setConditionNotReady_emits:
  "setConditionNotReady r ts reason err h = (e, ts', h') \<Longrightarrow>
     emits (writes_only {KTypesenseCluster}) h h'"
  unfolding setConditionNotReady_def by (rule patchStatus_emits)

lemma setConditionReady_emits:
  "setConditionReady r ts reason h = (e, ts', h') \<Longrightarrow>
     emits (writes_only {KTypesenseCluster}) h h'"
  unfolding setConditionReady_def by (rule patchStatus_emits)

lemma initConditions_emits:
  "initConditions r ts h = (e, ts', h') \<Longrightarrow> emits (writes_only {KTypesenseCluster}) h h'"
  by (auto simp: initConditions_def dest: patchStatus_emits split: if_splits)

lemma IsFeatureSupported_reads: "emits is_read h (snd (IsFeatureSupported r m h))"
  by (auto simp: IsFeatureSupported_def req_simps is_read_def split: sum.splits)

lemma IsApiGroupDeployed_reads: "emits is_read h (snd (IsApiGroupDeployed r g h))"
  by (auto simp: IsApiGroupDeployed_def req_simps is_read_def split: sum.splits)

end
