(* ===== verification/StatefulSet_Ops.thy ===== *)
theory StatefulSet_Ops
  imports Conditions
begin

text \<open>
  The operations of \<^verbatim>\<open>typesensecluster_statefulset.go\<close> on an existing statefulset and on
  its pods: fetching it afresh, scaling, purging the pods, finding and restarting the pods that
  cannot be scheduled.
\<close>

definition GetFreshStatefulSet ::
  "Reconciler \<Rightarrow> ObjectKey \<Rightarrow> history \<Rightarrow> (error + StatefulSet) \<times> history" where
  "GetFreshStatefulSet r stsObjectKey h = Get r StatefulSets stsObjectKey h"

definition ScaleStatefulSet ::
  "Reconciler \<Rightarrow> ObjectKey \<Rightarrow> int \<Rightarrow> history \<Rightarrow> error option \<times> history" where
  "ScaleStatefulSet r stsObjectKey desiredReplicas h =
     (case GetFreshStatefulSet r stsObjectKey h of
        (Inl err, h) \<Rightarrow> (Some err, h)
      | (Inr sts, h) \<Rightarrow>
          if sts_Replicas sts = Some desiredReplicas then (None, h)
          else (case Update r StatefulSets (sts\<lparr>sts_Replicas := Some desiredReplicas\<rparr>) h of
                  (Inl err, h) \<Rightarrow> (Some err, h)
                | (Inr _, h) \<Rightarrow> (None, h)))"

text \<open>The pods a statefulset selects; a nil selector panics.\<close>

definition list_pods :: "Reconciler \<Rightarrow> StatefulSet \<Rightarrow> history \<Rightarrow> ((error + Pod list) \<times> history) option" where
  "list_pods r sts h = do {
     matchLabels \<leftarrow> sts_Selector sts;
     Some (List r Pods \<lparr>lo_Namespace = Some (Namespace (sts_meta sts)),
                        lo_LabelSelector = matchLabels\<rparr> h)
   }"

fun delete_pods :: "Reconciler \<Rightarrow> Pod list \<Rightarrow> history \<Rightarrow> error option \<times> history" where
  "delete_pods r [] h = (None, h)"
| "delete_pods r (pod # pods) h =
     (case Delete r Pods pod h of
        (Some err, h) \<Rightarrow> (Some err, h)
      | (None, h) \<Rightarrow> delete_pods r pods h)"

definition PurgeStatefulSetPods ::
  "Reconciler \<Rightarrow> StatefulSet \<Rightarrow> TypesenseCluster \<Rightarrow> history \<Rightarrow> (error option \<times> history) option" where
  "PurgeStatefulSetPods r sts ts h = do {
     (listed, h) \<leftarrow> list_pods r sts h;
     case listed of
       Inl err \<Rightarrow> Some (Some err, h)
     | Inr pods \<Rightarrow>
         (case delete_pods r pods h of
            (Some err, h) \<Rightarrow> Some (Some err, h)
          | (None, h) \<Rightarrow>
              Some (None, Eventf (ts_meta ts) ''Warning'' ConditionReasonQuorumPurged
                            (toTitle r ''quorum has been purged'') h))
   }"

definition unschedulable :: "PodCondition \<Rightarrow> bool" where
  "unschedulable cond \<longleftrightarrow> pc_Type cond = ''PodScheduled'' \<and> pc_Status cond = ConditionFalse \<and>
     pc_Reason cond = ''Unschedulable''"

text \<open>A pending pod with a condition that says it cannot be scheduled.\<close>

definition stuck_pod :: "Pod \<Rightarrow> bool" where
  "stuck_pod pod \<longleftrightarrow> pod_Phase pod = PodPending \<and> list_ex unschedulable (pod_Conditions pod)"

definition GetUnscheduledPods ::
  "Reconciler \<Rightarrow> StatefulSet \<Rightarrow> history \<Rightarrow> ((error + Pod list) \<times> history) option" where
  "GetUnscheduledPods r sts h = do {
     (listed, h) \<leftarrow> list_pods r sts h;
     case listed of
       Inl err \<Rightarrow> Some (Inl err, h)
     | Inr pods \<Rightarrow>
         Some (Inr (concat (map (\<lambda>pod. if pod_Phase pod = PodPending
                                       then map (\<lambda>_. pod) (filter unschedulable (pod_Conditions pod))
                                       else []) pods)), h)
   }"

text \<open>The inner loop over the conditions of one pod, then the loop over the pods.\<close>

fun restart_pod :: "Reconciler \<Rightarrow> Pod \<Rightarrow> PodCondition list \<Rightarrow> bool \<Rightarrow> history \<Rightarrow> bool \<times> history" where
  "restart_pod r pod [] removedAny h = (removedAny, h)"
| "restart_pod r pod (cond # conds) removedAny h =
     (if unschedulable cond then
        (case Delete r Pods pod h of
           (err, h) \<Rightarrow>
             restart_pod r pod conds (if removedAny then removedAny else err = None) h)
      else restart_pod r pod conds removedAny h)"

fun restart_pods :: "Reconciler \<Rightarrow> Pod list \<Rightarrow> bool \<Rightarrow> history \<Rightarrow> bool \<times> history" where
  "restart_pods r [] removedAny h = (removedAny, h)"
| "restart_pods r (pod # pods) removedAny h =
     (if pod_Phase pod = PodPending then
        (case restart_pod r pod (pod_Conditions pod) removedAny h of
           (removedAny, h) \<Rightarrow> restart_pods r pods removedAny h)
      else restart_pods r pods removedAny h)"

definition RestartUnscheduledPods ::
  "Reconciler \<Rightarrow> Pod list \<Rightarrow> TypesenseCluster \<Rightarrow> history \<Rightarrow> history" where
  "RestartUnscheduledPods r pods ts h =
     (case restart_pods r pods False h of
        (removedAny, h) \<Rightarrow>
          if removedAny then Eventf (ts_meta ts) ''Warning'' ConditionReasonStatefulSetNotReady
                               (toTitle r ''removed unscheduled pods'') h
          else h)"

definition RestartAllUnscheduledPods ::
  "Reconciler \<Rightarrow> StatefulSet \<Rightarrow> TypesenseCluster \<Rightarrow> history \<Rightarrow> (error option \<times> history) option" where
  "RestartAllUnscheduledPods r sts ts h = do {
     (listed, h) \<leftarrow> list_pods r sts h;
     case listed of
       Inl err \<Rightarrow> Some (Some err, h)
     | Inr pods \<Rightarrow> Some (None, RestartUnscheduledPods r pods ts h)
   }"

section \<open>Scaling\<close>

text \<open>Every way a scaling request can end, with the calls it makes.\<close>

lemma ScaleStatefulSet_cases:
  assumes "ScaleStatefulSet r key n h = (e, h')"
  obtains (unfetched) err where "on_get (api_StatefulSet r) h key = Inl err" "e = Some err"
      "h' = h @ [ReqGet KStatefulSet key]"
  | (scaled) sts where "on_get (api_StatefulSet r) h key = Inr sts" "sts_Replicas sts = Some n"
      "e = None" "h' = h @ [ReqGet KStatefulSet key]"
  | (updated) sts where "on_get (api_StatefulSet r) h key = Inr sts" "sts_Replicas sts \<noteq> Some n"
      "h' = h @ [ReqGet KStatefulSet key, ReqUpdate (OStatefulSet (sts\<lparr>sts_Replicas := Some n\<rparr>))]"
  using assms
  by (auto simp: ScaleStatefulSet_def GetFreshStatefulSet_def req_simps split: sum.splits if_splits)

definition scales_to :: "int \<Rightarrow> request \<Rightarrow> bool" where
  "scales_to n q \<longleftrightarrow> (\<exists>sts. q = ReqUpdate (OStatefulSet sts) \<and> sts_Replicas sts = Some n)"

lemma ScaleStatefulSet_emits:
  "ScaleStatefulSet r key n h = (e, h') \<Longrightarrow> emits (\<lambda>q. is_read q \<or> scales_to n q) h h'"
  by (erule ScaleStatefulSet_cases) (auto simp: is_read_def scales_to_def)

section \<open>Deleting pods\<close>

definition deletes_pod :: "Pod \<Rightarrow> request \<Rightarrow> bool" where
  "deletes_pod pod q \<longleftrightarrow> q = ReqDelete (OPod pod)"

lemma delete_pods_emits:
  "delete_pods r pods h = (e, h') \<Longrightarrow> emits (\<lambda>q. \<exists>pod \<in> set pods. q = ReqDelete (OPod pod)) h h'"
proof (induction r pods h rule: delete_pods.induct)
  case (2 r pod pods h)
  let ?P = "\<lambda>q. \<exists>p \<in> set (pod # pods). q = ReqDelete (OPod p)"
  have here: "emits ?P h (h @ [ReqDelete (OPod pod)])" by simp
  show ?case
  proof (cases "on_delete (api_Pod r) h pod")
    case None
    with "2.prems" have "delete_pods r pods (h @ [ReqDelete (OPod pod)]) = (e, h')"
      by (simp add: Delete_def)
    then have "emits (\<lambda>q. \<exists>p \<in> set pods. q = ReqDelete (OPod p)) (h @ [ReqDelete (OPod pod)]) h'"
      using "2.IH" None by (simp add: Delete_def)
    then have "emits ?P (h @ [ReqDelete (OPod pod)]) h'" by (rule emits_mono) auto
    with here show ?thesis by (rule emits_trans)
  next
    case (Some err)
    with "2.prems" here show ?thesis by (simp add: Delete_def)
  qed
qed simp

text \<open>A purge that meets no error deletes every pod, once, in the order of the list.\<close>

lemma delete_pods_None:
  "delete_pods r pods h = (None, h') \<Longrightarrow> h' = h @ map (\<lambda>pod. ReqDelete (OPod pod)) pods"
  by (induction r pods h rule: delete_pods.induct)
    (auto simp: Delete_def split: option.splits)

lemma delete_pods_Some:
  "delete_pods r pods h = (Some err, h') \<Longrightarrow>
     \<exists>pre pod post. pods = pre @ pod # post \<and>
       h' = h @ map (\<lambda>pod. ReqDelete (OPod pod)) (pre @ [pod])"
proof (induction r pods h rule: delete_pods.induct)
  case (2 r pod pods h)
  show ?case
  proof (cases "on_delete (api_Pod r) h pod")
    case None
    with "2" obtain pre p post where "pods = pre @ p # post"
      "h' = (h @ [ReqDelete (OPod pod)]) @ map (\<lambda>pod. ReqDelete (OPod pod)) (pre @ [p])"
      by (fastforce simp: Delete_def)
    then have "pod # pods = (pod # pre) @ p # post \<and>
      h' = h @ map (\<lambda>pod. ReqDelete (OPod pod)) ((pod # pre) @ [p])" by simp
    then show ?thesis by blast
  next
    case (Some e)
    with "2.prems" have "pod # pods = [] @ pod # pods \<and>
      h' = h @ map (\<lambda>pod. ReqDelete (OPod pod)) ([] @ [pod])" by (simp add: Delete_def)
    then show ?thesis by blast
  qed
qed simp

text \<open>Only pending pods with a condition that says unschedulable are restarted.\<close>

lemma restart_pod_emits:
  "restart_pod r pod conds b h = (b', h') \<Longrightarrow>
     emits (\<lambda>q. q = ReqDelete (OPod pod) \<and> list_ex unschedulable conds) h h'"
proof (induction conds arbitrary: b h)
  case (Cons cond conds)
  show ?case
  proof (cases "unschedulable cond")
    case True
    have "emits (\<lambda>q. q = ReqDelete (OPod pod) \<and> list_ex unschedulable conds)
        (h @ [ReqDelete (OPod pod)]) h'"
      using Cons.prems True by (intro Cons.IH) (simp add: Delete_def)
    then have "emits (\<lambda>q. q = ReqDelete (OPod pod)) (h @ [ReqDelete (OPod pod)]) h'"
      by (rule emits_mono) simp
    then have "emits (\<lambda>q. q = ReqDelete (OPod pod)) h h'"
      by (rule emits_trans [rotated]) simp
    with True show ?thesis by (auto intro: emits_mono)
  next
    case False
    with Cons show ?thesis by (auto intro: emits_mono)
  qed
qed simp

lemma restart_pods_emits:
  "restart_pods r pods b h = (b', h') \<Longrightarrow>
     emits (\<lambda>q. \<exists>pod \<in> set pods. stuck_pod pod \<and> q = ReqDelete (OPod pod)) h h'"
proof (induction pods arbitrary: b h)
  case (Cons pod pods)
  let ?P = "\<lambda>q. \<exists>p \<in> set (pod # pods). stuck_pod p \<and> q = ReqDelete (OPod p)"
  show ?case
  proof (cases "pod_Phase pod = PodPending")
    case True
    obtain b1 h1 where one: "restart_pod r pod (pod_Conditions pod) b h = (b1, h1)" by fastforce
    have "emits ?P h h1"
      using restart_pod_emits [OF one] by (rule emits_mono) (use True in \<open>auto simp: stuck_pod_def\<close>)
    moreover have "emits ?P h1 h'"
      using Cons.prems one True by (intro emits_mono [OF Cons.IH [of b1 h1]]) auto
    ultimately show ?thesis by (rule emits_trans)
  next
    case False
    with Cons show ?thesis by (auto intro: emits_mono)
  qed
qed simp

end
