(* ===== verification/Nodes_ConfigMap.thy ===== *)
theory Nodes_ConfigMap
  imports StatefulSet_Ops
begin

text \<open>
  The nodes list: \<^verbatim>\<open>typesensecluster_configmap.go\<close>. The config map
  \<^verbatim>\<open><cluster>-nodeslist\<close> carries the raft endpoints of the members under
  \<^verbatim>\<open>nodes\<close> (pod addresses once the pods are known, host names before) and the host
  names of all replicas under \<^verbatim>\<open>fallback\<close>.
\<close>

section \<open>Computing the nodes\<close>

definition nodeNameLenLimit :: nat where "nodeNameLenLimit = 64"

definition fallbackNodeName :: "TypesenseCluster \<Rightarrow> int \<Rightarrow> string" where
  "fallbackNodeName ts i =
     ts_Name ts @ ''-sts-'' @ Itoa i @ ''.'' @ ts_Name ts @ ''-sts-svc''"

definition raftEndpoint :: "TypesenseCluster \<Rightarrow> string \<Rightarrow> string" where
  "raftEndpoint ts host =
     host @ '':'' @ Itoa (spec_PeeringPort (ts_Spec ts)) @ '':'' @ Itoa (spec_ApiPort (ts_Spec ts))"

fun fallback_loop :: "TypesenseCluster \<Rightarrow> int list \<Rightarrow> string list \<Rightarrow> error + string list" where
  "fallback_loop ts [] nodes = Inr nodes"
| "fallback_loop ts (i # is) nodes =
     (let nodeName = fallbackNodeName ts i
      in if length nodeName > nodeNameLenLimit
         then Inl (GoError (''raft error: node name should not exceed 64 characters: '' @ nodeName))
         else fallback_loop ts is (nodes @ [raftEndpoint ts nodeName]))"

definition getFallbackNodes :: "TypesenseCluster \<Rightarrow> string list \<Rightarrow> error + string list" where
  "getFallbackNodes ts nodes =
     fallback_loop ts (map int [0..<nat (spec_Replicas (ts_Spec ts))]) nodes"

definition live_pod :: "Pod \<Rightarrow> bool" where
  "live_pod pod \<longleftrightarrow> DeletionTimestamp (pod_meta pod) = None \<and>
     (pod_Phase pod = PodRunning \<or> pod_Phase pod = PodPending) \<and> pod_PodIP pod \<noteq> []"

definition live_endpoint :: "string list \<Rightarrow> Endpoint \<Rightarrow> bool" where
  "live_endpoint liveIPs ep \<longleftrightarrow> ep_TargetRef_Kind ep = Some ''Pod'' \<and>
     (case ep_Addresses ep of [] \<Rightarrow> False | ip # _ \<Rightarrow> ip \<in> set liveIPs)"

definition LabelServiceName :: string where
  "LabelServiceName = ''kubernetes.io/service-name''"

definition getEndpointSlicesForStatefulSet ::
  "Reconciler \<Rightarrow> StatefulSet \<Rightarrow> history \<Rightarrow> ((error + EndpointSlice list) \<times> history) option" where
  "getEndpointSlicesForStatefulSet r sts h =
     (case List r EndpointSlices
        \<lparr>lo_Namespace = Some (Namespace (sts_meta sts)),
         lo_LabelSelector = fmap_of_list [(LabelServiceName, sts_ServiceName sts)]\<rparr> h of
        (Inl err, h) \<Rightarrow> Some (Inl err, h)
      | (Inr slices, h) \<Rightarrow> do {
          (listed, h) \<leftarrow> list_pods r sts h;
          case listed of
            Inl err \<Rightarrow> Some (Inl err, h)
          | Inr pods \<Rightarrow>
              let liveIPs = map pod_PodIP (filter live_pod pods)
              in Some (Inr (filter (\<lambda>slice. list_ex (live_endpoint liveIPs) (es_Endpoints slice)) slices), h)
        })"

definition slice_nodes :: "TypesenseCluster \<Rightarrow> EndpointSlice list \<Rightarrow> string list" where
  "slice_nodes ts eps =
     concat (map (\<lambda>s. concat (map (\<lambda>e. case ep_Addresses e of
                                          [] \<Rightarrow> []
                                        | addr # _ \<Rightarrow> [raftEndpoint ts addr]) (es_Endpoints s))) eps)"

text \<open>
  The end of \<^verbatim>\<open>getNodes\<close>, after the pods have been counted; \<open>sts = None\<close> is the nil
  pointer left when the statefulset was not found.
\<close>

definition getNodes_rest ::
  "Reconciler \<Rightarrow> TypesenseCluster \<Rightarrow> StatefulSet option \<Rightarrow> int \<Rightarrow> int \<Rightarrow> history
     \<Rightarrow> ((error + string list) \<times> history) option" where
  "getNodes_rest r ts sts unscheduledPods targetReplicas h =
     (if unscheduledPods = targetReplicas then Some (getFallbackNodes ts [], h)
      else do {
        sts \<leftarrow> sts;
        (eps, h) \<leftarrow> getEndpointSlicesForStatefulSet r sts h;
        case eps of
          Inl err \<Rightarrow> Some (Inl err, h)
        | Inr eps \<Rightarrow> Some (Inr (slice_nodes ts eps), h)
      })"

definition stsObjectKey :: "TypesenseCluster \<Rightarrow> ObjectKey" where
  "stsObjectKey ts =
     \<lparr>key_Namespace = ts_Namespace ts, key_Name = ClusterStatefulSet (ts_Name ts)\<rparr>"

definition getNodes ::
  "Reconciler \<Rightarrow> TypesenseCluster \<Rightarrow> int \<Rightarrow> bool \<Rightarrow> history
     \<Rightarrow> ((error + string list) \<times> history) option" where
  "getNodes r ts replicas bootstrapping h =
     (if bootstrapping then Some (getFallbackNodes ts [], h)
      else case GetFreshStatefulSet r (stsObjectKey ts) h of
             (Inl err, h) \<Rightarrow>
               if \<not> IsNotFound err then Some (Inl err, h)
               else getNodes_rest r ts None replicas replicas h
           | (Inr sts, h) \<Rightarrow> do {
               (listed, h) \<leftarrow> list_pods r sts h;
               case listed of
                 Inl err \<Rightarrow> Some (getFallbackNodes ts [], h)
               | Inr pods \<Rightarrow>
                   getNodes_rest r ts (Some sts) (int32 (int (length (filter stuck_pod pods))))
                     (case sts_Replicas sts of None \<Rightarrow> 1 | Some n \<Rightarrow> n) h
             })"

section \<open>Creating and updating the config map\<close>

definition nodesConfigMapKey :: "TypesenseCluster \<Rightarrow> ObjectKey" where
  "nodesConfigMapKey ts =
     \<lparr>key_Namespace = ts_Namespace ts, key_Name = ClusterNodesConfigMap (ts_Name ts)\<rparr>"

definition nodes_data :: "string list \<Rightarrow> string list \<Rightarrow> strmap" where
  "nodes_data nodes fallback =
     fmap_of_list [(''nodes'', Join nodes '',''), (''fallback'', Join fallback '','')]"

definition createConfigMap ::
  "Reconciler \<Rightarrow> ObjectKey \<Rightarrow> TypesenseCluster \<Rightarrow> history \<Rightarrow> ((error + ConfigMap) \<times> history) option" where
  "createConfigMap r key ts h = do {
     (nodes, h) \<leftarrow> getNodes r ts (spec_Replicas (ts_Spec ts)) True h;
     case nodes of
       Inl err \<Rightarrow> Some (Inl err, h)
     | Inr nodes \<Rightarrow>
         (let cm = \<lparr>cm_meta = getObjectMeta ts (Some (key_Name key)) fmempty,
                    cm_Data = nodes_data nodes nodes\<rparr>
          in case ext_SetControllerReference r ''TypesenseCluster'' (ts_meta ts) (cm_meta cm) of
               Inl err \<Rightarrow> Some (Inl err, h)
             | Inr owners \<Rightarrow>
                 Some (Create r ConfigMaps (cm\<lparr>cm_meta := (cm_meta cm)\<lparr>OwnerReferences := owners\<rparr>\<rparr>) h))
   }"

definition deleteConfigMap :: "Reconciler \<Rightarrow> ConfigMap \<Rightarrow> history \<Rightarrow> error option \<times> history" where
  "deleteConfigMap r cm h = Delete r ConfigMaps cm h"

text \<open>
  \<open>replicas = None\<close> is the nil pointer; the flag of the resize operation only selects what is
  logged. The result is the config map, the number of nodes and whether it was updated.
\<close>

definition updateConfigMap ::
  "Reconciler \<Rightarrow> TypesenseCluster \<Rightarrow> ConfigMap \<Rightarrow> int option \<Rightarrow> bool \<Rightarrow> history
     \<Rightarrow> ((error + ConfigMap \<times> int \<times> bool) \<times> history) option" where
  "updateConfigMap r ts cm replicas resizeOp h =
     (case Get r StatefulSets (stsObjectKey ts) h of
        (Inl err, h) \<Rightarrow>
          if IsNotFound err then
            (case deleteConfigMap r cm h of
               (Some derr, h) \<Rightarrow> Some (Inl derr, h)
             | (None, h) \<Rightarrow> Some (Inl err, h))
          else Some (Inl err, h)
      | (Inr sts, h) \<Rightarrow>
          (let replicas = (case replicas of None \<Rightarrow> spec_Replicas (ts_Spec ts) | Some n \<Rightarrow> n) in do {
             (nodes, h) \<leftarrow> getNodes r ts replicas False h;
             case nodes of
               Inl err \<Rightarrow> Some (Inl err, h)
             | Inr nodes \<Rightarrow> do {
                 (fallback, h) \<leftarrow> getNodes r ts replicas True h;
                 case fallback of
                   Inl err \<Rightarrow> Some (Inl err, h)
                 | Inr fallback \<Rightarrow>
                     if length nodes = 0 then Some (Inl (GoError ''empty quorum configuration''), h)
                     else
                       let desired = cm\<lparr>cm_Data := nodes_data nodes fallback\<rparr>
                       in if lookup (cm_Data cm) ''nodes'' \<noteq> lookup (cm_Data desired) ''nodes'' \<or>
                             lookup (cm_Data cm) ''fallback'' \<noteq> lookup (cm_Data desired) ''fallback''
                          then (case Update r ConfigMaps desired h of
                                  (Inl err, h) \<Rightarrow> Some (Inl err, h)
                                | (Inr desired, h) \<Rightarrow> Some (Inr (desired, int (length nodes), True), h))
                          else Some (Inr (desired, int (length nodes), False), h)
               }
           }))"

definition ReconcileConfigMap ::
  "Reconciler \<Rightarrow> TypesenseCluster \<Rightarrow> history \<Rightarrow> ((error + bool option) \<times> history) option" where
  "ReconcileConfigMap r ts h =
     (case Get r ConfigMaps (nodesConfigMapKey ts) h of
        (Inl err, h) \<Rightarrow>
          if IsNotFound err then do {
            (created, h) \<leftarrow> createConfigMap r (nodesConfigMapKey ts) ts h;
            case created of
              Inl err \<Rightarrow> Some (Inl err, h)
            | Inr _ \<Rightarrow> Some (Inr None, h)
          }
          else Some (Inl err, h)
      | (Inr cm, h) \<Rightarrow> do {
          (res, h) \<leftarrow> updateConfigMap r ts cm None False h;
          case res of
            Inl err \<Rightarrow> Some (Inl err, h)
          | Inr (_, _, updated) \<Rightarrow> Some (Inr (Some updated), h)
        })"

section \<open>Pushing the config map to the pods\<close>

definition forceConfigMapUpdateAnnotationKey :: string where
  "forceConfigMapUpdateAnnotationKey = ''ts.opentelekomcloud.com/forced-configmap-update-time''"

fun force_pods :: "Reconciler \<Rightarrow> Pod list \<Rightarrow> error list \<Rightarrow> history \<Rightarrow> error list \<times> history" where
  "force_pods r [] errs h = (errs, h)"
| "force_pods r (pod # pods) errs h =
     (if DeletionTimestamp (pod_meta pod) \<noteq> None then force_pods r pods errs h
      else case Now r h of
             (now, h) \<Rightarrow>
               (let annotated = pod\<lparr>pod_meta := (pod_meta pod)\<lparr>
                      Annotations := fmupd forceConfigMapUpdateAnnotationKey now
                                       (Annotations (pod_meta pod))\<rparr>\<rparr>
                in case Patch r Pods pod annotated h of
                     (Inl err, h) \<Rightarrow>
                       force_pods r pods (errs @ [Wrap (''pod '' @ Name (pod_meta pod)) err]) h
                   | (Inr _, h) \<Rightarrow> force_pods r pods errs h))"

text \<open>
  The left value is the failure to list the pods; the right one holds the errors that
  \<^verbatim>\<open>utilerrors.NewAggregate\<close> collects (none is nil).
\<close>

definition forcePodsConfigMapUpdate ::
  "Reconciler \<Rightarrow> TypesenseCluster \<Rightarrow> history \<Rightarrow> (error + error list) \<times> history" where
  "forcePodsConfigMapUpdate r ts h =
     (case List r Pods \<lparr>lo_Namespace = Some (ts_Namespace ts), lo_LabelSelector = getLabels ts\<rparr> h of
        (Inl err, h) \<Rightarrow> (Inl err, h)
      | (Inr pods, h) \<Rightarrow> (case force_pods r pods [] h of (errs, h) \<Rightarrow> (Inr errs, h)))"

section \<open>Reading nodes\<close>

definition getNodeEndpoint :: "TypesenseCluster \<Rightarrow> string \<Rightarrow> string" where
  "getNodeEndpoint ts raftNodeEndpoint =
     (let ports = '':'' @ Itoa (spec_PeeringPort (ts_Spec ts)) @ '':'' @ Itoa (spec_ApiPort (ts_Spec ts));
          node = ReplaceOne raftNodeEndpoint ports []
      in if hasIP4Prefix raftNodeEndpoint then node
         else node @ ''.'' @ ts_Name ts @ ''-sts-svc.'' @ ts_Namespace ts @ ''.svc.cluster.local'')"

definition getShortName :: "string \<Rightarrow> string" where
  "getShortName raftNodeEndpoint =
     (let host = takeWhile (\<lambda>c. c \<noteq> CHR '':'') raftNodeEndpoint
      in if hasIP4Prefix host then host
         else case Index host ''.'' of Some idx \<Rightarrow> take idx host | None \<Rightarrow> host)"

definition hasBootstrapValues :: "TypesenseCluster \<Rightarrow> ConfigMap \<Rightarrow> error + bool" where
  "hasBootstrapValues ts cm =
     (case fmlookup (cm_Data cm) ''nodes'' of
        None \<Rightarrow> Inl (GoError (''configmap is missing '' @ [CHR 0x27] @ ''nodes'' @ [CHR 0x27] @ '' key''))
      | Some raw \<Rightarrow>
          if raw = [] then Inl (GoError (''configmap is missing '' @ [CHR 0x27] @ ''nodes'' @ [CHR 0x27] @ '' key''))
          else Inr (list_ex (\<lambda>node. Contains node (ClusterStatefulSet (ts_Name ts)))
                      (Split raw (CHR '',''))))"

section \<open>Fallback nodes\<close>

lemma fallback_loop_eq:
  "fallback_loop ts is nodes =
     (case find (\<lambda>i. length (fallbackNodeName ts i) > nodeNameLenLimit) is of
        None \<Rightarrow> Inr (nodes @ map (\<lambda>i. raftEndpoint ts (fallbackNodeName ts i)) is)
      | Some i \<Rightarrow> Inl (GoError (''raft error: node name should not exceed 64 characters: ''
                               @ fallbackNodeName ts i)))"
  by (induction ts "is" nodes rule: fallback_loop.induct) (auto simp: Let_def split: option.splits)

definition fallback_list :: "TypesenseCluster \<Rightarrow> string list" where
  "fallback_list ts =
     map (\<lambda>i. raftEndpoint ts (fallbackNodeName ts (int i))) [0..<nat (spec_Replicas (ts_Spec ts))]"

lemma getFallbackNodes_Inr_iff:
  "getFallbackNodes ts [] = Inr nodes \<longleftrightarrow>
     (\<forall>i < nat (spec_Replicas (ts_Spec ts)). length (fallbackNodeName ts (int i)) \<le> nodeNameLenLimit) \<and>
     nodes = fallback_list ts"
proof -
  let ?is = "map int [0..<nat (spec_Replicas (ts_Spec ts))]"
  have "find (\<lambda>i. length (fallbackNodeName ts i) > nodeNameLenLimit) ?is = None \<longleftrightarrow>
      (\<forall>i < nat (spec_Replicas (ts_Spec ts)). length (fallbackNodeName ts (int i)) \<le> nodeNameLenLimit)"
    by (auto simp: find_None_iff not_less)
  then show ?thesis
    by (auto simp: getFallbackNodes_def fallback_loop_eq fallback_list_def o_def split: option.splits)
qed

lemma length_fallback_list: "length (fallback_list ts) = nat (spec_Replicas (ts_Spec ts))"
  by (simp add: fallback_list_def)

section \<open>Footprints\<close>

lemma list_pods_reads: "run_ok is_read h (list_pods r sts h)"
  by (auto simp: list_pods_def req_simps is_read_def intro: run_ok_deref)

lemma getEndpointSlicesForStatefulSet_reads:
  "run_ok is_read h (getEndpointSlicesForStatefulSet r sts h)"
  unfolding getEndpointSlicesForStatefulSet_def req_simps
  by (auto intro!: run_ok_rules run_ok_bind [OF list_pods_reads] simp: is_read_def Let_def)

lemma getNodes_rest_reads: "run_ok is_read h (getNodes_rest r ts sts u t h)"
  unfolding getNodes_rest_def
  by (intro run_ok_rules run_ok_deref run_ok_bind [OF getEndpointSlicesForStatefulSet_reads]) auto

lemma getNodes_reads: "run_ok is_read h (getNodes r ts n b h)"
  unfolding getNodes_def GetFreshStatefulSet_def req_simps
  by (auto intro!: run_ok_rules run_ok_bind [OF list_pods_reads]
      run_ok_call [OF getNodes_rest_reads] simp: is_read_def)

lemma updateConfigMap_emits: "run_ok (writes_only {KConfigMap}) h (updateConfigMap r ts cm n b h)"
  unfolding updateConfigMap_def deleteConfigMap_def req_simps Let_def
  by (auto intro!: run_ok_rules run_ok_bind [OF run_ok_read_writes_only [OF getNodes_reads]])

lemma createConfigMap_emits: "run_ok (writes_only {KConfigMap}) h (createConfigMap r key ts h)"
  unfolding createConfigMap_def req_simps Let_def
  by (auto intro!: run_ok_rules run_ok_bind [OF run_ok_read_writes_only [OF getNodes_reads]])

lemma ReconcileConfigMap_emits: "run_ok (writes_only {KConfigMap}) h (ReconcileConfigMap r ts h)"
  unfolding ReconcileConfigMap_def Get_def
  by (auto intro!: run_ok_rules run_ok_bind [OF createConfigMap_emits] run_ok_bind [OF updateConfigMap_emits])

interpretation config_map_phase: operation "ReconcileConfigMap r ts" "writes_only {KConfigMap}" for r ts
  by unfold_locales (rule ReconcileConfigMap_emits)

lemma force_pods_emits:
  "force_pods r pods errs h = (errs', h') \<Longrightarrow> emits (writes_only {KPod}) h h'"
proof (induction pods arbitrary: errs h)
  case (Cons pod pods)
  show ?case
  proof (cases "DeletionTimestamp (pod_meta pod) = None")
    case False
    with Cons show ?thesis by simp
  next
    case True
    let ?a = "pod\<lparr>pod_meta := (pod_meta pod)\<lparr>
      Annotations := fmupd forceConfigMapUpdateAnnotationKey (on_now r h) (Annotations (pod_meta pod))\<rparr>\<rparr>"
    let ?h = "h @ [ReqNow, ReqPatch (OPod pod) (OPod ?a)]"
    have here: "emits (writes_only {KPod}) h ?h" by simp
    have "emits (writes_only {KPod}) ?h h'"
      using Cons True by (auto simp: req_simps Let_def split: sum.splits)
    with here show ?thesis by (rule emits_trans)
  qed
qed simp

lemma forcePodsConfigMapUpdate_emits:
  "forcePodsConfigMapUpdate r ts h = (x, h') \<Longrightarrow> emits (writes_only {KPod}) h h'"
  unfolding forcePodsConfigMapUpdate_def req_simps
  by (auto split: sum.splits prod.splits dest!: force_pods_emits intro: emits_trans [rotated])

section \<open>The pods that are annotated\<close>

text \<open>The pod as it is sent: only the annotation is added.\<close>

definition forced_pod :: "string \<Rightarrow> Pod \<Rightarrow> Pod" where
  "forced_pod now pod = pod\<lparr>pod_meta := (pod_meta pod)\<lparr>Annotations :=
     fmupd forceConfigMapUpdateAnnotationKey now (Annotations (pod_meta pod))\<rparr>\<rparr>"

definition forces :: "Pod \<Rightarrow> request \<Rightarrow> bool" where
  "forces pod q \<longleftrightarrow> (\<exists>now. q = ReqPatch (OPod pod) (OPod (forced_pod now pod)))"

abbreviation staying :: "Pod list \<Rightarrow> Pod list" where
  "staying pods \<equiv> filter (\<lambda>pod. DeletionTimestamp (pod_meta pod) = None) pods"

lemma force_pods_patches:
  assumes "force_pods r pods errs h = (errs', h')"
  shows "\<exists>ws. writes h' = writes h @ ws \<and> list_all2 forces (staying pods) ws"
  using assms
proof (induction pods arbitrary: errs h)
  case (Cons pod pods)
  show ?case
  proof (cases "DeletionTimestamp (pod_meta pod) = None")
    case False
    with Cons show ?thesis by auto
  next
    case True
    let ?q = "ReqPatch (OPod pod) (OPod (forced_pod (on_now r h) pod))"
    obtain errs1 where rest: "force_pods r pods errs1 (h @ [ReqNow, ?q]) = (errs', h')"
      using Cons.prems True by (auto simp: req_simps Let_def forced_pod_def split: sum.split_asm)
    obtain ws where "writes h' = writes (h @ [ReqNow, ?q]) @ ws" "list_all2 forces (staying pods) ws"
      using Cons.IH [OF rest] by blast
    moreover have "forces pod ?q" by (auto simp: forces_def)
    ultimately show ?thesis using True by (intro exI [of _ "?q # ws"]) (auto simp: writes_Cons)
  qed
qed simp

lemma force_pods_errors: "force_pods r pods errs h = (errs', h') \<Longrightarrow> length errs' \<le> length errs + length (staying pods)"
  by (induction pods arbitrary: errs h) (fastforce simp: req_simps Let_def split: sum.split_asm if_split_asm)+

end
