(* ===== verification/Quorum_Helpers.thy ===== *)
theory Quorum_Helpers
  imports Nodes_ConfigMap "HOL-Library.AList" "HOL-Library.Multiset"
begin

text \<open>
  Probing the members: \<^verbatim>\<open>typesensecluster_quorum_helpers.go\<close>. A Go map keyed by pod
  name is an association list with distinct keys, updated with \<^verbatim>\<open>AList.update\<close>; the order
  of the list stands for the iteration order, which the results are shown not to depend on.
\<close>

section \<open>URLs, clients and logs\<close>

record HttpClient =
  hc_Timeout :: int \<comment> \<open>milliseconds\<close>
  hc_Proxied :: bool

definition getHttpClient ::
  "Reconciler \<Rightarrow> TypesenseCluster \<Rightarrow> history \<Rightarrow> (error + HttpClient) \<times> history" where
  "getHttpClient r ts h =
     (let timeout = spec_HealthProbeTimeoutInMilliseconds (ts_Spec ts)
      in if InCluster r then (Inr \<lparr>hc_Timeout = timeout, hc_Proxied = False\<rparr>, h)
         else case HTTPClientFor r h of
                (Some err, h) \<Rightarrow> (Inl err, h)
              | (None, h) \<Rightarrow> (Inr \<lparr>hc_Timeout = timeout, hc_Proxied = True\<rparr>, h))"

definition buildUrl ::
  "Reconciler \<Rightarrow> NodeEndpoint \<Rightarrow> TypesenseCluster \<Rightarrow> int \<Rightarrow> string \<Rightarrow> error + string" where
  "buildUrl r node ts port path =
     (if \<not> InCluster r
      then Inr (ext_ProxyURL r (ts_Namespace ts) (getShortName (ne_PodName node) @ '':'' @ Itoa port)
                  (TrimPrefix path ''/''))
      else let host = getNodeEndpoint ts (ne_IP node)
           in ext_JoinPath r (''http://'' @ host @ '':'' @ Itoa port) path)"

definition getPodLogs ::
  "Reconciler \<Rightarrow> NodeEndpoint \<Rightarrow> string \<Rightarrow> history \<Rightarrow> (error + string) \<times> history" where
  "getPodLogs r node namespace h = GetLogs r namespace (ne_PodName node) h"

definition inspectPodLogs :: "string \<Rightarrow> string list \<Rightarrow> bool" where
  "inspectPodLogs logs errs = list_ex (\<lambda>e. Contains logs e) errs"

section \<open>Node status and health\<close>

definition getNodeStatus ::
  "Reconciler \<Rightarrow> HttpClient \<Rightarrow> NodeEndpoint \<Rightarrow> TypesenseCluster \<Rightarrow> Secret \<Rightarrow> string \<Rightarrow> history
     \<Rightarrow> NodeStatus \<times> history" where
  "getNodeStatus r httpClient node ts secret logs h =
     (case buildUrl r node ts (spec_ApiPort (ts_Spec ts)) ''/status'' of
        Inl err \<Rightarrow> (node_status UnreachableState, h)
      | Inr u \<Rightarrow>
          (case ext_NewRequest r u of
             Some err \<Rightarrow> (node_status ErrorState, h)
           | None \<Rightarrow>
               (case HttpDo r \<lparr>http_URL = u,
                        http_ApiKey = Some (lookup (sec_Data secret) ClusterAdminApiKeySecretKeyName),
                        http_Timeout = hc_Timeout httpClient\<rparr> h of
                  (RequestFailed err, h) \<Rightarrow> (node_status UnreachableState, h)
                | (ReadFailed err, h) \<Rightarrow> (node_status ErrorState, h)
                | (HttpBody code body, h) \<Rightarrow>
                    (case ext_UnmarshalNodeStatus r body of
                       None \<Rightarrow> (node_status ErrorState, h)
                     | Some nodeStatus \<Rightarrow>
                         let nodeStatus = (if State nodeStatus = [] then nodeStatus\<lparr>State := ErrorState\<rparr>
                                           else nodeStatus);
                             nodeStatus = (if inspectPodLogs logs ErrorsRequirePodTermination
                                           then nodeStatus\<lparr>State := ErrorState\<rparr> else nodeStatus)
                         in (nodeStatus, h)))))"

definition getNodeHealth ::
  "Reconciler \<Rightarrow> HttpClient \<Rightarrow> NodeEndpoint \<Rightarrow> TypesenseCluster \<Rightarrow> string \<Rightarrow> history
     \<Rightarrow> (NodeHealth \<times> error option) \<times> history" where
  "getNodeHealth r httpClient node ts logs h =
     (let notOk = \<lparr>Ok = False, ResourceError = None\<rparr>
      in case buildUrl r node ts (spec_ApiPort (ts_Spec ts)) ''/health'' of
           Inl err \<Rightarrow> ((notOk, Some err), h)
         | Inr u \<Rightarrow>
             (case ext_NewRequest r u of
                Some err \<Rightarrow> ((notOk, None), h)
              | None \<Rightarrow>
                  (case HttpDo r \<lparr>http_URL = u, http_ApiKey = None,
                                 http_Timeout = hc_Timeout httpClient\<rparr> h of
                     (RequestFailed err, h) \<Rightarrow> ((notOk, None), h)
                   | (ReadFailed err, h) \<Rightarrow> ((notOk, None), h)
                   | (HttpBody code body, h) \<Rightarrow>
                       (case ext_UnmarshalNodeHealth r body of
                          None \<Rightarrow> ((notOk, None), h)
                        | Some nodeHealth \<Rightarrow>
                            if Ok nodeHealth \<and> inspectPodLogs logs ErrorsRequirePodTermination
                            then ((nodeHealth\<lparr>Ok := False\<rparr>, None), h)
                            else ((nodeHealth, None), h)))))"

section \<open>Cluster status\<close>

definition getMinimumRequiredNodes :: "int \<Rightarrow> int" where
  "getMinimumRequiredNodes availableNodes = int64 (int64 (availableNodes - 1) sdiv 2 + 1)"

fun count_states :: "(string \<times> NodeStatus) list \<Rightarrow> int \<Rightarrow> int \<Rightarrow> int \<times> int" where
  "count_states [] leaderNodes notReadyNodes = (leaderNodes, notReadyNodes)"
| "count_states ((k, nodeStatus) # rest) leaderNodes notReadyNodes =
     count_states rest
       (if State nodeStatus = LeaderState then leaderNodes + 1 else leaderNodes)
       (if State nodeStatus = NotReadyState \<or> State nodeStatus = UnreachableState
        then notReadyNodes + 1 else notReadyNodes)"

definition getClusterStatus :: "(string \<times> NodeStatus) list \<Rightarrow> ClusterStatus" where
  "getClusterStatus nodesStatus =
     (let availableNodes = int (length nodesStatus);
          minRequiredNodes = getMinimumRequiredNodes availableNodes;
          (leaderNodes, notReadyNodes) = count_states nodesStatus 0 0
      in if leaderNodes > 1 then ClusterStatusSplitBrain
         else if leaderNodes = 0 then
           if availableNodes \<le> 1 then ClusterStatusNotReady
           else if availableNodes = notReadyNodes then ClusterStatusNotReady
           else ClusterStatusElectionDeadlock
         else if leaderNodes = 1 then
           if minRequiredNodes > availableNodes - notReadyNodes then ClusterStatusNotReady
           else ClusterStatusOK
         else ClusterStatusNotReady)"

section \<open>The quorum\<close>

fun quorum_nodes ::
  "Reconciler \<Rightarrow> TypesenseCluster \<Rightarrow> string list \<Rightarrow> Pod list \<Rightarrow> (string \<times> string) list \<Rightarrow> (string \<times> string) list" where
  "quorum_nodes r ts nodes [] qn = qn"
| "quorum_nodes r ts nodes (pod # pods) qn =
     (if pod_PodIP pod \<noteq> [] then
        if snd (contains nodes (raftEndpoint ts (pod_PodIP pod)))
        then quorum_nodes r ts nodes pods
               (AList.update (Name (pod_meta pod)) (ext_ParseIP r (pod_PodIP pod)) qn)
        else quorum_nodes r ts nodes pods qn
      else quorum_nodes r ts nodes pods qn)"

definition getQuorum ::
  "Reconciler \<Rightarrow> TypesenseCluster \<Rightarrow> StatefulSet \<Rightarrow> history \<Rightarrow> ((error + Quorum) \<times> history) option" where
  "getQuorum r ts sts h =
     (case Get r ConfigMaps (nodesConfigMapKey ts) h of
        (Inl err, h) \<Rightarrow> Some (Inl err, h)
      | (Inr cm, h) \<Rightarrow>
          (let missing = GoError (''configmap '' @ ClusterNodesConfigMap (ts_Name ts) @ '' is missing ''
                                    @ [CHR 0x27] @ ''nodes'' @ [CHR 0x27] @ '' key'')
           in case fmlookup (cm_Data cm) ''nodes'' of
                None \<Rightarrow> Some (Inl missing, h)
              | Some rawNodes \<Rightarrow>
                  if TrimSpace rawNodes = [] then Some (Inl missing, h)
                  else
                    let nodes = Split rawNodes (CHR '','');
                        availableNodes = int (length nodes);
                        minRequiredNodes = getMinimumRequiredNodes (sts_StatusReplicas sts)
                    in do {
                      (listed, h) \<leftarrow> list_pods r sts h;
                      case listed of
                        Inl err \<Rightarrow> Some (Inl err, h)
                      | Inr pods \<Rightarrow>
                          Some (Inr \<lparr>MinRequiredNodes = minRequiredNodes,
                                     AvailableNodes = availableNodes,
                                     Nodes = quorum_nodes r ts nodes pods [],
                                     NodesListConfigMap = cm\<rparr>, h)
                    }))"

section \<open>Lag thresholds\<close>

definition HealthyWriteLagKey :: string where "HealthyWriteLagKey = ''TYPESENSE_HEALTHY_WRITE_LAG''"
definition HealthyWriteLagDefaultValue :: int where "HealthyWriteLagDefaultValue = 500"
definition HealthyReadLagKey :: string where "HealthyReadLagKey = ''TYPESENSE_HEALTHY_READ_LAG''"
definition HealthyReadLagDefaultValue :: int where "HealthyReadLagDefaultValue = 1000"

definition additionalConfigKey :: "TypesenseCluster \<Rightarrow> string \<Rightarrow> ObjectKey" where
  "additionalConfigKey ts name = \<lparr>key_Namespace = ts_Namespace ts, key_Name = name\<rparr>"

definition getHealthyWriteLagThreshold ::
  "Reconciler \<Rightarrow> TypesenseCluster \<Rightarrow> history \<Rightarrow> int \<times> history" where
  "getHealthyWriteLagThreshold r ts h =
     (case spec_AdditionalServerConfiguration (ts_Spec ts) of
        None \<Rightarrow> (HealthyWriteLagDefaultValue, h)
      | Some name \<Rightarrow>
          (case Get r ConfigMaps (additionalConfigKey ts name) h of
             (Inl err, h) \<Rightarrow> (HealthyWriteLagDefaultValue, h)
           | (Inr cm, h) \<Rightarrow>
               (let v = lookup (cm_Data cm) HealthyWriteLagKey
                in if v = [] then (HealthyWriteLagDefaultValue, h)
                   else case Atoi v of
                          (n, ok) \<Rightarrow> if \<not> ok then (HealthyWriteLagDefaultValue, h) else (n, h))))"

definition getHealthyReadLagThreshold ::
  "Reconciler \<Rightarrow> TypesenseCluster \<Rightarrow> history \<Rightarrow> int \<times> history" where
  "getHealthyReadLagThreshold r ts h =
     (case spec_AdditionalServerConfiguration (ts_Spec ts) of
        None \<Rightarrow> (HealthyReadLagDefaultValue, h)
      | Some name \<Rightarrow>
          (case Get r ConfigMaps (additionalConfigKey ts name) h of
             (Inl err, h) \<Rightarrow> (HealthyReadLagDefaultValue, h)
           | (Inr cm, h) \<Rightarrow>
               (let v = lookup (cm_Data cm) HealthyReadLagKey
                in if v = [] then (HealthyReadLagDefaultValue, h)
                   else case Atoi v of
                          (n, ok) \<Rightarrow> if \<not> ok then (HealthyReadLagDefaultValue, h) else (n, h))))"

text \<open>Read threshold, write threshold.\<close>

definition getHealthyLagThresholds ::
  "Reconciler \<Rightarrow> TypesenseCluster \<Rightarrow> history \<Rightarrow> (int \<times> int) \<times> history" where
  "getHealthyLagThresholds r ts h =
     (case spec_AdditionalServerConfiguration (ts_Spec ts) of
        None \<Rightarrow> ((HealthyReadLagDefaultValue, HealthyWriteLagDefaultValue), h)
      | Some name \<Rightarrow>
          (case Get r ConfigMaps (additionalConfigKey ts name) h of
             (Inl err, h) \<Rightarrow> ((HealthyReadLagDefaultValue, HealthyWriteLagDefaultValue), h)
           | (Inr cm, h) \<Rightarrow>
               (let rv = lookup (cm_Data cm) HealthyReadLagKey;
                    rv = (if rv = [] then Itoa HealthyReadLagDefaultValue else rv);
                    wv = lookup (cm_Data cm) HealthyWriteLagKey;
                    wv = (if wv = [] then Itoa HealthyWriteLagDefaultValue else wv)
                in ((fst (Atoi rv), fst (Atoi wv)), h))))"

section \<open>Counting states\<close>

definition leaders :: "NodeStatus list \<Rightarrow> nat" where
  "leaders ns = length (filter (\<lambda>s. State s = LeaderState) ns)"

definition silent :: "NodeStatus list \<Rightarrow> nat" where
  "silent ns = length (filter (\<lambda>s. State s = NotReadyState \<or> State s = UnreachableState) ns)"

lemma count_states_eq:
  "count_states ns l n = (l + int (leaders (map snd ns)), n + int (silent (map snd ns)))"
  by (induction ns l n rule: count_states.induct) (auto simp: leaders_def silent_def)

lemma length_filter_mset: "length (filter P xs) = size (filter_mset P (mset xs))"
  by (simp flip: mset_filter)

lemma leaders_mset: "mset xs = mset ys \<Longrightarrow> leaders xs = leaders ys"
  by (simp only: leaders_def length_filter_mset)

lemma silent_mset: "mset xs = mset ys \<Longrightarrow> silent xs = silent ys"
  by (simp only: silent_def length_filter_mset)

lemma leaders_silent_le: "leaders ns + silent ns \<le> length ns"
  by (induction ns) (auto simp: leaders_def silent_def state_defs)

lemma silent_le: "silent ns \<le> length ns"
  by (simp add: silent_def)

text \<open>The half, rounded up; one node is required even when none is counted.\<close>

lemma getMinimumRequiredNodes_eq:
  assumes "0 \<le> n" and "n < 2 ^ 63"
  shows "getMinimumRequiredNodes n = (if n = 0 then 1 else (n + 1) div 2)"
proof (cases "n = 0")
  case True
  then show ?thesis by (simp add: getMinimumRequiredNodes_def int64_id signed_divide_int_def)
next
  case False
  with assms have *: "(n - 1) sdiv 2 = (n - 1) div 2"
    by (cases "n = 1") (auto simp: signed_divide_int_def sgn_if)
  have "(n - 1) div 2 + 1 = (n + 1) div 2" by simp
  moreover have "- (2 ^ 63) \<le> (n + 1) div 2" "(n + 1) div 2 < 2 ^ 63" using assms by auto
  ultimately show ?thesis
    using assms False * by (simp add: getMinimumRequiredNodes_def int64_id)
qed

text \<open>The cluster status as a function of the three counts.\<close>

lemma getClusterStatus_counts:
  assumes "int (length ns) < 2 ^ 63"
  shows "getClusterStatus ns =
     (let n = length ns; l = leaders (map snd ns); s = silent (map snd ns)
      in if l > 1 then ClusterStatusSplitBrain
         else if l = 1 then if n \<le> 2 * (n - s) then ClusterStatusOK else ClusterStatusNotReady
         else if n \<le> 1 \<or> n = s then ClusterStatusNotReady else ClusterStatusElectionDeadlock)"
proof -
  let ?n = "length ns" and ?l = "leaders (map snd ns)" and ?s = "silent (map snd ns)"
  have s: "?l + ?s \<le> ?n" using leaders_silent_le [of "map snd ns"] by simp
  have "?l = 1 \<Longrightarrow> getMinimumRequiredNodes (int ?n) > int ?n - int ?s \<longleftrightarrow> \<not> ?n \<le> 2 * (?n - ?s)"
    using s assms getMinimumRequiredNodes_eq [of "int ?n"] by auto
  with s show ?thesis
    unfolding getClusterStatus_def count_states_eq Let_def by auto
qed

section \<open>Quorums intersect\<close>

text \<open>
  What the raft members rely on: two sets of members that both reach the required number share a
  member, so that two leaders cannot both have one. A threshold above the half gives this.
\<close>

locale quorum_threshold =
  fixes required :: "nat \<Rightarrow> nat"
    and sound :: "nat \<Rightarrow> bool"
  assumes above_half: "sound n \<Longrightarrow> n < 2 * required n"
begin

lemma quorums_intersect:
  assumes "finite S" and "sound (card S)" and "A \<subseteq> S" and "B \<subseteq> S"
    and "required (card S) \<le> card A" and "required (card S) \<le> card B"
  shows "A \<inter> B \<noteq> {}"
proof
  assume "A \<inter> B = {}"
  have "finite A" and "finite B" using assms(1,3,4) finite_subset by auto
  then have "card (A \<union> B) = card A + card B" using \<open>A \<inter> B = {}\<close> by (rule card_Un_disjoint)
  moreover have "card (A \<union> B) \<le> card S" using assms(1,3,4) by (intro card_mono) auto
  ultimately show False using above_half [OF assms(2)] assms(5,6) by simp
qed

end

interpretation raft: quorum_threshold
  "\<lambda>n. nat (getMinimumRequiredNodes (int n))" "\<lambda>n. odd n \<and> int n < 2 ^ 63"
  by unfold_locales (auto simp: getMinimumRequiredNodes_eq elim!: oddE)

section \<open>The members of a quorum\<close>

text \<open>The pods that have an address whose endpoint is in the list.\<close>

definition listed_pod :: "TypesenseCluster \<Rightarrow> string list \<Rightarrow> Pod \<Rightarrow> bool" where
  "listed_pod ts nodes pod \<longleftrightarrow> pod_PodIP pod \<noteq> [] \<and> raftEndpoint ts (pod_PodIP pod) \<in> set nodes"

lemma quorum_nodes_distinct:
  "distinct (map fst qn) \<Longrightarrow> distinct (map fst (quorum_nodes r ts nodes pods qn))"
  by (induction pods arbitrary: qn) (auto simp: distinct_update)

lemma quorum_nodes_keys:
  "fst ` set (quorum_nodes r ts nodes pods qn) =
     fst ` set qn \<union> (\<lambda>p. Name (pod_meta p)) ` {p \<in> set pods. listed_pod ts nodes p}"
  by (induction pods arbitrary: qn) (auto simp: listed_pod_def dom_update)

lemma update_in_set: "(k, v) \<in> set (AList.update k' v' qn) \<Longrightarrow> (k = k' \<and> v = v') \<or> (k, v) \<in> set qn"
  by (induction qn) (auto split: if_splits)

lemma quorum_nodes_member:
  "(k, ip) \<in> set (quorum_nodes r ts nodes pods qn) \<Longrightarrow>
     (k, ip) \<in> set qn \<or>
     (\<exists>p \<in> set pods. listed_pod ts nodes p \<and> k = Name (pod_meta p) \<and> ip = ext_ParseIP r (pod_PodIP p))"
  by (induction pods arbitrary: qn) (auto simp: listed_pod_def split: if_splits dest: update_in_set)

lemma getQuorum_reads: "run_ok is_read h (getQuorum r ts sts h)"
  unfolding getQuorum_def req_simps
  by (auto intro!: run_ok_rules run_ok_bind [OF list_pods_reads] simp: Let_def)

lemma getQuorum_InrE:
  assumes "getQuorum r ts sts h = Some (Inr q, h')"
  obtains cm raw sel pods where
    "on_get (api_ConfigMap r) h (nodesConfigMapKey ts) = Inr cm"
    "fmlookup (cm_Data cm) ''nodes'' = Some raw"
    "TrimSpace raw \<noteq> []"
    "sts_Selector sts = Some sel"
    "on_list (api_Pod r) (h @ [ReqGet KConfigMap (nodesConfigMapKey ts)])
       \<lparr>lo_Namespace = Some (Namespace (sts_meta sts)), lo_LabelSelector = sel\<rparr> = Inr pods"
    "q = \<lparr>MinRequiredNodes = getMinimumRequiredNodes (sts_StatusReplicas sts),
          AvailableNodes = int (length (Split raw (CHR '',''))),
          Nodes = quorum_nodes r ts (Split raw (CHR '','')) pods [],
          NodesListConfigMap = cm\<rparr>"
    "h' = h @ [ReqGet KConfigMap (nodesConfigMapKey ts),
               ReqList KPod \<lparr>lo_Namespace = Some (Namespace (sts_meta sts)), lo_LabelSelector = sel\<rparr>]"
  using assms
  by (cases "sts_Selector sts")
    (auto simp: getQuorum_def req_simps list_pods_def Let_def
      split: sum.split_asm option.split_asm if_split_asm)

section \<open>Footprints\<close>

lemma getHttpClient_reads: "getHttpClient r ts h = (x, h') \<Longrightarrow> emits is_read h h'"
  by (auto simp: getHttpClient_def req_simps Let_def split: option.splits if_splits)

lemma getNodeStatus_reads: "getNodeStatus r c n ts s l h = (x, h') \<Longrightarrow> emits is_read h h'"
  by (auto simp: getNodeStatus_def req_simps Let_def
      split: sum.splits option.splits http_response.splits)

lemma getNodeHealth_reads: "getNodeHealth r c n ts l h = (x, h') \<Longrightarrow> emits is_read h h'"
  by (auto simp: getNodeHealth_def req_simps Let_def
      split: sum.splits option.splits http_response.splits if_splits)

lemma getHealthyWriteLagThreshold_reads:
  "getHealthyWriteLagThreshold r ts h = (x, h') \<Longrightarrow> emits is_read h h'"
  by (auto simp: getHealthyWriteLagThreshold_def req_simps Let_def
      split: sum.splits option.splits if_splits prod.splits)

lemma getHealthyLagThresholds_reads:
  "getHealthyLagThresholds r ts h = (x, h') \<Longrightarrow> emits is_read h h'"
  by (auto simp: getHealthyLagThresholds_def req_simps Let_def
      split: sum.splits option.splits if_splits)

end
