(* ===== verification/Quorum.thy ===== *)
theory Quorum
  imports Quorum_Helpers
begin

text \<open>
  The reconciliation of the quorum: \<^verbatim>\<open>typesensecluster_quorum.go\<close>. The members are
  probed, the cluster status is computed from their states, the readiness gate of every pod is
  updated, and the statefulset is shrunk to one member when there is more than one leader or none,
  grown back when the cluster is in order, and left alone otherwise.

  The loops of \<^verbatim>\<open>ReconcileQuorum\<close> are functions of their own
  (\<open>fetch_logs\<close>, \<open>fetch_statuses\<close>, \<open>update_gates\<close>), as is what follows
  the last loop (\<open>evaluate_quorum\<close>).
\<close>

section \<open>Readiness gates\<close>

definition QuorumReadinessGateCondition :: string where
  "QuorumReadinessGateCondition = ''RaftQuorumReady''"

definition nodeHealthy :: string where "nodeHealthy = ''NodeHealthy''"
definition nodeNotHealthy :: string where "nodeNotHealthy = ''NodeNotHealthy''"
definition nodeNotRecoverable :: string where "nodeNotRecoverable = ''NodeNotRecoverable''"

lemmas gate_reason_defs = nodeHealthy_def nodeNotHealthy_def nodeNotRecoverable_def

definition calculatePodReadinessGate ::
  "Reconciler \<Rightarrow> HttpClient \<Rightarrow> NodeEndpoint \<Rightarrow> NodeStatus \<Rightarrow> TypesenseCluster \<Rightarrow> string \<Rightarrow> history
     \<Rightarrow> PodCondition \<times> history" where
  "calculatePodReadinessGate r httpClient node nodeStatus ts logs h =
     (case getNodeHealth r httpClient node ts logs h of
        ((health, err), h) \<Rightarrow>
          (let conditionReason = nodeHealthy;
               conditionMessage = ''node'' @ [CHR 0x27] @ ''s role is now: '' @ State nodeStatus;
               conditionStatus = ConditionTrue;
               (conditionReason, conditionMessage, conditionStatus) =
                 (if err \<noteq> None then (nodeNotHealthy, conditionMessage, ConditionFalse)
                  else if \<not> Ok health then
                    let (conditionReason, conditionMessage, conditionStatus) =
                          (case ResourceError health of
                             Some e \<Rightarrow>
                               if e = OutOfMemory \<or> e = OutOfDisk
                               then (nodeNotRecoverable, ''node is failing: '' @ e, ConditionFalse)
                               else (conditionReason, conditionMessage, conditionStatus)
                           | None \<Rightarrow> (conditionReason, conditionMessage, conditionStatus))
                    in (nodeNotHealthy, conditionMessage, ConditionFalse)
                  else (conditionReason, conditionMessage, conditionStatus))
           in (\<lparr>pc_Type = QuorumReadinessGateCondition, pc_Status = conditionStatus,
                pc_Reason = conditionReason, pc_Message = conditionMessage\<rparr>, h)))"

text \<open>The loop over the conditions of the pod, with its flag and its accumulator.\<close>

fun replace_conditions ::
  "PodCondition list \<Rightarrow> PodCondition \<Rightarrow> bool \<Rightarrow> PodCondition list \<Rightarrow> bool \<times> PodCondition list" where
  "replace_conditions [] condition found updatedConditions = (found, updatedConditions)"
| "replace_conditions (c # cs) condition found updatedConditions =
     (if pc_Type c = pc_Type condition then
        if \<not> found then replace_conditions cs condition True (updatedConditions @ [condition])
        else replace_conditions cs condition found updatedConditions
      else replace_conditions cs condition found (updatedConditions @ [c]))"

definition updatedConditions :: "PodCondition list \<Rightarrow> PodCondition \<Rightarrow> PodCondition list" where
  "updatedConditions conditions condition =
     (case replace_conditions conditions condition False [] of
        (found, updated) \<Rightarrow> if \<not> found then updated @ [condition] else updated)"

definition updatePodReadinessGate ::
  "Reconciler \<Rightarrow> ObjectKey \<Rightarrow> PodCondition \<Rightarrow> history \<Rightarrow> error option \<times> history" where
  "updatePodReadinessGate r podObjectKey condition h =
     (case Get r Pods podObjectKey h of
        (Inl err, h) \<Rightarrow> (None, h)
      | (Inr pod, h) \<Rightarrow>
          (case StatusPatch r Pods pod
                  (pod\<lparr>pod_Conditions := updatedConditions (pod_Conditions pod) condition\<rparr>) h of
             (Inl err, h) \<Rightarrow> (Some err, h)
           | (Inr _, h) \<Rightarrow> (None, h)))"

section \<open>Resizing\<close>

type_synonym quorum_result = "ConditionQuorum \<times> int \<times> error option"

definition quorum_failed :: "error \<Rightarrow> quorum_result" where
  "quorum_failed err = (ConditionReasonQuorumNotReady, 0, Some err)"

text \<open>
  The end both resizing operations share: update the config map and push it to the pods. The first
  argument gives the reported size from the number of nodes written.
\<close>

definition resize_configmap ::
  "(int \<Rightarrow> quorum_result) \<Rightarrow> Reconciler \<Rightarrow> TypesenseCluster \<Rightarrow> ConfigMap \<Rightarrow> int \<Rightarrow> history
     \<Rightarrow> (quorum_result \<times> history) option" where
  "resize_configmap result r ts cm replicas h = do {
     (res, h) \<leftarrow> updateConfigMap r ts cm (Some replicas) True h;
     case res of
       Inl err \<Rightarrow> Some (quorum_failed err, h)
     | Inr (_, nodes, updated) \<Rightarrow>
         (if updated \<and> spec_ForceResetPeersConfigOnUpdate (ts_Spec ts)
          then (case forcePodsConfigMapUpdate r ts h of (_, h) \<Rightarrow> Some (result nodes, h))
          else Some (result nodes, h))
   }"

definition downgradeQuorum ::
  "Reconciler \<Rightarrow> TypesenseCluster \<Rightarrow> ConfigMap \<Rightarrow> ObjectKey \<Rightarrow> int \<Rightarrow> int \<Rightarrow> history
     \<Rightarrow> (quorum_result \<times> history) option" where
  "downgradeQuorum r ts cm stsKey healthyNodes minRequiredNodes h =
     (case GetFreshStatefulSet r stsKey h of
        (Inl err, h) \<Rightarrow> Some (quorum_failed err, h)
      | (Inr sts, h) \<Rightarrow>
          (let desiredReplicas = 1
           in case ScaleStatefulSet r stsKey desiredReplicas h of
                (Some err, h) \<Rightarrow> Some (quorum_failed err, h)
              | (None, h) \<Rightarrow> do {
                  (err, h) \<leftarrow> (if healthyNodes = 0 \<and> minRequiredNodes = 1
                              then PurgeStatefulSetPods r sts ts h else Some (None, h));
                  case err of
                    Some err \<Rightarrow> Some (quorum_failed err, h)
                  | None \<Rightarrow>
                      resize_configmap (\<lambda>size. (ConditionReasonQuorumDowngraded, size, None))
                        r ts cm desiredReplicas h
                }))"

definition upgradeQuorum ::
  "Reconciler \<Rightarrow> TypesenseCluster \<Rightarrow> ConfigMap \<Rightarrow> ObjectKey \<Rightarrow> history
     \<Rightarrow> (quorum_result \<times> history) option" where
  "upgradeQuorum r ts cm stsKey h =
     (case GetFreshStatefulSet r stsKey h of
        (Inl err, h) \<Rightarrow> Some (quorum_failed err, h)
      | (Inr sts, h) \<Rightarrow>
          (let size = (if spec_IncrementalQuorumRecovery (ts_Spec ts)
                       then int32 (sts_StatusReplicas sts + 1) else spec_Replicas (ts_Spec ts))
           in case ScaleStatefulSet r stsKey size h of
                (Some err, h) \<Rightarrow> Some (quorum_failed err, h)
              | (None, h) \<Rightarrow>
                  resize_configmap (\<lambda>_. (ConditionReasonQuorumUpgraded, size, None)) r ts cm size h))"

section \<open>Probing\<close>

text \<open>The members in the order of their names.\<close>

definition node_endpoints :: "Quorum \<Rightarrow> NodeEndpoint list" where
  "node_endpoints quorum =
     map (\<lambda>key. \<lparr>ne_PodName = key,
                 ne_IP = (case map_of (Nodes quorum) key of None \<Rightarrow> [] | Some ip \<Rightarrow> ip)\<rparr>)
       (sort (map fst (Nodes quorum)))"

text \<open>Reading a Go map at a key it may not have.\<close>

definition log_of :: "(string \<times> string) list \<Rightarrow> string \<Rightarrow> string" where
  "log_of logs key = (case map_of logs key of None \<Rightarrow> [] | Some l \<Rightarrow> l)"

definition status_of :: "(string \<times> NodeStatus) list \<Rightarrow> string \<Rightarrow> NodeStatus" where
  "status_of nodesStatus key =
     (case map_of nodesStatus key of None \<Rightarrow> node_status [] | Some s \<Rightarrow> s)"

fun fetch_logs ::
  "Reconciler \<Rightarrow> TypesenseCluster \<Rightarrow> NodeEndpoint list \<Rightarrow> (string \<times> string) list \<Rightarrow> history
     \<Rightarrow> (string \<times> string) list \<times> history" where
  "fetch_logs r ts [] logs h = (logs, h)"
| "fetch_logs r ts (ne # nes) logs h =
     (case getPodLogs r ne (ts_Namespace ts) h of
        (res, h) \<Rightarrow>
          fetch_logs r ts nes
            (AList.update (ne_PodName ne) (case res of Inl err \<Rightarrow> [] | Inr l \<Rightarrow> l) logs) h)"

fun fetch_statuses ::
  "Reconciler \<Rightarrow> HttpClient \<Rightarrow> TypesenseCluster \<Rightarrow> Secret \<Rightarrow> (string \<times> string) list \<Rightarrow> NodeEndpoint list
     \<Rightarrow> int \<Rightarrow> (string \<times> NodeStatus) list \<Rightarrow> history
     \<Rightarrow> int \<times> (string \<times> NodeStatus) list \<times> history" where
  "fetch_statuses r httpClient ts secret logs [] queuedWrites nodesStatus h =
     (queuedWrites, nodesStatus, h)"
| "fetch_statuses r httpClient ts secret logs (ne # nes) queuedWrites nodesStatus h =
     (case getNodeStatus r httpClient ne ts secret (log_of logs (ne_PodName ne)) h of
        (status, h) \<Rightarrow>
          fetch_statuses r httpClient ts secret logs nes
            (if QueuedWrites status > 0 \<and> queuedWrites < QueuedWrites status
             then QueuedWrites status else queuedWrites)
            (AList.update (ne_PodName ne) status nodesStatus) h)"

text \<open>The name of the pod a member is: the prefix is cut out and put back.\<close>

definition podObjectKey :: "TypesenseCluster \<Rightarrow> string \<Rightarrow> ObjectKey" where
  "podObjectKey ts key =
     (let podPrefix = ClusterStatefulSet (ts_Name ts);
          podIndex = ReplaceAll key (podPrefix @ ''-'') []
      in \<lparr>key_Namespace = ts_Namespace ts, key_Name = podPrefix @ ''-'' @ podIndex\<rparr>)"

text \<open>The left value is the error the loop returns with.\<close>

fun update_gates ::
  "Reconciler \<Rightarrow> HttpClient \<Rightarrow> TypesenseCluster \<Rightarrow> (string \<times> string) list
     \<Rightarrow> (string \<times> NodeStatus) list \<Rightarrow> NodeEndpoint list \<Rightarrow> bool \<Rightarrow> (string \<times> bool) list \<Rightarrow> history
     \<Rightarrow> (error + bool \<times> (string \<times> bool) list) \<times> history" where
  "update_gates r httpClient ts logs nodesStatus [] clusterNeedsAttention nodesHealth h =
     (Inr (clusterNeedsAttention, nodesHealth), h)"
| "update_gates r httpClient ts logs nodesStatus (ne # nes) clusterNeedsAttention nodesHealth h =
     (let key = ne_PodName ne; nodeStatus = status_of nodesStatus key
      in case calculatePodReadinessGate r httpClient ne nodeStatus ts (log_of logs key) h of
           (condition, h) \<Rightarrow>
             (let clusterNeedsAttention =
                    (if pc_Reason condition = nodeNotRecoverable then True else clusterNeedsAttention);
                  nodesHealth =
                    AList.update key
                      (case ParseBool (status_string (pc_Status condition)) of
                         None \<Rightarrow> False | Some b \<Rightarrow> b) nodesHealth
              in case updatePodReadinessGate r (podObjectKey ts key) condition h of
                   (Some err, h) \<Rightarrow> (Inl err, h)
                 | (None, h) \<Rightarrow>
                     update_gates r httpClient ts logs nodesStatus nes clusterNeedsAttention
                       nodesHealth h))"

section \<open>The reconciliation\<close>

definition count_healthy :: "(string \<times> bool) list \<Rightarrow> int" where
  "count_healthy nodesHealth = int (length (filter snd nodesHealth))"

text \<open>Wait for the bootstrap values to be replaced, then downgrade.\<close>

definition wait_or_downgrade ::
  "Reconciler \<Rightarrow> TypesenseCluster \<Rightarrow> ConfigMap \<Rightarrow> ObjectKey \<Rightarrow> int \<Rightarrow> int \<Rightarrow> history
     \<Rightarrow> (quorum_result \<times> history) option" where
  "wait_or_downgrade r ts cm stsKey healthyNodes minRequiredNodes h =
     (case hasBootstrapValues ts cm of
        Inl err \<Rightarrow> Some (quorum_failed err, h)
      | Inr hbv \<Rightarrow>
          if hbv then Some ((ConditionReasonQuorumNotReadyWaitATerm, 0, None), h)
          else downgradeQuorum r ts cm stsKey healthyNodes minRequiredNodes h)"

text \<open>The decisions after the readiness gates have been updated (lines 157 to 226).\<close>

definition evaluate_quorum ::
  "Reconciler \<Rightarrow> TypesenseCluster \<Rightarrow> ObjectKey \<Rightarrow> StatefulSet \<Rightarrow> Quorum \<Rightarrow> ClusterStatus
     \<Rightarrow> (string \<times> NodeStatus) list \<Rightarrow> int \<Rightarrow> int \<Rightarrow> bool \<Rightarrow> (string \<times> bool) list \<Rightarrow> history
     \<Rightarrow> (quorum_result \<times> history) option" where
  "evaluate_quorum r ts stsKey sts quorum clusterStatus nodesStatus queuedWrites
       healthyWriteLagThreshold clusterNeedsAttention nodesHealth h =
     (if clusterNeedsAttention
      then Some ((ConditionReasonQuorumNeedsAttentionMemoryOrDiskIssue, 0, None), h)
      else
        let minRequiredNodes = MinRequiredNodes quorum;
            availableNodes = AvailableNodes quorum;
            healthyNodes = count_healthy nodesHealth
        in if queuedWrites > healthyWriteLagThreshold \<and> healthyNodes > 0
           then Some ((ConditionReasonQuorumNeedsAttentionClusterIsLagging, 0, None), h)
           else if clusterStatus = ClusterStatusElectionDeadlock
           then wait_or_downgrade r ts (NodesListConfigMap quorum) stsKey
                  (int32 healthyNodes) (int32 minRequiredNodes) h
           else if clusterStatus = ClusterStatusNotReady \<and> availableNodes = 1 then
             let podName = ClusterStatefulSet (ts_Name ts) @ ''-'' @ Itoa 0;
                 state = State (status_of nodesStatus podName)
             in if state = ErrorState \<or> state = UnreachableState then do {
                  (err, h) \<leftarrow> PurgeStatefulSetPods r sts ts h;
                  Some ((ConditionReasonQuorumNotReady, 0, err), h)
                }
                else Some ((ConditionReasonQuorumNotReadyWaitATerm, 0, None), h)
           else if clusterStatus = ClusterStatusNotReady \<and> minRequiredNodes > healthyNodes
           then Some ((ConditionReasonQuorumNotReadyWaitATerm, 0, None), h)
           else do {
             growing \<leftarrow> (if clusterStatus = ClusterStatusOK
                        then do { n \<leftarrow> sts_Replicas sts; Some (n < spec_Replicas (ts_Spec ts)) }
                        else Some False);
             if growing then
               if queuedWrites > 0 then Some ((ConditionReasonQuorumQueuedWrites, 0, None), h)
               else upgradeQuorum r ts (NodesListConfigMap quorum) stsKey h
             else if healthyNodes < minRequiredNodes
             then Some ((ConditionReasonQuorumNotReady, 0, None), h)
             else Some ((ConditionReasonQuorumReady, 0, None), h)
           })"

text \<open>From the HTTP client on (lines 53 to 226): the members are known and are enough.\<close>

definition probe_quorum ::
  "Reconciler \<Rightarrow> TypesenseCluster \<Rightarrow> Secret \<Rightarrow> ObjectKey \<Rightarrow> StatefulSet \<Rightarrow> Quorum \<Rightarrow> history
     \<Rightarrow> (quorum_result \<times> history) option" where
  "probe_quorum r ts secret stsKey sts quorum h =
     (case getHttpClient r ts h of
        (Inl err, h) \<Rightarrow> Some (quorum_failed err, h)
      | (Inr httpClient, h) \<Rightarrow>
          (case getHealthyWriteLagThreshold r ts h of
             (healthyWriteLagThreshold, h) \<Rightarrow>
               (let nodeEndpoints = node_endpoints quorum
                in case fetch_logs r ts nodeEndpoints [] h of
                     (logs, h) \<Rightarrow>
                       (case fetch_statuses r httpClient ts secret logs nodeEndpoints 0 [] h of
                          (queuedWrites, nodesStatus, h) \<Rightarrow>
                            (let clusterStatus = getClusterStatus nodesStatus
                             in if clusterStatus = ClusterStatusSplitBrain
                                then wait_or_downgrade r ts (NodesListConfigMap quorum) stsKey
                                       (sts_StatusReadyReplicas sts) (int32 (MinRequiredNodes quorum)) h
                                else case update_gates r httpClient ts logs nodesStatus nodeEndpoints
                                            False [] h of
                                       (Inl err, h) \<Rightarrow> Some (quorum_failed err, h)
                                     | (Inr (clusterNeedsAttention, nodesHealth), h) \<Rightarrow>
                                         evaluate_quorum r ts stsKey sts quorum clusterStatus
                                           nodesStatus queuedWrites healthyWriteLagThreshold
                                           clusterNeedsAttention nodesHealth h)))))"

text \<open>The pods that cannot be scheduled are restarted; a failure to list them is ignored (lines 44 to 47).\<close>

definition restart_unscheduled ::
  "Reconciler \<Rightarrow> StatefulSet \<Rightarrow> TypesenseCluster \<Rightarrow> history \<Rightarrow> (unit \<times> history) option" where
  "restart_unscheduled r sts ts h = do {
     (unscheduled, h) \<leftarrow> GetUnscheduledPods r sts h;
     let unscheduledPods = (case unscheduled of Inl err \<Rightarrow> [] | Inr pods \<Rightarrow> pods);
     Some ((), if length unscheduledPods > 0 then RestartUnscheduledPods r unscheduledPods ts h else h)
   }"

definition ReconcileQuorum ::
  "Reconciler \<Rightarrow> TypesenseCluster \<Rightarrow> Secret \<Rightarrow> ObjectKey \<Rightarrow> history
     \<Rightarrow> (quorum_result \<times> history) option" where
  "ReconcileQuorum r ts secret stsKey h =
     (case GetFreshStatefulSet r stsKey h of
        (Inl err, h) \<Rightarrow> Some (quorum_failed err, h)
      | (Inr sts, h) \<Rightarrow> do {
          (quorum, h) \<leftarrow> getQuorum r ts sts h;
          case quorum of
            Inl err \<Rightarrow> Some (quorum_failed err, h)
          | Inr quorum \<Rightarrow> do {
              (_, h) \<leftarrow> restart_unscheduled r sts ts h;
              if AvailableNodes quorum < MinRequiredNodes quorum
              then Some ((ConditionReasonStatefulSetNotReady, 0, None), h)
              else probe_quorum r ts secret stsKey sts quorum h
            }
        })"

section \<open>Footprints\<close>

lemma delete_pods_writes_only: "delete_pods r pods h = (e, h') \<Longrightarrow> emits (writes_only {KPod}) h h'"
  by (drule delete_pods_emits, erule emits_mono) auto

lemma PurgeStatefulSetPods_emits: "run_ok (writes_only {KPod}) h (PurgeStatefulSetPods r sts ts h)"
  unfolding PurgeStatefulSetPods_def Eventf_def
  by (auto intro!: run_ok_seq [OF delete_pods_writes_only] run_ok_if run_ok_sum run_ok_option
      run_ok_bind [OF run_ok_read_writes_only [OF list_pods_reads]])

lemma GetUnscheduledPods_reads: "run_ok is_read h (GetUnscheduledPods r sts h)"
  unfolding GetUnscheduledPods_def
  by (auto intro!: run_ok_rules run_ok_bind [OF list_pods_reads])

lemma RestartUnscheduledPods_emits: "emits (writes_only {KPod}) h (RestartUnscheduledPods r pods ts h)"
proof -
  obtain b h' where *: "restart_pods r pods False h = (b, h')" by fastforce
  have "emits (writes_only {KPod}) h h'"
    using restart_pods_emits [OF *] by (rule emits_mono) auto
  with * show ?thesis by (auto simp: RestartUnscheduledPods_def Eventf_def)
qed

lemma restart_unscheduled_emits: "run_ok (writes_only {KPod}) h (restart_unscheduled r sts ts h)"
  unfolding restart_unscheduled_def Let_def
  by (intro run_ok_bind [OF run_ok_read_writes_only [OF GetUnscheduledPods_reads]])
    (auto intro: emits_trans RestartUnscheduledPods_emits)

lemma calculatePodReadinessGate_reads:
  "calculatePodReadinessGate r c n s ts l h = (x, h') \<Longrightarrow> emits is_read h h'"
  by (auto simp: calculatePodReadinessGate_def Let_def dest: getNodeHealth_reads
      split: prod.splits option.splits if_splits)

lemma updatePodReadinessGate_emits:
  "updatePodReadinessGate r key c h = (x, h') \<Longrightarrow> emits (writes_only {KPod}) h h'"
  by (auto simp: updatePodReadinessGate_def req_simps split: sum.splits)

lemma fetch_logs_reads: "fetch_logs r ts nes logs h = (x, h') \<Longrightarrow> emits is_read h h'"
proof (induction nes arbitrary: logs h)
  case (Cons ne nes)
  then have "emits is_read (h @ [ReqPodLogs (ts_Namespace ts) (ne_PodName ne)]) h'"
    by (auto simp: getPodLogs_def req_simps)
  then show ?case by (rule emits_trans [rotated]) simp
qed simp

lemma fetch_statuses_reads:
  "fetch_statuses r c ts s logs nes qw ns h = (x, y, h') \<Longrightarrow> emits is_read h h'"
proof (induction nes arbitrary: qw ns h)
  case (Cons ne nes)
  obtain st h1 where one: "getNodeStatus r c ne ts s (log_of logs (ne_PodName ne)) h = (st, h1)"
    by fastforce
  with Cons show ?case by (auto intro: emits_trans [OF getNodeStatus_reads [OF one]])
qed simp

lemma update_gates_emits:
  "update_gates r c ts logs ns nes b nh h = (x, h') \<Longrightarrow> emits (writes_only {KPod}) h h'"
proof (induction nes arbitrary: b nh h)
  case (Cons ne nes)
  let ?k = "ne_PodName ne"
  obtain cond h1 where one: "calculatePodReadinessGate r c ne (status_of ns ?k) ts (log_of logs ?k) h = (cond, h1)"
    by fastforce
  obtain e h2 where two: "updatePodReadinessGate r (podObjectKey ts ?k) cond h1 = (e, h2)" by fastforce
  have "emits (writes_only {KPod}) h h2"
    using emits_trans [OF emits_read_writes_only [OF calculatePodReadinessGate_reads [OF one]]
        updatePodReadinessGate_emits [OF two]] .
  moreover have "emits (writes_only {KPod}) h2 h'"
    using Cons one two by (auto simp: Let_def split: option.splits)
  ultimately show ?case by (rule emits_trans)
qed simp

section \<open>What a run may write\<close>

abbreviation minor :: "request \<Rightarrow> bool" where
  "minor \<equiv> writes_only {KPod, KConfigMap}"

abbreviation quorum_kinds :: "kind set" where
  "quorum_kinds \<equiv> {KPod, KConfigMap, KStatefulSet}"

lemma minor_KPod: "writes_only {KPod} q \<Longrightarrow> minor q"
  and minor_KConfigMap: "writes_only {KConfigMap} q \<Longrightarrow> minor q"
  and minor_quorum: "minor q \<Longrightarrow> writes_only quorum_kinds q"
  by (erule writes_only_mono; simp)+

lemma resize_configmap_emits: "run_ok minor h (resize_configmap f r ts cm n h)"
  unfolding resize_configmap_def
  by (intro run_ok_bind [OF run_ok_mono [OF updateConfigMap_emits]] run_ok_rules)
    (auto intro: minor_KConfigMap minor_KPod emits_trans emits_mono
      dest!: forcePodsConfigMapUpdate_emits)

lemma PurgeStatefulSetPods_minor: "run_ok minor h (PurgeStatefulSetPods r sts ts h)"
  by (rule run_ok_mono [OF PurgeStatefulSetPods_emits minor_KPod])

lemma update_gates_minor: "update_gates r c ts logs ns nes b nh h = (x, h') \<Longrightarrow> emits minor h h'"
  by (drule update_gates_emits) (erule emits_mono, erule minor_KPod)


section \<open>Readiness gates\<close>

lemma calculatePodReadinessGate_result:
  assumes "calculatePodReadinessGate r c ne st ts l h = (cond, h')"
  shows "pc_Type cond = QuorumReadinessGateCondition \<and> pc_Reason cond \<noteq> nodeNotRecoverable \<and>
     (pc_Status cond = ConditionTrue \<longleftrightarrow> pc_Reason cond = nodeHealthy) \<and>
     (pc_Status cond = ConditionTrue \<longleftrightarrow>
        (\<exists>hl. fst (getNodeHealth r c ne ts l h) = (hl, None) \<and> Ok hl))"
  using assms
  by (auto simp: calculatePodReadinessGate_def gate_reason_defs Let_def
      split: prod.splits option.splits if_splits)

lemma replace_conditions_eq:
  "replace_conditions cs c f acc =
     (f \<or> (\<exists>d \<in> set cs. pc_Type d = pc_Type c),
      acc @ (if f then filter (\<lambda>d. pc_Type d \<noteq> pc_Type c) cs
             else takeWhile (\<lambda>d. pc_Type d \<noteq> pc_Type c) cs @
               (if \<exists>d \<in> set cs. pc_Type d = pc_Type c then [c] else []) @
               filter (\<lambda>d. pc_Type d \<noteq> pc_Type c) (dropWhile (\<lambda>d. pc_Type d \<noteq> pc_Type c) cs)))"
  by (induction cs c f acc rule: replace_conditions.induct) auto

lemma updatedConditions_eq:
  "updatedConditions cs c =
     takeWhile (\<lambda>d. pc_Type d \<noteq> pc_Type c) cs @ c #
     filter (\<lambda>d. pc_Type d \<noteq> pc_Type c) (dropWhile (\<lambda>d. pc_Type d \<noteq> pc_Type c) cs)"
proof (cases "\<exists>d \<in> set cs. pc_Type d = pc_Type c")
  case False
  then have tw: "takeWhile (\<lambda>d. pc_Type d \<noteq> pc_Type c) cs = cs"
    and dw: "dropWhile (\<lambda>d. pc_Type d \<noteq> pc_Type c) cs = []"
    by (auto simp: takeWhile_eq_all_conv)
  with False show ?thesis by (simp add: updatedConditions_def replace_conditions_eq tw dw)
qed (simp add: updatedConditions_def replace_conditions_eq)

lemma filter_takeWhile_dropWhile:
  "filter P (takeWhile Q xs) @ filter P (dropWhile Q xs) = filter P xs"
  by (metis filter_append takeWhile_dropWhile_id)

lemma updatedConditions_spec:
  "filter (\<lambda>d. pc_Type d = pc_Type c) (updatedConditions cs c) = [c]"
  "filter (\<lambda>d. pc_Type d \<noteq> pc_Type c) (updatedConditions cs c) = filter (\<lambda>d. pc_Type d \<noteq> pc_Type c) cs"
proof -
  have "filter (\<lambda>d. pc_Type d = pc_Type c) (takeWhile (\<lambda>d. pc_Type d \<noteq> pc_Type c) cs) = []"
    by (auto simp: filter_empty_conv dest: set_takeWhileD)
  then show "filter (\<lambda>d. pc_Type d = pc_Type c) (updatedConditions cs c) = [c]"
    by (simp add: updatedConditions_eq filter_empty_conv)
  show "filter (\<lambda>d. pc_Type d \<noteq> pc_Type c) (updatedConditions cs c) = filter (\<lambda>d. pc_Type d \<noteq> pc_Type c) cs"
    using filter_takeWhile_dropWhile [of "\<lambda>d. pc_Type d \<noteq> pc_Type c" "\<lambda>d. pc_Type d \<noteq> pc_Type c" cs]
    by (simp add: updatedConditions_eq)
qed

lemma updatedConditions_idem: "updatedConditions (updatedConditions cs c) c = updatedConditions cs c"
proof -
  have "takeWhile (\<lambda>d. pc_Type d \<noteq> pc_Type c) (takeWhile (\<lambda>d. pc_Type d \<noteq> pc_Type c) cs @ c # ys) =
      takeWhile (\<lambda>d. pc_Type d \<noteq> pc_Type c) cs" for ys
    by (induction cs) auto
  moreover have "dropWhile (\<lambda>d. pc_Type d \<noteq> pc_Type c) (takeWhile (\<lambda>d. pc_Type d \<noteq> pc_Type c) cs @ c # ys) = c # ys" for ys
    by (induction cs) auto
  ultimately show ?thesis by (simp add: updatedConditions_eq)
qed

text \<open>Digits only: the index of a pod never holds the prefix of its name.\<close>

lemma nat_string_digits: "set (nat_string n) \<subseteq> {c. is_digit c}"
proof (induction n rule: nat_string.induct)
  case (1 n)
  have "is_digit (digit_char d)" if "d < 10" for d using that by (simp add: is_digit_def)
  with "1" show ?case by (subst nat_string.simps) auto
qed

lemma ReplaceAll_absent:
  assumes "c \<in> set old" and "c \<notin> set s"
  shows "ReplaceAll s old new = s"
  using assms(2)
proof (induction s)
  case Nil
  then show ?case using assms(1) by (subst ReplaceAll.simps) (auto simp: prefix_def)
next
  case (Cons x xs)
  then have "\<not> prefix old (x # xs)" using assms(1) set_mono_prefix [of old "x # xs"] by auto
  with Cons assms(1) show ?case by (subst ReplaceAll.simps) auto
qed

lemma ReplaceAll_prefix:
  "old \<noteq> [] \<Longrightarrow> ReplaceAll (old @ s) old new = new @ ReplaceAll s old new"
  by (subst ReplaceAll.simps) simp

lemma podObjectKey_index:
  "podObjectKey ts (ClusterStatefulSet (ts_Name ts) @ ''-'' @ Itoa (int i)) =
     \<lparr>key_Namespace = ts_Namespace ts, key_Name = ClusterStatefulSet (ts_Name ts) @ ''-'' @ Itoa (int i)\<rparr>"
proof -
  let ?p = "ClusterStatefulSet (ts_Name ts) @ ''-''"
  have "CHR ''-'' \<notin> set (nat_string i)" using nat_string_digits [of i] by (auto simp: is_digit_def)
  then have "ReplaceAll (nat_string i) ?p [] = nat_string i"
    by (intro ReplaceAll_absent [of "CHR ''-''"]) auto
  then have "ReplaceAll (?p @ nat_string i) ?p [] = nat_string i"
    using ReplaceAll_prefix [of ?p "nat_string i" "[]"] by simp
  then show ?thesis by (simp add: podObjectKey_def Itoa_def)
qed

section \<open>What is reported\<close>


lemma resize_configmap_reason:
  "resize_configmap f r ts cm n h = Some ((c, s, e), h') \<Longrightarrow>
     c = ConditionReasonQuorumNotReady \<or> (\<exists>k. f k = (c, s, e))"
  by (auto simp: resize_configmap_def quorum_failed_def elim!: bind_SomeE
      split: sum.split_asm if_split_asm prod.split_asm)

lemma downgradeQuorum_reason:
  "downgradeQuorum r ts cm key hn m h = Some ((c, s, e), h') \<Longrightarrow>
     c = ConditionReasonQuorumNotReady \<or> c = ConditionReasonQuorumDowngraded"
  by (auto simp: downgradeQuorum_def quorum_failed_def Let_def
      dest!: resize_configmap_reason elim!: bind_SomeE
      split: sum.split_asm if_split_asm prod.split_asm option.split_asm)

lemma upgradeQuorum_reason:
  "upgradeQuorum r ts cm key h = Some ((c, s, e), h') \<Longrightarrow>
     c = ConditionReasonQuorumNotReady \<or> c = ConditionReasonQuorumUpgraded"
  by (auto simp: upgradeQuorum_def quorum_failed_def Let_def
      dest!: resize_configmap_reason elim!: bind_SomeE
      split: sum.split_asm prod.split_asm option.split_asm)

lemma wait_or_downgrade_reason:
  "wait_or_downgrade r ts cm key hn m h = Some ((c, s, e), h') \<Longrightarrow>
     c \<in> {ConditionReasonQuorumNotReady, ConditionReasonQuorumDowngraded, ConditionReasonQuorumNotReadyWaitATerm}"
  by (auto simp: wait_or_downgrade_def quorum_failed_def dest!: downgradeQuorum_reason
      split: sum.split_asm if_split_asm)

lemma evaluate_quorum_Ready:
  assumes "evaluate_quorum r ts key sts quorum st ns qw th b nh h = Some ((ConditionReasonQuorumReady, s, e), h')"
  shows "\<not> b \<and> s = 0 \<and> e = None \<and> h' = h \<and> (qw \<le> th \<or> count_healthy nh = 0) \<and>
     st \<noteq> ClusterStatusElectionDeadlock \<and> MinRequiredNodes quorum \<le> count_healthy nh \<and>
     (st = ClusterStatusOK \<longrightarrow> (\<exists>n. sts_Replicas sts = Some n \<and> spec_Replicas (ts_Spec ts) \<le> n)) \<and>
     (st = ClusterStatusNotReady \<longrightarrow> AvailableNodes quorum \<noteq> 1)"
proof -
  have 1: "wait_or_downgrade r ts cm key hn m h \<noteq> Some ((ConditionReasonQuorumReady, s, e), h')" for cm hn m
    using wait_or_downgrade_reason [of r ts cm key hn m h ConditionReasonQuorumReady s e h']
    by (auto simp: reason_defs)
  have 2: "upgradeQuorum r ts cm key h \<noteq> Some ((ConditionReasonQuorumReady, s, e), h')" for cm
    using upgradeQuorum_reason [of r ts cm key h ConditionReasonQuorumReady s e h']
    by (auto simp: reason_defs)
  have 3: "ConditionReasonQuorumReady \<notin> {ConditionReasonQuorumNeedsAttentionMemoryOrDiskIssue,
     ConditionReasonQuorumNeedsAttentionClusterIsLagging, ConditionReasonQuorumNotReady,
     ConditionReasonQuorumNotReadyWaitATerm, ConditionReasonQuorumQueuedWrites}"
    by (simp add: reason_defs)
  have "count_healthy nh \<ge> 0" by (simp add: count_healthy_def)
  with assms 1 2 3 show ?thesis
    by (auto simp: evaluate_quorum_def Let_def elim!: bind_SomeE
        split: if_split_asm)
qed

lemma evaluate_quorum_not_MemoryOrDisk:
  "evaluate_quorum r ts key sts quorum st ns qw th False nh h = Some ((c, s, e), h') \<Longrightarrow>
     c \<noteq> ConditionReasonQuorumNeedsAttentionMemoryOrDiskIssue"
  by (auto simp: evaluate_quorum_def Let_def reason_defs
        dest!: wait_or_downgrade_reason upgradeQuorum_reason elim!: bind_SomeE
        split: if_split_asm)

lemma update_gates_flag:
  "update_gates r c ts logs ns nes b nh h = (Inr (b', nh'), h') \<Longrightarrow> b' = b"
proof (induction nes arbitrary: b nh h)
  case (Cons ne nes)
  let ?k = "ne_PodName ne"
  obtain cond h1 where one: "calculatePodReadinessGate r c ne (status_of ns ?k) ts (log_of logs ?k) h = (cond, h1)"
    by fastforce
  have "pc_Reason cond \<noteq> nodeNotRecoverable" using calculatePodReadinessGate_result [OF one] by blast
  with Cons one show ?case
    by (auto simp: Let_def split: prod.split_asm option.split_asm)
qed simp

lemma update_gates_keys:
  "update_gates r c ts logs ns nes b nh h = (Inr (b', nh'), h') \<Longrightarrow>
     distinct (map fst nh) \<Longrightarrow>
     distinct (map fst nh') \<and> fst ` set nh' = fst ` set nh \<union> ne_PodName ` set nes"
  by (induction nes arbitrary: b nh h)
    (auto simp: Let_def dom_update distinct_update split: prod.split_asm option.split_asm)

lemma fetch_statuses_keys:
  "fetch_statuses r c ts s logs nes qw ns h = (qw', ns', h') \<Longrightarrow> distinct (map fst ns) \<Longrightarrow>
     distinct (map fst ns') \<and> fst ` set ns' = fst ` set ns \<union> ne_PodName ` set nes"
  by (induction nes arbitrary: qw ns h)
    (auto simp: dom_update distinct_update split: prod.split_asm)

lemma fetch_statuses_queued:
  "fetch_statuses r c ts s logs nes qw ns h = (qw', ns', h') \<Longrightarrow>
     qw \<le> qw' \<and> (qw' = qw \<or> 0 < qw')"
  by (induction nes arbitrary: qw ns h) (force split: prod.split_asm if_split_asm)+

text \<open>The recorded queue is that of the member with the most queued writes.\<close>

lemma fetch_statuses_max:
  assumes "fetch_statuses r c ts s logs nes qw ns h = (qw', ns', h')"
    and "distinct (map ne_PodName nes)" and "fst ` set ns \<inter> ne_PodName ` set nes = {}"
    and "0 \<le> qw" and "\<forall>(k, st) \<in> set ns. QueuedWrites st \<le> qw"
  shows "\<forall>(k, st) \<in> set ns'. QueuedWrites st \<le> qw'"
  using assms
proof (induction nes arbitrary: qw ns h)
  case (Cons ne nes)
  obtain st h1 where one: "getNodeStatus r c ne ts s (log_of logs (ne_PodName ne)) h = (st, h1)"
    by fastforce
  let ?ns = "AList.update (ne_PodName ne) st ns"
  let ?qw = "if QueuedWrites st > 0 \<and> qw < QueuedWrites st then QueuedWrites st else qw"
  have "fetch_statuses r c ts s logs nes ?qw ?ns h1 = (qw', ns', h')" using Cons.prems(1) one by simp
  moreover have "fst ` set ?ns \<inter> ne_PodName ` set nes = {}"
    using Cons.prems(2,3) by (auto simp: dom_update)
  moreover have "\<forall>(k, st) \<in> set ?ns. QueuedWrites st \<le> ?qw"
    using Cons.prems(4,5) by (auto dest!: update_in_set)
  ultimately show ?case using Cons.IH Cons.prems(2,4) by auto
qed auto

lemma node_endpoints_names: "map ne_PodName (node_endpoints q) = sort (map fst (Nodes q))"
  by (simp add: node_endpoints_def o_def)

lemma node_endpoints_IP:
  assumes "ne \<in> set (node_endpoints q)" and "distinct (map fst (Nodes q))"
  shows "(ne_PodName ne, ne_IP ne) \<in> set (Nodes q)"
proof -
  from assms(1) obtain ip where "(ne_PodName ne, ip) \<in> set (Nodes q)"
    by (auto simp: node_endpoints_def)
  with assms show ?thesis by (auto simp: node_endpoints_def map_of_is_SomeI)
qed

end
