(* ===== verification/Admin_Secret.thy ===== *)
theory Admin_Secret
  imports Conditions
begin

text \<open>
  The admin API key: \<^verbatim>\<open>typesensecluster_secret.go\<close>. A secret the user names is only
  read; otherwise the operator creates an immutable secret with a random token, once.
\<close>

definition getAdminApiKeyObjectKey :: "TypesenseCluster \<Rightarrow> ObjectKey" where
  "getAdminApiKeyObjectKey ts =
     (case spec_AdminApiKey (ts_Spec ts) of
        Some name \<Rightarrow> \<lparr>key_Namespace = ts_Namespace ts, key_Name = name\<rparr>
      | None \<Rightarrow> \<lparr>key_Namespace = ts_Namespace ts,
                  key_Name = ClusterAdminApiKeySecret (ts_Name ts)\<rparr>)"

text \<open>The object the sources build, before the owner reference is set.\<close>

definition adminSecret :: "TypesenseCluster \<Rightarrow> ObjectKey \<Rightarrow> string \<Rightarrow> Secret" where
  "adminSecret ts secretObjectKey token =
     \<lparr>sec_meta = getObjectMeta ts (Some (key_Name secretObjectKey)) fmempty,
      sec_Type = ''Opaque'', sec_Immutable = Some True,
      sec_Data = fmap_of_list [(ClusterAdminApiKeySecretKeyName, token)]\<rparr>"

definition createAdminApiKey ::
  "Reconciler \<Rightarrow> ObjectKey \<Rightarrow> TypesenseCluster \<Rightarrow> history \<Rightarrow> (error + Secret) \<times> history" where
  "createAdminApiKey r secretObjectKey ts h =
     (case generateToken r h of
        (Inl err, h) \<Rightarrow> (Inl err, h)
      | (Inr token, h) \<Rightarrow>
          (let secret = adminSecret ts secretObjectKey token
           in case ext_SetControllerReference r ''TypesenseCluster'' (ts_meta ts) (sec_meta secret) of
                Inl err \<Rightarrow> (Inl err, h)
              | Inr owners \<Rightarrow>
                  Create r Secrets
                    (secret\<lparr>sec_meta := (sec_meta secret)\<lparr>OwnerReferences := owners\<rparr>\<rparr>) h))"

definition ReconcileSecret ::
  "Reconciler \<Rightarrow> TypesenseCluster \<Rightarrow> history \<Rightarrow> (error + Secret) \<times> history" where
  "ReconcileSecret r ts h =
     (let secretObjectKey = getAdminApiKeyObjectKey ts
      in case Get r Secrets secretObjectKey h of
           (Inr secret, h) \<Rightarrow> (Inr secret, h)
         | (Inl err, h) \<Rightarrow>
             if IsNotFound err \<and> spec_AdminApiKey (ts_Spec ts) = None
             then createAdminApiKey r secretObjectKey ts h
             else (Inl err, h))"

section \<open>What a run does\<close>

lemma generateToken_reads: "generateToken r h = (x, h') \<Longrightarrow> h' = h @ [ReqRand 256]"
  by (auto simp: generateToken_def req_simps split: sum.splits)

lemma createAdminApiKey_cases:
  assumes "createAdminApiKey r key ts h = (x, h')"
  shows "(\<exists>e. x = Inl e \<and> h' = h @ [ReqRand 256]) \<or>
     (\<exists>token owners s. on_rand r h 256 = Inr token \<and>
        s = (adminSecret ts key (EncodeToString token))
              \<lparr>sec_meta := (sec_meta (adminSecret ts key (EncodeToString token)))\<lparr>OwnerReferences := owners\<rparr>\<rparr> \<and>
        x = on_create (api_Secret r) (h @ [ReqRand 256]) s \<and>
        h' = h @ [ReqRand 256, ReqCreate (OSecret s)])"
  using assms
  by (auto simp: createAdminApiKey_def generateToken_def req_simps Let_def split: sum.splits prod.splits)

text \<open>The phase creates secrets and changes nothing else; no secret is ever changed or deleted.\<close>

definition creates_secret :: "request \<Rightarrow> bool" where
  "creates_secret q \<longleftrightarrow> is_read q \<or> (\<exists>s. q = ReqCreate (OSecret s))"

lemma ReconcileSecret_creates:
  "ReconcileSecret r ts h = (x, h') \<Longrightarrow> emits creates_secret h h'"
  by (auto simp: ReconcileSecret_def req_simps Let_def emits_def creates_secret_def
      dest!: createAdminApiKey_cases split: sum.splits if_splits)

interpretation secret_phase: operation "\<lambda>h. Some (ReconcileSecret r ts h)" creates_secret for r ts
  by unfold_locales (auto simp: run_ok_def intro: ReconcileSecret_creates)

end
