(* ===== verification/StatefulSet_Reconcile.thy ===== *)
theory StatefulSet_Reconcile
  imports Quorum Admin_Secret
begin

text \<open>
  Building, creating and updating the statefulset: \<^verbatim>\<open>typesensecluster_statefulset.go\<close>
  (the rest of its operations are in \<^verbatim>\<open>StatefulSet_Ops\<close>) and
  \<^verbatim>\<open>typesensecluster_statefulset_hash.go\<close>. The structure hash and the digest of it come
  from libraries and are parameters of the receiver.
\<close>

section \<open>Constants\<close>

definition metricsPort :: int where "metricsPort = 9100"
definition hashAnnotationKey :: string where
  "hashAnnotationKey = ''ts.opentelekomcloud.com/pod-template-hash''"
definition readLagAnnotationKey :: string where
  "readLagAnnotationKey = ''ts.opentelekomcloud.com/read-lag-threshold''"
definition writeLagAnnotationKey :: string where
  "writeLagAnnotationKey = ''ts.opentelekomcloud.com/write-lag-threshold''"
definition restartPodsAnnotationKey :: string where
  "restartPodsAnnotationKey = ''kubectl.kubernetes.io/restartedAt''"
definition rancherDomainAnnotationKey :: string where
  "rancherDomainAnnotationKey = ''cattle.io''"

lemmas annotation_key_defs = hashAnnotationKey_def readLagAnnotationKey_def writeLagAnnotationKey_def
  restartPodsAnnotationKey_def rancherDomainAnnotationKey_def

section \<open>The template hash\<close>

fun additional_configuration ::
  "Reconciler \<Rightarrow> TypesenseCluster \<Rightarrow> EnvFromSource list \<Rightarrow> (string, strmap) fmap \<Rightarrow> history
     \<Rightarrow> (error + (string, strmap) fmap) \<times> history" where
  "additional_configuration r ts [] additionalConfData h = (Inr additionalConfData, h)"
| "additional_configuration r ts (ConfigMapRef name # acs) additionalConfData h =
     (case Get r ConfigMaps \<lparr>key_Namespace = ts_Namespace ts, key_Name = name\<rparr> h of
        (Inl err, h) \<Rightarrow> (Inl err, h)
      | (Inr cm, h) \<Rightarrow>
          additional_configuration r ts acs
            (fmupd (Name (cm_meta cm)) (cm_Data cm) additionalConfData) h)"
| "additional_configuration r ts (SecretRef name # acs) additionalConfData h =
     additional_configuration r ts acs additionalConfData h"

text \<open>
  The template's annotations are hashed as they are: the statement that would remove the old hash
  only runs when there are no annotations at all.
\<close>

definition buildStatefulSetHash ::
  "Reconciler \<Rightarrow> StatefulSet \<Rightarrow> TypesenseCluster \<Rightarrow> history \<Rightarrow> ((error + string) \<times> history) option" where
  "buildStatefulSetHash r sts ts h =
     (let stsTemplate = sts_Template sts;
          annotations = (if Annotations (pt_meta stsTemplate) = fmempty
                         then fmdrop hashAnnotationKey (Annotations (pt_meta stsTemplate))
                         else Annotations (pt_meta stsTemplate));
          podTemplate = pt_spec stsTemplate
      in case additional_configuration r ts (GetAdditionalServerConfiguration (ts_Spec ts)) fmempty h of
           (Inl err, h) \<Rightarrow> Some (Inl err, h)
         | (Inr additionalConfData, h) \<Rightarrow> do {
             c0 \<leftarrow> index (ps_Containers podTemplate) 0;
             c1 \<leftarrow> index (ps_Containers podTemplate) 1;
             c2 \<leftarrow> index (ps_Containers podTemplate) 2;
             case ext_Hash r
               \<lparr>StsSpecAnnotations = annotations, PodSpecTemplate = podTemplate,
                TypesenseContainerResources = c_Resources c0,
                MetricsContainerResources = c_Resources c1,
                HealthcheckContainerResources = c_Resources c2,
                AdditionalConfigurationData = additionalConfData\<rparr> of
               Inl err \<Rightarrow> Some (Inl err, h)
             | Inr x \<Rightarrow> Some (Inr (ext_Sha256Hex r (Itoa (int x))), h)
           })"

section \<open>Building the statefulset\<close>

definition env_value :: "string \<Rightarrow> string \<Rightarrow> EnvVar" where
  "env_value name v = \<lparr>env_Name = name, env_Value = v, env_ValueFrom = None\<rparr>"

definition env_from :: "string \<Rightarrow> EnvVarSource \<Rightarrow> EnvVar" where
  "env_from name src = \<lparr>env_Name = name, env_Value = [], env_ValueFrom = Some src\<rparr>"

definition mount :: "string \<Rightarrow> string \<Rightarrow> bool \<Rightarrow> VolumeMount" where
  "mount path name ro = \<lparr>vm_Name = name, vm_MountPath = path, vm_SubPath = [], vm_ReadOnly = ro\<rparr>"

definition api_key_env :: "TypesenseCluster \<Rightarrow> EnvVar" where
  "api_key_env ts = env_from ''TYPESENSE_API_KEY''
     (SecretKeyRef ClusterAdminApiKeySecretKeyName (key_Name (getAdminApiKeyObjectKey ts)))"

definition typesense_container :: "TypesenseCluster \<Rightarrow> Container" where
  "typesense_container ts = (let spec = ts_Spec ts in
     \<lparr>c_Name = ''typesense'', c_Image = spec_Image spec, c_ImagePullPolicy = ''IfNotPresent'',
      c_SecurityContext = GetTypesenseSecurityContext spec,
      c_Ports = [\<lparr>cp_Name = ''http'', cp_ContainerPort = int32 (spec_ApiPort spec)\<rparr>],
      c_Env =
        [api_key_env ts,
         env_value ''TYPESENSE_NODES'' ''/usr/share/typesense/nodes'',
         env_value ''TYPESENSE_DATA_DIR'' ''/usr/share/typesense/data'',
         env_value ''TYPESENSE_API_PORT'' (Itoa (spec_ApiPort spec)),
         env_value ''TYPESENSE_PEERING_PORT'' (Itoa (spec_PeeringPort spec)),
         env_from ''TYPESENSE_PEERING_ADDRESS'' (FieldRef ''status.podIP''),
         env_value ''TYPESENSE_ENABLE_CORS'' (FormatBool (spec_EnableCors spec)),
         env_value ''TYPESENSE_CORS_DOMAINS'' (GetCorsDomains spec),
         env_value ''TYPESENSE_RESET_PEERS_ON_ERROR'' (FormatBool (spec_ResetPeersOnError spec))],
      c_EnvFrom = GetAdditionalServerConfiguration spec,
      c_Resources = GetResources spec,
      c_VolumeMounts =
        [mount ''/usr/share/typesense'' ''nodeslist'' False,
         mount ''/usr/share/typesense/data'' ''data'' False]\<rparr>)"

definition metrics_container :: "TypesenseCluster \<Rightarrow> Container" where
  "metrics_container ts = (let spec = ts_Spec ts in
     \<lparr>c_Name = ''metrics-exporter'', c_Image = mes_Image (GetMetricsExporterSpecs spec),
      c_ImagePullPolicy = ''IfNotPresent'', c_SecurityContext = GetMetricsSecurityContext spec,
      c_Ports = [\<lparr>cp_Name = ''metrics'', cp_ContainerPort = metricsPort\<rparr>],
      c_Env =
        [api_key_env ts,
         env_value ''LOG_LEVEL'' (Itoa (mes_LogLevel (GetMetricsExporterSpecs spec))),
         env_value ''TYPESENSE_PROTOCOL'' ''http'',
         env_value ''TYPESENSE_HOST'' ''localhost'',
         env_value ''TYPESENSE_PORT'' (Itoa (spec_ApiPort spec)),
         env_value ''METRICS_PORT'' (Itoa metricsPort),
         env_value ''TYPESENSE_CLUSTER'' (ts_Name ts)],
      c_EnvFrom = [], c_Resources = GetMetricsExporterResources spec, c_VolumeMounts = []\<rparr>)"

definition healthcheck_container :: "TypesenseCluster \<Rightarrow> Container" where
  "healthcheck_container ts = (let spec = ts_Spec ts in
     \<lparr>c_Name = ''healthcheck'', c_Image = hcs_Image (GetHealthCheckSidecarSpecs spec),
      c_ImagePullPolicy = ''IfNotPresent'', c_SecurityContext = GetHealthcheckSecurityContext spec,
      c_Ports = [\<lparr>cp_Name = ''healthcheck'', cp_ContainerPort = 8808\<rparr>],
      c_Env =
        [api_key_env ts,
         env_value ''LOG_LEVEL'' (Itoa (hcs_LogLevel (GetHealthCheckSidecarSpecs spec))),
         env_value ''TYPESENSE_PROTOCOL'' ''http'',
         env_value ''TYPESENSE_API_PORT'' (Itoa (spec_ApiPort spec)),
         env_value ''TYPESENSE_PEERING_PORT'' (Itoa (spec_PeeringPort spec)),
         env_value ''HEALTHCHECK_PORT'' (Itoa 8808),
         env_value ''TYPESENSE_NODES'' ''/usr/share/typesense/fallback'',
         env_value ''CLUSTER_NAMESPACE'' (ts_Namespace ts)],
      c_EnvFrom = [], c_Resources = GetHealthCheckSidecarResources spec,
      c_VolumeMounts = [mount ''/usr/share/typesense'' ''nodeslist'' True]\<rparr>)"

definition pod_volumes :: "TypesenseCluster \<Rightarrow> Volume list" where
  "pod_volumes ts =
     [\<lparr>vol_Name = ''nodeslist'',
       vol_Source = ConfigMapVolume (ClusterNodesConfigMap (ts_Name ts)) None\<rparr>,
      \<lparr>vol_Name = ''data'', vol_Source = PersistentVolumeClaim ''data''\<rparr>]"

definition pod_spec :: "TypesenseCluster \<Rightarrow> PodSpec" where
  "pod_spec ts = (let spec = ts_Spec ts in
     \<lparr>ps_SecurityContext = GetPodSecurityContext spec,
      ps_TerminationGracePeriodSeconds = Some (GetTerminationGracePeriodSeconds spec),
      ps_ReadinessGates = [QuorumReadinessGateCondition],
      ps_PriorityClassName = (case spec_PriorityClassName spec of None \<Rightarrow> [] | Some c \<Rightarrow> c),
      ps_ImagePullSecrets = spec_ImagePullSecrets spec,
      ps_RestartPolicy = [],
      ps_Containers = [typesense_container ts, metrics_container ts, healthcheck_container ts],
      ps_Affinity = spec_Affinity spec, ps_NodeSelector = spec_NodeSelector spec,
      ps_Tolerations = spec_Tolerations spec,
      ps_TopologySpreadConstraints = GetTopologySpreadConstraints spec (getLabels ts),
      ps_Volumes = pod_volumes ts\<rparr>)"

definition pod_annotations :: "TypesenseCluster \<Rightarrow> int \<Rightarrow> int \<Rightarrow> strmap" where
  "pod_annotations ts readLagThreshold writeLagThreshold =
     (let spec = ts_Spec ts;
          podAnnotations = fmap_of_list [(readLagAnnotationKey, Itoa readLagThreshold),
                                         (writeLagAnnotationKey, Itoa writeLagThreshold)];
          podAnnotations = fmadd podAnnotations (spec_PodAnnotations spec)
      in if spec_PodsInheritStatefulSetAnnotations spec
         then fmadd podAnnotations (spec_StatefulSetAnnotations spec) else podAnnotations)"

definition claim_templates :: "TypesenseCluster \<Rightarrow> StorageSpec \<Rightarrow> PersistentVolumeClaimTemplate list" where
  "claim_templates ts storage =
     [\<lparr>pvc_Name = ''data'', pvc_Labels = getLabels ts,
       pvc_Annotations = st_Annotations (GetStorage (ts_Spec ts)),
       pvc_AccessModes = [st_AccessMode (GetStorage (ts_Spec ts))],
       pvc_Storage = st_Size (GetStorage (ts_Spec ts)),
       pvc_StorageClassName = Some (st_StorageClassName storage)\<rparr>]"

text \<open>
  The object, before its template carries the hash. The claim template takes the address of the
  storage class of the specification's storage, which panics when no storage is specified.
\<close>

definition statefulset_object ::
  "ObjectKey \<Rightarrow> TypesenseCluster \<Rightarrow> strmap \<Rightarrow> StatefulSet option" where
  "statefulset_object key ts podAnnotations = do {
     let spec = ts_Spec ts;
     storage \<leftarrow> spec_Storage spec;
     Some \<lparr>sts_meta = getObjectMeta ts (Some (key_Name key)) (spec_StatefulSetAnnotations spec),
           sts_ServiceName = ClusterHeadlessService (ts_Name ts),
           sts_PodManagementPolicy =
             (if GetPodManagementPolicy spec = ''OrderedReady'' then ''OrderedReady'' else ''Parallel''),
           sts_Replicas = Some (spec_Replicas spec),
           sts_Selector = Some (getLabels ts),
           sts_Template = \<lparr>pt_meta = getObjectMeta ts (Some (key_Name key)) podAnnotations,
                           pt_spec = pod_spec ts\<rparr>,
           sts_VolumeClaimTemplates = claim_templates ts storage,
           sts_StatusReplicas = 0, sts_StatusReadyReplicas = 0\<rparr>
   }"

text \<open>Setting one annotation of the pod template.\<close>

definition annotate_template :: "string \<Rightarrow> string \<Rightarrow> StatefulSet \<Rightarrow> StatefulSet" where
  "annotate_template k v sts = sts\<lparr>sts_Template := (sts_Template sts)\<lparr>pt_meta :=
     (pt_meta (sts_Template sts))\<lparr>Annotations := fmupd k v (Annotations (pt_meta (sts_Template sts)))\<rparr>\<rparr>\<rparr>"

definition buildStatefulSet ::
  "Reconciler \<Rightarrow> ObjectKey \<Rightarrow> TypesenseCluster \<Rightarrow> history
     \<Rightarrow> ((error + StatefulSet) \<times> history) option" where
  "buildStatefulSet r key ts h =
     (case getHealthyLagThresholds r ts h of
        ((readLagThreshold, writeLagThreshold), h) \<Rightarrow> do {
          sts \<leftarrow> statefulset_object key ts (pod_annotations ts readLagThreshold writeLagThreshold);
          (base16Hash, h) \<leftarrow> buildStatefulSetHash r sts ts h;
          case base16Hash of
            Inl err \<Rightarrow> Some (Inl err, h)
          | Inr x \<Rightarrow> Some (Inr (annotate_template hashAnnotationKey x sts), h)
        })"

definition createStatefulSet ::
  "Reconciler \<Rightarrow> ObjectKey \<Rightarrow> TypesenseCluster \<Rightarrow> history
     \<Rightarrow> ((error + StatefulSet) \<times> history) option" where
  "createStatefulSet r key ts h = do {
     (built, h) \<leftarrow> buildStatefulSet r key ts h;
     case built of
       Inl err \<Rightarrow> Some (Inl err, h)
     | Inr sts \<Rightarrow>
         (case ext_SetControllerReference r ''TypesenseCluster'' (ts_meta ts) (sts_meta sts) of
            Inl err \<Rightarrow> Some (Inl err, h)
          | Inr owners \<Rightarrow>
              Some (Create r StatefulSets
                      (sts\<lparr>sts_meta := (sts_meta sts)\<lparr>OwnerReferences := owners\<rparr>\<rparr>) h))
   }"

section \<open>What has changed\<close>

datatype UpdateStatefulSetTrigger =
    SpecReplicasChanged
  | HashAnnotationChanged
  | PodAnnotationsChanged
  | StatefulSetAnnotationsChanged
  | SpecResourcesChanged
  | PodSecurityContextChanged
  | InvalidContainerCount
  | ContainerSecurityContextChanged
  | SpecTypesenseVersionChanged

text \<open>
  The condition on the replicas that both checks share. The second conjunct compares one reason
  with two different constants, so it is true of every reason.
\<close>

definition replicas_changed :: "int \<Rightarrow> TypesenseCluster \<Rightarrow> Condition \<Rightarrow> bool" where
  "replicas_changed n ts condition \<longleftrightarrow>
     n \<noteq> spec_Replicas (ts_Spec ts) \<and>
     (cond_Reason condition \<noteq> ConditionReasonQuorumDowngraded \<or>
      cond_Reason condition \<noteq> ConditionReasonQuorumQueuedWrites)"

text \<open>A conditional \<^verbatim>\<open>append\<close> to the triggers, as in the sources.\<close>

definition trigger_if :: "bool \<Rightarrow> UpdateStatefulSetTrigger \<Rightarrow> UpdateStatefulSetTrigger list" where
  "trigger_if b t = (if b then [t] else [])"

definition shouldUpdateStatefulSet ::
  "StatefulSet \<Rightarrow> StatefulSet option \<Rightarrow> TypesenseCluster
     \<Rightarrow> (bool \<times> bool \<times> UpdateStatefulSetTrigger list) option" where
  "shouldUpdateStatefulSet sts desired ts = do {
     condition \<leftarrow> getConditionReady ts;
     case condition of
       None \<Rightarrow> Some (False, False, [])
     | Some condition \<Rightarrow> do {
         n \<leftarrow> sts_Replicas sts;
         let scaleOnly = replicas_changed n ts condition;
         desired \<leftarrow> desired;
         let spec = ts_Spec ts;
         let hashChanged =
           (lookup (Annotations (pt_meta (sts_Template sts))) hashAnnotationKey \<noteq>
            lookup (Annotations (pt_meta (sts_Template desired))) hashAnnotationKey);
         let mutatedAnnotations = spec_IgnoreAnnotationsFromExternalMutations spec;
         let stsAnnotations = filterMap (Annotations (sts_meta sts))
                                (rancherDomainAnnotationKey # mutatedAnnotations);
         let podAnnotations = filterMap (Annotations (pt_meta (sts_Template sts)))
                                (restartPodsAnnotationKey # rancherDomainAnnotationKey # mutatedAnnotations);
         let podAnnotationsChanged = (podAnnotations \<noteq> Annotations (pt_meta (sts_Template desired)));
         let stsAnnotationsChanged = (stsAnnotations \<noteq> Annotations (sts_meta desired));
         let podSpec = pt_spec (sts_Template sts);
         let podSecurityChanged = (ps_SecurityContext podSpec \<noteq> GetPodSecurityContext spec);
         let invalidCount = (length (ps_Containers podSpec) < 3);
         c0 \<leftarrow> index (ps_Containers podSpec) 0;
         let changed0 = (c_SecurityContext c0 \<noteq> GetTypesenseSecurityContext spec);
         c1 \<leftarrow> index (ps_Containers podSpec) 1;
         let changed1 = (c_SecurityContext c1 \<noteq> GetMetricsSecurityContext spec);
         c2 \<leftarrow> index (ps_Containers podSpec) 2;
         let changed2 = (c_SecurityContext c2 \<noteq> GetHealthcheckSecurityContext spec);
         Some (hashChanged \<or> podAnnotationsChanged \<or> stsAnnotationsChanged \<or> podSecurityChanged \<or>
                 invalidCount \<or> changed0 \<or> changed1 \<or> changed2,
               scaleOnly,
               trigger_if scaleOnly SpecReplicasChanged @
               trigger_if hashChanged HashAnnotationChanged @
               trigger_if podAnnotationsChanged PodAnnotationsChanged @
               trigger_if stsAnnotationsChanged StatefulSetAnnotationsChanged @
               trigger_if podSecurityChanged PodSecurityContextChanged @
               trigger_if invalidCount InvalidContainerCount @
               trigger_if changed0 ContainerSecurityContextChanged @
               trigger_if changed1 ContainerSecurityContextChanged @
               trigger_if changed2 ContainerSecurityContextChanged)
       }
   }"

definition shouldEmergencyUpdateStatefulSet :: "StatefulSet \<Rightarrow> TypesenseCluster \<Rightarrow> bool option" where
  "shouldEmergencyUpdateStatefulSet sts ts = do {
     condition \<leftarrow> getConditionReady ts;
     case condition of
       None \<Rightarrow> Some False
     | Some condition \<Rightarrow> do {
         n \<leftarrow> sts_Replicas sts;
         let spec = ts_Spec ts;
         let podSpec = pt_spec (sts_Template sts);
         if replicas_changed n ts condition then Some True
         else do {
           c0 \<leftarrow> index (ps_Containers podSpec) 0;
           if c_Resources c0 \<noteq> GetResources spec then Some True
           else if ps_SecurityContext podSpec \<noteq> GetPodSecurityContext spec then Some True
           else if length (ps_Containers podSpec) < 3 then Some True
           else if c_SecurityContext c0 \<noteq> GetTypesenseSecurityContext spec then Some True
           else do {
             c1 \<leftarrow> index (ps_Containers podSpec) 1;
             if c_SecurityContext c1 \<noteq> GetMetricsSecurityContext spec then Some True
             else do {
               c2 \<leftarrow> index (ps_Containers podSpec) 2;
               Some (c_SecurityContext c2 \<noteq> GetHealthcheckSecurityContext spec)
             }
           }
         }
       }
   }"

section \<open>Updating\<close>

text \<open>
  The specification and the annotations are replaced, the rest of the object is kept; the pod
  template gets the time of the update, which restarts the pods, and the hash.
\<close>

definition update_object :: "StatefulSet \<Rightarrow> StatefulSet \<Rightarrow> string \<Rightarrow> StatefulSet" where
  "update_object sts desired now =
     (let sts' = sts\<lparr>sts_ServiceName := sts_ServiceName desired,
                     sts_PodManagementPolicy := sts_PodManagementPolicy desired,
                     sts_Replicas := sts_Replicas desired, sts_Selector := sts_Selector desired,
                     sts_Template := sts_Template desired,
                     sts_VolumeClaimTemplates := sts_VolumeClaimTemplates desired\<rparr>;
          sts' = sts'\<lparr>sts_meta := (sts_meta sts')\<lparr>Annotations := Annotations (sts_meta desired)\<rparr>\<rparr>;
          sts' = annotate_template restartPodsAnnotationKey now sts'
      in annotate_template hashAnnotationKey
           (lookup (Annotations (pt_meta (sts_Template desired))) hashAnnotationKey) sts')"

definition updateStatefulSet ::
  "Reconciler \<Rightarrow> StatefulSet \<Rightarrow> StatefulSet \<Rightarrow> history \<Rightarrow> (error + StatefulSet) \<times> history" where
  "updateStatefulSet r sts desired h =
     (case Now r h of (now, h) \<Rightarrow> Patch r StatefulSets sts (update_object sts desired now) h)"

section \<open>The reconciliation\<close>

text \<open>The reasons that put off a regular update.\<close>

definition skipConditions :: "string list" where
  "skipConditions =
     [ConditionReasonQuorumDowngraded, ConditionReasonQuorumUpgraded,
      ConditionReasonQuorumNeedsAttentionMemoryOrDiskIssue, ConditionReasonQuorumNotReady,
      ConditionReasonStatefulSetNotReady, ConditionReasonReconciliationInProgress,
      ConditionReasonQuorumNotReadyWaitATerm]"

text \<open>
  The nodes list after a change of size: it is read (a failure leaves the empty object, as the
  error is only logged) and updated, and pushed to the pods if that is asked for. The result is the
  error of the update.
\<close>

definition refresh_nodes ::
  "Reconciler \<Rightarrow> TypesenseCluster \<Rightarrow> int option \<Rightarrow> history \<Rightarrow> (error option \<times> history) option" where
  "refresh_nodes r ts replicas h =
     (case Get r ConfigMaps (nodesConfigMapKey ts) h of
        (got, h) \<Rightarrow> do {
          let cm = (case got of Inl err \<Rightarrow> empty_ConfigMap | Inr cm \<Rightarrow> cm);
          (res, h) \<leftarrow> updateConfigMap r ts cm replicas True h;
          case res of
            Inl err \<Rightarrow> Some (Some err, h)
          | Inr (_, _, updated) \<Rightarrow>
              (if updated \<and> spec_ForceResetPeersConfigOnUpdate (ts_Spec ts)
               then (case forcePodsConfigMapUpdate r ts h of (_, h) \<Rightarrow> Some (None, h))
               else Some (None, h))
        })"

text \<open>The branch that updates the specification (lines 89 to 123).\<close>

definition update_branch ::
  "Reconciler \<Rightarrow> TypesenseCluster \<Rightarrow> StatefulSet \<Rightarrow> StatefulSet \<Rightarrow> history
     \<Rightarrow> ((StatefulSet option \<times> bool \<times> error option) \<times> history) option" where
  "update_branch r ts sts desiredSts h = do {
     c \<leftarrow> index (ps_Containers (pt_spec (sts_Template sts))) 0;
     d \<leftarrow> index (ps_Containers (pt_spec (sts_Template desiredSts))) 0;
     let oldImage = getImageTag (c_Image c);
     let newImage = getImageTag (c_Image d);
     let h = (if oldImage \<noteq> newImage
              then Eventf (ts_meta ts) ''Normal'' ''TypesenseVersionUpdate''
                     (''Scheduled update from '' @ oldImage @ '' to '' @ newImage) h
              else h);
     case updateStatefulSet r sts desiredSts h of
       (Inl err, h) \<Rightarrow> Some ((None, False, Some err), h)
     | (Inr updatedSts, h) \<Rightarrow> do {
         (_, h) \<leftarrow> refresh_nodes r ts (sts_Replicas updatedSts) h;
         Some ((Some updatedSts, True, None), h)
       }
   }"

text \<open>The branch that only scales (lines 124 to 151).\<close>

definition scale_branch ::
  "Reconciler \<Rightarrow> ObjectKey \<Rightarrow> TypesenseCluster \<Rightarrow> StatefulSet \<Rightarrow> history
     \<Rightarrow> ((StatefulSet option \<times> bool \<times> error option) \<times> history) option" where
  "scale_branch r key ts desiredSts h =
     (let n = spec_Replicas (ts_Spec ts)
      in case ScaleStatefulSet r key n h of
           (Some err, h) \<Rightarrow> Some ((Some desiredSts, True, Some err), h)
         | (None, h) \<Rightarrow> do {
             (err, h) \<leftarrow> refresh_nodes r ts (Some n) h;
             Some ((Some desiredSts, True, err), h)
           })"

text \<open>
  The result is the statefulset (nil is \<open>None\<close>), whether it was changed, and the error. A failure
  to build the desired object is only logged, so that the nil pointer is passed on.
\<close>

definition ReconcileStatefulSet ::
  "Reconciler \<Rightarrow> TypesenseCluster \<Rightarrow> history
     \<Rightarrow> ((StatefulSet option \<times> bool \<times> error option) \<times> history) option" where
  "ReconcileStatefulSet r ts h =
     (let key = stsObjectKey ts
      in case Get r StatefulSets key h of
           (Inl err, h) \<Rightarrow>
             if IsNotFound err then do {
               (created, h) \<leftarrow> createStatefulSet r key ts h;
               case created of
                 Inl err \<Rightarrow> Some ((None, False, Some err), h)
               | Inr sts \<Rightarrow> Some ((Some sts, False, None), h)
             }
             else Some ((None, False, Some err), h)
         | (Inr sts, h) \<Rightarrow> do {
             condition \<leftarrow> getConditionReady ts;
             case condition of
               None \<Rightarrow> Some ((Some sts, False, None), h)
             | Some condition \<Rightarrow> do {
                 emergencyUpdateRequired \<leftarrow> shouldEmergencyUpdateStatefulSet sts ts;
                 if \<not> snd (contains skipConditions (cond_Reason condition)) \<or> emergencyUpdateRequired
                 then do {
                   (built, h) \<leftarrow> buildStatefulSet r key ts h;
                   let desired = (case built of Inl err \<Rightarrow> None | Inr d \<Rightarrow> Some d);
                   (update, scaleOnly, triggers) \<leftarrow> shouldUpdateStatefulSet sts desired ts;
                   desiredSts \<leftarrow> desired;
                   if update \<and> \<not> scaleOnly then update_branch r ts sts desiredSts h
                   else if \<not> update \<and> scaleOnly then scale_branch r key ts desiredSts h
                   else Some ((Some sts, False, None), h)
                 }
                 else Some ((Some sts, False, None), h)
               }
           })"

section \<open>The object that is built\<close>

lemma getConditionReady_head:
  "status_Conditions (ts_Status ts) = c # cs \<Longrightarrow> cond_Type c = ConditionTypeReady \<Longrightarrow>
     getConditionReady ts = Some (Some c)"
  by (simp add: getConditionReady_def)

lemma template_labels:
  "fmlookup (Labels (getObjectMeta ts name annotations)) ''app'' = Some (ClusterAppLabel (ts_Name ts))"
  by (simp add: getObjectMeta_def object_meta_def getMergedLabels_def fmlookup_mergeLabels2 getLabels_def
      fmlookup_of_list)

lemma getLabels_selects:
  "fmlookup (getLabels ts) k = Some v \<Longrightarrow> fmlookup (Labels (getObjectMeta ts name annotations)) k = Some v"
  by (simp add: getObjectMeta_def object_meta_def getMergedLabels_def fmlookup_mergeLabels2)

lemma buildStatefulSet_InrE:
  assumes "buildStatefulSet r key ts h = Some (Inr sts, h')"
  obtains storage rd wr x h1 obj where "spec_Storage (ts_Spec ts) = Some storage"
    "getHealthyLagThresholds r ts h = ((rd, wr), h1)"
    "statefulset_object key ts (pod_annotations ts rd wr) = Some obj"
    "buildStatefulSetHash r obj ts h1 = Some (Inr x, h')"
    "sts = annotate_template hashAnnotationKey x obj"
  using assms
  by (auto simp: buildStatefulSet_def statefulset_object_def Let_def elim!: bind_SomeE
      split: prod.split_asm sum.split_asm)

lemma annotate_template_simps [simp]:
  "sts_meta (annotate_template k v s) = sts_meta s"
  "sts_ServiceName (annotate_template k v s) = sts_ServiceName s"
  "sts_PodManagementPolicy (annotate_template k v s) = sts_PodManagementPolicy s"
  "sts_Replicas (annotate_template k v s) = sts_Replicas s"
  "sts_Selector (annotate_template k v s) = sts_Selector s"
  "sts_VolumeClaimTemplates (annotate_template k v s) = sts_VolumeClaimTemplates s"
  "pt_spec (sts_Template (annotate_template k v s)) = pt_spec (sts_Template s)"
  "Labels (pt_meta (sts_Template (annotate_template k v s))) = Labels (pt_meta (sts_Template s))"
  "Name (pt_meta (sts_Template (annotate_template k v s))) = Name (pt_meta (sts_Template s))"
  "Annotations (pt_meta (sts_Template (annotate_template k v s))) =
     fmupd k v (Annotations (pt_meta (sts_Template s)))"
  by (simp_all add: annotate_template_def)

lemma buildStatefulSet_fields:
  assumes "buildStatefulSet r key ts h = Some (Inr sts, h')"
  shows "sts_Replicas sts = Some (spec_Replicas (ts_Spec ts)) \<and> sts_Selector sts = Some (getLabels ts) \<and>
    sts_ServiceName sts = ClusterHeadlessService (ts_Name ts) \<and>
    Name (sts_meta sts) = key_Name key \<and> Namespace (sts_meta sts) = ts_Namespace ts \<and>
    Annotations (sts_meta sts) = spec_StatefulSetAnnotations (ts_Spec ts) \<and>
    pt_spec (sts_Template sts) = pod_spec ts \<and>
    (\<exists>a. pt_meta (sts_Template sts) = getObjectMeta ts (Some (key_Name key)) a) \<and>
    (\<exists>x rd wr. Annotations (pt_meta (sts_Template sts)) =
       fmupd hashAnnotationKey x (pod_annotations ts rd wr))"
  using assms
proof (cases rule: buildStatefulSet_InrE)
  case (1 storage rd wr x h1 obj)
  have o: "sts_Template obj = \<lparr>pt_meta = getObjectMeta ts (Some (key_Name key)) (pod_annotations ts rd wr),
      pt_spec = pod_spec ts\<rparr>" "sts_meta obj = getObjectMeta ts (Some (key_Name key)) (spec_StatefulSetAnnotations (ts_Spec ts))"
    "sts_Replicas obj = Some (spec_Replicas (ts_Spec ts))" "sts_Selector obj = Some (getLabels ts)"
    "sts_ServiceName obj = ClusterHeadlessService (ts_Name ts)"
    using 1(1,3) by (auto simp: statefulset_object_def Let_def)
  have "pt_meta (sts_Template sts) = getObjectMeta ts (Some (key_Name key))
      (fmupd hashAnnotationKey x (pod_annotations ts rd wr))"
    using o 1(5) by (simp add: annotate_template_def getObjectMeta_def object_meta_def)
  moreover have "Annotations (getObjectMeta ts n b) = b" for n b
    by (simp add: getObjectMeta_def object_meta_def)
  ultimately show ?thesis
    using o 1(5) by (auto simp: getObjectMeta_def object_meta_def)
qed

lemma pod_spec_containers:
  "ps_Containers (pod_spec ts) = [typesense_container ts, metrics_container ts, healthcheck_container ts]"
  by (simp add: pod_spec_def Let_def)

text \<open>Without an additional server configuration nothing has to be read, and the build succeeds.\<close>

lemma buildStatefulSet_plain:
  assumes "spec_AdditionalServerConfiguration (ts_Spec ts) = None"
    and "spec_Storage (ts_Spec ts) = Some st" and "\<And>i. ext_Hash r i = Inr x"
  shows "\<exists>obj. buildStatefulSet r key ts h =
    Some (Inr (annotate_template hashAnnotationKey (ext_Sha256Hex r (Itoa (int x))) obj), h)"
proof -
  obtain obj where "statefulset_object key ts
      (pod_annotations ts HealthyReadLagDefaultValue HealthyWriteLagDefaultValue) = Some obj"
    and "pt_spec (sts_Template obj) = pod_spec ts"
    using assms(2) by (simp add: statefulset_object_def Let_def)
  then show ?thesis
    using assms(1,3)
    by (simp add: buildStatefulSet_def getHealthyLagThresholds_def buildStatefulSetHash_def Let_def
        GetAdditionalServerConfiguration_def pod_spec_containers index_def) blast
qed

text \<open>A comparison finds nothing to update in an object that has the desired template.\<close>

definition keeps_annotations :: "string list \<Rightarrow> strmap \<Rightarrow> bool" where
  "keeps_annotations filters m \<longleftrightarrow> (\<forall>k |\<in>| fmdom m. \<not> list_ex (\<lambda>f. Contains k f) filters)"

lemma keeps_annotations_fmupd:
  "\<not> list_ex (\<lambda>f. Contains k f) fs \<Longrightarrow> keeps_annotations fs m \<Longrightarrow> keeps_annotations fs (fmupd k v m)"
  by (auto simp: keeps_annotations_def)

lemma keeps_annotations_fmempty [simp]: "keeps_annotations fs fmempty"
  by (simp add: keeps_annotations_def)

lemma filterMap_keeps: "keeps_annotations fs m \<Longrightarrow> filterMap m fs = m"
  by (intro fmap_ext)
    (auto simp: fmlookup_filterMap keeps_annotations_def list_ex_iff fmlookup_dom_iff
      intro!: fmdom_notD)

lemma Contains_self: "Contains s s"
  by (simp add: Contains_iff_sublist)

lemma filterMap_restarted:
  assumes "keeps_annotations (restartPodsAnnotationKey # fs) m"
  shows "filterMap (fmupd restartPodsAnnotationKey now m) (restartPodsAnnotationKey # fs) = m"
proof (rule fmap_ext)
  fix k
  have "fmlookup m restartPodsAnnotationKey = None"
    using assms Contains_self by (intro fmdom_notD) (auto simp: keeps_annotations_def)
  moreover have "fmlookup (filterMap m (restartPodsAnnotationKey # fs)) k = fmlookup m k"
    using filterMap_keeps [OF assms] by simp
  ultimately show "fmlookup (filterMap (fmupd restartPodsAnnotationKey now m) (restartPodsAnnotationKey # fs)) k =
      fmlookup m k"
    using Contains_self [of restartPodsAnnotationKey]
    by (auto simp: fmlookup_filterMap split: if_splits)
qed

lemma shouldUpdateStatefulSet_same:
  assumes "getConditionReady ts = Some (Some c)"
    and "pt_spec (sts_Template sts) = pod_spec ts" and "sts_Replicas sts = Some n"
    and "filterMap (Annotations (sts_meta sts))
      (rancherDomainAnnotationKey # spec_IgnoreAnnotationsFromExternalMutations (ts_Spec ts)) =
      Annotations (sts_meta desired)"
    and "filterMap (Annotations (pt_meta (sts_Template sts)))
      (restartPodsAnnotationKey # rancherDomainAnnotationKey #
        spec_IgnoreAnnotationsFromExternalMutations (ts_Spec ts)) =
      Annotations (pt_meta (sts_Template desired))"
    and "lookup (Annotations (pt_meta (sts_Template sts))) hashAnnotationKey =
      lookup (Annotations (pt_meta (sts_Template desired))) hashAnnotationKey"
  shows "shouldUpdateStatefulSet sts (Some desired) ts =
    Some (False, n \<noteq> spec_Replicas (ts_Spec ts), trigger_if (n \<noteq> spec_Replicas (ts_Spec ts)) SpecReplicasChanged)"
proof -
  have [simp]: "replicas_changed n ts c \<longleftrightarrow> n \<noteq> spec_Replicas (ts_Spec ts)"
    by (auto simp: replicas_changed_def reason_defs)
  show ?thesis
    using assms
    by (simp add: shouldUpdateStatefulSet_def Let_def trigger_if_def pod_spec_def index_def
        typesense_container_def metrics_container_def healthcheck_container_def)
qed

section \<open>Footprints\<close>

lemma additional_configuration_reads:
  "additional_configuration r ts acs m h = (x, h') \<Longrightarrow> emits is_read h h'"
proof (induction r ts acs m h rule: additional_configuration.induct)
  case (2 r ts name acs m h)
  let ?k = "\<lparr>key_Namespace = ts_Namespace ts, key_Name = name\<rparr>"
  show ?case
  proof (cases "on_get (api_ConfigMap r) h ?k")
    case (Inr cm)
    with 2 have "emits is_read (h @ [ReqGet KConfigMap ?k]) h'" by (simp add: req_simps)
    then show ?thesis by (rule emits_after) simp
  qed (use 2 in \<open>auto simp: req_simps\<close>)
qed simp_all

lemma buildStatefulSetHash_reads: "run_ok is_read h (buildStatefulSetHash r sts ts h)"
  unfolding buildStatefulSetHash_def Let_def
  by (intro run_ok_seq [OF additional_configuration_reads] run_ok_rules run_ok_deref) auto

lemma buildStatefulSet_reads: "run_ok is_read h (buildStatefulSet r key ts h)"
proof -
  obtain rd wr h1 where th: "getHealthyLagThresholds r ts h = ((rd, wr), h1)" by (metis prod.exhaust)
  then have "emits is_read h h1" by (rule getHealthyLagThresholds_reads)
  with th show ?thesis
    unfolding buildStatefulSet_def
    by (auto intro!: run_ok_deref [of "statefulset_object key ts a" for a]
        run_ok_bind [OF buildStatefulSetHash_reads] run_ok_sum)
qed

lemma createStatefulSet_emits: "run_ok (writes_only {KStatefulSet}) h (createStatefulSet r key ts h)"
  unfolding createStatefulSet_def req_simps
  by (auto intro!: run_ok_bind [OF run_ok_read_writes_only [OF buildStatefulSet_reads]] run_ok_sum)

lemma refresh_nodes_emits: "run_ok minor h (refresh_nodes r ts n h)"
proof -
  have force: "emits minor h1 h2" if "forcePodsConfigMapUpdate r ts h1 = (x, h2)" for h1 x h2
    using forcePodsConfigMapUpdate_emits [OF that] by (rule emits_mono) (rule minor_KPod)
  show ?thesis
    unfolding refresh_nodes_def req_simps
    by (auto intro!: run_ok_bind [OF run_ok_mono [OF updateConfigMap_emits minor_KConfigMap]]
        run_ok_sum run_ok_if run_ok_seq [OF force] simp: Let_def)
qed

abbreviation sts_footprint :: "request \<Rightarrow> bool" where
  "sts_footprint \<equiv> writes_only {KStatefulSet, KConfigMap, KPod}"

lemma sts_footprint_minor: "minor q \<Longrightarrow> sts_footprint q"
  by (erule writes_only_mono) auto

lemma update_branch_emits: "run_ok sts_footprint h (update_branch r ts sts d h)"
  unfolding update_branch_def updateStatefulSet_def req_simps Let_def
  by (auto intro!: run_ok_deref [of "index xs i" for xs i] run_ok_sum
      run_ok_bind [OF run_ok_mono [OF refresh_nodes_emits sts_footprint_minor]])

lemma scale_branch_emits: "run_ok sts_footprint h (scale_branch r key ts d h)"
proof -
  have scale: "emits sts_footprint h1 h2" if "ScaleStatefulSet r key n h1 = (e, h2)" for n e h1 h2
    using ScaleStatefulSet_emits [OF that]
    by (rule emits_mono) (auto simp: is_read_writes_only scales_to_def)
  show ?thesis
    unfolding scale_branch_def Let_def
    by (auto intro!: run_ok_seq [OF scale] run_ok_option
        run_ok_bind [OF run_ok_mono [OF refresh_nodes_emits sts_footprint_minor]])
qed

lemma ReconcileStatefulSet_emits: "run_ok sts_footprint h (ReconcileStatefulSet r ts h)"
proof -
  have create: "run_ok sts_footprint h1 (createStatefulSet r k ts h1)" for k h1
    by (rule run_ok_mono [OF createStatefulSet_emits]) (erule writes_only_mono, simp)
  have build: "run_ok sts_footprint h1 (buildStatefulSet r k ts h1)" for k h1
    by (rule run_ok_read_writes_only [OF buildStatefulSet_reads])
  show ?thesis
    unfolding ReconcileStatefulSet_def req_simps Let_def
    by (auto intro!: run_ok_sum run_ok_if run_ok_option run_ok_deref [of "getConditionReady ts"]
        run_ok_deref [of "shouldEmergencyUpdateStatefulSet s ts" for s]
        run_ok_deref [of "shouldUpdateStatefulSet s d ts" for s d] run_ok_bind [OF create]
        run_ok_deref [of "case_sum (\<lambda>e. None) Some x" for x]
        run_ok_bind [OF build] run_ok_call [OF update_branch_emits] run_ok_call [OF scale_branch_emits])
qed

interpretation statefulset_phase: operation "ReconcileStatefulSet r ts" sts_footprint for r ts
  by unfold_locales (rule ReconcileStatefulSet_emits)

end
