(* ===== verification/Sample_Env.thy ===== *)
theory Sample_Env
  imports Conditions
begin

text \<open>
  A small concrete environment, on which the theorems of the development are instantiated: a
  cluster with three replicas and a server that knows no object, accepts every write and answers
  with what it was sent. The instances replace the answers they need.
\<close>

definition quiet_api :: "'o store_api" where
  "quiet_api = \<lparr>on_get = (\<lambda>h key. Inl (NotFound (key_Name key))), on_list = (\<lambda>h opts. Inr []),
     on_create = (\<lambda>h x. Inr x), on_update = (\<lambda>h x. Inr x), on_patch = (\<lambda>h x y. Inr y),
     on_status_patch = (\<lambda>h x y. Inr y), on_delete = (\<lambda>h x. None)\<rparr>"

definition sample_reconciler :: Reconciler where
  "sample_reconciler = \<lparr>
     api_TypesenseCluster = quiet_api, api_Secret = quiet_api, api_ConfigMap = quiet_api,
     api_Service = quiet_api, api_StatefulSet = quiet_api, api_Pod = quiet_api,
     api_EndpointSlice = quiet_api, api_Ingress = quiet_api, api_Deployment = quiet_api,
     api_HTTPRoute = quiet_api, api_ReferenceGrant = quiet_api, api_CronJob = quiet_api,
     api_PodMonitor = quiet_api,
     InCluster = True,
     on_now = (\<lambda>h. ''2024-01-01T00:00:00Z''),
     on_rand = (\<lambda>h n. Inr (replicate n (CHR ''a''))),
     on_http = (\<lambda>h q. RequestFailed (ApiError ''timeout'')),
     on_logs = (\<lambda>h ns pod. Inr []),
     on_ServerVersion = (\<lambda>h. Inr ''v1.31.0''),
     on_ServerGroups = (\<lambda>h. Inr []),
     on_HTTPClientFor = (\<lambda>h. None),
     ext_SetControllerReference = (\<lambda>kind owner obj. Inr [\<lparr>owner_Kind = kind, owner_Name = Name owner\<rparr>]),
     ext_SetStatusCondition = set_condition,
     ext_Title = (\<lambda>s. s),
     ext_JoinPath = (\<lambda>a b. Inr (a @ b)),
     ext_ProxyURL = (\<lambda>ns name path. ''https://kube/'' @ ns @ ''/'' @ name @ ''/'' @ path),
     ext_NewRequest = (\<lambda>u. None),
     ext_UnmarshalNodeStatus = (\<lambda>s. None),
     ext_UnmarshalNodeHealth = (\<lambda>s. None),
     ext_ParseGeneric = (\<lambda>s. Inr (length s)),
     ext_AtLeast = (\<lambda>a b. b \<le> a),
     ext_Hash = (\<lambda>x. Inr 0),
     ext_Sha256Hex = (\<lambda>s. s),
     ext_ParseIP = (\<lambda>s. s)\<rparr>"

definition sample_spec :: TypesenseClusterSpec where
  "sample_spec = \<lparr>
     spec_Image = ''typesense/typesense:29.0'', spec_ImagePullSecrets = [],
     spec_AdminApiKey = None, spec_Replicas = 3, spec_ApiPort = 8108, spec_PeeringPort = 8107,
     spec_HealthProbeTimeoutInMilliseconds = 500, spec_ResetPeersOnError = True,
     spec_EnableCors = False, spec_CorsDomains = None, spec_ForceResetPeersConfigOnUpdate = False,
     spec_Resources = None, spec_Affinity = None, spec_NodeSelector = fmempty,
     spec_Tolerations = [], spec_AdditionalServerConfiguration = None,
     spec_ServiceAnnotations = fmempty, spec_StatefulSetAnnotations = fmempty,
     spec_PodAnnotations = fmempty, spec_PodsInheritStatefulSetAnnotations = False,
     spec_Storage = Some \<lparr>st_Size = Mi 100, st_StorageClassName = ''standard'',
        st_AccessMode = ''ReadWriteOnce'', st_Annotations = fmempty\<rparr>,
     spec_Ingress = None, spec_HttpRoutes = None, spec_Scrapers = None, spec_Metrics = None,
     spec_HealthCheck = None, spec_TopologySpreadConstraints = [], spec_PriorityClassName = None,
     spec_SecurityContext = None, spec_IgnoreAnnotationsFromExternalMutations = [],
     spec_IncrementalQuorumRecovery = False, spec_PodManagementPolicy = None,
     spec_TerminationGracePeriodSeconds = None\<rparr>"

definition sample_meta :: "string \<Rightarrow> ObjectMeta" where
  "sample_meta name = \<lparr>Name = name, Namespace = ''ns'', Labels = fmempty, Annotations = fmempty,
     DeletionTimestamp = None, OwnerReferences = []\<rparr>"

definition sample_ts :: TypesenseCluster where
  "sample_ts = \<lparr>ts_meta = sample_meta ''c'', ts_Spec = sample_spec,
     ts_Status = \<lparr>status_Conditions = [ready_condition ConditionUnknown
        ConditionReasonReconciliationInProgress InitReconciliationMessage], status_Phase = []\<rparr>\<rparr>"

definition sample_pod :: "string \<Rightarrow> string \<Rightarrow> Pod" where
  "sample_pod name ip = \<lparr>pod_meta = sample_meta name, pod_Phase = PodRunning, pod_PodIP = ip,
     pod_Conditions = []\<rparr>"

definition sample_sts :: "int \<Rightarrow> StatefulSet" where
  "sample_sts n = \<lparr>sts_meta = sample_meta ''c-sts'', sts_ServiceName = ''c-sts-svc'',
     sts_PodManagementPolicy = ''Parallel'', sts_Replicas = Some n,
     sts_Selector = Some (fmap_of_list [(''app'', ''c-sts'')]),
     sts_Template = \<lparr>pt_meta = sample_meta ''c-sts'', pt_spec = empty_PodSpec\<rparr>,
     sts_VolumeClaimTemplates = [], sts_StatusReplicas = n, sts_StatusReadyReplicas = n\<rparr>"

definition sample_cm :: "string \<Rightarrow> ConfigMap" where
  "sample_cm nodes = \<lparr>cm_meta = sample_meta ''c-nodeslist'',
     cm_Data = fmap_of_list [(''nodes'', nodes), (''fallback'', nodes)]\<rparr>"

lemmas sample_defs = quiet_api_def sample_reconciler_def sample_spec_def sample_meta_def
  sample_ts_def sample_pod_def sample_sts_def sample_cm_def

end
