(* ===== verification/Ingress_Proxy.thy ===== *)
theory Ingress_Proxy
  imports StatefulSet_Reconcile Sample_Env
begin

text \<open>
  The ingress and the reverse proxy behind it: \<^verbatim>\<open>typesensecluster_ingress.go\<close>. One
  reconciliation handles four objects in order, the ingress, the configuration of the proxy, its
  deployment and its service; the last three are owned by the ingress.
\<close>

definition clusterIssuerAnnotationKey :: string where
  "clusterIssuerAnnotationKey = ''cert-manager.io/cluster-issuer''"

section \<open>The configuration of the proxy\<close>

text \<open>A line break followed by tabs, of which the templates are full.\<close>

definition nl_tabs :: "nat \<Rightarrow> string" where
  "nl_tabs n = CHR 0x0A # replicate n (CHR 0x09)"

definition referer :: "string \<Rightarrow> string" where
  "referer hosts =
     ''valid_referers server_names '' @ hosts @ '';'' @
     nl_tabs 5 @ ''if ($invalid_referer) {'' @
     nl_tabs 4 @ ''  '' @ replicate 2 (CHR 0x09) @ ''return 403;'' @
     nl_tabs 5 @ ''}''"

text \<open>
  The template \<^verbatim>\<open>confTemplate\<close>, executed. An action that starts with
  \<^verbatim>\<open>{{-\<close> removes the white space before it, and a conditional prints nothing for an
  empty string, so each optional part is its line break and indentation followed by the value.
\<close>

definition template_if :: "string \<Rightarrow> string \<Rightarrow> string" where
  "template_if lead v = (if v = [] then [] else lead @ v)"

definition confTemplate :: "string \<Rightarrow> string \<Rightarrow> string \<Rightarrow> string \<Rightarrow> string \<Rightarrow> string \<Rightarrow> string" where
  "confTemplate httpDirectives serverDirectives locationDirectives ref serviceName servicePort =
     ''events {}'' @ nl_tabs 2 @ ''http {'' @
     template_if (nl_tabs 2 @ ''  '') httpDirectives @
     nl_tabs 2 @ ''  server {'' @ nl_tabs 3 @ ''listen 80;'' @
     template_if (nl_tabs 3) ref @
     template_if (nl_tabs 3) serverDirectives @
     nl_tabs 3 @ ''location / {'' @
     nl_tabs 3 @ ''  proxy_pass http://'' @ serviceName @ ''-svc:'' @ servicePort @ ''/;'' @
     nl_tabs 3 @ ''  proxy_pass_request_headers on;'' @
     template_if (nl_tabs 3 @ ''  '') locationDirectives @
     nl_tabs 3 @ ''}'' @ nl_tabs 2 @ ''  }'' @ nl_tabs 2 @ ''}''"

definition directives :: "string option \<Rightarrow> string" where
  "directives d = (case d of None \<Rightarrow> [] | Some s \<Rightarrow> ReplaceAll s '';'' ('';'' @ [CHR 0x0A]))"

text \<open>The template is a constant that parses, so the two error returns are not reached.\<close>

definition getIngressNginxConf :: "TypesenseCluster \<Rightarrow> string" where
  "getIngressNginxConf ts =
     (let igs = spec_Ingress (ts_Spec ts);
          ref = (case Option.bind igs is_Referer of None \<Rightarrow> [] | Some hosts \<Rightarrow> referer hosts);
          httpDirectives = directives (Option.bind igs is_HttpDirectives);
          serverDirectives = directives (Option.bind igs is_ServerDirectives);
          locationDirectives = directives (Option.bind igs is_LocationDirectives)
      in confTemplate httpDirectives serverDirectives locationDirectives ref (ts_Name ts)
           (Itoa (spec_ApiPort (ts_Spec ts))))"

text \<open>Setting the ingress as owner and creating the object.\<close>

definition owned_by_ingress ::
  "Reconciler \<Rightarrow> Ingress \<Rightarrow> ObjectMeta \<Rightarrow> error + ObjectMeta" where
  "owned_by_ingress r ig meta =
     (case ext_SetControllerReference r ''Ingress'' (ing_meta ig) meta of
        Inl err \<Rightarrow> Inl err
      | Inr owners \<Rightarrow> Inr (meta\<lparr>OwnerReferences := owners\<rparr>))"

definition createIngressConfigMap ::
  "Reconciler \<Rightarrow> ObjectKey \<Rightarrow> TypesenseCluster \<Rightarrow> Ingress \<Rightarrow> history \<Rightarrow> (error + ConfigMap) \<times> history" where
  "createIngressConfigMap r key ts ig h =
     (case owned_by_ingress r ig (getReverseProxyObjectMeta ts (Some (key_Name key)) fmempty) of
        Inl err \<Rightarrow> (Inl err, h)
      | Inr meta \<Rightarrow>
          Create r ConfigMaps
            \<lparr>cm_meta = meta, cm_Data = fmap_of_list [(''nginx.conf'', getIngressNginxConf ts)]\<rparr> h)"

definition updateIngressConfigMap ::
  "Reconciler \<Rightarrow> ConfigMap \<Rightarrow> TypesenseCluster \<Rightarrow> history \<Rightarrow> (error + ConfigMap) \<times> history" where
  "updateIngressConfigMap r cm ts h =
     Update r ConfigMaps (cm\<lparr>cm_Data := fmap_of_list [(''nginx.conf'', getIngressNginxConf ts)]\<rparr>) h"

definition shouldUpdateIngressConfigMap :: "ConfigMap \<Rightarrow> TypesenseCluster \<Rightarrow> bool" where
  "shouldUpdateIngressConfigMap cm ts \<longleftrightarrow> lookup (cm_Data cm) ''nginx.conf'' \<noteq> getIngressNginxConf ts"

section \<open>The ingress\<close>

definition tls_name :: "TypesenseCluster \<Rightarrow> IngressSpec \<Rightarrow> string" where
  "tls_name ts igs =
     (case is_TLSSecretName igs of
        Some name \<Rightarrow> name
      | None \<Rightarrow>
          (case is_ClusterIssuer igs of
             Some issuer \<Rightarrow> ts_Name ts @ ''-reverse-proxy-'' @ issuer @ ''-certificate-tls''
           | None \<Rightarrow> []))"

definition ingress_annotations :: "IngressSpec \<Rightarrow> strmap" where
  "ingress_annotations igs =
     (case is_ClusterIssuer igs of
        Some issuer \<Rightarrow> fmap_of_list [(clusterIssuerAnnotationKey, issuer)]
      | None \<Rightarrow> fmempty) ++\<^sub>f is_Annotations igs"

definition ingress_object :: "ObjectKey \<Rightarrow> TypesenseCluster \<Rightarrow> IngressSpec \<Rightarrow> Ingress" where
  "ingress_object key ts igs =
     \<lparr>ing_meta = getObjectMeta ts (Some (key_Name key)) (ingress_annotations igs),
      ing_IngressClassName = Some (is_IngressClassName igs),
      ing_TLS = [\<lparr>tls_Hosts = [is_Host igs], tls_SecretName = tls_name ts igs\<rparr>],
      ing_Rules =
        [\<lparr>ir_Host = is_Host igs,
          ir_HTTP = Some
            [\<lparr>ip_Path = is_Path igs, ip_PathType = is_PathType igs,
              ip_ServiceName = ClusterReverseProxyService (ts_Name ts), ip_ServicePort = 80\<rparr>]\<rparr>]\<rparr>"

definition createIngress ::
  "Reconciler \<Rightarrow> ObjectKey \<Rightarrow> TypesenseCluster \<Rightarrow> history \<Rightarrow> ((error + Ingress) \<times> history) option" where
  "createIngress r key ts h = do {
     igs \<leftarrow> spec_Ingress (ts_Spec ts);
     if is_ClusterIssuer igs \<noteq> None \<and> is_TLSSecretName igs = None
     then Some (Inl (GoError ''tls secret name is required, skipping ingress creation''), h)
     else do {
       let ingress = ingress_object key ts igs;
       Some (case ext_SetControllerReference r ''TypesenseCluster'' (ts_meta ts) (ing_meta ingress) of
               Inl err \<Rightarrow> (Inl err, h)
             | Inr owners \<Rightarrow>
                 Create r Ingresses (ingress\<lparr>ing_meta := (ing_meta ingress)\<lparr>OwnerReferences := owners\<rparr>\<rparr>) h)
     }
   }"

text \<open>The object an update sends; the missing first rule, path or TLS entry panics.\<close>

definition updated_ingress :: "Ingress \<Rightarrow> TypesenseCluster \<Rightarrow> IngressSpec \<Rightarrow> Ingress option" where
  "updated_ingress ig ts igs = do {
     rule \<leftarrow> index (ing_Rules ig) 0;
     paths \<leftarrow> ir_HTTP rule;
     path \<leftarrow> index paths 0;
     paths \<leftarrow> store_index paths 0 (path\<lparr>ip_Path := is_Path igs, ip_PathType := is_PathType igs\<rparr>);
     rules \<leftarrow> store_index (ing_Rules ig) 0 (rule\<lparr>ir_Host := is_Host igs, ir_HTTP := Some paths\<rparr>);
     tls \<leftarrow> index (ing_TLS ig) 0;
     tlss \<leftarrow> store_index (ing_TLS ig) 0 (tls\<lparr>tls_SecretName := tls_name ts igs\<rparr>);
     Some (ig\<lparr>ing_Rules := rules, ing_IngressClassName := Some (is_IngressClassName igs),
              ing_meta := (ing_meta ig)\<lparr>Annotations := ingress_annotations igs\<rparr>, ing_TLS := tlss\<rparr>)
   }"

definition updateIngress ::
  "Reconciler \<Rightarrow> Ingress \<Rightarrow> TypesenseCluster \<Rightarrow> history \<Rightarrow> ((error + Ingress) \<times> history) option" where
  "updateIngress r ig ts h = do {
     igs \<leftarrow> spec_Ingress (ts_Spec ts);
     if is_ClusterIssuer igs \<noteq> None \<and> is_TLSSecretName igs = None
     then Some (Inl (GoError ''tls secret name is required, skipping ingress update''), h)
     else do {
       updated \<leftarrow> updated_ingress ig ts igs;
       Some (Patch r Ingresses ig updated h)
     }
   }"

definition deleteIngress :: "Reconciler \<Rightarrow> Ingress \<Rightarrow> history \<Rightarrow> error option \<times> history" where
  "deleteIngress r ig h = Delete r Ingresses ig h"

definition getIngressAnnotations :: "Ingress \<Rightarrow> TypesenseCluster \<Rightarrow> strmap" where
  "getIngressAnnotations ig ts =
     filterMap (Annotations (ing_meta ig))
       (clusterIssuerAnnotationKey # rancherDomainAnnotationKey #
        spec_IgnoreAnnotationsFromExternalMutations (ts_Spec ts))"

text \<open>The condition of lines 96 to 102, its operands in order and only as far as needed.\<close>

definition ingress_changed :: "IngressSpec \<Rightarrow> Ingress \<Rightarrow> TypesenseCluster \<Rightarrow> bool option" where
  "ingress_changed igs ig ts = do {
     rule \<leftarrow> index (ing_Rules ig) 0;
     if is_Host igs \<noteq> ir_Host rule \<or>
        (case is_ClusterIssuer igs of
           None \<Rightarrow> False
         | Some issuer \<Rightarrow> issuer \<noteq> lookup (Annotations (ing_meta ig)) clusterIssuerAnnotationKey) \<or>
        is_Annotations igs \<noteq> getIngressAnnotations ig ts
     then Some True
     else do {
       tls_differs \<leftarrow> (case is_TLSSecretName igs of
           None \<Rightarrow> Some False
         | Some name \<Rightarrow> do { tls \<leftarrow> index (ing_TLS ig) 0; Some (name \<noteq> tls_SecretName tls) });
       if tls_differs then Some True
       else do {
         cls \<leftarrow> ing_IngressClassName ig;
         if is_IngressClassName igs \<noteq> cls then Some True
         else do {
           paths \<leftarrow> ir_HTTP rule;
           path \<leftarrow> index paths 0;
           if is_Path igs \<noteq> ip_Path path then Some True
           else do {
             wanted \<leftarrow> is_PathType igs;
             actual \<leftarrow> ip_PathType path;
             Some (wanted \<noteq> actual)
           }
         }
       }
     }
   }"

section \<open>The deployment and the service of the proxy\<close>

definition getDefaultReverseProxyVolumes :: "string \<Rightarrow> Volume list" where
  "getDefaultReverseProxyVolumes tsClusterName =
     [\<lparr>vol_Name = ''nginx-config'',
       vol_Source = ConfigMapVolume (ClusterReverseProxyConfigMap tsClusterName) None\<rparr>]"

definition getDefaultReverseProxyVolumeMounts :: "VolumeMount list" where
  "getDefaultReverseProxyVolumeMounts =
     [\<lparr>vm_Name = ''nginx-config'', vm_MountPath = ''/etc/nginx/nginx.conf'',
       vm_SubPath = ''nginx.conf'', vm_ReadOnly = False\<rparr>]"

text \<open>The security context of a read-only root file system: the given one, or the flag alone.\<close>

definition read_only_context :: "ReadOnlyRootFilesystemSpec \<Rightarrow> SecurityContext" where
  "read_only_context ro =
     (case ro_SecurityContext ro of
        Some sc \<Rightarrow> sc
      | None \<Rightarrow> \<lparr>sc_ReadOnlyRootFilesystem = Some True, sc_other = 0\<rparr>)"

definition proxy_container :: "TypesenseCluster \<Rightarrow> IngressSpec \<Rightarrow> Container" where
  "proxy_container ts igs = empty_Container\<lparr>
     c_Name := ClusterReverseProxy (ts_Name ts),
     c_Image := is_Image igs,
     c_Ports := [\<lparr>cp_Name = [], cp_ContainerPort = 80\<rparr>],
     c_Resources := GetReverseProxyResources igs,
     c_VolumeMounts := getDefaultReverseProxyVolumeMounts @
       (case is_ReadOnlyRootFilesystem igs of None \<Rightarrow> [] | Some ro \<Rightarrow> ro_VolumeMounts ro),
     c_SecurityContext := map_option read_only_context (is_ReadOnlyRootFilesystem igs)\<rparr>"

definition proxy_deployment :: "ObjectKey \<Rightarrow> TypesenseCluster \<Rightarrow> IngressSpec \<Rightarrow> Deployment" where
  "proxy_deployment key ts igs =
     \<lparr>dep_meta = getReverseProxyObjectMeta ts (Some (key_Name key)) fmempty,
      dep_Replicas = Some 3,
      dep_Selector = getReverseProxyLabels ts,
      dep_Template =
        \<lparr>pt_meta = empty_meta\<lparr>Labels := getReverseProxyLabels ts\<rparr>,
         pt_spec = empty_PodSpec\<lparr>
           ps_ImagePullSecrets := spec_ImagePullSecrets (ts_Spec ts),
           ps_Containers := [proxy_container ts igs],
           ps_Volumes := getDefaultReverseProxyVolumes (ts_Name ts) @
             (case is_ReadOnlyRootFilesystem igs of None \<Rightarrow> [] | Some ro \<Rightarrow> ro_Volumes ro)\<rparr>\<rparr>\<rparr>"

definition createIngressDeployment ::
  "Reconciler \<Rightarrow> ObjectKey \<Rightarrow> TypesenseCluster \<Rightarrow> Ingress \<Rightarrow> history
     \<Rightarrow> ((error + Deployment) \<times> history) option" where
  "createIngressDeployment r key ts ig h = do {
     igs \<leftarrow> spec_Ingress (ts_Spec ts);
     let deployment = proxy_deployment key ts igs;
     Some (case owned_by_ingress r ig (dep_meta deployment) of
             Inl err \<Rightarrow> (Inl err, h)
           | Inr meta \<Rightarrow> Create r Deployments (deployment\<lparr>dep_meta := meta\<rparr>) h)
   }"

definition proxy_service :: "ObjectKey \<Rightarrow> TypesenseCluster \<Rightarrow> IngressSpec \<Rightarrow> Service" where
  "proxy_service key ts igs =
     \<lparr>svc_meta = getReverseProxyObjectMeta ts (Some (key_Name key)) (is_ServiceAnnotations igs),
      svc_Type = ''NodePort'', svc_ClusterIP = [], svc_PublishNotReadyAddresses = False,
      svc_Selector = getReverseProxyLabels ts,
      svc_Ports = [\<lparr>sp_Name = ''http'', sp_Protocol = ''TCP'', sp_Port = 80, sp_TargetPort = 80\<rparr>]\<rparr>"

definition createIngressService ::
  "Reconciler \<Rightarrow> ObjectKey \<Rightarrow> TypesenseCluster \<Rightarrow> Ingress \<Rightarrow> history
     \<Rightarrow> ((error + Service) \<times> history) option" where
  "createIngressService r key ts ig h = do {
     igs \<leftarrow> spec_Ingress (ts_Spec ts);
     let service = proxy_service key ts igs;
     Some (case owned_by_ingress r ig (svc_meta service) of
             Inl err \<Rightarrow> (Inl err, h)
           | Inr meta \<Rightarrow> Create r Services (service\<lparr>svc_meta := meta\<rparr>) h)
   }"

definition updateIngressService ::
  "Reconciler \<Rightarrow> Service \<Rightarrow> TypesenseCluster \<Rightarrow> history \<Rightarrow> (error option \<times> history) option" where
  "updateIngressService r svc ts h = do {
     igs \<leftarrow> spec_Ingress (ts_Spec ts);
     let updated = svc\<lparr>svc_meta := (svc_meta svc)\<lparr>Annotations := is_ServiceAnnotations igs\<rparr>\<rparr>;
     Some (case Patch r Services svc updated h of
             (Inl err, h) \<Rightarrow> (Some err, h)
           | (Inr _, h) \<Rightarrow> (None, h))
   }"

section \<open>The reconciliation\<close>

definition ingressObjectKey :: "TypesenseCluster \<Rightarrow> ObjectKey" where
  "ingressObjectKey ts =
     \<lparr>key_Namespace = ts_Namespace ts, key_Name = ClusterReverseProxyIngress (ts_Name ts)\<rparr>"

definition configMapObjectKey :: "TypesenseCluster \<Rightarrow> ObjectKey" where
  "configMapObjectKey ts =
     \<lparr>key_Namespace = ts_Namespace ts, key_Name = ClusterReverseProxyConfigMap (ts_Name ts)\<rparr>"

definition deploymentObjectKey :: "TypesenseCluster \<Rightarrow> ObjectKey" where
  "deploymentObjectKey ts =
     \<lparr>key_Namespace = ts_Namespace ts, key_Name = ClusterReverseProxy (ts_Name ts)\<rparr>"

definition serviceNameObjectKey :: "TypesenseCluster \<Rightarrow> ObjectKey" where
  "serviceNameObjectKey ts =
     \<lparr>key_Namespace = ts_Namespace ts, key_Name = ClusterReverseProxyService (ts_Name ts)\<rparr>"

text \<open>The configuration (lines 115 to 154): whether it was updated, or the error.\<close>

definition reconcile_proxy_config ::
  "Reconciler \<Rightarrow> TypesenseCluster \<Rightarrow> Ingress \<Rightarrow> history \<Rightarrow> (error + bool) \<times> history" where
  "reconcile_proxy_config r ts ig h =
     (case Get r ConfigMaps (configMapObjectKey ts) h of
        (Inl err, h) \<Rightarrow>
          if IsNotFound err then
            (case createIngressConfigMap r (configMapObjectKey ts) ts ig h of
               (Inl err, h) \<Rightarrow> (Inl err, h)
             | (Inr _, h) \<Rightarrow> (Inr False, h))
          else (Inl err, h)
      | (Inr cm, h) \<Rightarrow>
          if shouldUpdateIngressConfigMap cm ts then
            (case updateIngressConfigMap r cm ts h of
               (Inl err, h) \<Rightarrow> (Inl err, h)
             | (Inr _, h) \<Rightarrow> (Inr True, h))
          else (Inr False, h))"

text \<open>
  The read-only root file system (lines 188 to 227): whether the deployment needs an update, and
  its volumes and first container afterwards. The comparison of volumes clears the default modes
  behind the shared pointers, in the existing volumes too.
\<close>

definition sync_read_only ::
  "TypesenseCluster \<Rightarrow> IngressSpec \<Rightarrow> Volume list \<Rightarrow> Container \<Rightarrow> bool \<times> Volume list \<times> Container" where
  "sync_read_only ts igs volumes c =
     (case is_ReadOnlyRootFilesystem igs of
        None \<Rightarrow>
          if c_SecurityContext c \<noteq> None then
            (True, getDefaultReverseProxyVolumes (ts_Name ts),
             c\<lparr>c_SecurityContext := None, c_VolumeMounts := getDefaultReverseProxyVolumeMounts\<rparr>)
          else (False, volumes, c)
      | Some ro \<Rightarrow>
          let securityContext = Some (read_only_context ro);
              context_differs = (securityContext \<noteq> c_SecurityContext c);
              (volumes_differ, desiredVolumes, existingVolumes) =
                needsSyncVolumes (getDefaultReverseProxyVolumes (ts_Name ts) @ ro_Volumes ro) volumes;
              desiredMounts = getDefaultReverseProxyVolumeMounts @ ro_VolumeMounts ro;
              mounts_differ = needsSyncMounts desiredMounts (c_VolumeMounts c)
          in (context_differs \<or> volumes_differ \<or> mounts_differ,
              if volumes_differ then desiredVolumes else existingVolumes,
              c\<lparr>c_SecurityContext := (if context_differs then securityContext else c_SecurityContext c),
                c_VolumeMounts := (if mounts_differ then desiredMounts else c_VolumeMounts c)\<rparr>))"

text \<open>The comparison of the deployment (lines 176 to 227).\<close>

definition sync_deployment ::
  "TypesenseCluster \<Rightarrow> IngressSpec \<Rightarrow> Deployment \<Rightarrow> (bool \<times> Deployment) option" where
  "sync_deployment ts igs deployment = do {
     let podSpec = pt_spec (dep_Template deployment);
     c \<leftarrow> index (ps_Containers podSpec) 0;
     let resources_differ = (GetReverseProxyResources igs \<noteq> c_Resources c);
     let image_differs = (is_Image igs \<noteq> c_Image c);
     let c = c\<lparr>c_Resources := GetReverseProxyResources igs, c_Image := is_Image igs\<rparr>;
     let (read_only_differs, volumes, c) = sync_read_only ts igs (ps_Volumes podSpec) c;
     containers \<leftarrow> store_index (ps_Containers podSpec) 0 c;
     Some (resources_differ \<or> image_differs \<or> read_only_differs,
           deployment\<lparr>dep_Template := (dep_Template deployment)\<lparr>
             pt_spec := podSpec\<lparr>ps_Containers := containers, ps_Volumes := volumes\<rparr>\<rparr>\<rparr>)
   }"

definition restart_deployment :: "string \<Rightarrow> Deployment \<Rightarrow> Deployment" where
  "restart_deployment now deployment =
     (let tmpl = dep_Template deployment
      in deployment\<lparr>dep_Template := tmpl\<lparr>pt_meta := (pt_meta tmpl)\<lparr>Annotations :=
           fmupd ''kubectl.kubernetes.io/restartedAt'' now (Annotations (pt_meta tmpl))\<rparr>\<rparr>\<rparr>)"

text \<open>The deployment (lines 156 to 243).\<close>

definition reconcile_proxy_deployment ::
  "Reconciler \<Rightarrow> TypesenseCluster \<Rightarrow> Ingress \<Rightarrow> bool \<Rightarrow> history \<Rightarrow> (error option \<times> history) option" where
  "reconcile_proxy_deployment r ts ig configMapUpdated h =
     (case Get r Deployments (deploymentObjectKey ts) h of
        (Inl err, h) \<Rightarrow>
          if IsNotFound err then do {
            (created, h) \<leftarrow> createIngressDeployment r (deploymentObjectKey ts) ts ig h;
            case created of Inl err \<Rightarrow> Some (Some err, h) | Inr _ \<Rightarrow> Some (None, h)
          }
          else Some (Some err, h)
      | (Inr deployment, h) \<Rightarrow> do {
          igs \<leftarrow> spec_Ingress (ts_Spec ts);
          (differs, deployment) \<leftarrow> sync_deployment ts igs deployment;
          if configMapUpdated \<or> differs then
            (case Now r h of
               (now, h) \<Rightarrow>
                 (case Update r Deployments (restart_deployment now deployment) h of
                    (Inl err, h) \<Rightarrow> Some (Some err, h)
                  | (Inr _, h) \<Rightarrow> Some (None, h)))
          else Some (None, h)
        })"

text \<open>The service (lines 245 to 277).\<close>

definition reconcile_proxy_service ::
  "Reconciler \<Rightarrow> TypesenseCluster \<Rightarrow> Ingress \<Rightarrow> history \<Rightarrow> (error option \<times> history) option" where
  "reconcile_proxy_service r ts ig h =
     (case Get r Services (serviceNameObjectKey ts) h of
        (Inl err, h) \<Rightarrow>
          if IsNotFound err then do {
            (created, h) \<leftarrow> createIngressService r (serviceNameObjectKey ts) ts ig h;
            case created of Inl err \<Rightarrow> Some (Some err, h) | Inr _ \<Rightarrow> Some (None, h)
          }
          else Some (Some err, h)
      | (Inr service, h) \<Rightarrow> do {
          igs \<leftarrow> spec_Ingress (ts_Spec ts);
          if Annotations (svc_meta service) \<noteq> is_ServiceAnnotations igs
          then updateIngressService r service ts h
          else Some (None, h)
        })"

definition reconcile_proxy ::
  "Reconciler \<Rightarrow> TypesenseCluster \<Rightarrow> Ingress \<Rightarrow> history \<Rightarrow> (error option \<times> history) option" where
  "reconcile_proxy r ts ig h =
     (case reconcile_proxy_config r ts ig h of
        (Inl err, h) \<Rightarrow> Some (Some err, h)
      | (Inr configMapUpdated, h) \<Rightarrow> do {
          (err, h) \<leftarrow> reconcile_proxy_deployment r ts ig configMapUpdated h;
          case err of
            Some err \<Rightarrow> Some (Some err, h)
          | None \<Rightarrow> reconcile_proxy_service r ts ig h
        })"

text \<open>Creating or updating the ingress itself (lines 86 to 113).\<close>

definition sync_ingress ::
  "Reconciler \<Rightarrow> TypesenseCluster \<Rightarrow> Ingress option \<Rightarrow> history \<Rightarrow> ((error + Ingress) \<times> history) option" where
  "sync_ingress r ts existing h =
     (case existing of
        None \<Rightarrow> createIngress r (ingressObjectKey ts) ts h
      | Some ig \<Rightarrow> do {
          igs \<leftarrow> spec_Ingress (ts_Spec ts);
          changed \<leftarrow> ingress_changed igs ig ts;
          if changed then updateIngress r ig ts h else Some (Inr ig, h)
        })"

definition ReconcileIngress ::
  "Reconciler \<Rightarrow> TypesenseCluster \<Rightarrow> history \<Rightarrow> (error option \<times> history) option" where
  "ReconcileIngress r ts h =
     (case Get r Ingresses (ingressObjectKey ts) h of
        (got, h) \<Rightarrow>
          (case got of
             Inl err \<Rightarrow>
               if \<not> IsNotFound err then Some (Some err, h)
               else if spec_Ingress (ts_Spec ts) = None then Some (None, h)
               else if spec_HttpRoutes (ts_Spec ts) \<noteq> None then Some (None, h)
               else do {
                 (synced, h) \<leftarrow> sync_ingress r ts None h;
                 case synced of Inl err \<Rightarrow> Some (Some err, h) | Inr ig \<Rightarrow> reconcile_proxy r ts ig h
               }
           | Inr ig \<Rightarrow>
               if spec_Ingress (ts_Spec ts) = None \<or> spec_HttpRoutes (ts_Spec ts) \<noteq> None
               then Some (deleteIngress r ig h)
               else do {
                 (synced, h) \<leftarrow> sync_ingress r ts (Some ig) h;
                 case synced of Inl err \<Rightarrow> Some (Some err, h) | Inr ig \<Rightarrow> reconcile_proxy r ts ig h
               }))"

section \<open>Footprints\<close>

abbreviation proxy_kinds :: "kind set" where
  "proxy_kinds \<equiv> {KIngress, KConfigMap, KDeployment, KService}"

lemma reconcile_proxy_config_emits:
  "reconcile_proxy_config r ts ig h = (x, h') \<Longrightarrow> emits (writes_only {KConfigMap}) h h'"
  by (auto simp: reconcile_proxy_config_def createIngressConfigMap_def updateIngressConfigMap_def req_simps
      split: sum.split_asm if_split_asm)

lemma createIngressDeployment_emits:
  "run_ok (writes_only {KDeployment}) h (createIngressDeployment r key ts ig h)"
  by (auto simp: createIngressDeployment_def req_simps Let_def intro!: run_ok_deref split: sum.split)

lemma reconcile_proxy_deployment_emits:
  "run_ok (writes_only {KDeployment}) h (reconcile_proxy_deployment r ts ig b h)"
  unfolding reconcile_proxy_deployment_def req_simps
  by (auto intro!: run_ok_rules run_ok_bind [OF createIngressDeployment_emits]
      run_ok_deref [of "spec_Ingress s" for s] run_ok_deref [of "sync_deployment t s d" for t s d])

lemma createIngressService_emits:
  "run_ok (writes_only {KService}) h (createIngressService r key ts ig h)"
  by (auto simp: createIngressService_def req_simps Let_def intro!: run_ok_deref split: sum.split)

lemma updateIngressService_emits:
  "run_ok (writes_only {KService}) h (updateIngressService r svc ts h)"
  by (auto simp: updateIngressService_def req_simps Let_def intro!: run_ok_deref split: sum.split)

lemma reconcile_proxy_service_emits:
  "run_ok (writes_only {KService}) h (reconcile_proxy_service r ts ig h)"
  unfolding reconcile_proxy_service_def Get_def
  by (auto intro!: run_ok_rules run_ok_bind [OF createIngressService_emits]
      run_ok_deref [of "spec_Ingress s" for s] run_ok_call [OF updateIngressService_emits])

lemma reconcile_proxy_emits:
  "run_ok (writes_only {KConfigMap, KDeployment, KService}) h (reconcile_proxy r ts ig h)"
proof -
  let ?P = "writes_only {KConfigMap, KDeployment, KService}"
  have dep: "run_ok ?P g (reconcile_proxy_deployment r ts ig b g)" for g b
    by (rule run_ok_mono [OF reconcile_proxy_deployment_emits]) (auto elim: writes_only_mono)
  have svc: "run_ok ?P g (reconcile_proxy_service r ts ig g)" for g
    by (rule run_ok_mono [OF reconcile_proxy_service_emits]) (auto elim: writes_only_mono)
  have cfg: "emits ?P g g'" if "reconcile_proxy_config r ts ig g = (x, g')" for g g' x
    using reconcile_proxy_config_emits [OF that] by (rule emits_mono) (auto elim: writes_only_mono)
  show ?thesis
    unfolding reconcile_proxy_def
    by (auto intro!: run_ok_seq [OF cfg] run_ok_sum run_ok_option run_ok_bind [OF dep] run_ok_call [OF svc])
qed

lemma createIngress_emits: "run_ok (writes_only {KIngress}) h (createIngress r key ts h)"
  unfolding createIngress_def req_simps
  by (rule run_ok_deref) (auto simp: Let_def split: sum.split)

lemma updateIngress_emits: "run_ok (writes_only {KIngress}) h (updateIngress r ig ts h)"
  by (auto simp: updateIngress_def req_simps Let_def intro!: run_ok_deref run_ok_if)

lemma sync_ingress_emits: "run_ok (writes_only {KIngress}) h (sync_ingress r ts existing h)"
  unfolding sync_ingress_def
  by (auto intro!: run_ok_option run_ok_if createIngress_emits updateIngress_emits
      run_ok_deref [of "spec_Ingress s" for s] run_ok_deref [of "ingress_changed a b c" for a b c])

lemma ReconcileIngress_emits: "run_ok (writes_only proxy_kinds) h (ReconcileIngress r ts h)"
proof -
  let ?P = "writes_only proxy_kinds"
  have sync: "run_ok ?P g (sync_ingress r ts e g)" for g e
    by (rule run_ok_mono [OF sync_ingress_emits]) (auto elim: writes_only_mono)
  have proxy: "run_ok ?P g (reconcile_proxy r ts ig g)" for g ig
    by (rule run_ok_mono [OF reconcile_proxy_emits]) (auto elim: writes_only_mono)
  show ?thesis
    unfolding ReconcileIngress_def Get_def deleteIngress_def Delete_def
    by (auto intro!: run_ok_sum run_ok_if run_ok_bind [OF sync] run_ok_call [OF proxy])
qed

interpretation ingress_phase: operation "ReconcileIngress r ts" "writes_only proxy_kinds" for r ts
  by unfold_locales (rule ReconcileIngress_emits)

end
