(* ===== verification/Sweep.thy ===== *)
theory Sweep
  imports Client
begin

text \<open>
  The loop that removes what is no longer wanted. The operator has it three times: cron jobs that
  are not among the scrapers, routes that are not in the specification, reference grants whose
  cluster is gone. Each walks the objects the server listed and deletes the stale ones, and stops at
  the first deletion that fails. The interface states the loop by its equations; what it sends
  follows once for all.
\<close>

locale sweep = typed_resource R for R :: "'o resource" +
  fixes stale :: "'o \<Rightarrow> bool"
    and wrap :: "error \<Rightarrow> error"
    and loop :: "'o list \<Rightarrow> history \<Rightarrow> error option \<times> history"
    and r :: Reconciler
  assumes loop_Nil: "loop [] h = (None, h)"
    and loop_Cons: "loop (x # xs) h =
      (if stale x
       then (case Delete r R x h of (Some err, h) \<Rightarrow> (Some (wrap err), h) | (None, h) \<Rightarrow> loop xs h)
       else loop xs h)"
begin

lemma swept:
  "loop xs h = (None, h') \<Longrightarrow> h' = h @ map (\<lambda>x. ReqDelete (res_obj R x)) (filter stale xs)"
proof (induction xs arbitrary: h)
  case (Cons x xs)
  then show ?case
    by (cases "on_delete (res_api R r) h x") (fastforce simp: loop_Cons Delete_def split: if_split_asm)+
qed (simp add: loop_Nil)

lemma stopped:
  assumes "loop xs h = (Some e, h')"
  shows "\<exists>ys y zs err. filter stale xs = ys @ y # zs \<and> e = wrap err \<and>
    h' = h @ map (\<lambda>x. ReqDelete (res_obj R x)) (ys @ [y])"
  using assms
proof (induction xs arbitrary: h)
  case (Cons x xs)
  show ?case
  proof (cases "stale x")
    case False
    with Cons show ?thesis by (simp add: loop_Cons)
  next
    case stale: True
    show ?thesis
    proof (cases "on_delete (res_api R r) h x")
      case None
      with stale Cons.prems have "loop xs (h @ [ReqDelete (res_obj R x)]) = (Some e, h')"
        by (simp add: loop_Cons Delete_def)
      from Cons.IH [OF this] obtain ys y zs err where "filter stale xs = ys @ y # zs" "e = wrap err"
        "h' = (h @ [ReqDelete (res_obj R x)]) @ map (\<lambda>x. ReqDelete (res_obj R x)) (ys @ [y])" by blast
      with stale show ?thesis
        by (intro exI [of _ "x # ys"] exI [of _ y] exI [of _ zs] exI [of _ err]) simp
    next
      case (Some err)
      with stale Cons.prems show ?thesis
        by (intro exI [of _ "[]"] exI [of _ x] exI [of _ "filter stale xs"] exI [of _ err])
          (simp add: loop_Cons Delete_def)
    qed
  qed
qed (simp add: loop_Nil)

text \<open>Whatever happens, an object that is wanted is not deleted, and nothing else is sent.\<close>

lemma spares:
  assumes "loop xs h = (e, h')"
  shows "\<exists>ys. prefix ys (filter stale xs) \<and> h' = h @ map (\<lambda>x. ReqDelete (res_obj R x)) ys \<and>
    (e = None \<longrightarrow> ys = filter stale xs)"
proof (cases e)
  case None
  then show ?thesis using swept assms by blast
next
  case (Some e')
  with stopped [of xs h e' h'] assms obtain ys y zs where "filter stale xs = (ys @ [y]) @ zs"
    and "h' = h @ map (\<lambda>x. ReqDelete (res_obj R x)) (ys @ [y])" by auto
  then show ?thesis using Some by (intro exI [of _ "ys @ [y]"]) (simp add: prefix_def)
qed

lemma sweeps:
  assumes "loop xs h = (e, h')" and "res_kind R \<in> K" and "res_kind R \<noteq> KEndpointSlice"
  shows "emits (writes_only K) h h'"
  using spares [OF assms(1)] assms(2,3) by (auto simp: list_all_iff kind_ok)

end

end
