(* ===== verification/Http_Routes.thy ===== *)
theory Http_Routes
  imports Ingress_Proxy Sweep
begin

text \<open>
  HTTP routes and reference grants of the Gateway API: \<^verbatim>\<open>typesensecluster_httproute.go\<close>.
  Routes of the cluster that are not in the specification are deleted, reference grants whose
  cluster is gone as well; each route of the specification is then created, compared and updated, or
  removed when it is disabled.
\<close>

definition minimumSupportedVersionForGateway :: string where
  "minimumSupportedVersionForGateway = ''1.26.0''"

definition gatewayApiGroup :: string where
  "gatewayApiGroup = ''gateway.networking.k8s.io''"

section \<open>Building and changing routes\<close>

definition getGatewayParentRef :: "HttpRouteSpec \<Rightarrow> TypesenseCluster \<Rightarrow> ParentReference" where
  "getGatewayParentRef spec ts =
     \<lparr>pr_Group = None, pr_Kind = None, pr_Name = gp_Name (hrs_ParentRef spec),
      pr_Namespace = Some (case gp_Namespace (hrs_ParentRef spec) of
                             None \<Rightarrow> ts_Namespace ts | Some ns \<Rightarrow> ns),
      pr_SectionName = gp_SectionName (hrs_ParentRef spec)\<rparr>"

definition route_object :: "ObjectKey \<Rightarrow> HttpRouteSpec \<Rightarrow> TypesenseCluster \<Rightarrow> HTTPRoute" where
  "route_object key spec ts =
     \<lparr>hr_meta = getHttpRouteObjectMeta ts spec (Some (key_Name key)) (hrs_Labels spec) (hrs_Annotations spec),
      hr_ParentRefs = [getGatewayParentRef spec ts],
      hr_Hostnames = hrs_Hostnames spec,
      hr_Rules =
        [\<lparr>rule_Matches = [Some \<lparr>pm_Type = hrs_PathType spec, pm_Value = Some (hrs_Path spec)\<rparr>],
          rule_BackendRefs =
            [\<lparr>br_Group = Some [], br_Kind = Some ''Service'',
              br_Name = ClusterRestService (ts_Name ts), br_Namespace = Some (ts_Namespace ts),
              br_Port = Some (int32 (spec_ApiPort (ts_Spec ts))), br_Weight = Some 1\<rparr>]\<rparr>]\<rparr>"

definition createHttpRoute ::
  "Reconciler \<Rightarrow> ObjectKey \<Rightarrow> HttpRouteSpec \<Rightarrow> TypesenseCluster \<Rightarrow> history
     \<Rightarrow> (error + HTTPRoute) \<times> history" where
  "createHttpRoute r key spec ts h =
     (let httpRoute = route_object key spec ts
      in case ext_SetControllerReference r ''TypesenseCluster'' (ts_meta ts) (hr_meta httpRoute) of
           Inl err \<Rightarrow> (Inl err, h)
         | Inr owners \<Rightarrow>
             Create r HTTPRoutes
               (httpRoute\<lparr>hr_meta := (hr_meta httpRoute)\<lparr>OwnerReferences := owners\<rparr>\<rparr>) h)"

definition deleteHttpRoute :: "Reconciler \<Rightarrow> HTTPRoute \<Rightarrow> history \<Rightarrow> error option \<times> history" where
  "deleteHttpRoute r httpRoute h = Delete r HTTPRoutes httpRoute h"

text \<open>\<^verbatim>\<open>Spec.Rules[0].Matches[0].Path\<close>, which panics where it is missing.\<close>

definition route_path :: "HTTPRoute \<Rightarrow> HTTPPathMatch option" where
  "route_path httpRoute = do {
     rule \<leftarrow> index (hr_Rules httpRoute) 0;
     m \<leftarrow> index (rule_Matches rule) 0;
     m
   }"

definition set_route_path :: "HTTPRoute \<Rightarrow> string option \<Rightarrow> string option \<Rightarrow> HTTPRoute option" where
  "set_route_path httpRoute v t = do {
     rule \<leftarrow> index (hr_Rules httpRoute) 0;
     m \<leftarrow> index (rule_Matches rule) 0;
     p \<leftarrow> m;
     matches \<leftarrow> store_index (rule_Matches rule) 0 (Some (p\<lparr>pm_Value := v, pm_Type := t\<rparr>));
     rules \<leftarrow> store_index (hr_Rules httpRoute) 0 (rule\<lparr>rule_Matches := matches\<rparr>);
     Some (httpRoute\<lparr>hr_Rules := rules\<rparr>)
   }"

text \<open>The object an update sends: the labels are not among the fields it changes.\<close>

definition updated_route :: "HttpRouteSpec \<Rightarrow> HTTPRoute \<Rightarrow> TypesenseCluster \<Rightarrow> HTTPRoute option" where
  "updated_route spec httpRoute ts = do {
     refs \<leftarrow> store_index (hr_ParentRefs httpRoute) 0 (getGatewayParentRef spec ts);
     let route = httpRoute\<lparr>hr_ParentRefs := refs, hr_Hostnames := hrs_Hostnames spec\<rparr>;
     route \<leftarrow> set_route_path route (Some (hrs_Path spec)) (hrs_PathType spec);
     Some (route\<lparr>hr_meta := (hr_meta route)\<lparr>Annotations := hrs_Annotations spec\<rparr>\<rparr>)
   }"

definition updateHttpRoute ::
  "Reconciler \<Rightarrow> HttpRouteSpec \<Rightarrow> HTTPRoute \<Rightarrow> TypesenseCluster \<Rightarrow> history
     \<Rightarrow> ((error + HTTPRoute) \<times> history) option" where
  "updateHttpRoute r spec httpRoute ts h = do {
     updated \<leftarrow> updated_route spec httpRoute ts;
     Some (Patch r HTTPRoutes httpRoute updated h)
   }"

definition getHttpRouteAnnotations :: "HTTPRoute \<Rightarrow> TypesenseCluster \<Rightarrow> strmap" where
  "getHttpRouteAnnotations httpRoute ts =
     filterMap (Annotations (hr_meta httpRoute))
       (clusterIssuerAnnotationKey # rancherDomainAnnotationKey #
        spec_IgnoreAnnotationsFromExternalMutations (ts_Spec ts))"

text \<open>
  The method \<^verbatim>\<open>getHttpRouteLabels\<close>: the labels of a route without those the operator
  sets. The keys to remove come in the order of a map iteration, on which the filter does not depend;
  the list is sorted here.
\<close>

definition observed_route_labels :: "HTTPRoute \<Rightarrow> HttpRouteSpec \<Rightarrow> TypesenseCluster \<Rightarrow> strmap" where
  "observed_route_labels httpRoute spec ts =
     filterMap (Labels (hr_meta httpRoute))
       (sorted_list_of_fset (fmdom (getHttpRouteLabels ts spec)))"

section \<open>Reference grants\<close>

definition createReferenceGrant ::
  "Reconciler \<Rightarrow> HttpRouteSpec \<Rightarrow> TypesenseCluster \<Rightarrow> history
     \<Rightarrow> ((error + ReferenceGrant) \<times> history) option" where
  "createReferenceGrant r spec ts h = do {
     meta \<leftarrow> getReferenceGrantObjectMeta ts spec;
     Some (Create r ReferenceGrants
       \<lparr>rg_meta = meta, rg_From = [(gatewayApiGroup, ''HTTPRoute'', ts_Namespace ts)],
        rg_To = [(gatewayApiGroup, ''Gateway'', Some (gp_Name (hrs_ParentRef spec)))]\<rparr> h)
   }"

definition deleteReferenceGrant :: "Reconciler \<Rightarrow> ReferenceGrant \<Rightarrow> history \<Rightarrow> error option \<times> history" where
  "deleteReferenceGrant r rg h = Delete r ReferenceGrants rg h"

definition updateReferenceGrant ::
  "Reconciler \<Rightarrow> HttpRouteSpec \<Rightarrow> TypesenseCluster \<Rightarrow> history \<Rightarrow> (error option \<times> history) option" where
  "updateReferenceGrant r spec ts h = do {
     namespace \<leftarrow> gp_Namespace (hrs_ParentRef spec);
     let objectKey = \<lparr>key_Namespace = namespace,
                      key_Name = ClusterHttpRouteReferenceGrant (ts_Name ts) (hrs_Name spec)\<rparr>;
     case Get r ReferenceGrants objectKey h of
       (Inl err, h) \<Rightarrow>
         if \<not> IsNotFound err then Some (Some err, h)
         else do {
           wanted \<leftarrow> hrs_ReferenceGrant spec;
           if \<not> wanted then Some (None, h)
           else do {
             (created, h) \<leftarrow> createReferenceGrant r spec ts h;
             case created of Inl err \<Rightarrow> Some (Some err, h) | Inr _ \<Rightarrow> Some (None, h)
           }
         }
     | (Inr referenceGrant, h) \<Rightarrow> do {
         wanted \<leftarrow> hrs_ReferenceGrant spec;
         if wanted then Some (None, h)
         else Some (deleteReferenceGrant r referenceGrant h)
       }
   }"

section \<open>Orphans\<close>

definition route_in_specs :: "TypesenseCluster \<Rightarrow> HTTPRoute \<Rightarrow> bool" where
  "route_in_specs ts eroute =
     list_ex (\<lambda>droute. Name (hr_meta eroute) = ClusterHttpRoute (ts_Name ts) (hrs_Name droute))
       (case spec_HttpRoutes (ts_Spec ts) of None \<Rightarrow> [] | Some rs \<Rightarrow> rs)"

fun delete_orphaned_routes ::
  "Reconciler \<Rightarrow> TypesenseCluster \<Rightarrow> HTTPRoute list \<Rightarrow> history \<Rightarrow> error option \<times> history" where
  "delete_orphaned_routes r ts [] h = (None, h)"
| "delete_orphaned_routes r ts (eroute # rest) h =
     (if \<not> route_in_specs ts eroute then
        (case deleteHttpRoute r eroute h of
           (Some err, h) \<Rightarrow> (Some (Wrap ''deleting http route failed'' err), h)
         | (None, h) \<Rightarrow> delete_orphaned_routes r ts rest h)
      else delete_orphaned_routes r ts rest h)"

definition deleteOrphanedHttpRoutes ::
  "Reconciler \<Rightarrow> TypesenseCluster \<Rightarrow> history \<Rightarrow> error option \<times> history" where
  "deleteOrphanedHttpRoutes r ts h =
     (case List r HTTPRoutes \<lparr>lo_Namespace = Some (ts_Namespace ts), lo_LabelSelector = getLabels ts\<rparr> h of
        (Inl err, h) \<Rightarrow> (Some (Wrap ''failed to list http routes'' err), h)
      | (Inr httpRoutes, h) \<Rightarrow> delete_orphaned_routes r ts httpRoutes h)"

definition grant_has_cluster :: "TypesenseCluster list \<Rightarrow> ReferenceGrant \<Rightarrow> bool" where
  "grant_has_cluster clusters rg =
     list_ex (\<lambda>cluster. lookup (Labels (rg_meta rg)) ''app'' = ClusterAppLabel (ts_Name cluster)) clusters"

fun delete_orphaned_grants ::
  "Reconciler \<Rightarrow> TypesenseCluster list \<Rightarrow> ReferenceGrant list \<Rightarrow> history \<Rightarrow> error option \<times> history" where
  "delete_orphaned_grants r clusters [] h = (None, h)"
| "delete_orphaned_grants r clusters (rg # rest) h =
     (if \<not> grant_has_cluster clusters rg then
        (case deleteReferenceGrant r rg h of
           (Some err, h) \<Rightarrow> (Some (Wrap ''deleting reference grant failed'' err), h)
         | (None, h) \<Rightarrow> delete_orphaned_grants r clusters rest h)
      else delete_orphaned_grants r clusters rest h)"

definition deleteOrphanedReferenceGrants :: "Reconciler \<Rightarrow> history \<Rightarrow> error option \<times> history" where
  "deleteOrphanedReferenceGrants r h =
     (case List r ReferenceGrants
             \<lparr>lo_Namespace = None,
              lo_LabelSelector = fmap_of_list [(''app.kubernetes.io/managed-by'', ''typesense-operator'')]\<rparr> h of
        (Inl err, h) \<Rightarrow> (Some (Wrap ''failed to list reference grants'' err), h)
      | (Inr referenceGrants, h) \<Rightarrow>
          (case List r TypesenseClusters \<lparr>lo_Namespace = None, lo_LabelSelector = fmempty\<rparr> h of
             (Inl err, h) \<Rightarrow> (Some (Wrap ''failed to list typesense clusters'' err), h)
           | (Inr clusters, h) \<Rightarrow> delete_orphaned_grants r clusters referenceGrants h))"

section \<open>The reconciliation\<close>

text \<open>The grants of a disabled route: a failure is only logged.\<close>

fun delete_grants :: "Reconciler \<Rightarrow> ReferenceGrant list \<Rightarrow> history \<Rightarrow> history" where
  "delete_grants r [] h = h"
| "delete_grants r (rg # rest) h = delete_grants r rest (snd (deleteReferenceGrant r rg h))"

text \<open>A disabled route is removed with its grants (lines 87 to 116).\<close>

definition remove_disabled ::
  "Reconciler \<Rightarrow> HTTPRoute \<Rightarrow> history \<Rightarrow> error option \<times> history" where
  "remove_disabled r httpRoute h =
     (case List r ReferenceGrants
             \<lparr>lo_Namespace = None, lo_LabelSelector = fmap_of_list [(''route'', Name (hr_meta httpRoute))]\<rparr> h of
        (Inl err, h) \<Rightarrow> (Some (Wrap ''failed to list reference grants'' err), h)
      | (Inr referenceGrants, h) \<Rightarrow>
          (case deleteHttpRoute r httpRoute (delete_grants r referenceGrants h) of
             (Some err, h) \<Rightarrow> (Some (Wrap ''deleting http route failed'' err), h)
           | (None, h) \<Rightarrow> (None, h)))"

text \<open>
  Whether an existing route differs from its specification (lines 118 to 144). The operands of the
  disjunction are evaluated in order and only as far as needed.
\<close>

definition route_changed :: "HttpRouteSpec \<Rightarrow> HTTPRoute \<Rightarrow> TypesenseCluster \<Rightarrow> bool option" where
  "route_changed hrt httpRoute ts = do {
     let lbls = observed_route_labels httpRoute hrt ts;
     let annotations = getHttpRouteAnnotations httpRoute ts;
     let pRef = hrs_ParentRef hrt;
     let parentRef = \<lparr>pr_Group = Some gatewayApiGroup, pr_Kind = Some ''Gateway'', pr_Name = gp_Name pRef,
                      pr_Namespace = gp_Namespace pRef, pr_SectionName = gp_SectionName pRef\<rparr>;
     p \<leftarrow> route_path httpRoute;
     path \<leftarrow> pm_Value p;
     if hrs_Hostnames hrt \<noteq> hr_Hostnames httpRoute \<or> hrs_Labels hrt \<noteq> lbls \<or> hrs_Annotations hrt \<noteq> annotations
     then Some True
     else do {
       ref \<leftarrow> index (hr_ParentRefs httpRoute) 0;
       if parentRef \<noteq> ref \<or> hrs_Path hrt \<noteq> path then Some True
       else do {
         specType \<leftarrow> hrs_PathType hrt;
         pathType \<leftarrow> pm_Type p;
         Some (specType \<noteq> pathType)
       }
     }
   }"

text \<open>The comparison and what follows it (lines 118 to 158).\<close>

definition sync_route ::
  "Reconciler \<Rightarrow> HttpRouteSpec \<Rightarrow> HTTPRoute \<Rightarrow> TypesenseCluster \<Rightarrow> history
     \<Rightarrow> (error option \<times> history) option" where
  "sync_route r hrt httpRoute ts h = do {
     changed \<leftarrow> route_changed hrt httpRoute ts;
     (err, h) \<leftarrow> (if changed then do {
                    (updated, h) \<leftarrow> updateHttpRoute r hrt httpRoute ts h;
                    Some (case updated of Inl err \<Rightarrow> Some err | Inr _ \<Rightarrow> None, h)
                  } else Some (None, h));
     case err of
       Some err \<Rightarrow> Some (Some err, h)
     | None \<Rightarrow> updateReferenceGrant r hrt ts h
   }"

definition httpRouteObjectKey :: "TypesenseCluster \<Rightarrow> HttpRouteSpec \<Rightarrow> ObjectKey" where
  "httpRouteObjectKey ts hrt =
     \<lparr>key_Namespace = ts_Namespace ts, key_Name = ClusterHttpRoute (ts_Name ts) (hrs_Name hrt)\<rparr>"

text \<open>One turn of the loop over the routes of the specification (lines 56 to 159).\<close>

definition reconcile_route ::
  "Reconciler \<Rightarrow> TypesenseCluster \<Rightarrow> HttpRouteSpec \<Rightarrow> history \<Rightarrow> (error option \<times> history) option" where
  "reconcile_route r ts hrt h =
     (case Get r HTTPRoutes (httpRouteObjectKey ts hrt) h of
        (got, h) \<Rightarrow>
          (case got of
             Inl err \<Rightarrow>
               if \<not> IsNotFound err then Some (Some err, h)
               else if hrs_Enabled hrt then
                 (case createHttpRoute r (httpRouteObjectKey ts hrt) hrt ts h of
                    (Inl err, h) \<Rightarrow> Some (Some err, h)
                  | (Inr _, h) \<Rightarrow> do {
                      wanted \<leftarrow> hrs_ReferenceGrant hrt;
                      if wanted then do {
                        (created, h) \<leftarrow> createReferenceGrant r hrt ts h;
                        case created of Inl err \<Rightarrow> Some (Some err, h) | Inr _ \<Rightarrow> Some (None, h)
                      }
                      else Some (None, h)
                    })
               else
                 (case remove_disabled r empty_HTTPRoute h of
                    (Some err, h) \<Rightarrow> Some (Some err, h)
                  | (None, h) \<Rightarrow> sync_route r hrt empty_HTTPRoute ts h)
           | Inr httpRoute \<Rightarrow>
               (case (if \<not> hrs_Enabled hrt then remove_disabled r httpRoute h else (None, h)) of
                  (Some err, h) \<Rightarrow> Some (Some err, h)
                | (None, h) \<Rightarrow> sync_route r hrt httpRoute ts h)))"

fun reconcile_routes ::
  "Reconciler \<Rightarrow> TypesenseCluster \<Rightarrow> HttpRouteSpec list \<Rightarrow> history \<Rightarrow> (error option \<times> history) option" where
  "reconcile_routes r ts [] h = Some (None, h)"
| "reconcile_routes r ts (hrt # rest) h = do {
     (err, h) \<leftarrow> reconcile_route r ts hrt h;
     case err of
       Some err \<Rightarrow> Some (Some err, h)
     | None \<Rightarrow> reconcile_routes r ts rest h
   }"

definition ReconcileHttpRoute ::
  "Reconciler \<Rightarrow> TypesenseCluster \<Rightarrow> history \<Rightarrow> (error option \<times> history) option" where
  "ReconcileHttpRoute r ts h =
     (case IsFeatureSupported r minimumSupportedVersionForGateway h of
        ((supported, ver, err), h) \<Rightarrow>
          if err \<noteq> None then Some (err, h)
          else if \<not> supported then Some (None, h)
          else case IsApiGroupDeployed r gatewayApiGroup h of
                 (deployed, h) \<Rightarrow>
                   if deployed \<noteq> Inr True then Some (None, h)
                   else case deleteOrphanedHttpRoutes r ts h of
                          (Some err, h) \<Rightarrow> Some (Some err, h)
                        | (None, h) \<Rightarrow>
                            (case deleteOrphanedReferenceGrants r h of
                               (Some err, h) \<Rightarrow> Some (Some err, h)
                             | (None, h) \<Rightarrow>
                                 reconcile_routes r ts
                                   (case spec_HttpRoutes (ts_Spec ts) of None \<Rightarrow> [] | Some rs \<Rightarrow> rs) h))"

section \<open>Footprints\<close>

abbreviation route_kinds :: "kind set" where
  "route_kinds \<equiv> {KHTTPRoute, KReferenceGrant}"

lemma createHttpRoute_emits:
  "createHttpRoute r key spec ts h = (x, h') \<Longrightarrow> emits (writes_only route_kinds) h h'"
  by (auto simp: createHttpRoute_def req_simps Let_def split: sum.split_asm)

lemma updateHttpRoute_emits: "run_ok (writes_only route_kinds) h (updateHttpRoute r spec hr ts h)"
  by (auto simp: updateHttpRoute_def req_simps intro!: run_ok_deref)

lemma createReferenceGrant_emits: "run_ok (writes_only route_kinds) h (createReferenceGrant r spec ts h)"
  by (auto simp: createReferenceGrant_def req_simps intro!: run_ok_deref)

lemma updateReferenceGrant_emits: "run_ok (writes_only route_kinds) h (updateReferenceGrant r spec ts h)"
  unfolding updateReferenceGrant_def Get_def deleteReferenceGrant_def Delete_def Let_def
  by (auto intro!: run_ok_sum run_ok_if run_ok_bind [OF createReferenceGrant_emits]
      run_ok_deref [of "gp_Namespace s" for s] run_ok_deref [of "hrs_ReferenceGrant s" for s])

interpretation orphaned_routes: sweep HTTPRoutes "\<lambda>route. \<not> route_in_specs ts route"
  "Wrap ''deleting http route failed''" "delete_orphaned_routes r ts" r for r ts
  by unfold_locales (simp_all add: deleteHttpRoute_def)

interpretation orphaned_grants: sweep ReferenceGrants "\<lambda>rg. \<not> grant_has_cluster clusters rg"
  "Wrap ''deleting reference grant failed''" "delete_orphaned_grants r clusters" r for r clusters
  by unfold_locales (simp_all add: deleteReferenceGrant_def)

lemma delete_orphaned_routes_emits:
  "delete_orphaned_routes r ts routes h = (x, h') \<Longrightarrow> emits (writes_only route_kinds) h h'"
  by (erule orphaned_routes.sweeps) simp_all

lemma deleteOrphanedHttpRoutes_emits:
  "deleteOrphanedHttpRoutes r ts h = (x, h') \<Longrightarrow> emits (writes_only route_kinds) h h'"
  by (auto simp: deleteOrphanedHttpRoutes_def List_def dest!: delete_orphaned_routes_emits
      dest: emits_after split: sum.split_asm)

lemma delete_orphaned_grants_emits:
  "delete_orphaned_grants r cs rgs h = (x, h') \<Longrightarrow> emits (writes_only route_kinds) h h'"
  by (erule orphaned_grants.sweeps) simp_all

lemma deleteOrphanedReferenceGrants_emits:
  "deleteOrphanedReferenceGrants r h = (x, h') \<Longrightarrow> emits (writes_only route_kinds) h h'"
  by (auto simp: deleteOrphanedReferenceGrants_def List_def dest!: delete_orphaned_grants_emits
      dest: emits_after split: sum.split_asm)

lemma delete_grants_emits: "emits (writes_only route_kinds) h (delete_grants r rgs h)"
  by (induction r rgs h rule: delete_grants.induct)
     (auto simp: deleteReferenceGrant_def Delete_def dest: emits_after)

lemma remove_disabled_emits:
  "remove_disabled r hr h = (x, h') \<Longrightarrow> emits (writes_only route_kinds) h h'"
  by (auto simp: remove_disabled_def List_def deleteHttpRoute_def Delete_def
      intro!: emits_append [of _ _ "delete_grants a b c" for a b c] emits_trans [OF _ delete_grants_emits]
      split: sum.split_asm option.split_asm)

lemma sync_route_emits: "run_ok (writes_only route_kinds) h (sync_route r hrt hr ts h)"
proof -
  have upd: "run_ok (writes_only route_kinds) h
     (if c then do { (u, h) \<leftarrow> updateHttpRoute r hrt hr ts h;
                     Some (case u of Inl err \<Rightarrow> Some err | Inr _ \<Rightarrow> None, h) }
      else Some (None, h))" for c
    by (auto intro!: run_ok_bind [OF updateHttpRoute_emits])
  show ?thesis
    unfolding sync_route_def
    by (auto intro!: run_ok_deref [of "route_changed a b c" for a b c] run_ok_bind [OF upd]
        run_ok_option run_ok_call [OF updateReferenceGrant_emits] simp del: if_split_asm)
qed

lemmas route_seqs =
  run_ok_seq [of "createHttpRoute r k s ts g" for r k s ts g, OF createHttpRoute_emits]
  run_ok_seq [of "remove_disabled r hr g" for r hr g, OF remove_disabled_emits]

lemma reconcile_route_emits: "run_ok (writes_only route_kinds) h (reconcile_route r ts hrt h)"
  unfolding reconcile_route_def Get_def
  by (auto intro!: run_ok_sum run_ok_option route_seqs run_ok_bind [OF createReferenceGrant_emits]
      run_ok_deref [of "hrs_ReferenceGrant s" for s] run_ok_call [OF sync_route_emits]) (simp, simp)

lemma reconcile_routes_emits: "run_ok (writes_only route_kinds) h (reconcile_routes r ts hrts h)"
proof (induction hrts arbitrary: h)
  case (Cons hrt rest)
  show ?case
    by (auto intro!: run_ok_bind [OF reconcile_route_emits] run_ok_option run_ok_call [OF Cons.IH])
qed simp

lemma ReconcileHttpRoute_emits: "run_ok (writes_only route_kinds) h (ReconcileHttpRoute r ts h)"
proof -
  have feature: "emits (writes_only route_kinds) g g'" if "IsFeatureSupported r m g = (x, g')" for m g g' x
    using IsFeatureSupported_reads [of g r m] that by (simp add: emits_read_writes_only)
  have group: "emits (writes_only route_kinds) g g'" if "IsApiGroupDeployed r m g = (x, g')" for m g g' x
    using IsApiGroupDeployed_reads [of g r m] that by (simp add: emits_read_writes_only)
  show ?thesis
    unfolding ReconcileHttpRoute_def
    by (auto intro!: run_ok_if run_ok_option
        run_ok_seq [of "IsFeatureSupported a b c" for a b c, OF feature]
        run_ok_seq [of "IsApiGroupDeployed a b c" for a b c, OF group]
        run_ok_seq [of "deleteOrphanedHttpRoutes a b c" for a b c, OF deleteOrphanedHttpRoutes_emits]
        run_ok_seq [of "deleteOrphanedReferenceGrants a b" for a b, OF deleteOrphanedReferenceGrants_emits]
        run_ok_call [OF reconcile_routes_emits])
qed

interpretation http_route_phase: operation "ReconcileHttpRoute r ts" "writes_only route_kinds" for r ts
  by unfold_locales (rule ReconcileHttpRoute_emits)

end
