(* ===== verification/Scrapers.thy ===== *)
theory Scrapers
  imports Admin_Secret Sample_Env Sweep
begin

text \<open>
  The scrapers: \<^verbatim>\<open>typesensecluster_scraper.go\<close>. A scraper of the specification is a cron
  job; cron jobs of the cluster that are not in the specification are deleted, changed ones are
  deleted and created again.
\<close>

definition scraper_object :: "ObjectKey \<Rightarrow> TypesenseCluster \<Rightarrow> DocSearchScraperSpec \<Rightarrow> CronJob" where
  "scraper_object key ts scraperSpec =
     \<lparr>cj_meta = getObjectMeta ts (Some (key_Name key)) fmempty,
      cj_ConcurrencyPolicy = ''Forbid'', cj_SuccessfulJobsHistoryLimit = Some 1,
      cj_FailedJobsHistoryLimit = Some 1, cj_Schedule = dss_Schedule scraperSpec,
      cj_BackoffLimit = Some 0,
      cj_Template = \<lparr>pt_meta = empty_meta, pt_spec = empty_PodSpec\<lparr>
        ps_ImagePullSecrets := spec_ImagePullSecrets (ts_Spec ts),
        ps_RestartPolicy := ''Never'',
        ps_Containers := [empty_Container\<lparr>
          c_Name := ClusterScraperCronJobContainer (dss_Name scraperSpec),
          c_Image := dss_Image scraperSpec,
          c_Env :=
            [\<lparr>env_Name = ''CONFIG'', env_Value = dss_Config scraperSpec, env_ValueFrom = None\<rparr>,
             \<lparr>env_Name = ''TYPESENSE_API_KEY'', env_Value = [],
              env_ValueFrom = Some (SecretKeyRef ClusterAdminApiKeySecretKeyName
                (key_Name (getAdminApiKeyObjectKey ts)))\<rparr>,
             \<lparr>env_Name = ''TYPESENSE_HOST'', env_Value = ClusterRestService (ts_Name ts),
              env_ValueFrom = None\<rparr>,
             \<lparr>env_Name = ''TYPESENSE_PORT'', env_Value = Itoa (spec_ApiPort (ts_Spec ts)),
              env_ValueFrom = None\<rparr>,
             \<lparr>env_Name = ''TYPESENSE_PROTOCOL'', env_Value = ''http'', env_ValueFrom = None\<rparr>],
          c_EnvFrom := GetScraperAuthConfiguration scraperSpec,
          c_Resources := default_resources 1024 512 128 112\<rparr>]\<rparr>\<rparr>\<rparr>"

definition createScraper ::
  "Reconciler \<Rightarrow> ObjectKey \<Rightarrow> TypesenseCluster \<Rightarrow> DocSearchScraperSpec \<Rightarrow> history
     \<Rightarrow> error option \<times> history" where
  "createScraper r key ts scraperSpec h =
     (let scraper = scraper_object key ts scraperSpec
      in case ext_SetControllerReference r ''TypesenseCluster'' (ts_meta ts) (cj_meta scraper) of
           Inl err \<Rightarrow> (Some err, h)
         | Inr owners \<Rightarrow>
             (case Create r CronJobs
                (scraper\<lparr>cj_meta := (cj_meta scraper)\<lparr>OwnerReferences := owners\<rparr>\<rparr>) h of
                (Inl err, h) \<Rightarrow> (Some err, h)
              | (Inr _, h) \<Rightarrow> (None, h)))"

definition deleteScraper :: "Reconciler \<Rightarrow> CronJob \<Rightarrow> history \<Rightarrow> error option \<times> history" where
  "deleteScraper r scraper h = Delete r CronJobs scraper h"

definition inSpecs :: "string \<Rightarrow> DocSearchScraperSpec list \<Rightarrow> bool" where
  "inSpecs cronJobName scrapers =
     list_ex (\<lambda>scraper. cronJobName = ClusterScraperCronJob (dss_Name scraper)) scrapers"

fun delete_stale ::
  "Reconciler \<Rightarrow> DocSearchScraperSpec list option \<Rightarrow> CronJob list \<Rightarrow> history \<Rightarrow> error option \<times> history" where
  "delete_stale r specs [] h = (None, h)"
| "delete_stale r specs (scraperCronJob # rest) h =
     (if (case specs of None \<Rightarrow> True | Some ss \<Rightarrow> \<not> inSpecs (Name (cj_meta scraperCronJob)) ss)
      then (case deleteScraper r scraperCronJob h of
              (Some err, h) \<Rightarrow> (Some err, h)
            | (None, h) \<Rightarrow> delete_stale r specs rest h)
      else delete_stale r specs rest h)"

definition scraperObjectKey :: "TypesenseCluster \<Rightarrow> DocSearchScraperSpec \<Rightarrow> ObjectKey" where
  "scraperObjectKey ts scraper =
     \<lparr>key_Namespace = ts_Namespace ts, key_Name = ClusterScraperCronJob (dss_Name scraper)\<rparr>"

text \<open>Whether an existing cron job differs from its specification; a job without containers panics.\<close>

definition scraper_changed :: "CronJob \<Rightarrow> DocSearchScraperSpec \<Rightarrow> bool option" where
  "scraper_changed scraperCronJob scraper = do {
     container \<leftarrow> index (ps_Containers (pt_spec (cj_Template scraperCronJob))) 0;
     let hasChangedConfig =
       list_ex (\<lambda>env. env_Name env = ''CONFIG'' \<and> env_Value env \<noteq> dss_Config scraper) (c_Env container);
     Some (cj_Schedule scraperCronJob \<noteq> dss_Schedule scraper \<or> c_Image container \<noteq> dss_Image scraper \<or>
           hasChangedConfig)
   }"

text \<open>One turn of the loop over the scrapers of the specification (lines 57 to 110).\<close>

definition reconcile_scraper ::
  "Reconciler \<Rightarrow> TypesenseCluster \<Rightarrow> DocSearchScraperSpec \<Rightarrow> history
     \<Rightarrow> (error option \<times> history) option" where
  "reconcile_scraper r ts scraper h =
     (let key = scraperObjectKey ts scraper
      in case Get r CronJobs key h of
           (Inl err, h) \<Rightarrow>
             if IsNotFound err then Some (createScraper r key ts scraper h) else Some (Some err, h)
         | (Inr scraperCronJob, h) \<Rightarrow> do {
             hasChanged \<leftarrow> scraper_changed scraperCronJob scraper;
             if hasChanged then
               (case deleteScraper r scraperCronJob h of
                  (Some err, h) \<Rightarrow> Some (Some err, h)
                | (None, h) \<Rightarrow> Some (createScraper r key ts scraper h))
             else Some (None, h)
           })"

fun reconcile_scrapers ::
  "Reconciler \<Rightarrow> TypesenseCluster \<Rightarrow> DocSearchScraperSpec list \<Rightarrow> history
     \<Rightarrow> (error option \<times> history) option" where
  "reconcile_scrapers r ts [] h = Some (None, h)"
| "reconcile_scrapers r ts (scraper # rest) h = do {
     (err, h) \<leftarrow> reconcile_scraper r ts scraper h;
     case err of
       Some err \<Rightarrow> Some (Some err, h)
     | None \<Rightarrow> reconcile_scrapers r ts rest h
   }"

definition ReconcileScraper ::
  "Reconciler \<Rightarrow> TypesenseCluster \<Rightarrow> history \<Rightarrow> (error option \<times> history) option" where
  "ReconcileScraper r ts h =
     (case List r CronJobs \<lparr>lo_Namespace = Some (ts_Namespace ts), lo_LabelSelector = getLabels ts\<rparr> h of
        (Inl err, h) \<Rightarrow> Some (Some err, h)
      | (Inr scraperCronJobs, h) \<Rightarrow>
          (case delete_stale r (spec_Scrapers (ts_Spec ts)) scraperCronJobs h of
             (Some err, h) \<Rightarrow> Some (Some err, h)
           | (None, h) \<Rightarrow>
               (case spec_Scrapers (ts_Spec ts) of
                  None \<Rightarrow> Some (None, h)
                | Some scrapers \<Rightarrow> reconcile_scrapers r ts scrapers h)))"

section \<open>Footprints\<close>

lemma createScraper_emits: "createScraper r key ts s h = (e, h') \<Longrightarrow> emits (writes_only {KCronJob}) h h'"
  by (auto simp: createScraper_def req_simps Let_def split: sum.splits)

interpretation stale_jobs: sweep CronJobs
  "\<lambda>job. case specs of None \<Rightarrow> True | Some ss \<Rightarrow> \<not> inSpecs (Name (cj_meta job)) ss" "\<lambda>err. err"
  "delete_stale r specs" r for r specs
  by unfold_locales (simp_all add: deleteScraper_def)

lemma delete_stale_emits:
  "delete_stale r specs cjs h = (e, h') \<Longrightarrow> emits (writes_only {KCronJob}) h h'"
  by (erule stale_jobs.sweeps) simp_all

lemma reconcile_scraper_emits: "run_ok (writes_only {KCronJob}) h (reconcile_scraper r ts s h)"
proof -
  have c: "run_ok (writes_only {KCronJob}) h1 (Some (createScraper r key ts s h1))" for key h1
    by (cases "createScraper r key ts s h1") (auto dest: createScraper_emits)
  show ?thesis
    unfolding reconcile_scraper_def Get_def deleteScraper_def Delete_def Let_def
    by (auto intro!: run_ok_sum run_ok_if run_ok_option run_ok_deref run_ok_call [OF c])
qed

lemma reconcile_scrapers_emits: "run_ok (writes_only {KCronJob}) h (reconcile_scrapers r ts ss h)"
proof (induction ss arbitrary: h)
  case (Cons s ss)
  then show ?case
    by (auto intro!: run_ok_bind [OF reconcile_scraper_emits] run_ok_option run_ok_call [OF Cons.IH])
qed simp

lemma ReconcileScraper_emits: "run_ok (writes_only {KCronJob}) h (ReconcileScraper r ts h)"
  unfolding ReconcileScraper_def List_def
  by (auto intro!: run_ok_sum run_ok_seq [OF delete_stale_emits] run_ok_option
      run_ok_call [OF reconcile_scrapers_emits])

interpretation scraper_phase: operation "ReconcileScraper r ts" "writes_only {KCronJob}" for r ts
  by unfold_locales (rule ReconcileScraper_emits)

end
