(* ===== verification/Pod_Monitors.thy ===== *)
theory Pod_Monitors
  imports Sample_Env
begin

text \<open>
  The pod monitor for Prometheus: \<^verbatim>\<open>typesensecluster_podmonitor.go\<close>. It is only
  reconciled when the API group of the Prometheus operator is deployed.
\<close>

definition prometheusApiGroup :: string where "prometheusApiGroup = ''monitoring.coreos.com''"

definition podMonitorObjectKey :: "TypesenseCluster \<Rightarrow> ObjectKey" where
  "podMonitorObjectKey ts =
     \<lparr>key_Namespace = ts_Namespace ts, key_Name = ClusterMetricsPodMonitor (ts_Name ts)\<rparr>"

text \<open>\<^verbatim>\<open>fmt.Sprintf("%ds", ...)\<close> of the scrape interval.\<close>

definition scrape_interval :: "MetricsExporterSpec \<Rightarrow> string" where
  "scrape_interval metrics = Itoa (mes_IntervalInSeconds metrics) @ ''s''"

text \<open>A specification without metrics makes this panic.\<close>

definition podmonitor_object :: "ObjectKey \<Rightarrow> TypesenseCluster \<Rightarrow> PodMonitor option" where
  "podmonitor_object key ts = do {
     metrics \<leftarrow> spec_Metrics (ts_Spec ts);
     let objectMeta = getPodMonitorObjectMeta ts (Some (key_Name key)) fmempty;
     Some \<lparr>pmon_meta = objectMeta\<lparr>Labels := fmupd ''release'' (mes_Release metrics) (Labels objectMeta)\<rparr>,
           pmon_Selector = getLabels ts,
           pmon_NamespaceSelector = [ts_Namespace ts],
           pmon_PodMetricsEndpoints =
             [\<lparr>pme_Port = ''metrics'', pme_Path = ''/metrics'', pme_Interval = scrape_interval metrics,
               pme_Scheme = ''http''\<rparr>]\<rparr>
   }"

definition createMetricsExporterPodMonitor ::
  "Reconciler \<Rightarrow> ObjectKey \<Rightarrow> TypesenseCluster \<Rightarrow> history \<Rightarrow> (error option \<times> history) option" where
  "createMetricsExporterPodMonitor r key ts h = do {
     podMonitor \<leftarrow> podmonitor_object key ts;
     case ext_SetControllerReference r ''TypesenseCluster'' (ts_meta ts) (pmon_meta podMonitor) of
       Inl err \<Rightarrow> Some (Some err, h)
     | Inr owners \<Rightarrow>
         (case Create r PodMonitors
            (podMonitor\<lparr>pmon_meta := (pmon_meta podMonitor)\<lparr>OwnerReferences := owners\<rparr>\<rparr>) h of
            (Inl err, h) \<Rightarrow> Some (Some err, h)
          | (Inr _, h) \<Rightarrow> Some (None, h))
   }"

definition deleteMetricsExporterPodMonitor ::
  "Reconciler \<Rightarrow> PodMonitor \<Rightarrow> history \<Rightarrow> error option \<times> history" where
  "deleteMetricsExporterPodMonitor r podMonitor h = Delete r PodMonitors podMonitor h"

definition deleteMetricsExporterDeployment ::
  "Reconciler \<Rightarrow> Deployment \<Rightarrow> history \<Rightarrow> error option \<times> history" where
  "deleteMetricsExporterDeployment r deployment h = Delete r Deployments deployment h"

definition empty_Deployment :: Deployment where
  "empty_Deployment = \<lparr>dep_meta = empty_meta, dep_Replicas = None, dep_Selector = fmempty,
     dep_Template = \<lparr>pt_meta = empty_meta, pt_spec = empty_PodSpec\<rparr>\<rparr>"

text \<open>
  The clean-up of the former exporter. A failure other than not found leaves the flag set, so that
  the empty object is deleted.
\<close>

definition deleteMetricsExporterServiceMonitor ::
  "Reconciler \<Rightarrow> TypesenseCluster \<Rightarrow> history \<Rightarrow> history" where
  "deleteMetricsExporterServiceMonitor r ts h =
     (case Get r Deployments
             \<lparr>key_Namespace = ts_Namespace ts,
              key_Name = ClusterPrometheusExporterDeployment (ts_Name ts)\<rparr> h of
        (Inl err, h) \<Rightarrow>
          if IsNotFound err then h else snd (deleteMetricsExporterDeployment r empty_Deployment h)
      | (Inr deployment, h) \<Rightarrow> snd (deleteMetricsExporterDeployment r deployment h))"

section \<open>The reconciliation\<close>

text \<open>An existing pod monitor is compared, and replaced if it differs (lines 65 to 80).\<close>

definition replace_podmonitor ::
  "Reconciler \<Rightarrow> TypesenseCluster \<Rightarrow> MetricsExporterSpec \<Rightarrow> PodMonitor \<Rightarrow> history
     \<Rightarrow> (error option \<times> history) option" where
  "replace_podmonitor r ts metrics podMonitor h = do {
     differs \<leftarrow> (if mes_Release metrics \<noteq> lookup (Labels (pmon_meta podMonitor)) ''release'' then Some True
                else do {
                  ep \<leftarrow> index (pmon_PodMetricsEndpoints podMonitor) 0;
                  Some (scrape_interval metrics \<noteq> pme_Interval ep)
                });
     if differs then
       (case deleteMetricsExporterPodMonitor r podMonitor h of
          (Some err, h) \<Rightarrow> Some (Some err, h)
        | (None, h) \<Rightarrow> createMetricsExporterPodMonitor r (podMonitorObjectKey ts) ts h)
     else Some (None, h)
   }"

definition ReconcilePodMonitor ::
  "Reconciler \<Rightarrow> TypesenseCluster \<Rightarrow> history \<Rightarrow> (error option \<times> history) option" where
  "ReconcilePodMonitor r ts h =
     (let h = deleteMetricsExporterServiceMonitor r ts h
      in case IsApiGroupDeployed r prometheusApiGroup h of
           (deployed, h) \<Rightarrow>
             if deployed \<noteq> Inr True then Some (None, h)
             else case Get r PodMonitors (podMonitorObjectKey ts) h of
                    (got, h) \<Rightarrow>
                      (case got of
                         Inl err \<Rightarrow>
                           if \<not> IsNotFound err then Some (Some err, h)
                           else (case spec_Metrics (ts_Spec ts) of
                                   None \<Rightarrow> Some (None, h)
                                 | Some metrics \<Rightarrow>
                                     createMetricsExporterPodMonitor r (podMonitorObjectKey ts) ts h)
                       | Inr podMonitor \<Rightarrow>
                           (case spec_Metrics (ts_Spec ts) of
                              None \<Rightarrow> Some (deleteMetricsExporterPodMonitor r podMonitor h)
                            | Some metrics \<Rightarrow> replace_podmonitor r ts metrics podMonitor h)))"

section \<open>Footprints\<close>

lemma createMetricsExporterPodMonitor_emits:
  "run_ok (writes_only {KPodMonitor}) h (createMetricsExporterPodMonitor r key ts h)"
  by (auto simp: createMetricsExporterPodMonitor_def req_simps intro!: run_ok_deref run_ok_sum)

lemma replace_podmonitor_emits:
  "run_ok (writes_only {KPodMonitor}) h (replace_podmonitor r ts m p h)"
  unfolding replace_podmonitor_def deleteMetricsExporterPodMonitor_def Delete_def
  by (intro run_ok_deref) (auto intro!: run_ok_option run_ok_call [OF createMetricsExporterPodMonitor_emits])

lemma deleteMetricsExporterServiceMonitor_emits:
  "emits (writes_only {KDeployment}) h (deleteMetricsExporterServiceMonitor r ts h)"
  by (auto simp: deleteMetricsExporterServiceMonitor_def deleteMetricsExporterDeployment_def req_simps
      split: sum.splits)

lemma ReconcilePodMonitor_emits:
  "run_ok (writes_only {KDeployment, KPodMonitor}) h (ReconcilePodMonitor r ts h)"
proof -
  let ?P = "writes_only {KDeployment, KPodMonitor}"
  have del: "emits ?P h (deleteMetricsExporterServiceMonitor r ts h)"
    by (rule emits_mono [OF deleteMetricsExporterServiceMonitor_emits]) (erule writes_only_mono, simp)
  have api: "emits ?P h1 h2" if "IsApiGroupDeployed r g h1 = (x, h2)" for g h1 x h2
    using IsApiGroupDeployed_reads [of h1 r g] that by (auto intro: emits_read_writes_only)
  have mk: "run_ok ?P h1 (createMetricsExporterPodMonitor r key ts h1)" for key h1
    by (rule run_ok_mono [OF createMetricsExporterPodMonitor_emits]) (erule writes_only_mono, simp)
  have re: "run_ok ?P h1 (replace_podmonitor r ts m p h1)" for m p h1
    by (rule run_ok_mono [OF replace_podmonitor_emits]) (erule writes_only_mono, simp)
  show ?thesis
    unfolding ReconcilePodMonitor_def Let_def deleteMetricsExporterPodMonitor_def Delete_def Get_def
    by (rule run_ok_seq [OF api _], assumption, rule del)
      (auto intro!: run_ok_if run_ok_sum run_ok_option run_ok_call [OF mk] run_ok_call [OF re])
qed

interpretation pod_monitor_phase: operation "ReconcilePodMonitor r ts" "writes_only {KDeployment, KPodMonitor}" for r ts
  by unfold_locales (rule ReconcilePodMonitor_emits)

end
