(* ===== verification/Cluster_Services.thy ===== *)
theory Cluster_Services
  imports Sample_Env
begin

text \<open>
  The two services of a cluster: \<^verbatim>\<open>typesensecluster_services.go\<close>. The headless service
  governs the statefulset, the other one is what clients talk to.
\<close>

definition service_port :: "string \<Rightarrow> int \<Rightarrow> int \<Rightarrow> ServicePort" where
  "service_port name port target =
     \<lparr>sp_Name = name, sp_Protocol = [], sp_Port = port, sp_TargetPort = target\<rparr>"

definition headless_service :: "ObjectKey \<Rightarrow> TypesenseCluster \<Rightarrow> Service" where
  "headless_service key ts =
     \<lparr>svc_meta = getObjectMeta ts (Some (key_Name key)) fmempty, svc_Type = [],
      svc_ClusterIP = ''None'', svc_PublishNotReadyAddresses = True, svc_Selector = getLabels ts,
      svc_Ports = [service_port ''http'' (int32 (spec_ApiPort (ts_Spec ts))) 8108]\<rparr>"

definition rest_service :: "ObjectKey \<Rightarrow> TypesenseCluster \<Rightarrow> Service" where
  "rest_service key ts =
     \<lparr>svc_meta = getObjectMeta ts (Some (key_Name key)) (spec_ServiceAnnotations (ts_Spec ts)),
      svc_Type = ''ClusterIP'', svc_ClusterIP = [], svc_PublishNotReadyAddresses = False,
      svc_Selector = getLabels ts,
      svc_Ports = [service_port ''http'' (int32 (spec_ApiPort (ts_Spec ts))) 8108,
                   service_port ''healthcheck'' 8808 8808]\<rparr>"

text \<open>Setting the owner and creating the object, as both constructors end.\<close>

definition create_owned_service ::
  "Reconciler \<Rightarrow> TypesenseCluster \<Rightarrow> Service \<Rightarrow> history \<Rightarrow> (error + Service) \<times> history" where
  "create_owned_service r ts svc h =
     (case ext_SetControllerReference r ''TypesenseCluster'' (ts_meta ts) (svc_meta svc) of
        Inl err \<Rightarrow> (Inl err, h)
      | Inr owners \<Rightarrow> Create r Services (svc\<lparr>svc_meta := (svc_meta svc)\<lparr>OwnerReferences := owners\<rparr>\<rparr>) h)"

definition createHeadlessService ::
  "Reconciler \<Rightarrow> ObjectKey \<Rightarrow> TypesenseCluster \<Rightarrow> history \<Rightarrow> (error + Service) \<times> history" where
  "createHeadlessService r key ts h = create_owned_service r ts (headless_service key ts) h"

definition createService ::
  "Reconciler \<Rightarrow> ObjectKey \<Rightarrow> TypesenseCluster \<Rightarrow> history \<Rightarrow> (error + Service) \<times> history" where
  "createService r key ts h = create_owned_service r ts (rest_service key ts) h"

text \<open>Assigning the first port (\<^verbatim>\<open>Ports[0].Port = ...\<close>).\<close>

definition set_first_port :: "Service \<Rightarrow> int \<Rightarrow> Service option" where
  "set_first_port svc port = do {
     p \<leftarrow> index (svc_Ports svc) 0;
     ports \<leftarrow> store_index (svc_Ports svc) 0 (p\<lparr>sp_Port := port\<rparr>);
     Some (svc\<lparr>svc_Ports := ports\<rparr>)
   }"

definition updateHeadlessService ::
  "Reconciler \<Rightarrow> Service \<Rightarrow> TypesenseCluster \<Rightarrow> history \<Rightarrow> (error option \<times> history) option" where
  "updateHeadlessService r headless ts h = do {
     updated \<leftarrow> set_first_port headless (int32 (spec_ApiPort (ts_Spec ts)));
     case Patch r Services headless updated h of
       (Inl err, h) \<Rightarrow> Some (Some err, h)
     | (Inr _, h) \<Rightarrow> Some (None, h)
   }"

definition updateService ::
  "Reconciler \<Rightarrow> Service \<Rightarrow> TypesenseCluster \<Rightarrow> history \<Rightarrow> (error option \<times> history) option" where
  "updateService r svc ts h = do {
     ported \<leftarrow> set_first_port svc (int32 (spec_ApiPort (ts_Spec ts)));
     let updated = ported\<lparr>svc_meta :=
       (svc_meta ported)\<lparr>Annotations := spec_ServiceAnnotations (ts_Spec ts)\<rparr>\<rparr>;
     case Patch r Services svc updated h of
       (Inl err, h) \<Rightarrow> Some (Some err, h)
     | (Inr _, h) \<Rightarrow> Some (None, h)
   }"

definition deleteService :: "Reconciler \<Rightarrow> Service \<Rightarrow> history \<Rightarrow> error option \<times> history" where
  "deleteService r svc h = Delete r Services svc h"

section \<open>The reconciliation\<close>

definition headlessObjectKey :: "TypesenseCluster \<Rightarrow> ObjectKey" where
  "headlessObjectKey ts =
     \<lparr>key_Namespace = ts_Namespace ts, key_Name = ClusterHeadlessService (ts_Name ts)\<rparr>"

definition svcObjectKey :: "TypesenseCluster \<Rightarrow> ObjectKey" where
  "svcObjectKey ts =
     \<lparr>key_Namespace = ts_Namespace ts, key_Name = ClusterRestService (ts_Name ts)\<rparr>"

definition reconcile_headless ::
  "Reconciler \<Rightarrow> TypesenseCluster \<Rightarrow> history \<Rightarrow> (error option \<times> history) option" where
  "reconcile_headless r ts h =
     (case Get r Services (headlessObjectKey ts) h of
        (Inl err, h) \<Rightarrow>
          if IsNotFound err then
            (case createHeadlessService r (headlessObjectKey ts) ts h of
               (Inl err, h) \<Rightarrow> Some (Some err, h)
             | (Inr _, h) \<Rightarrow> Some (None, h))
          else Some (Some err, h)
      | (Inr headless, h) \<Rightarrow> do {
          p \<leftarrow> index (svc_Ports headless) 0;
          if int32 (spec_ApiPort (ts_Spec ts)) \<noteq> sp_Port p
          then updateHeadlessService r headless ts h
          else Some (None, h)
        })"

text \<open>The temporary migration of services without the port of the health check (lines 76 to 88).\<close>

definition recreate_service ::
  "Reconciler \<Rightarrow> TypesenseCluster \<Rightarrow> Service \<Rightarrow> history \<Rightarrow> error option \<times> history" where
  "recreate_service r ts svc h =
     (if length (svc_Ports svc) < 2 then
        (case deleteService r svc h of
           (Some err, h) \<Rightarrow> (Some err, h)
         | (None, h) \<Rightarrow>
             (case createService r (svcObjectKey ts) ts h of
                (Inl err, h) \<Rightarrow> (Some err, h)
              | (Inr _, h) \<Rightarrow> (None, h)))
      else (None, h))"

definition reconcile_service ::
  "Reconciler \<Rightarrow> TypesenseCluster \<Rightarrow> history \<Rightarrow> (error option \<times> history) option" where
  "reconcile_service r ts h =
     (case Get r Services (svcObjectKey ts) h of
        (Inl err, h) \<Rightarrow>
          if IsNotFound err then
            (case createService r (svcObjectKey ts) ts h of
               (Inl err, h) \<Rightarrow> Some (Some err, h)
             | (Inr _, h) \<Rightarrow> Some (None, h))
          else Some (Some err, h)
      | (Inr svc, h) \<Rightarrow>
          (case recreate_service r ts svc h of
             (Some err, h) \<Rightarrow> Some (Some err, h)
           | (None, h) \<Rightarrow> do {
               p \<leftarrow> index (svc_Ports svc) 0;
               if int32 (spec_ApiPort (ts_Spec ts)) \<noteq> sp_Port p \<or>
                  Annotations (svc_meta svc) \<noteq> spec_ServiceAnnotations (ts_Spec ts)
               then updateService r svc ts h
               else Some (None, h)
             }))"

definition ReconcileServices ::
  "Reconciler \<Rightarrow> TypesenseCluster \<Rightarrow> history \<Rightarrow> (error option \<times> history) option" where
  "ReconcileServices r ts h = do {
     (err, h) \<leftarrow> reconcile_headless r ts h;
     case err of
       Some err \<Rightarrow> Some (Some err, h)
     | None \<Rightarrow> reconcile_service r ts h
   }"

section \<open>Footprints\<close>

lemma create_owned_service_emits:
  "create_owned_service r ts svc h = (x, h') \<Longrightarrow> emits (writes_only {KService}) h h'"
  by (auto simp: create_owned_service_def req_simps split: sum.splits)

lemma createHeadlessService_emits:
  "createHeadlessService r key ts h = (x, h') \<Longrightarrow> emits (writes_only {KService}) h h'"
  unfolding createHeadlessService_def by (rule create_owned_service_emits)

lemma createService_emits:
  "createService r key ts h = (x, h') \<Longrightarrow> emits (writes_only {KService}) h h'"
  unfolding createService_def by (rule create_owned_service_emits)

lemma updateHeadlessService_emits: "run_ok (writes_only {KService}) h (updateHeadlessService r svc ts h)"
  by (auto simp: updateHeadlessService_def req_simps intro!: run_ok_deref run_ok_sum)

lemma updateService_emits: "run_ok (writes_only {KService}) h (updateService r svc ts h)"
  by (auto simp: updateService_def req_simps Let_def intro!: run_ok_deref run_ok_sum)

lemma recreate_service_emits:
  "recreate_service r ts svc h = (x, h') \<Longrightarrow> emits (writes_only {KService}) h h'"
  by (auto simp: recreate_service_def deleteService_def Delete_def
      dest!: createService_emits dest: emits_after
      split: option.split_asm if_split_asm sum.split_asm prod.split_asm)

lemmas service_seqs =
  run_ok_seq [of "createHeadlessService r k ts g" for r k ts g, OF createHeadlessService_emits]
  run_ok_seq [of "createService r k ts g" for r k ts g, OF createService_emits]
  run_ok_seq [of "recreate_service r ts s g" for r ts s g, OF recreate_service_emits]

lemma reconcile_headless_emits: "run_ok (writes_only {KService}) h (reconcile_headless r ts h)"
  unfolding reconcile_headless_def Get_def
  by (auto intro!: run_ok_sum run_ok_if service_seqs
      run_ok_deref [of "index xs i" for xs i] run_ok_call [OF updateHeadlessService_emits])

lemma reconcile_service_emits: "run_ok (writes_only {KService}) h (reconcile_service r ts h)"
  unfolding reconcile_service_def Get_def
  by (auto intro!: run_ok_sum run_ok_if run_ok_option service_seqs run_ok_deref [of "index xs i" for xs i]
      run_ok_call [OF updateService_emits])

lemma ReconcileServices_emits: "run_ok (writes_only {KService}) h (ReconcileServices r ts h)"
  unfolding ReconcileServices_def
  by (auto intro!: run_ok_bind [OF reconcile_headless_emits] run_ok_option
      run_ok_call [OF reconcile_service_emits])

interpretation services_phase: operation "ReconcileServices r ts" "writes_only {KService}" for r ts
  by unfold_locales (rule ReconcileServices_emits)

end
