(* ===== verification/Well_Formed.thy ===== *)
theory Well_Formed
  imports Http_Routes Scrapers Pod_Monitors Cluster_Services
begin

text \<open>
  When an object is well-formed: it has every part that the code reads without a check. The
  specification of a cluster has its required fields and those with a default; the objects the
  operator manages have the shape it gives them. A run that only meets well-formed objects panics at known
  places only, and sends only well-formed objects itself; the rules for showing this are here, the proofs for the
  phases in \<^verbatim>\<open>Type_Safety\<close>.
\<close>

section \<open>Well-formed objects\<close>

definition wf_route_spec :: "HttpRouteSpec \<Rightarrow> bool" where
  "wf_route_spec s \<longleftrightarrow> hrs_PathType s \<noteq> None \<and> hrs_ReferenceGrant s \<noteq> None"

text \<open>
  The storage is required, the path types and the flag of the grant have defaults in the schema of the
  cluster, so that they are there in every cluster the server returns.
\<close>

definition wf_spec :: "TypesenseClusterSpec \<Rightarrow> bool" where
  "wf_spec s \<longleftrightarrow> spec_Storage s \<noteq> None \<and>
     (case spec_Ingress s of None \<Rightarrow> True | Some igs \<Rightarrow> is_PathType igs \<noteq> None) \<and>
     (case spec_HttpRoutes s of None \<Rightarrow> True | Some rs \<Rightarrow> list_all wf_route_spec rs)"

text \<open>
  The API server fills in the replicas and the grace period, and it validates that there are a selector
  and a container.
\<close>

definition wf_StatefulSet :: "StatefulSet \<Rightarrow> bool" where
  "wf_StatefulSet sts \<longleftrightarrow> sts_Replicas sts \<noteq> None \<and> sts_Selector sts \<noteq> None \<and>
     ps_Containers (pt_spec (sts_Template sts)) \<noteq> [] \<and>
     ps_TerminationGracePeriodSeconds (pt_spec (sts_Template sts)) \<noteq> None"

definition wf_rule :: "IngressRule \<Rightarrow> bool" where
  "wf_rule rule = (case ir_HTTP rule of Some (path # _) \<Rightarrow> ip_PathType path \<noteq> None | _ \<Rightarrow> False)"

definition wf_Ingress :: "Ingress \<Rightarrow> bool" where
  "wf_Ingress ig \<longleftrightarrow> ing_IngressClassName ig \<noteq> None \<and> ing_TLS ig \<noteq> [] \<and>
     (case ing_Rules ig of [] \<Rightarrow> False | rule # _ \<Rightarrow> wf_rule rule)"

definition wf_HTTPRoute :: "HTTPRoute \<Rightarrow> bool" where
  "wf_HTTPRoute hr \<longleftrightarrow> hr_ParentRefs hr \<noteq> [] \<and>
     (case hr_Rules hr of
        [] \<Rightarrow> False
      | rule # _ \<Rightarrow>
          (case rule_Matches rule of
             Some p # _ \<Rightarrow> pm_Type p \<noteq> None \<and> pm_Value p \<noteq> None
           | _ \<Rightarrow> False))"

fun wf_obj :: "obj \<Rightarrow> bool" where
  "wf_obj (OTypesenseCluster ts) = wf_spec (ts_Spec ts)"
| "wf_obj (OService svc) = (svc_Ports svc \<noteq> [])"
| "wf_obj (OStatefulSet sts) = wf_StatefulSet sts"
| "wf_obj (OIngress ig) = wf_Ingress ig"
| "wf_obj (ODeployment d) = (ps_Containers (pt_spec (dep_Template d)) \<noteq> [])"
| "wf_obj (OHTTPRoute hr) = wf_HTTPRoute hr"
| "wf_obj (OCronJob cj) = (ps_Containers (pt_spec (cj_Template cj)) \<noteq> [])"
| "wf_obj (OPodMonitor pm) = (pmon_PodMetricsEndpoints pm \<noteq> [])"
| "wf_obj _ = True"

text \<open>A call is well-formed if the object it stores is.\<close>

fun wf_req :: "request \<Rightarrow> bool" where
  "wf_req (ReqCreate x) = wf_obj x"
| "wf_req (ReqUpdate x) = wf_obj x"
| "wf_req (ReqPatch x y) = wf_obj y"
| "wf_req (ReqStatusPatch x y) = wf_obj y"
| "wf_req _ = True"

definition wf_hist :: "history \<Rightarrow> bool" where
  "wf_hist h \<longleftrightarrow> list_all wf_req h"

lemma wf_hist_append [simp]: "wf_hist (h @ t) \<longleftrightarrow> wf_hist h \<and> wf_hist t"
  by (simp add: wf_hist_def)

lemma wf_hist_simps [simp]: "wf_hist []" "wf_hist (q # t) \<longleftrightarrow> wf_req q \<and> wf_hist t"
  by (simp_all add: wf_hist_def)

lemma emits_wf: "emits wf_req h h' \<Longrightarrow> wf_hist h \<Longrightarrow> wf_hist h'"
  by (auto simp: emits_def wf_hist_def)

text \<open>Nothing is asked of secrets, config maps, pods, endpoint slices and reference grants.\<close>

definition untyped :: "kind set" where
  "untyped = {KSecret, KConfigMap, KPod, KEndpointSlice, KReferenceGrant}"

lemma untyped_obj: "kind_of x \<in> untyped \<Longrightarrow> wf_obj x"
  by (cases x) (auto simp: untyped_def)

lemma writes_untyped: "writes_only K q \<Longrightarrow> K \<subseteq> untyped \<Longrightarrow> wf_req q"
  by (cases q) (auto intro: untyped_obj)

lemma emits_untyped: "emits (writes_only K) h h' \<Longrightarrow> K \<subseteq> untyped \<Longrightarrow> wf_hist h \<Longrightarrow> wf_hist h'"
  using emits_wf [OF emits_mono [of "writes_only K" h h' wf_req]] writes_untyped by blast

lemma emits_read_wf: "emits is_read h h' \<Longrightarrow> wf_hist h \<Longrightarrow> wf_hist h'"
  by (erule emits_untyped [OF emits_read_writes_only [where K = "{}"]]) simp

section \<open>Servers that keep objects well-formed\<close>

text \<open>
  As long as only well-formed objects have been sent, the objects the server returns are
  well-formed, and what it answers to a write of a well-formed object is so too.
\<close>

definition keeps_wf :: "'o resource \<Rightarrow> Reconciler \<Rightarrow> bool" where
  "keeps_wf R r \<longleftrightarrow> (\<forall>h. wf_hist h \<longrightarrow>
     (\<forall>key x. on_get (res_api R r) h key = Inr x \<longrightarrow> wf_obj (res_obj R x)) \<and>
     (\<forall>x y. wf_obj (res_obj R x) \<longrightarrow> on_create (res_api R r) h x = Inr y \<longrightarrow> wf_obj (res_obj R y)) \<and>
     (\<forall>x y. wf_obj (res_obj R x) \<longrightarrow> on_update (res_api R r) h x = Inr y \<longrightarrow> wf_obj (res_obj R y)) \<and>
     (\<forall>a x y. wf_obj (res_obj R x) \<longrightarrow> on_patch (res_api R r) h a x = Inr y \<longrightarrow> wf_obj (res_obj R y)) \<and>
     (\<forall>a x y. wf_obj (res_obj R x) \<longrightarrow> on_status_patch (res_api R r) h a x = Inr y \<longrightarrow>
        wf_obj (res_obj R y)))"

lemma keeps_wfD:
  assumes "keeps_wf R r" and "wf_hist h"
  shows "on_get (res_api R r) h key = Inr y \<Longrightarrow> wf_obj (res_obj R y)"
    and "on_create (res_api R r) h x = Inr y \<Longrightarrow> wf_obj (res_obj R x) \<Longrightarrow> wf_obj (res_obj R y)"
    and "on_update (res_api R r) h x = Inr y \<Longrightarrow> wf_obj (res_obj R x) \<Longrightarrow> wf_obj (res_obj R y)"
    and "on_patch (res_api R r) h a x = Inr y \<Longrightarrow> wf_obj (res_obj R x) \<Longrightarrow> wf_obj (res_obj R y)"
    and "on_status_patch (res_api R r) h a x = Inr y \<Longrightarrow> wf_obj (res_obj R x) \<Longrightarrow> wf_obj (res_obj R y)"
  using assms unfolding keeps_wf_def by blast+

lemma quiet_keeps_wf: "res_api R r = quiet_api \<Longrightarrow> keeps_wf R r"
  by (simp add: keeps_wf_def quiet_api_def)

text \<open>
  The environment the operator is written for: the schema and the validation of the API server hold, and
  nobody else takes from the objects the operator manages the parts it gave them; a status
  keeps its conditions; no deletion of a route without a name; the libraries are as documented.
  Nothing is assumed of what is optional: the namespace of a gateway, the number of containers of a
  statefulset, the additional configuration, the hash.
\<close>

definition sound :: "Reconciler \<Rightarrow> bool" where
  "sound r \<longleftrightarrow>
     keeps_wf TypesenseClusters r \<and> keeps_wf Services r \<and> keeps_wf StatefulSets r \<and>
     keeps_wf Ingresses r \<and> keeps_wf Deployments r \<and> keeps_wf HTTPRoutes r \<and> keeps_wf CronJobs r \<and>
     keeps_wf PodMonitors r \<and>
     (\<forall>h x y z. on_status_patch (api_TypesenseCluster r) h x y = Inr z \<longrightarrow>
        status_Conditions (ts_Status y) \<noteq> [] \<longrightarrow> status_Conditions (ts_Status z) \<noteq> []) \<and>
     (\<forall>h x. Name (hr_meta x) = [] \<longrightarrow> on_delete (api_HTTPRoute r) h x \<noteq> None) \<and>
     sets_condition (ext_SetStatusCondition r)"

lemma soundD:
  assumes "sound r"
  shows "keeps_wf TypesenseClusters r" and "keeps_wf Services r" and "keeps_wf StatefulSets r"
    and "keeps_wf Ingresses r" and "keeps_wf Deployments r" and "keeps_wf HTTPRoutes r"
    and "keeps_wf CronJobs r" and "keeps_wf PodMonitors r"
    and "sets_condition (ext_SetStatusCondition r)"
    and "Name (hr_meta hr) = [] \<Longrightarrow> on_delete (api_HTTPRoute r) h hr \<noteq> None"
    and "on_status_patch (api_TypesenseCluster r) h a b = Inr c \<Longrightarrow>
      status_Conditions (ts_Status b) \<noteq> [] \<Longrightarrow> status_Conditions (ts_Status c) \<noteq> []"
  using assms unfolding sound_def by blast+

text \<open>The objects that are read, and the answers to writes, as the proofs use them.\<close>

lemma sound_get:
  assumes "sound r" and "wf_hist h"
  shows "on_get (api_TypesenseCluster r) h key = Inr ts \<Longrightarrow> wf_spec (ts_Spec ts)"
    and "on_get (api_Service r) h key = Inr svc \<Longrightarrow> svc_Ports svc \<noteq> []"
    and "on_get (api_StatefulSet r) h key = Inr sts \<Longrightarrow> wf_StatefulSet sts"
    and "on_get (api_Ingress r) h key = Inr ig \<Longrightarrow> wf_Ingress ig"
    and "on_get (api_Deployment r) h key = Inr d \<Longrightarrow> ps_Containers (pt_spec (dep_Template d)) \<noteq> []"
    and "on_get (api_HTTPRoute r) h key = Inr hr \<Longrightarrow> wf_HTTPRoute hr"
    and "on_get (api_CronJob r) h key = Inr cj \<Longrightarrow> ps_Containers (pt_spec (cj_Template cj)) \<noteq> []"
    and "on_get (api_PodMonitor r) h key = Inr pm \<Longrightarrow> pmon_PodMetricsEndpoints pm \<noteq> []"
  using soundD(1-8) [OF assms(1), THEN keeps_wfD(1), OF assms(2), of key] by simp_all

lemma sound_write:
  assumes "sound r" and "wf_hist h"
  shows "on_create (api_StatefulSet r) h x = Inr sts \<Longrightarrow> wf_StatefulSet x \<Longrightarrow> wf_StatefulSet sts"
    and "on_patch (api_StatefulSet r) h a x = Inr sts \<Longrightarrow> wf_StatefulSet x \<Longrightarrow> wf_StatefulSet sts"
    and "on_create (api_Ingress r) h y = Inr ig \<Longrightarrow> wf_Ingress y \<Longrightarrow> wf_Ingress ig"
    and "on_patch (api_Ingress r) h b y = Inr ig \<Longrightarrow> wf_Ingress y \<Longrightarrow> wf_Ingress ig"
    and "on_status_patch (api_TypesenseCluster r) h c z = Inr ts \<Longrightarrow> wf_spec (ts_Spec z) \<Longrightarrow>
      wf_spec (ts_Spec ts)"
  using keeps_wfD(2,4) [OF soundD(3) [OF assms(1)] assms(2), where x = x]
    keeps_wfD(2,4) [OF soundD(4) [OF assms(1)] assms(2), where x = y]
    keeps_wfD(5) [OF soundD(1) [OF assms(1)] assms(2), where x = z]
  by simp_all

section \<open>Runs that do not panic\<close>

text \<open>
  \<open>safe p Q m\<close>: the computation \<open>m\<close> panics only if \<open>p\<close>; if it returns, its result satisfies \<open>Q\<close>, and
  everything that was sent is well-formed.
\<close>

definition safe :: "bool \<Rightarrow> ('a \<Rightarrow> bool) \<Rightarrow> ('a \<times> history) option \<Rightarrow> bool" where
  "safe p Q m \<longleftrightarrow> (case m of None \<Rightarrow> p | Some (x, h') \<Rightarrow> Q x \<and> wf_hist h')"

abbreviation returns :: "('a \<times> history) option \<Rightarrow> bool" where
  "returns \<equiv> safe False (\<lambda>_. True)"

lemma safe_simps [simp]: "safe p Q (Some (x, h)) \<longleftrightarrow> Q x \<and> wf_hist h" "safe p Q None \<longleftrightarrow> p"
  by (simp_all add: safe_def)

lemma safeE:
  assumes "safe False Q m"
  obtains x h' where "m = Some (x, h')" and "Q x" and "wf_hist h'"
  using assms by (auto simp: safe_def split: option.split_asm)

lemma safe_mono: "safe p Q m \<Longrightarrow> (\<And>x. Q x \<Longrightarrow> P x) \<Longrightarrow> safe p P m"
  by (auto simp: safe_def split: option.split)

lemma safe_weaken: "safe p Q m \<Longrightarrow> (p \<Longrightarrow> q) \<Longrightarrow> safe q Q m"
  by (auto simp: safe_def split: option.split)

lemma safe_bind:
  assumes "safe p Q m" and "\<And>x h. Q x \<Longrightarrow> wf_hist h \<Longrightarrow> m = Some (x, h) \<Longrightarrow> safe p P (f (x, h))"
  shows "safe p P (Option.bind m f)"
  using assms by (cases m) auto

text \<open>A step that returns, within a computation that may panic.\<close>

lemma safe_bind_returns:
  assumes "safe False Q m" and "\<And>x h. Q x \<Longrightarrow> wf_hist h \<Longrightarrow> m = Some (x, h) \<Longrightarrow> safe p P (f (x, h))"
  shows "safe p P (Option.bind m f)"
  using assms by (cases m) auto

lemma safe_deref: "\<exists>x. m = Some x \<Longrightarrow> (\<And>x. m = Some x \<Longrightarrow> safe p P (f x)) \<Longrightarrow> safe p P (Option.bind m f)"
  by auto

lemma safe_deref_or: "(m = None \<Longrightarrow> p) \<Longrightarrow> (\<And>x. m = Some x \<Longrightarrow> safe p P (f x)) \<Longrightarrow> safe p P (Option.bind m f)"
  by (cases m) auto

lemma safe_if: "(b \<Longrightarrow> safe p Q m) \<Longrightarrow> (\<not> b \<Longrightarrow> safe p Q n) \<Longrightarrow> safe p Q (if b then m else n)"
  by simp

lemma safe_sum:
  "(\<And>e. x = Inl e \<Longrightarrow> safe p Q (f e)) \<Longrightarrow> (\<And>y. x = Inr y \<Longrightarrow> safe p Q (g y)) \<Longrightarrow>
     safe p Q (case x of Inl e \<Rightarrow> f e | Inr y \<Rightarrow> g y)"
  by (cases x) auto

lemma safe_option:
  "(x = None \<Longrightarrow> safe p Q f) \<Longrightarrow> (\<And>y. x = Some y \<Longrightarrow> safe p Q (g y)) \<Longrightarrow>
     safe p Q (case x of None \<Rightarrow> f | Some y \<Rightarrow> g y)"
  by (cases x) auto

text \<open>A step that cannot panic, with what it keeps.\<close>

lemma safe_seq:
  assumes "\<And>x h. m = (x, h) \<Longrightarrow> wf_hist h" and "\<And>x h. m = (x, h) \<Longrightarrow> wf_hist h \<Longrightarrow> safe p P (f x h)"
  shows "safe p P (case m of (x, h) \<Rightarrow> f x h)"
  using assms by (cases m) auto

lemmas safe_rules = safe_if safe_sum safe_option

text \<open>What writes nothing that could be ill-formed only has to return.\<close>

lemma returns_untyped:
  assumes "m \<noteq> None" and "run_ok (writes_only K) h m" and "K \<subseteq> untyped" and "wf_hist h"
  shows "returns m"
proof -
  obtain x h' where m: "m = Some (x, h')" using assms(1) by auto
  with run_okD [OF assms(2)] have "emits (writes_only K) h h'" by blast
  from emits_untyped [OF this assms(3,4)] m show ?thesis by simp
qed

end
