(* ===== verification/Controller.thy ===== *)
theory Controller
  imports Quorum Admin_Secret Cluster_Services Http_Routes Scrapers Pod_Monitors
begin

text \<open>
  The reconciliation of a cluster: \<^verbatim>\<open>typesensecluster_controller.go\<close>. The phases run in
  a fixed order, and the first one that fails ends the run with its reason in the status. Durations
  are in nanoseconds and wrap at 64 bits, as \<^verbatim>\<open>time.Duration\<close> does.
\<close>

section \<open>Events\<close>

text \<open>The predicate on update events, on the generations of the old and the new object.\<close>

definition UpdateFunc :: "int \<Rightarrow> int \<Rightarrow> bool" where
  "UpdateFunc objectOld objectNew \<longleftrightarrow> objectOld \<noteq> objectNew"

definition DeleteFunc :: "bool \<Rightarrow> bool" where
  "DeleteFunc deleteStateUnknown \<longleftrightarrow> \<not> deleteStateUnknown"

section \<open>Durations and results\<close>

definition second :: int where "second = 1000000000"

definition configMapRequeuePeriod :: int where "configMapRequeuePeriod = 2 * 60 * second"

definition reconcileRequeuePeriod :: int where "reconcileRequeuePeriod = 60 * second"

text \<open>\<^verbatim>\<open>ctrl.Result\<close>: the delay after which the cluster is looked at again, 0 for none.\<close>

record Result =
  RequeueAfter :: int

type_synonym outcome = "Result \<times> error option"

definition done_after :: "int \<Rightarrow> outcome" where
  "done_after d = (\<lparr>RequeueAfter = d\<rparr>, None)"

definition failed_with :: "error \<Rightarrow> outcome" where
  "failed_with err = (\<lparr>RequeueAfter = 0\<rparr>, Some err)"

text \<open>
  The block after every phase that failed: the reason goes into the status, and an error of that
  patch wraps the error of the phase.
\<close>

definition phase_failed ::
  "Reconciler \<Rightarrow> TypesenseCluster \<Rightarrow> string \<Rightarrow> error \<Rightarrow> history \<Rightarrow> outcome \<times> history" where
  "phase_failed r ts reason err h =
     (case setConditionNotReady r ts reason err h of
        (None, ts, h) \<Rightarrow> (failed_with err, h)
      | (Some cerr, ts, h) \<Rightarrow> (failed_with (Wrap (Error cerr) err), h))"

section \<open>The phases between the config map and the statefulset\<close>

type_synonym phase = "TypesenseCluster \<Rightarrow> history \<Rightarrow> (error option \<times> history) option"

text \<open>Each phase with the reason that reports its failure, in the order of lines 151 to 198.\<close>

definition middle_phases :: "Reconciler \<Rightarrow> (string \<times> phase) list" where
  "middle_phases r =
     [(ConditionReasonServicesNotReady, ReconcileServices r),
      (ConditionReasonIngressNotReady, ReconcileIngress r),
      (ConditionReasonHttpRouteNotReady, ReconcileHttpRoute r),
      (ConditionReasonScrapersNotReady, ReconcileScraper r),
      (ConditionReasonMetricsExporterNotReady, ReconcilePodMonitor r)]"

fun run_phases ::
  "(string \<times> phase) list \<Rightarrow> TypesenseCluster \<Rightarrow> history \<Rightarrow> ((string \<times> error) option \<times> history) option" where
  "run_phases [] ts h = Some (None, h)"
| "run_phases ((reason, reconcile) # rest) ts h = do {
     (err, h) \<leftarrow> reconcile ts h;
     case err of
       Some err \<Rightarrow> Some (Some (reason, err), h)
     | None \<Rightarrow> run_phases rest ts h
   }"

section \<open>Reporting the quorum\<close>

definition attention_message :: "ConditionQuorum \<Rightarrow> string" where
  "attention_message condition =
     ''cluster needs manual administrative attention: '' @
     (if condition = ConditionReasonQuorumNeedsAttentionClusterIsLagging
      then ''queued_writes > healthyWriteLagThreshold'' else []) @
     (if condition = ConditionReasonQuorumNeedsAttentionMemoryOrDiskIssue
      then ''out of memory or disk'' else [])"

text \<open>A condition that is not ready, with its warning event.\<close>

definition report_not_ready ::
  "Reconciler \<Rightarrow> TypesenseCluster \<Rightarrow> string \<Rightarrow> error \<Rightarrow> int \<Rightarrow> history \<Rightarrow> outcome \<times> history" where
  "report_not_ready r ts condition err requeueAfter h =
     (case setConditionNotReady r ts condition err h of
        (Some cerr, ts, h) \<Rightarrow> (failed_with cerr, h)
      | (None, ts, h) \<Rightarrow>
          (done_after requeueAfter, Eventf (ts_meta ts) ''Warning'' condition (toTitle r (Error err)) h))"

definition report_ready ::
  "Reconciler \<Rightarrow> TypesenseCluster \<Rightarrow> string \<Rightarrow> int \<Rightarrow> history \<Rightarrow> (outcome \<times> history) option" where
  "report_ready r ts condition requeueAfter h = do {
     c \<leftarrow> index (status_Conditions (ts_Status ts)) 0;
     let report = (cond_Status c \<noteq> ConditionTrue);
     case setConditionReady r ts condition h of
       (Some cerr, ts, h) \<Rightarrow> Some (failed_with cerr, h)
     | (None, ts, h) \<Rightarrow>
         Some (done_after requeueAfter,
               if report then Eventf (ts_meta ts) ''Normal'' condition (toTitle r ''quorum is ready'') h
               else h)
   }"

text \<open>The quorum and its report (lines 251 to 303).\<close>

definition reconcile_quorum ::
  "Reconciler \<Rightarrow> TypesenseCluster \<Rightarrow> Secret \<Rightarrow> ObjectKey \<Rightarrow> int \<Rightarrow> history \<Rightarrow> (outcome \<times> history) option" where
  "reconcile_quorum r ts secret key requeueAfter h = do {
     ((condition, _, err), h) \<leftarrow> ReconcileQuorum r ts secret key h;
     if Contains condition ''QuorumNeedsAttention''
     then Some (report_not_ready r ts condition (GoError (attention_message condition)) requeueAfter h)
     else if condition \<noteq> ConditionReasonQuorumReady
     then Some (report_not_ready r ts condition
                  (case err of None \<Rightarrow> GoError ''quorum is not ready'' | Some err \<Rightarrow> err) requeueAfter h)
     else report_ready r ts condition requeueAfter h
   }"

text \<open>
  After the statefulset (lines 209 to 249): a config map that was just created ends the run, one
  that was updated is pushed to the pods and reported before the quorum is looked at.
\<close>

definition finish_cluster ::
  "Reconciler \<Rightarrow> TypesenseCluster \<Rightarrow> Secret \<Rightarrow> StatefulSet \<Rightarrow> bool option \<Rightarrow> history
     \<Rightarrow> (outcome \<times> history) option" where
  "finish_cluster r ts secret sts configMapUpdated h = do {
     terminationGracePeriodSeconds \<leftarrow> ps_TerminationGracePeriodSeconds (pt_spec (sts_Template sts));
     let requeueAfter = int64 (reconcileRequeuePeriod + int64 (terminationGracePeriodSeconds * second));
     let key = ObjectKeyFromObject (sts_meta sts);
     case configMapUpdated of
       None \<Rightarrow> Some (done_after (15 * second), h)
     | Some updated \<Rightarrow>
         if updated then
           (case forcePodsConfigMapUpdate r ts h of
              (_, h) \<Rightarrow>
                (let cond = ConditionReasonQuorumNotReadyWaitATerm; msg = ''wait on configmap updates''
                 in case setConditionNotReady r ts cond (GoError msg) h of
                      (Some cerr, ts, h) \<Rightarrow> Some (failed_with cerr, h)
                    | (None, ts, h) \<Rightarrow>
                        reconcile_quorum r ts secret key configMapRequeuePeriod
                          (Eventf (ts_meta ts) ''Warning'' cond (toTitle r msg) h)))
         else reconcile_quorum r ts secret key requeueAfter h
   }"

section \<open>The reconciliation\<close>

text \<open>From the secret on, with the conditions initialised (lines 130 to 304).\<close>

definition reconcile_cluster ::
  "Reconciler \<Rightarrow> TypesenseCluster \<Rightarrow> history \<Rightarrow> (outcome \<times> history) option" where
  "reconcile_cluster r ts h =
     (case ReconcileSecret r ts h of
        (Inl err, h) \<Rightarrow> Some (phase_failed r ts ConditionReasonSecretNotReady err h)
      | (Inr secret, h) \<Rightarrow> do {
          (configMapUpdated, h) \<leftarrow> ReconcileConfigMap r ts h;
          case configMapUpdated of
            Inl err \<Rightarrow> Some (phase_failed r ts ConditionReasonConfigMapNotReady err h)
          | Inr configMapUpdated \<Rightarrow> do {
              (failed, h) \<leftarrow> run_phases (middle_phases r) ts h;
              case failed of
                Some (reason, err) \<Rightarrow> Some (phase_failed r ts reason err h)
              | None \<Rightarrow> do {
                  ((sts, _, err), h) \<leftarrow> ReconcileStatefulSet r ts h;
                  case err of
                    Some err \<Rightarrow> Some (phase_failed r ts ConditionReasonStatefulSetNotReady err h)
                  | None \<Rightarrow> do {
                      sts \<leftarrow> sts;
                      finish_cluster r ts secret sts configMapUpdated h
                    }
                }
            }
        })"

definition Reconcile :: "Reconciler \<Rightarrow> ObjectKey \<Rightarrow> history \<Rightarrow> (outcome \<times> history) option" where
  "Reconcile r req h =
     (case Get r TypesenseClusters req h of
        (Inl err, h) \<Rightarrow> Some ((\<lparr>RequeueAfter = 0\<rparr>, if IsNotFound err then None else Some err), h)
      | (Inr ts, h) \<Rightarrow>
          (case initConditions r ts h of
             (Some err, ts, h) \<Rightarrow> Some (failed_with err, h)
           | (None, ts, h) \<Rightarrow> reconcile_cluster r ts h))"

section \<open>Case analysis\<close>

lemma reconcile_cluster_cases [consumes 1]:
  assumes "reconcile_cluster r ts h = Some (out, h')"
  obtains (secret) err h1 where "ReconcileSecret r ts h = (Inl err, h1)"
      "phase_failed r ts ConditionReasonSecretNotReady err h1 = (out, h')"
  | (config_map) secret h1 err h2 where "ReconcileSecret r ts h = (Inr secret, h1)"
      "ReconcileConfigMap r ts h1 = Some (Inl err, h2)"
      "phase_failed r ts ConditionReasonConfigMapNotReady err h2 = (out, h')"
  | (phase) secret h1 cmu h2 reason err h3 where "ReconcileSecret r ts h = (Inr secret, h1)"
      "ReconcileConfigMap r ts h1 = Some (Inr cmu, h2)"
      "run_phases (middle_phases r) ts h2 = Some (Some (reason, err), h3)"
      "phase_failed r ts reason err h3 = (out, h')"
  | (statefulset) secret h1 cmu h2 h3 sts b err h4 where "ReconcileSecret r ts h = (Inr secret, h1)"
      "ReconcileConfigMap r ts h1 = Some (Inr cmu, h2)"
      "run_phases (middle_phases r) ts h2 = Some (None, h3)"
      "ReconcileStatefulSet r ts h3 = Some ((sts, b, Some err), h4)"
      "phase_failed r ts ConditionReasonStatefulSetNotReady err h4 = (out, h')"
  | (finish) secret h1 cmu h2 h3 sts b h4 where "ReconcileSecret r ts h = (Inr secret, h1)"
      "ReconcileConfigMap r ts h1 = Some (Inr cmu, h2)"
      "run_phases (middle_phases r) ts h2 = Some (None, h3)"
      "ReconcileStatefulSet r ts h3 = Some ((Some sts, b, None), h4)"
      "finish_cluster r ts secret sts cmu h4 = Some (out, h')"
  using assms that unfolding reconcile_cluster_def
  by (auto elim!: bind_SomeE split: sum.split_asm prod.split_asm option.split_asm)

lemma Reconcile_cases [consumes 1]:
  assumes "Reconcile r req h = Some (out, h')"
  obtains (absent) err where "on_get (api_TypesenseCluster r) h req = Inl err"
      "out = (\<lparr>RequeueAfter = 0\<rparr>, if IsNotFound err then None else Some err)"
      "h' = h @ [ReqGet KTypesenseCluster req]"
  | (init) ts0 err ts where "on_get (api_TypesenseCluster r) h req = Inr ts0"
      "initConditions r ts0 (h @ [ReqGet KTypesenseCluster req]) = (Some err, ts, h')" "out = failed_with err"
  | (cluster) ts0 ts h0 where "on_get (api_TypesenseCluster r) h req = Inr ts0"
      "initConditions r ts0 (h @ [ReqGet KTypesenseCluster req]) = (None, ts, h0)"
      "reconcile_cluster r ts h0 = Some (out, h')"
  using assms that unfolding Reconcile_def Get_def
  by (auto split: sum.split_asm prod.split_asm option.split_asm)

lemma run_phases_append:
  "run_phases (pre @ post) ts h = do {
     (failed, h) \<leftarrow> run_phases pre ts h;
     case failed of None \<Rightarrow> run_phases post ts h | Some x \<Rightarrow> Some (Some x, h)
   }"
proof (induction pre ts h rule: run_phases.induct)
  case (2 reason reconcile rest ts h)
  then show ?case by (cases "reconcile ts h") (auto split: option.split)
qed simp

lemma run_phases_emits:
  assumes "\<And>reason ph h. (reason, ph) \<in> set phases \<Longrightarrow> run_ok P h (ph ts h)"
  shows "run_ok P h (run_phases phases ts h)"
  using assms
proof (induction phases arbitrary: h)
  case (Cons p rest)
  obtain reason ph where p: "p = (reason, ph)" by fastforce
  have one: "run_ok P g (ph ts g)" for g using Cons.prems [of reason ph g] p by simp
  have rest: "run_ok P g (run_phases rest ts g)" for g
    using Cons.prems by (intro Cons.IH) (auto intro: list.set_intros(2))
  show ?case unfolding p run_phases.simps
    by (auto intro!: run_ok_bind [OF one] run_ok_option run_ok_call [OF rest])
qed simp

section \<open>Footprints\<close>

text \<open>The phases of the middle write objects of these kinds only.\<close>

abbreviation middle_kinds :: "kind set" where
  "middle_kinds \<equiv> proxy_kinds \<union> route_kinds \<union> {KCronJob, KPodMonitor}"

lemma middle_phases_emits: "run_ok (writes_only middle_kinds) h (run_phases (middle_phases r) ts h)"
proof (rule run_phases_emits)
  fix reason ph g assume "(reason, ph) \<in> set (middle_phases r)"
  then consider "ph = ReconcileServices r" | "ph = ReconcileIngress r" | "ph = ReconcileHttpRoute r"
    | "ph = ReconcileScraper r" | "ph = ReconcilePodMonitor r"
    by (auto simp: middle_phases_def)
  then show "run_ok (writes_only middle_kinds) g (ph ts g)"
    by cases (simp_all, (rule services_phase.widen ingress_phase.widen http_route_phase.widen
        scraper_phase.widen pod_monitor_phase.widen, erule writes_only_mono, force)+)
qed

interpretation middle: operation "run_phases (middle_phases r) ts" "writes_only middle_kinds" for r ts
  by unfold_locales (rule middle_phases_emits)

text \<open>The cluster as a status patch sends it.\<close>

definition with_condition :: "Reconciler \<Rightarrow> TypesenseCluster \<Rightarrow> Condition \<Rightarrow> string \<Rightarrow> TypesenseCluster" where
  "with_condition r ts c phase = ts\<lparr>ts_Status := \<lparr>
     status_Conditions = ext_SetStatusCondition r (status_Conditions (ts_Status ts)) c,
     status_Phase = phase\<rparr>\<rparr>"

definition not_ready :: "Reconciler \<Rightarrow> TypesenseCluster \<Rightarrow> string \<Rightarrow> error \<Rightarrow> TypesenseCluster" where
  "not_ready r ts reason err = with_condition r ts (ready_condition ConditionFalse reason (Error err)) reason"

abbreviation status_patch :: "TypesenseCluster \<Rightarrow> TypesenseCluster \<Rightarrow> request" where
  "status_patch a b \<equiv> ReqStatusPatch (OTypesenseCluster a) (OTypesenseCluster b)"

lemma status_update:
  "s\<lparr>status_Conditions := cs, status_Phase := p\<rparr> = \<lparr>status_Conditions = cs, status_Phase = p\<rparr>"
  for s :: TypesenseClusterStatus
  by simp

lemma setConditionNotReady_eq:
  "setConditionNotReady r ts reason err h =
     (let ts' = not_ready r ts reason err
      in case on_status_patch (api_TypesenseCluster r) h ts ts' of
           Inl e \<Rightarrow> (Some e, ts', h @ [status_patch ts ts'])
         | Inr answer \<Rightarrow> (None, answer, h @ [status_patch ts ts']))"
  by (simp add: setConditionNotReady_def patchStatus_def StatusPatch_def not_ready_def with_condition_def
      Let_def status_update split: sum.split)

lemma phase_failed_eq:
  "phase_failed r ts reason err h =
     (failed_with (case on_status_patch (api_TypesenseCluster r) h ts (not_ready r ts reason err) of
                     Inl cerr \<Rightarrow> Wrap (Error cerr) err | Inr _ \<Rightarrow> err),
      h @ [status_patch ts (not_ready r ts reason err)])"
  by (simp add: phase_failed_def setConditionNotReady_eq Let_def split: sum.split)

end
