(* ===== verification/Quorum_View.thy ===== *)
theory Quorum_View
  imports Quorum
begin

text \<open>
  One run of the quorum reconciliation, taken apart: what it has read when it decides
  (\<open>quorum_view\<close>, a function of the history the run starts from), the decision
  (\<open>decide_quorum\<close>), and the equation that puts the two together. Every statement about the reasons
  of a run is about this view, so it speaks of the states, the logs and the answers of this run and
  of no other.
\<close>

section \<open>What a run has read\<close>

record view =
  seen_sts :: StatefulSet
  seen_quorum :: Quorum
  seen_client :: HttpClient
  seen_threshold :: int
  seen_logs :: "(string \<times> string) list"
  seen_queued :: int
  seen_states :: "(string \<times> NodeStatus) list"
  seen_history :: history

abbreviation seen_members :: "view \<Rightarrow> NodeEndpoint list" where
  "seen_members v \<equiv> node_endpoints (seen_quorum v)"

abbreviation seen_status :: "view \<Rightarrow> ClusterStatus" where
  "seen_status v \<equiv> getClusterStatus (seen_states v)"

text \<open>
  The reads of \<^verbatim>\<open>ReconcileQuorum\<close>, up to the states of the members (lines 25 to 113 of
  \<^verbatim>\<open>typesensecluster_quorum.go\<close>); no view where the code returns before.
\<close>

definition quorum_view ::
  "Reconciler \<Rightarrow> TypesenseCluster \<Rightarrow> Secret \<Rightarrow> ObjectKey \<Rightarrow> history \<Rightarrow> view option" where
  "quorum_view r ts secret key h =
     (case GetFreshStatefulSet r key h of
        (Inl err, h) \<Rightarrow> None
      | (Inr sts, h) \<Rightarrow> do {
          (quorum, h) \<leftarrow> getQuorum r ts sts h;
          case quorum of
            Inl err \<Rightarrow> None
          | Inr quorum \<Rightarrow> do {
              (_, h) \<leftarrow> restart_unscheduled r sts ts h;
              if AvailableNodes quorum < MinRequiredNodes quorum then None
              else case getHttpClient r ts h of
                     (Inl err, h) \<Rightarrow> None
                   | (Inr httpClient, h) \<Rightarrow>
                       (case getHealthyWriteLagThreshold r ts h of
                          (threshold, h) \<Rightarrow>
                            (case fetch_logs r ts (node_endpoints quorum) [] h of
                               (logs, h) \<Rightarrow>
                                 (case fetch_statuses r httpClient ts secret logs
                                         (node_endpoints quorum) 0 [] h of
                                    (queuedWrites, nodesStatus, h) \<Rightarrow>
                                      Some \<lparr>seen_sts = sts, seen_quorum = quorum,
                                            seen_client = httpClient, seen_threshold = threshold,
                                            seen_logs = logs, seen_queued = queuedWrites,
                                            seen_states = nodesStatus, seen_history = h\<rparr>)))
            }
        })"

text \<open>What follows, from the history the view was read in.\<close>

definition decide_quorum ::
  "Reconciler \<Rightarrow> TypesenseCluster \<Rightarrow> ObjectKey \<Rightarrow> view \<Rightarrow> (quorum_result \<times> history) option" where
  "decide_quorum r ts key v =
     (if seen_status v = ClusterStatusSplitBrain
      then wait_or_downgrade r ts (NodesListConfigMap (seen_quorum v)) key
             (sts_StatusReadyReplicas (seen_sts v)) (int32 (MinRequiredNodes (seen_quorum v)))
             (seen_history v)
      else case update_gates r (seen_client v) ts (seen_logs v) (seen_states v) (seen_members v)
                  False [] (seen_history v) of
             (Inl err, h) \<Rightarrow> Some (quorum_failed err, h)
           | (Inr (attention, nodesHealth), h) \<Rightarrow>
               evaluate_quorum r ts key (seen_sts v) (seen_quorum v) (seen_status v) (seen_states v)
                 (seen_queued v) (seen_threshold v) attention nodesHealth h)"

lemma quorum_view_SomeE:
  assumes "quorum_view r ts secret key h = Some v"
  obtains h1 h2 h3 h4 h5 where
    "on_get (api_StatefulSet r) h key = Inr (seen_sts v)"
    "getQuorum r ts (seen_sts v) (h @ [ReqGet KStatefulSet key]) = Some (Inr (seen_quorum v), h1)"
    "restart_unscheduled r (seen_sts v) ts h1 = Some ((), h2)"
    "MinRequiredNodes (seen_quorum v) \<le> AvailableNodes (seen_quorum v)"
    "getHttpClient r ts h2 = (Inr (seen_client v), h3)"
    "getHealthyWriteLagThreshold r ts h3 = (seen_threshold v, h4)"
    "fetch_logs r ts (seen_members v) [] h4 = (seen_logs v, h5)"
    "fetch_statuses r (seen_client v) ts secret (seen_logs v) (seen_members v) 0 [] h5 =
       (seen_queued v, seen_states v, seen_history v)"
  using assms
  by (auto simp: quorum_view_def GetFreshStatefulSet_def Get_def not_less elim!: bind_SomeE
      split: sum.split_asm if_split_asm prod.split_asm)

lemma quorum_view_minor:
  assumes "quorum_view r ts secret key h = Some v"
  shows "emits minor h (seen_history v)"
  using assms
proof (cases rule: quorum_view_SomeE)
  case (1 h1 h2 h3 h4 h5)
  have reads: "emits minor g g'" if "emits is_read g g'" for g g' using that by (rule emits_read_writes_only)
  have "emits minor h h1"
    using reads [OF run_okD [OF getQuorum_reads 1(2)]] by (rule emits_trans [rotated]) simp
  also have "emits minor h1 h2" using run_okD [OF restart_unscheduled_emits 1(3)] minor_KPod by (rule emits_mono)
  finally (emits_trans) have "emits minor h h3" using reads [OF getHttpClient_reads [OF 1(5)]] by (rule emits_trans)
  then have "emits minor h h4" using reads [OF getHealthyWriteLagThreshold_reads [OF 1(6)]] by (rule emits_trans)
  then have "emits minor h h5" using reads [OF fetch_logs_reads [OF 1(7)]] by (rule emits_trans)
  then show ?thesis using reads [OF fetch_statuses_reads [OF 1(8)]] by (rule emits_trans)
qed

text \<open>A run with a view is the decision on it.\<close>

lemma ReconcileQuorum_view:
  assumes "quorum_view r ts secret key h = Some v"
  shows "ReconcileQuorum r ts secret key h = decide_quorum r ts key v"
  using assms
proof (cases rule: quorum_view_SomeE)
  case (1 h1 h2 h3 h4 h5)
  then show ?thesis
    by (simp add: ReconcileQuorum_def GetFreshStatefulSet_def Get_def probe_quorum_def decide_quorum_def Let_def)
qed

text \<open>A run without one gives up before it decides.\<close>

lemma ReconcileQuorum_no_view:
  assumes "quorum_view r ts secret key h = None"
    and "ReconcileQuorum r ts secret key h = Some ((c, s, e), h')"
  shows "c \<in> {ConditionReasonQuorumNotReady, ConditionReasonStatefulSetNotReady} \<and> emits minor h h'"
proof (cases "on_get (api_StatefulSet r) h key")
  case (Inl err)
  with assms(2) show ?thesis
    by (auto simp: ReconcileQuorum_def GetFreshStatefulSet_def Get_def quorum_failed_def)
next
  case (Inr sts)
  let ?h = "h @ [ReqGet KStatefulSet key]"
  have q: "emits minor h h1" if "getQuorum r ts sts ?h = Some (x, h1)" for x h1
    by (rule emits_after [OF emits_read_writes_only [OF run_okD [OF getQuorum_reads that]]]) simp
  have u: "emits minor h1 h2" if "restart_unscheduled r sts ts h1 = Some (x, h2)" for x h1 h2
    by (rule emits_mono [OF run_okD [OF restart_unscheduled_emits that] minor_KPod])
  have c: "emits minor h2 h3" if "getHttpClient r ts h2 = (x, h3)" for x h2 h3
    by (rule emits_read_writes_only [OF getHttpClient_reads [OF that]])
  obtain x h1 where 1: "getQuorum r ts sts ?h = Some (x, h1)"
    using assms(2) Inr by (auto simp: ReconcileQuorum_def GetFreshStatefulSet_def Get_def elim!: bind_SomeE)
  show ?thesis
  proof (cases x)
    case (Inl err)
    with assms(2) \<open>on_get (api_StatefulSet r) h key = Inr sts\<close> 1 q [OF 1] show ?thesis
      by (auto simp: ReconcileQuorum_def GetFreshStatefulSet_def Get_def quorum_failed_def)
  next
    case (Inr quorum)
    then obtain h2 where 2: "restart_unscheduled r sts ts h1 = Some ((), h2)"
      using assms(2) \<open>on_get (api_StatefulSet r) h key = Inr sts\<close> 1
      by (auto simp: ReconcileQuorum_def GetFreshStatefulSet_def Get_def elim!: bind_SomeE)
    obtain cl h3 where 3: "getHttpClient r ts h2 = (cl, h3)" by fastforce
    have h2: "emits minor h h2" using q [OF 1] u [OF 2] by (rule emits_trans)
    then have h3: "emits minor h h3" using c [OF 3] by (rule emits_trans)
    show ?thesis
      using assms \<open>on_get (api_StatefulSet r) h key = Inr sts\<close> 1 2 3 Inr h2 h3
      by (auto simp: ReconcileQuorum_def quorum_view_def GetFreshStatefulSet_def Get_def quorum_failed_def
          probe_quorum_def Let_def split: sum.split_asm if_split_asm prod.split_asm)
  qed
qed

section \<open>The one change of the statefulset\<close>

text \<open>
  The calls from \<open>h\<close> to \<open>h'\<close> change pods and config maps only, but for at most one update of
  the statefulset, the last of three calls in a row: the statefulset is read (\<open>fresh\<close>), read again
  (\<open>current\<close>), and the second copy is sent back with another number of replicas. \<open>P fresh n\<close> says
  why it is that number.
\<close>

definition resizes ::
  "Reconciler \<Rightarrow> ObjectKey \<Rightarrow> (StatefulSet \<Rightarrow> int \<Rightarrow> bool) \<Rightarrow> history \<Rightarrow> history \<Rightarrow> bool" where
  "resizes r key P h h' \<longleftrightarrow> emits minor h h' \<or>
     (\<exists>g fresh current n t. emits minor h g \<and>
        on_get (api_StatefulSet r) g key = Inr fresh \<and>
        on_get (api_StatefulSet r) (g @ [ReqGet KStatefulSet key]) key = Inr current \<and>
        sts_Replicas current \<noteq> Some n \<and> P fresh n \<and>
        h' = g @ [ReqGet KStatefulSet key, ReqGet KStatefulSet key,
                  ReqUpdate (OStatefulSet (current\<lparr>sts_Replicas := Some n\<rparr>))] @ t \<and>
        list_all minor t)"

lemma resizes_minor: "emits minor h h' \<Longrightarrow> resizes r key P h h'"
  by (simp add: resizes_def)

lemma resizes_before:
  assumes "emits minor h h1" and "resizes r key P h1 h'"
  shows "resizes r key P h h'"
  using assms emits_trans [of minor h h1] unfolding resizes_def by blast

lemma resizes_after:
  assumes "resizes r key P h h1" and "emits minor h1 h'"
  shows "resizes r key P h h'"
proof -
  obtain u where h': "h' = h1 @ u" and u: "list_all minor u" using assms(2) by (auto simp: emits_def)
  from assms(1) show ?thesis
    unfolding resizes_def
  proof (elim disjE exE conjE)
    fix g fresh current n t
    assume "emits minor h g" "on_get (api_StatefulSet r) g key = Inr fresh"
      "on_get (api_StatefulSet r) (g @ [ReqGet KStatefulSet key]) key = Inr current"
      "sts_Replicas current \<noteq> Some n" "P fresh n" "list_all minor t"
      "h1 = g @ [ReqGet KStatefulSet key, ReqGet KStatefulSet key,
                  ReqUpdate (OStatefulSet (current\<lparr>sts_Replicas := Some n\<rparr>))] @ t"
    with h' u show "emits minor h h' \<or> (\<exists>g fresh current n t. emits minor h g \<and>
        on_get (api_StatefulSet r) g key = Inr fresh \<and>
        on_get (api_StatefulSet r) (g @ [ReqGet KStatefulSet key]) key = Inr current \<and>
        sts_Replicas current \<noteq> Some n \<and> P fresh n \<and>
        h' = g @ [ReqGet KStatefulSet key, ReqGet KStatefulSet key,
                  ReqUpdate (OStatefulSet (current\<lparr>sts_Replicas := Some n\<rparr>))] @ t \<and>
        list_all minor t)"
      by (intro disjI2 exI [of _ g] exI [of _ fresh] exI [of _ current] exI [of _ n] exI [of _ "t @ u"]) simp
  qed (use assms(2) in \<open>blast intro: emits_trans\<close>)
qed

lemma resizes_mono: "resizes r key P h h' \<Longrightarrow> (\<And>x n. P x n \<Longrightarrow> Q x n) \<Longrightarrow> resizes r key Q h h'"
  unfolding resizes_def by blast

lemma resizes_kinds: "resizes r key P h h' \<Longrightarrow> emits (writes_only quorum_kinds) h h'"
  unfolding resizes_def
proof (elim disjE exE conjE)
  fix g fresh current n t
  assume "emits minor h g" "list_all minor t"
    "h' = g @ [ReqGet KStatefulSet key, ReqGet KStatefulSet key,
                  ReqUpdate (OStatefulSet (current\<lparr>sts_Replicas := Some n\<rparr>))] @ t"
  then show ?thesis
    using emits_mono [OF \<open>emits minor h g\<close> minor_quorum]
    by (auto simp: list_all_iff minor_quorum)
qed (erule emits_mono, erule minor_quorum)

text \<open>Reading the statefulset and scaling it, as both operations begin.\<close>

lemma ScaleStatefulSet_resizes:
  assumes "on_get (api_StatefulSet r) h key = Inr fresh" and "P fresh n"
    and "ScaleStatefulSet r key n (h @ [ReqGet KStatefulSet key]) = (e, h')"
  shows "resizes r key P h h'"
  using assms(3)
proof (cases rule: ScaleStatefulSet_cases)
  case (updated current)
  with assms(1,2) show ?thesis
    unfolding resizes_def
    by (intro disjI2 exI [of _ h] exI [of _ fresh] exI [of _ current] exI [of _ n] exI [of _ "[]"]) simp
qed (simp_all add: resizes_def)

lemma downgradeQuorum_resizes:
  assumes "downgradeQuorum r ts cm key hn m h = Some (res, h')"
  shows "resizes r key (\<lambda>_ n. n = 1) h h'"
proof (cases "on_get (api_StatefulSet r) h key")
  case (Inl err)
  with assms show ?thesis by (auto simp: downgradeQuorum_def GetFreshStatefulSet_def Get_def resizes_def)
next
  case (Inr fresh)
  obtain e h1 where scale: "ScaleStatefulSet r key 1 (h @ [ReqGet KStatefulSet key]) = (e, h1)" by fastforce
  note first = ScaleStatefulSet_resizes [OF Inr, of "\<lambda>_ n. n = 1", OF refl scale]
  have purge: "emits minor g g'" if "PurgeStatefulSetPods r sts ts g = Some (x, g')" for sts g x g'
    using run_okD [OF PurgeStatefulSetPods_minor that] .
  have configmap: "emits minor g h'" if "resize_configmap f r ts cm 1 g = Some (res, h')" for f g
    using run_okD [OF resize_configmap_emits that] .
  have rest: "emits minor h1 h'"
    using assms Inr scale
    by (auto simp: downgradeQuorum_def GetFreshStatefulSet_def Get_def Let_def elim!: bind_SomeE
        split: option.split_asm if_split_asm dest!: purge configmap intro: emits_trans)
  from first rest show ?thesis by (rule resizes_after)
qed

definition upgrade_target :: "TypesenseCluster \<Rightarrow> StatefulSet \<Rightarrow> int" where
  "upgrade_target ts fresh =
     (if spec_IncrementalQuorumRecovery (ts_Spec ts) then int32 (sts_StatusReplicas fresh + 1)
      else spec_Replicas (ts_Spec ts))"

lemma upgradeQuorum_resizes:
  assumes "upgradeQuorum r ts cm key h = Some (res, h')"
  shows "resizes r key (\<lambda>fresh n. n = upgrade_target ts fresh) h h'"
proof (cases "on_get (api_StatefulSet r) h key")
  case (Inl err)
  with assms show ?thesis by (auto simp: upgradeQuorum_def GetFreshStatefulSet_def Get_def resizes_def)
next
  case (Inr fresh)
  obtain e h1 where scale:
      "ScaleStatefulSet r key (upgrade_target ts fresh) (h @ [ReqGet KStatefulSet key]) = (e, h1)" by fastforce
  note first = ScaleStatefulSet_resizes [OF Inr, of "\<lambda>fresh n. n = upgrade_target ts fresh", OF refl scale]
  have rest: "emits minor h1 h'"
    using assms Inr scale [unfolded upgrade_target_def] run_okD [OF resize_configmap_emits]
    by (auto simp: upgradeQuorum_def GetFreshStatefulSet_def Get_def Let_def
        split: option.split_asm if_split_asm)
  from first rest show ?thesis by (rule resizes_after)
qed

lemma wait_or_downgrade_resizes:
  assumes "wait_or_downgrade r ts cm key hn m h = Some (res, h')"
  shows "resizes r key (\<lambda>_ n. hasBootstrapValues ts cm = Inr False \<and> n = 1) h h'"
  using assms downgradeQuorum_resizes [of r ts cm key hn m h res h']
  by (auto simp: wait_or_downgrade_def resizes_minor split: sum.split_asm if_split_asm elim: resizes_mono)

text \<open>
  Why the statefulset may get another size: the members this run has seen were in a split brain or
  an election deadlock, and the nodes list no longer holds bootstrap values; or they were in order,
  none of them had queued writes, and there are fewer replicas than requested.
\<close>

definition resize_reason :: "TypesenseCluster \<Rightarrow> view \<Rightarrow> StatefulSet \<Rightarrow> int \<Rightarrow> bool" where
  "resize_reason ts v fresh n \<longleftrightarrow>
     seen_status v \<in> {ClusterStatusSplitBrain, ClusterStatusElectionDeadlock} \<and>
       hasBootstrapValues ts (NodesListConfigMap (seen_quorum v)) = Inr False \<and> n = 1 \<or>
     seen_status v = ClusterStatusOK \<and> seen_queued v \<le> 0 \<and>
       (\<exists>m. sts_Replicas (seen_sts v) = Some m \<and> m < spec_Replicas (ts_Spec ts)) \<and>
       n = upgrade_target ts fresh"

lemma evaluate_quorum_outcome:
  assumes "evaluate_quorum r ts key sts quorum cs ns qw wl att nh h = Some (res, h')"
  obtains (nothing) "h' = h"
  | (purge) e where "PurgeStatefulSetPods r sts ts h = Some (e, h')"
  | (wait) hn mr where "cs = ClusterStatusElectionDeadlock"
      "wait_or_downgrade r ts (NodesListConfigMap quorum) key hn mr h = Some (res, h')"
  | (upgrade) m where "upgradeQuorum r ts (NodesListConfigMap quorum) key h = Some (res, h')"
      "cs = ClusterStatusOK" "qw \<le> 0" "sts_Replicas sts = Some m" "m < spec_Replicas (ts_Spec ts)"
  using assms unfolding evaluate_quorum_def Let_def
  by (clarsimp elim!: bind_SomeE simp: not_less split: if_split_asm)

lemma decide_quorum_resizes:
  assumes "decide_quorum r ts key v = Some (res, h')"
  shows "resizes r key (resize_reason ts v) (seen_history v) h'"
proof (cases "seen_status v = ClusterStatusSplitBrain")
  case True
  with assms have "wait_or_downgrade r ts (NodesListConfigMap (seen_quorum v)) key
      (sts_StatusReadyReplicas (seen_sts v)) (int32 (MinRequiredNodes (seen_quorum v))) (seen_history v) =
      Some (res, h')" by (simp add: decide_quorum_def)
  from wait_or_downgrade_resizes [OF this] True show ?thesis
    by (elim resizes_mono) (simp add: resize_reason_def)
next
  case False
  obtain x h1 where gates: "update_gates r (seen_client v) ts (seen_logs v) (seen_states v) (seen_members v)
      False [] (seen_history v) = (x, h1)" by fastforce
  note before = update_gates_minor [OF gates]
  show ?thesis
  proof (cases x)
    case (Inl err)
    with assms False gates before show ?thesis by (simp add: decide_quorum_def resizes_minor)
  next
    case (Inr y)
    obtain att nh where y: "y = (att, nh)" by fastforce
    from assms False gates Inr y have "evaluate_quorum r ts key (seen_sts v) (seen_quorum v) (seen_status v)
        (seen_states v) (seen_queued v) (seen_threshold v) att nh h1 = Some (res, h')"
      by (simp add: decide_quorum_def)
    then have "resizes r key (resize_reason ts v) h1 h'"
    proof (cases rule: evaluate_quorum_outcome)
      case (purge e)
      then show ?thesis using run_okD [OF PurgeStatefulSetPods_minor] by (blast intro: resizes_minor)
    next
      case (wait hn mr)
      from wait_or_downgrade_resizes [OF wait(2)] wait(1) show ?thesis
        by (elim resizes_mono) (simp add: resize_reason_def)
    next
      case (upgrade m)
      from upgradeQuorum_resizes [OF upgrade(1)] upgrade(2-) show ?thesis
        by (elim resizes_mono) (simp add: resize_reason_def)
    qed (simp add: resizes_minor)
    with before show ?thesis by (rule resizes_before)
  qed
qed

text \<open>Everything a run does, and where it may change the statefulset.\<close>

lemma ReconcileQuorum_outcome:
  assumes "ReconcileQuorum r ts secret key h = Some (res, h')"
  obtains (blind) "quorum_view r ts secret key h = None" "emits minor h h'"
      "fst res \<in> {ConditionReasonQuorumNotReady, ConditionReasonStatefulSetNotReady}"
  | (decided) v where "quorum_view r ts secret key h = Some v" "emits minor h (seen_history v)"
      "decide_quorum r ts key v = Some (res, h')"
      "resizes r key (resize_reason ts v) (seen_history v) h'"
proof (cases "quorum_view r ts secret key h")
  case None
  obtain c s e where "res = (c, s, e)" by (rule prod_cases3)
  with ReconcileQuorum_no_view [OF None] assms None blind show thesis by simp
next
  case (Some v)
  with ReconcileQuorum_view [OF Some] quorum_view_minor [OF Some] assms decide_quorum_resizes decided
  show thesis by metis
qed

lemma ReconcileQuorum_emits: "run_ok (writes_only quorum_kinds) h (ReconcileQuorum r ts secret key h)"
  unfolding run_ok_def
proof (intro allI impI)
  fix res h' assume "ReconcileQuorum r ts secret key h = Some (res, h')"
  then show "emits (writes_only quorum_kinds) h h'"
  proof (cases rule: ReconcileQuorum_outcome)
    case blind
    then show ?thesis by (auto intro: emits_mono minor_quorum)
  next
    case (decided v)
    from emits_mono [OF decided(2) minor_quorum] resizes_kinds [OF decided(4)] show ?thesis by (rule emits_trans)
  qed
qed

interpretation quorum_phase:
  operation "ReconcileQuorum r ts secret key" "writes_only {KPod, KConfigMap, KStatefulSet}" for r ts secret key
  by unfold_locales (rule ReconcileQuorum_emits)

section \<open>The health checks of a run\<close>

text \<open>
  Between the histories \<open>h\<close> and \<open>h'\<close> the member was asked for its health, at its address, and the
  answer said ok; and its log does not show an error that calls for the termination of the pod.
\<close>

definition answered_ok ::
  "Reconciler \<Rightarrow> HttpClient \<Rightarrow> TypesenseCluster \<Rightarrow> (string \<times> string) list \<Rightarrow> history \<Rightarrow> history
     \<Rightarrow> NodeEndpoint \<Rightarrow> bool" where
  "answered_ok r c ts logs h h' ne \<longleftrightarrow>
     (\<exists>u q g code body health.
        buildUrl r ne ts (spec_ApiPort (ts_Spec ts)) ''/health'' = Inr u \<and>
        q = \<lparr>http_URL = u, http_ApiKey = None, http_Timeout = hc_Timeout c\<rparr> \<and>
        prefix h g \<and> prefix (g @ [ReqHttp q]) h' \<and> on_http r g q = HttpBody code body \<and>
        ext_UnmarshalNodeHealth r body = Some health \<and> Ok health) \<and>
     \<not> inspectPodLogs (log_of logs (ne_PodName ne)) ErrorsRequirePodTermination"

lemma answered_ok_widen:
  assumes "answered_ok r c ts logs h1 h2 ne" and "prefix h h1" and "prefix h2 h'"
  shows "answered_ok r c ts logs h h' ne"
  using assms unfolding answered_ok_def by (meson prefix_order.trans)

lemma getNodeHealth_ok:
  assumes "getNodeHealth r c ne ts (log_of logs (ne_PodName ne)) h = ((health, None), h')" and "Ok health"
  shows "answered_ok r c ts logs h h' ne"
  using assms
  by (auto simp: getNodeHealth_def answered_ok_def req_simps Let_def
      split: sum.split_asm option.split_asm http_response.split_asm if_split_asm)

lemma calculatePodReadinessGate_ok:
  assumes "calculatePodReadinessGate r c ne st ts (log_of logs (ne_PodName ne)) h = (cond, h')"
    and "pc_Status cond = ConditionTrue"
  shows "answered_ok r c ts logs h h' ne"
proof -
  obtain health err g where run:
      "getNodeHealth r c ne ts (log_of logs (ne_PodName ne)) h = ((health, err), g)" by (metis prod.exhaust)
  with assms(1) have "g = h'"
    by (auto simp: calculatePodReadinessGate_def Let_def split: option.split_asm if_split_asm prod.split_asm)
  moreover have "err = None" "Ok health"
    using calculatePodReadinessGate_result [OF assms(1)] assms(2) run by auto
  ultimately show ?thesis using getNodeHealth_ok run by blast
qed

text \<open>A member that is recorded as healthy answered in the loop that updates the gates.\<close>

lemma update_gates_healthy:
  "update_gates r c ts logs ns nes b nh h = (Inr (b', nh'), h') \<Longrightarrow> (k, True) \<in> set nh' \<Longrightarrow>
     (k, True) \<in> set nh \<or> (\<exists>ne \<in> set nes. ne_PodName ne = k \<and> answered_ok r c ts logs h h' ne)"
proof (induction nes arbitrary: b nh h)
  case (Cons ne nes)
  let ?k = "ne_PodName ne"
  obtain cond h1 where one: "calculatePodReadinessGate r c ne (status_of ns ?k) ts (log_of logs ?k) h = (cond, h1)"
    by fastforce
  obtain x h2 where two: "updatePodReadinessGate r (podObjectKey ts ?k) cond h1 = (x, h2)" by fastforce
  define v where "v = (case ParseBool (status_string (pc_Status cond)) of None \<Rightarrow> False | Some b \<Rightarrow> b)"
  have "x = None" and rest: "update_gates r c ts logs ns nes b (AList.update ?k v nh) h2 = (Inr (b', nh'), h')"
    using Cons.prems one two calculatePodReadinessGate_result [OF one]
    by (auto simp: Let_def v_def split: option.split_asm)
  have pre: "prefix h h1" "prefix h1 h2" "prefix h2 h'"
    using emits_prefix [OF calculatePodReadinessGate_reads [OF one]]
      emits_prefix [OF updatePodReadinessGate_emits [OF two]] emits_prefix [OF update_gates_emits [OF rest]] by auto
  have v: "answered_ok r c ts logs h h' ne" if "v"
  proof -
    have status: "pc_Status cond = ConditionTrue"
      using that unfolding v_def by (cases "pc_Status cond") (auto simp: ParseBool_def)
    have "prefix h1 h'" using pre(2,3) by (rule prefix_order.trans)
    then show ?thesis
      by (rule answered_ok_widen [OF calculatePodReadinessGate_ok [OF one status] prefix_order.refl])
  qed
  have "prefix h h2" using pre(1,2) by (rule prefix_order.trans)
  then have widen: "answered_ok r c ts logs h2 h' n \<Longrightarrow> answered_ok r c ts logs h h' n" for n
    using answered_ok_widen [OF _ _ prefix_order.refl] by blast
  from Cons.IH [OF rest Cons.prems(2)] show ?case
  proof
    assume "(k, True) \<in> set (AList.update ?k v nh)"
    with v show ?thesis by (auto dest: update_in_set)
  next
    assume "\<exists>n \<in> set nes. ne_PodName n = k \<and> answered_ok r c ts logs h2 h' n"
    then show ?thesis using widen by auto
  qed
qed simp

text \<open>Enough different members of the view answered their health check with ok, up to the history \<open>h'\<close>.\<close>

definition enough_healthy :: "Reconciler \<Rightarrow> TypesenseCluster \<Rightarrow> view \<Rightarrow> history \<Rightarrow> bool" where
  "enough_healthy r ts v h' \<longleftrightarrow>
     (\<exists>K \<subseteq> set (seen_members v). MinRequiredNodes (seen_quorum v) \<le> int (card (ne_PodName ` K)) \<and>
        (\<forall>ne \<in> K. answered_ok r (seen_client v) ts (seen_logs v) (seen_history v) h' ne))"

lemma healthy_members:
  assumes "update_gates r c ts logs ns nes False [] h = (Inr (b, nh), h')"
  shows "\<exists>K \<subseteq> set nes. count_healthy nh \<le> int (card (ne_PodName ` K)) \<and>
    (\<forall>ne \<in> K. answered_ok r c ts logs h h' ne)"
proof -
  define K where "K = {ne \<in> set nes. answered_ok r c ts logs h h' ne}"
  have nh: "distinct (map fst nh)" using update_gates_keys [OF assms] by simp
  have "fst ` set (filter snd nh) \<subseteq> ne_PodName ` K"
    using update_gates_healthy [OF assms] by (fastforce simp: K_def)
  then have "card (fst ` set (filter snd nh)) \<le> card (ne_PodName ` K)"
    by (intro card_mono) (simp_all add: K_def)
  moreover have "card (fst ` set (filter snd nh)) = length (filter snd nh)"
    using distinct_card [OF distinct_map_filter [OF nh, of snd]] by simp
  ultimately have "count_healthy nh \<le> int (card (ne_PodName ` K))" by (simp add: count_healthy_def)
  then show ?thesis by (intro exI [of _ K]) (simp add: K_def)
qed

text \<open>The ways a run can report a reason that does not come from waiting or shrinking.\<close>

lemma decide_quorum_cases:
  assumes "decide_quorum r ts key v = Some ((c, s, e), h')"
  obtains (early) "c \<in> {ConditionReasonQuorumNotReady, ConditionReasonQuorumDowngraded,
      ConditionReasonQuorumNotReadyWaitATerm}"
  | (evaluated) nh h1 where "seen_status v \<noteq> ClusterStatusSplitBrain"
      "update_gates r (seen_client v) ts (seen_logs v) (seen_states v) (seen_members v) False []
         (seen_history v) = (Inr (False, nh), h1)"
      "evaluate_quorum r ts key (seen_sts v) (seen_quorum v) (seen_status v) (seen_states v) (seen_queued v)
         (seen_threshold v) False nh h1 = Some ((c, s, e), h')"
proof (cases "seen_status v = ClusterStatusSplitBrain")
  case True
  with assms early show thesis using wait_or_downgrade_reason by (fastforce simp: decide_quorum_def)
next
  case False
  obtain x h1 where gates: "update_gates r (seen_client v) ts (seen_logs v) (seen_states v) (seen_members v)
      False [] (seen_history v) = (x, h1)" by fastforce
  show thesis
  proof (cases x)
    case (Inl err)
    with assms False gates early show thesis by (simp add: decide_quorum_def quorum_failed_def)
  next
    case (Inr y)
    obtain att nh where y: "y = (att, nh)" by fastforce
    have "\<not> att" using update_gates_flag [OF gates [unfolded Inr y]] by simp
    with assms False gates Inr y evaluated show thesis by (simp add: decide_quorum_def)
  qed
qed

lemma decide_quorum_Ready:
  assumes "decide_quorum r ts key v = Some ((ConditionReasonQuorumReady, s, e), h')"
  shows "s = 0 \<and> e = None \<and> enough_healthy r ts v h' \<and>
    seen_status v \<in> {ClusterStatusOK, ClusterStatusNotReady} \<and>
    (0 < MinRequiredNodes (seen_quorum v) \<longrightarrow> seen_queued v \<le> seen_threshold v) \<and>
    (seen_status v = ClusterStatusOK \<longrightarrow>
       (\<exists>n. sts_Replicas (seen_sts v) = Some n \<and> spec_Replicas (ts_Spec ts) \<le> n))"
  using assms
proof (cases rule: decide_quorum_cases)
  case early
  then show ?thesis by (simp add: reason_defs)
next
  case (evaluated nh h1)
  note ready = evaluate_quorum_Ready [OF evaluated(3)]
  from healthy_members [OF evaluated(2)] obtain K where "K \<subseteq> set (seen_members v)"
    and "count_healthy nh \<le> int (card (ne_PodName ` K))"
    and "\<forall>ne \<in> K. answered_ok r (seen_client v) ts (seen_logs v) (seen_history v) h1 ne" by blast
  then have "enough_healthy r ts v h'" using ready unfolding enough_healthy_def by (intro exI [of _ K]) auto
  moreover have "seen_status v \<in> {ClusterStatusOK, ClusterStatusNotReady}"
    using ready evaluated(1) by (cases "seen_status v") auto
  ultimately show ?thesis using ready by auto
qed

lemma ReconcileQuorum_Ready_view:
  assumes "ReconcileQuorum r ts secret key h = Some ((ConditionReasonQuorumReady, s, e), h')"
  obtains v where "quorum_view r ts secret key h = Some v"
    and "decide_quorum r ts key v = Some ((ConditionReasonQuorumReady, s, e), h')"
  using assms by (cases rule: ReconcileQuorum_outcome) (auto simp: reason_defs)

end
