(* ===== verification/Quorum_Correct.thy ===== *)
theory Quorum_Correct
  imports Quorum_View Sample_Env
begin

text \<open>
  The correctness of the quorum logic: what each cluster status means, why the required number of
  nodes protects a cluster with an odd number of members, which pods are members, when the
  statefulset may be resized, what has to be true before the quorum is reported ready, and what a
  readiness gate update leaves of the other conditions of a pod.
\<close>

section \<open>Members by state\<close>

definition members_with :: "(NodeState \<Rightarrow> bool) \<Rightarrow> (string \<times> NodeStatus) list \<Rightarrow> string set" where
  "members_with P ns = {k. \<exists>s. (k, s) \<in> set ns \<and> P (State s)}"

definition leader_members :: "(string \<times> NodeStatus) list \<Rightarrow> string set" where
  "leader_members = members_with (\<lambda>s. s = LeaderState)"

definition silent_members :: "(string \<times> NodeStatus) list \<Rightarrow> string set" where
  "silent_members = members_with (\<lambda>s. s = NotReadyState \<or> s = UnreachableState)"

lemma members_with_Nil [simp]: "members_with P [] = {}"
  by (simp add: members_with_def)

lemma members_with_Cons [simp]:
  "members_with P ((k, s) # ns) = (if P (State s) then insert k (members_with P ns) else members_with P ns)"
  by (auto simp: members_with_def)

lemma members_with_card:
  assumes "distinct (map fst ns)"
  shows "card (members_with P ns) = length (filter (\<lambda>s. P (State s)) (map snd ns))"
proof -
  let ?f = "filter (\<lambda>x. P (State (snd x))) ns"
  have "members_with P ns = fst ` set ?f" by (force simp: members_with_def)
  moreover have "distinct (map fst ?f)" using assms by (rule distinct_map_filter)
  then have "card (set (map fst ?f)) = length (map fst ?f)" by (rule distinct_card)
  ultimately show ?thesis by (simp add: filter_map o_def)
qed

lemma members_with_finite: "finite (members_with P ns)"
proof -
  have "members_with P ns \<subseteq> fst ` set ns" by (force simp: members_with_def)
  then show ?thesis by (rule finite_subset) simp
qed

lemma getClusterStatus_members:
  assumes "distinct (map fst ns)" and "int (length ns) < 2 ^ 63"
  shows "getClusterStatus ns =
     (if 1 < card (leader_members ns) then ClusterStatusSplitBrain
      else if card (leader_members ns) = 1
        then if 2 * card (silent_members ns) \<le> length ns then ClusterStatusOK else ClusterStatusNotReady
      else if length ns \<le> 1 \<or> length ns = card (silent_members ns) then ClusterStatusNotReady
      else ClusterStatusElectionDeadlock)"
proof -
  have L: "leaders (map snd ns) = card (leader_members ns)"
    and D: "silent (map snd ns) = card (silent_members ns)"
    using members_with_card [OF assms(1)]
    by (simp_all add: leaders_def silent_def leader_members_def silent_members_def)
  have "card (silent_members ns) \<le> length ns" using D silent_le [of "map snd ns"] by simp
  then show ?thesis by (auto simp: getClusterStatus_counts [OF assms(2), unfolded L D Let_def])
qed

section \<open>The cluster status\<close>

text \<open>
  C12: The cluster status says what its name says, for the members of a cluster (at most one status
  per member): split brain is two different members that both claim to lead; a cluster is in order
  when exactly one member leads and at most half of the members are silent (not ready or
  unreachable); an election deadlock is a cluster of at least two members none of which leads
  although one of them answers; in every other case the cluster is not ready.
\<close>

theorem getClusterStatus_spec:
  assumes "distinct (map fst ns)" and "int (length ns) < 2 ^ 63"
  shows "(getClusterStatus ns = ClusterStatusSplitBrain \<longleftrightarrow>
      (\<exists>a b. a \<in> leader_members ns \<and> b \<in> leader_members ns \<and> a \<noteq> b)) \<and>
    (getClusterStatus ns = ClusterStatusOK \<longleftrightarrow>
      (\<exists>a. leader_members ns = {a}) \<and> 2 * card (silent_members ns) \<le> length ns) \<and>
    (getClusterStatus ns = ClusterStatusElectionDeadlock \<longleftrightarrow>
      leader_members ns = {} \<and> 1 < length ns \<and> card (silent_members ns) < length ns)"
proof -
  have fin: "finite (leader_members ns)" unfolding leader_members_def by (rule members_with_finite)
  have "card (silent_members ns) \<le> length ns"
    using members_with_card [OF assms(1)] length_filter_le [of _ "map snd ns"]
    by (simp add: silent_members_def)
  moreover have "(\<exists>a b. a \<in> leader_members ns \<and> b \<in> leader_members ns \<and> a \<noteq> b) \<longleftrightarrow>
      1 < card (leader_members ns)"
    using fin card_le_Suc0_iff_eq [OF fin] by auto
  moreover have "(\<exists>a. leader_members ns = {a}) \<longleftrightarrow> card (leader_members ns) = 1"
    by (simp add: card_1_singleton_iff)
  moreover have "leader_members ns = {} \<longleftrightarrow> card (leader_members ns) = 0" using fin by simp
  ultimately show ?thesis by (auto simp: getClusterStatus_members [OF assms])
qed

theorem getClusterStatus_spec_witness:
  "getClusterStatus [(''c-sts-0'', node_status LeaderState), (''c-sts-1'', node_status FollowerState),
     (''c-sts-2'', node_status UnreachableState)] = ClusterStatusOK"
  using getClusterStatus_spec [of "[(''c-sts-0'', node_status LeaderState),
      (''c-sts-1'', node_status FollowerState), (''c-sts-2'', node_status UnreachableState)]"]
  by (simp add: leader_members_def silent_members_def node_status_def state_defs)

text \<open>
  C15: The cluster status does not depend on the order in which Go iterates over the map of the node
  states, nor on the names of the members: two maps with the same states give the same status.
\<close>

theorem getClusterStatus_order:
  assumes "mset (map snd ns) = mset (map snd ms)"
  shows "getClusterStatus ns = getClusterStatus ms"
proof -
  have "length ns = length ms" using arg_cong [OF assms, of size] by simp
  then show ?thesis
    unfolding getClusterStatus_def count_states_eq
    by (simp add: leaders_mset [OF assms] silent_mset [OF assms])
qed

theorem getClusterStatus_order_witness:
  "getClusterStatus [(''a'', node_status LeaderState), (''b'', node_status FollowerState)] =
   getClusterStatus [(''b'', node_status FollowerState), (''a'', node_status LeaderState)]"
  by (rule getClusterStatus_order) simp

text \<open>
  C16: For an odd number of members (the custom resource definition admits 1, 3, 5 and 7 replicas),
  any two sets of members that both have the required number of nodes share a member. The required
  number is the half rounded up, and never less than one.
\<close>

theorem getMinimumRequiredNodes_quorum:
  assumes "finite S" and "odd (card S)" and "int (card S) < 2 ^ 63"
    and "A \<subseteq> S" and "B \<subseteq> S"
    and "getMinimumRequiredNodes (int (card S)) \<le> int (card A)"
    and "getMinimumRequiredNodes (int (card S)) \<le> int (card B)"
  shows "A \<inter> B \<noteq> {} \<and> getMinimumRequiredNodes (int (card S)) = (int (card S) + 1) div 2"
proof -
  have "card S \<noteq> 0" using assms(2) by (auto elim: oddE)
  then show ?thesis
    using raft.quorums_intersect [OF assms(1) _ assms(4,5)] assms
    by (auto simp: getMinimumRequiredNodes_eq)
qed

theorem getMinimumRequiredNodes_quorum_witness:
  "{0, 1} \<inter> {1, 2} \<noteq> ({} :: nat set) \<and> getMinimumRequiredNodes 3 = 2"
  using getMinimumRequiredNodes_quorum [of "{0, 1, 2 :: nat}" "{0, 1}" "{1, 2}"]
  by (simp add: getMinimumRequiredNodes_eq)

text \<open>
  With an even number of members the required number is only half of them, so that two disjoint
  halves both satisfy it: the number is a majority only for the odd sizes the custom resource
  definition admits.
\<close>

theorem getMinimumRequiredNodes_even:
  assumes "0 < k" and "k < 2 ^ 62"
  shows "getMinimumRequiredNodes (2 * k) = k"
  using assms by (simp add: getMinimumRequiredNodes_eq)

theorem getMinimumRequiredNodes_even_witness: "getMinimumRequiredNodes 4 = 2"
  using getMinimumRequiredNodes_even [of 2] by simp

section \<open>The members\<close>

text \<open>A cluster whose members all answer with the same state, and as healthy.\<close>

definition sample_quorum :: "int \<Rightarrow> string \<Rightarrow> Pod list \<Rightarrow> string \<Rightarrow> Reconciler" where
  "sample_quorum n nodes pods st = sample_reconciler\<lparr>
     InCluster := False,
     api_StatefulSet := quiet_api\<lparr>on_get := \<lambda>h key. Inr (sample_sts n)\<rparr>,
     api_ConfigMap := quiet_api\<lparr>on_get := \<lambda>h key. Inr (sample_cm nodes)\<rparr>,
     api_Pod := quiet_api\<lparr>on_list := \<lambda>h opts. Inr pods\<rparr>,
     on_http := (\<lambda>h q. HttpBody 200 st),
     ext_UnmarshalNodeStatus := (\<lambda>b. Some (node_status b)),
     ext_UnmarshalNodeHealth := (\<lambda>b. Some \<lparr>Ok = True, ResourceError = None\<rparr>)\<rparr>"

definition sample_pair :: Reconciler where
  "sample_pair = sample_quorum 2 ''a:7:8,b:7:8''
     [sample_pod ''c-sts-0'' ''a'', sample_pod ''c-sts-1'' ''b''] ''LEADER''"

definition sample_leader :: Reconciler where
  "sample_leader = sample_quorum 1 ''a:7:8'' [sample_pod ''c-sts-0'' ''a''] ''LEADER''"

definition sample_single :: TypesenseCluster where
  "sample_single = sample_ts\<lparr>ts_Spec :=
     sample_spec\<lparr>spec_Replicas := 1, spec_ApiPort := 8, spec_PeeringPort := 7\<rparr>\<rparr>"

text \<open>
  C17: The quorum that is read back has one entry per member name, and a pod is a member exactly if
  it has an address whose raft endpoint is in the nodes list of the config map; the number of
  available nodes is the length of that list.
\<close>

theorem getQuorum_members:
  assumes "getQuorum r ts sts h = Some (Inr q, h')"
    and "nodes \<noteq> []" and "\<forall>n \<in> set nodes. CHR '','' \<notin> set n"
    and "on_get (api_ConfigMap r) h (nodesConfigMapKey ts) = Inr cm"
    and "cm_Data cm = nodes_data nodes fallback"
  shows "AvailableNodes q = int (length nodes) \<and> distinct (map fst (Nodes q)) \<and>
    (\<exists>sel pods. sts_Selector sts = Some sel \<and>
       on_list (api_Pod r) (h @ [ReqGet KConfigMap (nodesConfigMapKey ts)])
         \<lparr>lo_Namespace = Some (Namespace (sts_meta sts)), lo_LabelSelector = sel\<rparr> = Inr pods \<and>
       fst ` set (Nodes q) = set (map (\<lambda>p. Name (pod_meta p))
         (filter (\<lambda>p. pod_PodIP p \<noteq> [] \<and> raftEndpoint ts (pod_PodIP p) \<in> set nodes) pods)))"
  using assms(1)
proof (cases rule: getQuorum_InrE)
  case (1 cm' raw sel pods)
  have "raw = Join nodes '',''" using 1 assms(4,5) by (simp add: nodes_data_def fmap_of_list.rep_eq)
  then have "Split raw (CHR '','') = nodes" using assms(2,3) by (simp add: Split_Join)
  with 1 show ?thesis
    by (auto simp: quorum_nodes_distinct quorum_nodes_keys listed_pod_def)
qed

theorem getQuorum_members_witness:
  "\<exists>q h'. getQuorum sample_pair sample_single (sample_sts 2) [] = Some (Inr q, h') \<and>
     AvailableNodes q = 2 \<and> fst ` set (Nodes q) = {''c-sts-0'', ''c-sts-1''}"
proof -
  let ?nodes = "[''a:7:8'', ''b:7:8'']" and ?key = "nodesConfigMapKey sample_single"
  have e: "raftEndpoint sample_single ''a'' = ''a:7:8''" "raftEndpoint sample_single ''b'' = ''b:7:8''"
    by code_simp+
  have "map_option (\<lambda>(x, h). case x of Inl e \<Rightarrow> False | Inr q \<Rightarrow> True)
      (getQuorum sample_pair sample_single (sample_sts 2) []) = Some True" by code_simp
  then obtain q h' where run: "getQuorum sample_pair sample_single (sample_sts 2) [] = Some (Inr q, h')"
    by (cases "getQuorum sample_pair sample_single (sample_sts 2) []") (auto split: sum.splits)
  have cm: "on_get (api_ConfigMap sample_pair) [] ?key = Inr (sample_cm ''a:7:8,b:7:8'')"
    by (simp add: sample_pair_def sample_quorum_def)
  have data: "cm_Data (sample_cm ''a:7:8,b:7:8'') = nodes_data ?nodes ?nodes"
    by (simp add: sample_cm_def nodes_data_def)
  have l: "on_list (api_Pod sample_pair) g opts =
      Inr [sample_pod ''c-sts-0'' ''a'', sample_pod ''c-sts-1'' ''b'']" for g opts
    by (simp add: sample_pair_def sample_quorum_def)
  have n: "Name (pod_meta (sample_pod n ip)) = n" "pod_PodIP (sample_pod n ip) = ip" for n ip
    by (simp_all add: sample_pod_def sample_meta_def)
  have "AvailableNodes q = 2 \<and> fst ` set (Nodes q) = {''c-sts-0'', ''c-sts-1''}"
    using getQuorum_members [OF run _ _ cm data] by (simp add: l n e del: set_filter set_map)
  with run show ?thesis by (intro exI [of _ q] exI [of _ h']) simp
qed



definition run_ready :: "(quorum_result \<times> history) option" where
  "run_ready = ReconcileQuorum sample_leader sample_single empty_Secret (stsObjectKey sample_single) []"


text \<open>The same member, reporting that it is out of memory.\<close>

definition run_out_of_memory :: "(quorum_result \<times> history) option" where
  "run_out_of_memory = ReconcileQuorum
     (sample_leader
        \<lparr>ext_UnmarshalNodeHealth := (\<lambda>b. Some \<lparr>Ok = False, ResourceError = Some OutOfMemory\<rparr>)\<rparr>)
     sample_single empty_Secret (stsObjectKey sample_single) []"

lemma run_out_of_memory_reason:
  "map_option fst run_out_of_memory = Some (ConditionReasonQuorumNotReady, 0, None)"
  by code_simp

lemma run_ready_reason: "map_option fst run_ready = Some (ConditionReasonQuorumReady, 0, None)"
  by code_simp


text \<open>
  C3: A run reports the quorum ready only on what it has read itself: the statefulset and the nodes
  list, with at least the required number of nodes in the list; states of the members that are
  neither a split brain nor an election deadlock; and after those states were read, and before the
  run ended, the answer ok to the health check from at least the required number of different
  members, whose logs call for no termination. The queued writes are then within the threshold, and
  members in order have at least as many replicas as requested.
\<close>

theorem ReconcileQuorum_Ready:
  assumes "ReconcileQuorum r ts secret key h = Some ((ConditionReasonQuorumReady, s, e), h')"
  shows "s = 0 \<and> e = None \<and>
    (\<exists>v K. quorum_view r ts secret key h = Some v \<and>
       MinRequiredNodes (seen_quorum v) \<le> AvailableNodes (seen_quorum v) \<and>
       K \<subseteq> set (node_endpoints (seen_quorum v)) \<and>
       MinRequiredNodes (seen_quorum v) \<le> int (card (ne_PodName ` K)) \<and>
       (\<forall>ne \<in> K. answered_ok r (seen_client v) ts (seen_logs v) (seen_history v) h' ne) \<and>
       getClusterStatus (seen_states v) \<in> {ClusterStatusOK, ClusterStatusNotReady} \<and>
       (0 < MinRequiredNodes (seen_quorum v) \<longrightarrow> seen_queued v \<le> seen_threshold v) \<and>
       (getClusterStatus (seen_states v) = ClusterStatusOK \<longrightarrow>
          (\<exists>n. sts_Replicas (seen_sts v) = Some n \<and> spec_Replicas (ts_Spec ts) \<le> n)))"
proof -
  from assms obtain v where v: "quorum_view r ts secret key h = Some v"
    and run: "decide_quorum r ts key v = Some ((ConditionReasonQuorumReady, s, e), h')"
    by (rule ReconcileQuorum_Ready_view)
  have listed: "MinRequiredNodes (seen_quorum v) \<le> AvailableNodes (seen_quorum v)"
    using v by (rule quorum_view_SomeE)
  note ready = decide_quorum_Ready [OF run]
  then obtain K where "K \<subseteq> set (seen_members v)" "MinRequiredNodes (seen_quorum v) \<le> int (card (ne_PodName ` K))"
    "\<forall>ne \<in> K. answered_ok r (seen_client v) ts (seen_logs v) (seen_history v) h' ne"
    by (auto simp: enough_healthy_def)
  with v listed ready show ?thesis by (intro conjI exI [of _ v] exI [of _ K]) simp_all
qed

theorem ReconcileQuorum_Ready_witness:
  "\<exists>t v K. run_ready = Some ((ConditionReasonQuorumReady, 0, None), t) \<and>
     quorum_view sample_leader sample_single empty_Secret (stsObjectKey sample_single) [] = Some v \<and>
     MinRequiredNodes (seen_quorum v) \<le> int (card (ne_PodName ` K)) \<and>
     (\<forall>ne \<in> K. answered_ok sample_leader (seen_client v) sample_single (seen_logs v) (seen_history v) t ne)"
proof -
  obtain t where run: "run_ready = Some ((ConditionReasonQuorumReady, 0, None), t)"
    using run_ready_reason by (cases run_ready) auto
  with ReconcileQuorum_Ready [OF run [unfolded run_ready_def]] show ?thesis by blast
qed

text \<open>The states the views of the sample runs hold: two leaders, and one.\<close>

lemma sample_views:
  "map_option (\<lambda>v. seen_status v) (quorum_view sample_pair sample_single empty_Secret (stsObjectKey sample_single) []) =
     Some ClusterStatusSplitBrain"
  "map_option (\<lambda>v. seen_status v) (quorum_view sample_leader sample_single empty_Secret (stsObjectKey sample_single) []) =
     Some ClusterStatusOK"
  by code_simp+

text \<open>
  C35: The reason QuorumNeedsAttentionMemoryOrDiskIssue is never reported: a node that reports to be
  out of memory or disk is recorded as merely not healthy, because the reason that says it is not
  recoverable is overwritten before it is read.
\<close>

theorem ReconcileQuorum_MemoryOrDisk_unreported:
  assumes "ReconcileQuorum r ts secret key h = Some ((c, s, e), h')"
  shows "c \<noteq> ConditionReasonQuorumNeedsAttentionMemoryOrDiskIssue"
  using assms
proof (cases rule: ReconcileQuorum_outcome)
  case blind
  then show ?thesis by (auto simp: reason_defs)
next
  case (decided v)
  from decided(3) show ?thesis
  proof (cases rule: decide_quorum_cases)
    case early
    then show ?thesis by (auto simp: reason_defs)
  next
    case evaluated
    then show ?thesis using evaluate_quorum_not_MemoryOrDisk by blast
  qed
qed

theorem ReconcileQuorum_MemoryOrDisk_unreported_witness:
  "\<exists>c s e t. run_out_of_memory = Some ((c, s, e), t) \<and>
     c \<noteq> ConditionReasonQuorumNeedsAttentionMemoryOrDiskIssue"
proof -
  obtain c s e t where run: "run_out_of_memory = Some ((c, s, e), t)"
    using run_out_of_memory_reason by (cases run_out_of_memory) auto
  then show ?thesis
    using ReconcileQuorum_MemoryOrDisk_unreported [OF run [unfolded run_out_of_memory_def]] by blast
qed

section \<open>Readiness gates\<close>

text \<open>
  C33: Updating the readiness gate of a pod patches the status of the pod that was fetched so that
  it has exactly one condition of the given type, the given one, and every other condition it had,
  in the same order; a pod that cannot be fetched is skipped without an error.
\<close>

theorem updatePodReadinessGate_spec:
  "(\<forall>err. on_get (api_Pod r) h key = Inl err \<longrightarrow>
      updatePodReadinessGate r key c h = (None, h @ [ReqGet KPod key])) \<and>
   (\<forall>pod. on_get (api_Pod r) h key = Inr pod \<longrightarrow>
      (\<exists>cs. snd (updatePodReadinessGate r key c h) =
           h @ [ReqGet KPod key, ReqStatusPatch (OPod pod) (OPod (pod\<lparr>pod_Conditions := cs\<rparr>))] \<and>
         filter (\<lambda>d. pc_Type d = pc_Type c) cs = [c] \<and>
         filter (\<lambda>d. pc_Type d \<noteq> pc_Type c) cs =
           filter (\<lambda>d. pc_Type d \<noteq> pc_Type c) (pod_Conditions pod)))"
proof -
  have "\<exists>cs. snd (updatePodReadinessGate r key c h) =
           h @ [ReqGet KPod key, ReqStatusPatch (OPod pod) (OPod (pod\<lparr>pod_Conditions := cs\<rparr>))] \<and>
         filter (\<lambda>d. pc_Type d = pc_Type c) cs = [c] \<and>
         filter (\<lambda>d. pc_Type d \<noteq> pc_Type c) cs =
           filter (\<lambda>d. pc_Type d \<noteq> pc_Type c) (pod_Conditions pod)"
    if "on_get (api_Pod r) h key = Inr pod" for pod
    using that updatedConditions_spec [of c "pod_Conditions pod"]
    by (intro exI [of _ "updatedConditions (pod_Conditions pod) c"])
      (auto simp: updatePodReadinessGate_def req_simps split: sum.splits)
  then show ?thesis by (auto simp: updatePodReadinessGate_def req_simps)
qed

theorem updatePodReadinessGate_spec_witness:
  "let r = sample_reconciler\<lparr>api_Pod := quiet_api\<lparr>on_get := \<lambda>h key. Inr (sample_pod ''c-sts-0'' ''a'')\<rparr>\<rparr>;
       c = \<lparr>pc_Type = QuorumReadinessGateCondition, pc_Status = ConditionTrue, pc_Reason = [], pc_Message = []\<rparr>
   in \<exists>cs. filter (\<lambda>d. pc_Type d = pc_Type c) cs = [c] \<and>
        snd (updatePodReadinessGate r (podObjectKey sample_ts ''c-sts-0'') c []) =
          [ReqGet KPod (podObjectKey sample_ts ''c-sts-0''),
           ReqStatusPatch (OPod (sample_pod ''c-sts-0'' ''a''))
             (OPod (sample_pod ''c-sts-0'' ''a''\<lparr>pod_Conditions := cs\<rparr>))]"
  using updatePodReadinessGate_spec [of
      "sample_reconciler\<lparr>api_Pod := quiet_api\<lparr>on_get := \<lambda>h key. Inr (sample_pod ''c-sts-0'' ''a'')\<rparr>\<rparr>" "[]"
      "podObjectKey sample_ts ''c-sts-0''"
      "\<lparr>pc_Type = QuorumReadinessGateCondition, pc_Status = ConditionTrue, pc_Reason = [], pc_Message = []\<rparr>"]
  by (simp add: Let_def) blast

text \<open>
  C34: The pod whose readiness gate is patched is the pod the member stands for: cutting the name of
  the statefulset out of the name of its \<open>i\<close>th pod, wherever it occurs there, and putting it back in
  front gives the name of that pod again, in the namespace of the cluster, whatever the cluster is
  called.
\<close>

theorem podObjectKey_roundtrip:
  "podObjectKey ts (ClusterStatefulSet (ts_Name ts) @ ''-'' @ Itoa (int i)) =
     \<lparr>key_Namespace = ts_Namespace ts, key_Name = ClusterStatefulSet (ts_Name ts) @ ''-'' @ Itoa (int i)\<rparr>"
  by (rule podObjectKey_index)

end
