(* ===== verification/Controller_Correct.thy ===== *)
theory Controller_Correct
  imports Controller Quorum_Correct
begin

text \<open>
  What a whole reconciliation guarantees: the order of the phases, what a failure leaves behind,
  when the cluster is looked at again, what is never written, and what a ready status stands for.
\<close>

section \<open>Requests a run adds\<close>

lemma emits_new:
  assumes "emits P h h1" and "prefix h1 h'" and "q \<in> set (drop (length h) h')"
  shows "P q \<or> q \<in> set (drop (length h1) h')"
  using assms by (auto simp: emits_def prefix_def list_all_iff)

section \<open>Case analysis of the end of a run\<close>

lemma reconcile_quorum_cases [consumes 1]:
  assumes "reconcile_quorum r ts secret key d h = Some (out, h')"
  obtains (not_ready) c s e h1 err t where "ReconcileQuorum r ts secret key h = Some ((c, s, e), h1)"
      "c \<noteq> ConditionReasonQuorumReady" "h' = h1 @ status_patch ts (not_ready r ts c err) # t"
      "list_all (\<lambda>q. \<not> is_write q) t" "RequeueAfter (fst out) = (if snd out = None then d else 0)"
  | (ready) s e h1 t where "ReconcileQuorum r ts secret key h = Some ((ConditionReasonQuorumReady, s, e), h1)"
      "h' = h1 @ status_patch ts (with_condition r ts
         (ready_condition ConditionTrue ConditionReasonQuorumReady ''Cluster is Ready'')
         ConditionReasonQuorumReady) # t"
      "list_all (\<lambda>q. \<not> is_write q) t" "RequeueAfter (fst out) = (if snd out = None then d else 0)"
proof -
  from assms obtain c s e h1 where run: "ReconcileQuorum r ts secret key h = Some ((c, s, e), h1)"
    and rest: "(if Contains c ''QuorumNeedsAttention''
        then Some (report_not_ready r ts c (GoError (attention_message c)) d h1)
        else if c \<noteq> ConditionReasonQuorumReady
        then Some (report_not_ready r ts c
               (case e of None \<Rightarrow> GoError ''quorum is not ready'' | Some err \<Rightarrow> err) d h1)
        else report_ready r ts c d h1) = Some (out, h')"
    by (auto simp: reconcile_quorum_def elim!: bind_SomeE)
  show thesis
  proof (cases "c = ConditionReasonQuorumReady")
    case True
    moreover have "\<not> Contains ConditionReasonQuorumReady ''QuorumNeedsAttention''" by code_simp
    ultimately have "report_ready r ts c d h1 = Some (out, h')" using rest by simp
    then show thesis using run True ready
      by (auto simp: report_ready_def setConditionReady_def patchStatus_def StatusPatch_def Let_def Eventf_def
          with_condition_def status_update failed_with_def done_after_def
          elim!: bind_SomeE split: sum.split_asm if_split_asm)
  next
    case False
    with rest obtain err where "report_not_ready r ts c err d h1 = (out, h')"
      by (auto split: if_split_asm)
    then show thesis using run False not_ready
      by (auto simp: report_not_ready_def setConditionNotReady_eq Let_def Eventf_def failed_with_def
          done_after_def split: sum.split_asm)
  qed
qed

lemma finish_cluster_cases [consumes 1]:
  assumes "finish_cluster r ts secret sts cmu h = Some (out, h')"
  obtains (created) "cmu = None" "out = done_after (15 * second)" "h' = h"
  | (failed) g err cerr where "emits (writes_only {KPod}) h g" "out = failed_with cerr" "cmu = Some True"
      "h' = g @ [status_patch ts (not_ready r ts ConditionReasonQuorumNotReadyWaitATerm err)]"
  | (pushed) g ts' err ev where "emits (writes_only {KPod}) h g"
      "reconcile_quorum r ts' secret (ObjectKeyFromObject (sts_meta sts)) configMapRequeuePeriod
         (g @ [status_patch ts (not_ready r ts ConditionReasonQuorumNotReadyWaitATerm err), ev]) = Some (out, h')"
      "\<not> is_write ev"
      "on_status_patch (api_TypesenseCluster r) g ts (not_ready r ts ConditionReasonQuorumNotReadyWaitATerm err) = Inr ts'"
      "cmu = Some True"
  | (settled) grace where "cmu = Some False"
      "ps_TerminationGracePeriodSeconds (pt_spec (sts_Template sts)) = Some grace"
      "reconcile_quorum r ts secret (ObjectKeyFromObject (sts_meta sts))
         (int64 (reconcileRequeuePeriod + int64 (grace * second))) h = Some (out, h')"
proof -
  let ?key = "ObjectKeyFromObject (sts_meta sts)"
  obtain grace where g: "ps_TerminationGracePeriodSeconds (pt_spec (sts_Template sts)) = Some grace"
    using assms by (auto simp: finish_cluster_def elim: bind_SomeE)
  show thesis
  proof (cases cmu)
    case None
    with g assms show thesis by (intro created) (simp_all add: finish_cluster_def)
  next
    case (Some updated)
    show thesis
    proof (cases updated)
      case False
      with Some g assms show thesis by (intro settled) (simp_all add: finish_cluster_def)
    next
      case True
      let ?c = ConditionReasonQuorumNotReadyWaitATerm and ?msg = "''wait on configmap updates''"
      obtain x h1 where f: "forcePodsConfigMapUpdate r ts h = (x, h1)" by fastforce
      have em: "emits (writes_only {KPod}) h h1" using forcePodsConfigMapUpdate_emits [OF f] .
      let ?b = "not_ready r ts ?c (GoError ?msg)"
      show thesis
      proof (cases "on_status_patch (api_TypesenseCluster r) h1 ts ?b")
        case (Inl cerr)
        with Some True g f assms show thesis
          by (intro failed [OF em, of cerr "GoError ?msg"]) (simp_all add: finish_cluster_def setConditionNotReady_eq Let_def)
      next
        case (Inr ts')
        have "reconcile_quorum r ts' secret ?key configMapRequeuePeriod
            (h1 @ [status_patch ts ?b, ReqEvent (ObjectKeyFromObject (ts_meta ts')) ''Warning'' ?c (toTitle r ?msg)]) =
            Some (out, h')"
          using Some True g f Inr assms
          by (simp add: finish_cluster_def setConditionNotReady_eq Let_def Eventf_def)
        then show thesis by (rule pushed [OF em]) (use Some True Inr in simp_all)
      qed
    qed
  qed
qed

section \<open>Footprints of the parts of a run\<close>

text \<open>
  What a run may send at all: nothing the role of the operator does not cover; an endpoint slice is
  never written, a secret is only ever created, and of the cluster itself only the status is patched.
\<close>

definition gentle :: "request \<Rightarrow> bool" where
  "gentle q \<longleftrightarrow> permitted q \<and>
     write_kind q \<noteq> Some KEndpointSlice \<and>
     (write_kind q = Some KSecret \<longrightarrow> (\<exists>s. q = ReqCreate (OSecret s))) \<and>
     (write_kind q = Some KTypesenseCluster \<longrightarrow> (\<exists>a b. q = status_patch a b))"

definition plain :: "request \<Rightarrow> bool" where
  "plain q \<longleftrightarrow> permitted q \<and> write_kind q \<notin> {Some KTypesenseCluster, Some KSecret, Some KEndpointSlice}"

lemma writes_only_plain:
  "writes_only K q \<Longrightarrow> {KTypesenseCluster, KSecret, KEndpointSlice} \<inter> K = {} \<Longrightarrow> plain q"
  by (cases "write_kind q") (auto simp: writes_only_def plain_def)

lemma plain_gentle: "plain q \<Longrightarrow> gentle q"
  by (auto simp: plain_def gentle_def)

lemma creates_secret_gentle: "creates_secret q \<Longrightarrow> gentle q"
  by (auto simp: creates_secret_def gentle_def is_read_def intro: read_permitted)

lemma initConditions_patches:
  assumes "initConditions r ts h = (e, ts', h')"
  shows "\<exists>t. h' = h @ t \<and> set t \<subseteq> {status_patch ts (with_condition r ts
     (ready_condition ConditionUnknown ConditionReasonReconciliationInProgress InitReconciliationMessage)
     ''Bootstrapping'')}"
  using assms
  by (auto simp: initConditions_def patchStatus_def StatusPatch_def with_condition_def status_update Let_def
      split: if_split_asm sum.split_asm)

lemma quorum_plain:
  "ReconcileQuorum r ts secret key h = Some (res, h') \<Longrightarrow> emits plain h h'"
  by (erule quorum_phase.emits_widen) (erule writes_only_plain, simp)

lemma statefulset_plain: "ReconcileStatefulSet r ts h = Some (res, h') \<Longrightarrow> emits plain h h'"
  by (erule statefulset_phase.emits_widen) (erule writes_only_plain, simp)

lemma middle_plain: "run_phases (middle_phases r) ts h = Some (res, h') \<Longrightarrow> emits plain h h'"
  by (erule middle.emits_widen) (erule writes_only_plain, simp)

lemma config_map_plain: "ReconcileConfigMap r ts h = Some (res, h') \<Longrightarrow> emits plain h h'"
  by (erule config_map_phase.emits_widen) (erule writes_only_plain, simp)

lemma pods_plain: "emits (writes_only {KPod}) h h' \<Longrightarrow> emits plain h h'"
  by (erule emits_mono) (erule writes_only_plain, simp)

lemma status_patch_gentle [simp]: "gentle (status_patch a b)"
  by (simp add: gentle_def)

lemma not_write_plain: "\<not> is_write q \<Longrightarrow> plain q"
  by (cases q) (auto simp: is_write_def plain_def)

text \<open>A run splits where the quorum is looked at: before and after, it sends nothing but these.\<close>

lemma finish_cluster_gentle:
  assumes "finish_cluster r ts secret sts cmu h = Some (out, h')"
  shows "emits gentle h h'"
proof -
  have pl: "emits gentle g g'" if "emits plain g g'" for g g'
    using that plain_gentle by (rule emits_mono)
  have ev: "list_all gentle t" if "list_all (\<lambda>q. \<not> is_write q) t" for t
    using that by (auto simp: list_all_iff intro: plain_gentle not_write_plain)
  have quorum: "emits gentle g h'" if "reconcile_quorum r ts' secret key d g = Some (out, h')" for ts' key d g
    using that
    by (cases rule: reconcile_quorum_cases) (auto simp: ev dest!: quorum_plain [THEN pl])
  from assms show ?thesis
  proof (cases rule: finish_cluster_cases)
    case failed
    with pl [OF pods_plain] show ?thesis by simp
  next
    case (pushed g ts' err ev)
    have "gentle ev" using pushed(3) by (intro plain_gentle not_write_plain)
    with pl [OF pods_plain [OF pushed(1)]] quorum [OF pushed(2)] show ?thesis
      by (intro emits_trans [OF _ quorum [OF pushed(2)]]) simp
  next
    case settled
    then show ?thesis by (intro quorum)
  qed simp
qed

lemma initConditions_emits_patch:
  assumes "initConditions r ts h = (e, ts', h')"
    and "P (status_patch ts (with_condition r ts
       (ready_condition ConditionUnknown ConditionReasonReconciliationInProgress InitReconciliationMessage)
       ''Bootstrapping''))"
  shows "emits P h h'"
  using initConditions_patches [OF assms(1)] assms(2) by (fastforce simp: list_all_iff)

text \<open>
  All the phases of a run succeeded, from the secret at the history \<open>h\<close> to the statefulset, which
  left the history \<open>g\<close>: each phase ran on the history the one before it left.
\<close>

definition phases_passed ::
  "Reconciler \<Rightarrow> TypesenseCluster \<Rightarrow> history \<Rightarrow> Secret \<Rightarrow> bool option \<Rightarrow> StatefulSet \<Rightarrow> history \<Rightarrow> bool" where
  "phases_passed r ts h secret configMapUpdated sts g \<longleftrightarrow>
     (\<exists>h1 h2 h3 b. ReconcileSecret r ts h = (Inr secret, h1) \<and>
        ReconcileConfigMap r ts h1 = Some (Inr configMapUpdated, h2) \<and>
        run_phases (middle_phases r) ts h2 = Some (None, h3) \<and>
        ReconcileStatefulSet r ts h3 = Some ((Some sts, b, None), g))"

text \<open>A run with an initialised status, up to the point where the quorum may be looked at.\<close>

lemma reconcile_cluster_emits:
  assumes "reconcile_cluster r ts h = Some (out, h')"
    and plain: "\<And>q. plain q \<Longrightarrow> P q" and secret: "\<And>q. creates_secret q \<Longrightarrow> P q"
    and patch: "\<And>reason err. P (status_patch ts (not_ready r ts reason err))"
  shows "emits P h h' \<or>
    (\<exists>secret sts cmu g. emits P h g \<and> phases_passed r ts h secret cmu sts g \<and>
       finish_cluster r ts secret sts cmu g = Some (out, h'))"
proof -
  have pl: "emits P g g'" if "emits plain g g'" for g g' using that plain by (rule emits_mono)
  have sec: "emits P g g'" if "ReconcileSecret r ts g = (x, g')" for g x g'
    using ReconcileSecret_creates [OF that] secret by (rule emits_mono)
  have fail: "emits P g h'" if "phase_failed r ts reason err g' = (out, h')" "emits P g g'" for reason err g g'
    using that patch by (auto simp: phase_failed_eq)
  from assms(1) show ?thesis
  proof (cases rule: reconcile_cluster_cases)
    case (secret err h1)
    show ?thesis using fail [OF secret(2) sec [OF secret(1)]] ..
  next
    case (config_map secret h1 err h2)
    have "emits P h h2" using sec [OF config_map(1)] pl [OF config_map_plain [OF config_map(2)]]
      by (rule emits_trans)
    then show ?thesis using fail [OF config_map(3)] by blast
  next
    case (phase secret h1 cmu h2 reason err h3)
    have "emits P h h2" using sec [OF phase(1)] pl [OF config_map_plain [OF phase(2)]]
      by (rule emits_trans)
    then have "emits P h h3" using pl [OF middle_plain [OF phase(3)]] by (rule emits_trans)
    then show ?thesis using fail [OF phase(4)] by blast
  next
    case (statefulset secret h1 cmu h2 h3 sts b err h4)
    have "emits P h h2" using sec [OF statefulset(1)] pl [OF config_map_plain [OF statefulset(2)]]
      by (rule emits_trans)
    moreover have "emits P h2 h4"
      using pl [OF middle_plain [OF statefulset(3)]] pl [OF statefulset_plain [OF statefulset(4)]]
      by (rule emits_trans)
    ultimately have "emits P h h4" by (rule emits_trans)
    then show ?thesis using fail [OF statefulset(5)] by blast
  next
    case (finish secret h1 cmu h2 h3 sts b h4)
    have "emits P h h2" using sec [OF finish(1)] pl [OF config_map_plain [OF finish(2)]]
      by (rule emits_trans)
    moreover have "emits P h2 h4"
      using pl [OF middle_plain [OF finish(3)]] pl [OF statefulset_plain [OF finish(4)]]
      by (rule emits_trans)
    ultimately have "emits P h h4" by (rule emits_trans)
    moreover have "phases_passed r ts h secret cmu sts h4" using finish(1-4) unfolding phases_passed_def by blast
    ultimately show ?thesis using finish(5) by blast
  qed
qed

lemma not_sts: "writes_only K q \<Longrightarrow> KStatefulSet \<notin> K \<Longrightarrow> write_kind q \<noteq> Some KStatefulSet"
  by (auto simp: writes_only_def)

abbreviation no_sts :: "request \<Rightarrow> bool" where
  "no_sts q \<equiv> write_kind q \<noteq> Some KStatefulSet"

lemma secret_no_sts: "ReconcileSecret r ts h = (x, h') \<Longrightarrow> emits no_sts h h'"
  by (drule ReconcileSecret_creates, erule emits_mono) (auto simp: creates_secret_def is_read_def)

lemma config_map_no_sts: "ReconcileConfigMap r ts h = Some (x, h') \<Longrightarrow> emits no_sts h h'"
  by (erule config_map_phase.emits_widen) (erule not_sts, simp)

lemma middle_no_sts: "run_phases (middle_phases r) ts h = Some (x, h') \<Longrightarrow> emits no_sts h h'"
  by (erule middle.emits_widen) (erule not_sts, simp)

lemma initConditions_no_sts: "initConditions r ts h = (e, ts', h') \<Longrightarrow> emits no_sts h h'"
  using initConditions_patches by (fastforce simp: emits_def list_all_iff)

lemma phase_failed_no_sts: "phase_failed r ts reason err h = (out, h') \<Longrightarrow> emits no_sts h h'"
  by (auto simp: phase_failed_eq)

text \<open>A status patch that makes the cluster ready: a condition Ready with status true that was not there.\<close>

definition reports_ready :: "request \<Rightarrow> bool" where
  "reports_ready q =
     (case q of
        ReqStatusPatch (OTypesenseCluster a) (OTypesenseCluster b) \<Rightarrow>
          list_ex (\<lambda>c. c \<notin> set (status_Conditions (ts_Status a)) \<and> cond_Type c = ConditionTypeReady \<and>
            cond_Status c = ConditionTrue) (status_Conditions (ts_Status b))
      | _ \<Rightarrow> False)"

lemma reports_ready_status: "reports_ready q \<Longrightarrow> write_kind q = Some KTypesenseCluster"
  by (auto simp: reports_ready_def split: request.splits obj.splits)

section \<open>Sample runs\<close>

text \<open>A cluster that is looked at for the second time, and what its server answers.\<close>

definition sample_waiting :: TypesenseCluster where
  "sample_waiting = sample_single\<lparr>ts_Status := \<lparr>status_Conditions =
     [\<lparr>cond_Type = ''Other'', cond_Status = ConditionUnknown, cond_Reason = [], cond_Message = []\<rparr>],
     status_Phase = []\<rparr>\<rparr>"

definition sample_world :: "int \<Rightarrow> Reconciler \<Rightarrow> Reconciler" where
  "sample_world n r = r\<lparr>
     api_TypesenseCluster := quiet_api\<lparr>on_get := \<lambda>h key. Inr sample_waiting\<rparr>,
     api_Secret := quiet_api\<lparr>on_get := \<lambda>h key. Inr empty_Secret\<rparr>,
     api_StatefulSet := quiet_api\<lparr>on_get := \<lambda>h key. Inr ((sample_sts n)\<lparr>sts_Template :=
       \<lparr>pt_meta = sample_meta ''c-sts'',
        pt_spec = empty_PodSpec\<lparr>ps_TerminationGracePeriodSeconds := Some 5\<rparr>\<rparr>\<rparr>)\<rparr>,
     api_EndpointSlice := quiet_api\<lparr>on_list := \<lambda>h opts. Inr [\<lparr>es_meta = sample_meta ''s'',
       es_Endpoints = [\<lparr>ep_Addresses = [''a''], ep_TargetRef_Kind = Some ''Pod''\<rparr>]\<rparr>]\<rparr>\<rparr>"

definition sample_req :: ObjectKey where
  "sample_req = \<lparr>key_Namespace = ''ns'', key_Name = ''c''\<rparr>"

definition run_split :: "(outcome \<times> history) option" where
  "run_split = Reconcile (sample_world 2 sample_pair) sample_req []"

definition run_single :: "(outcome \<times> history) option" where
  "run_single = Reconcile (sample_world 1 sample_leader) sample_req []"

lemma run_split_scales:
  "map_option (\<lambda>(out, t). list_ex (\<lambda>q. write_kind q = Some KStatefulSet) t) run_split = Some True"
  by code_simp

lemma run_single_reports:
  "map_option (\<lambda>(out, t). (RequeueAfter (fst out), snd out, list_ex reports_ready t)) run_single =
     Some (120 * second, None, True)"
  by code_simp

lemma sample_world_sets: "sets_condition (ext_SetStatusCondition (sample_world 1 sample_leader))"
  by (simp add: sample_world_def sample_leader_def sample_quorum_def sample_reconciler_def
      sets_condition_set_condition)

section \<open>Properties\<close>

text \<open>Up to the statefulset nothing is written to one; only a run that got there can write it.\<close>

lemma phases_no_sts:
  assumes "ReconcileSecret r ts h = (Inr secret, h1)" and "ReconcileConfigMap r ts h1 = Some (x, h2)"
  shows "emits no_sts h h2"
    and "run_phases (middle_phases r) ts h2 = Some (y, h3) \<Longrightarrow> emits no_sts h h3"
proof -
  show h2: "emits no_sts h h2"
    using secret_no_sts [OF assms(1)] config_map_no_sts [OF assms(2)] by (rule emits_trans)
  show "run_phases (middle_phases r) ts h2 = Some (y, h3) \<Longrightarrow> emits no_sts h h3"
    by (rule emits_trans [OF h2 middle_no_sts])
qed

lemma run_phases_all:
  "run_phases ps ts h = Some (None, h') \<Longrightarrow> list_all (\<lambda>(reason, phase). \<exists>g g'. phase ts g = Some (None, g')) ps"
proof (induction ps arbitrary: h)
  case (Cons p ps)
  obtain reason phase where p: "p = (reason, phase)" by fastforce
  with Cons.prems obtain g where "phase ts h = Some (None, g)" and "run_phases ps ts g = Some (None, h')"
    by (auto elim!: bind_SomeE split: option.split_asm)
  with Cons.IH p show ?case by auto
qed simp

lemma reconcile_cluster_split:
  assumes "reconcile_cluster r ts h = Some (out, h')"
  obtains (before) "emits no_sts h h'"
  | (after) secret h1 cmu h2 h3 where "ReconcileSecret r ts h = (Inr secret, h1)"
      "ReconcileConfigMap r ts h1 = Some (Inr cmu, h2)" "run_phases (middle_phases r) ts h2 = Some (None, h3)"
      "emits no_sts h h3" "prefix h3 h'"
  using assms
proof (cases rule: reconcile_cluster_cases)
  case (secret err h1)
  show ?thesis
    by (rule before, rule emits_trans [OF secret_no_sts [OF secret(1)] phase_failed_no_sts [OF secret(2)]])
next
  case (config_map secret h1 err h2)
  show ?thesis
    by (rule before, rule emits_trans [OF phases_no_sts(1) [OF config_map(1,2)] phase_failed_no_sts [OF config_map(3)]])
next
  case (phase secret h1 cmu h2 reason err h3)
  show ?thesis
    by (rule before, rule emits_trans [OF phases_no_sts(2) [OF phase(1-3)] phase_failed_no_sts [OF phase(4)]])
next
  case (statefulset secret h1 cmu h2 h3 sts b err h4)
  have "prefix h3 h'"
    using statefulset_phase.keeps_past [OF statefulset(4)] statefulset(5) by (auto simp: phase_failed_eq)
  with statefulset(1-3) phases_no_sts(2) [OF statefulset(1-3)] show ?thesis by (rule after)
next
  case (finish secret h1 cmu h2 h3 sts b h4)
  have "prefix h3 h'"
    using statefulset_phase.keeps_past [OF finish(4)] emits_prefix [OF finish_cluster_gentle [OF finish(5)]]
    by (rule prefix_order.trans)
  with finish(1-3) phases_no_sts(2) [OF finish(1-3)] show ?thesis by (rule after)
qed

text \<open>
  C4: Nothing is written to a statefulset in a run before the secret, the config map, the services,
  the ingress, the routes, the scrapers and the pod monitor of the cluster were all reconciled without
  an error, in this order and from the history each of them left; a run in which one of them failed
  leaves the statefulset alone.
\<close>

theorem Reconcile_order:
  assumes "Reconcile r req h = Some (out, h')" and "q \<in> set (drop (length h) h')"
    and "write_kind q = Some KStatefulSet"
  shows "\<exists>ts h0 secret h1 configMapUpdated h2 h3. prefix h h0 \<and>
    ReconcileSecret r ts h0 = (Inr secret, h1) \<and>
    ReconcileConfigMap r ts h1 = Some (Inr configMapUpdated, h2) \<and>
    run_phases (middle_phases r) ts h2 = Some (None, h3) \<and>
    list_all (\<lambda>(reason, phase). \<exists>g g'. phase ts g = Some (None, g')) (middle_phases r) \<and>
    prefix h3 h' \<and> q \<in> set (drop (length h3) h')"
proof -
  have quiet: False if "emits no_sts h h'"
    using emits_new [OF that, of h' q] assms(2,3) by simp
  from assms(1) show ?thesis
  proof (cases rule: Reconcile_cases)
    case absent
    with quiet show ?thesis by simp
  next
    case (init ts0 err ts)
    with quiet show ?thesis by (auto dest!: initConditions_no_sts dest: emits_after)
  next
    case (cluster ts0 ts h0)
    have e0: "emits no_sts h h0"
      using initConditions_no_sts [OF cluster(2)] by (rule emits_after) simp
    from cluster(3) show ?thesis
    proof (cases rule: reconcile_cluster_split)
      case before
      with quiet e0 show ?thesis by (blast intro: emits_trans)
    next
      case (after secret h1 cmu h2 h3)
      then show ?thesis
        using emits_new [OF emits_trans [OF e0 after(4)] _ assms(2)] assms(3) emits_prefix [OF e0]
          run_phases_all [OF after(3)] by blast
    qed
  qed
qed

theorem Reconcile_order_witness:
  "\<exists>out h' q h3. run_split = Some (out, h') \<and> write_kind q = Some KStatefulSet \<and>
     prefix h3 h' \<and> q \<in> set (drop (length h3) h')"
proof -
  obtain out h' where run: "run_split = Some (out, h')" and "list_ex (\<lambda>q. write_kind q = Some KStatefulSet) h'"
    using run_split_scales by (cases run_split) auto
  then obtain q where q: "q \<in> set h'" "write_kind q = Some KStatefulSet" by (auto simp: list_ex_iff)
  have "q \<in> set (drop (length []) h')" using q by simp
  from Reconcile_order [OF run [unfolded run_split_def] this q(2)]
  obtain h3 where "prefix h3 h'" "q \<in> set (drop (length h3) h')" by blast
  with q run show ?thesis by blast
qed

text \<open>
  The phases of a run on the cluster \<open>ts\<close> in their order, from the history \<open>h\<close>: the one with the given
  reason is the first that fails, with the given error, and leaves the history \<open>h'\<close>.
\<close>

inductive phase_fails ::
  "Reconciler \<Rightarrow> TypesenseCluster \<Rightarrow> history \<Rightarrow> string \<Rightarrow> error \<Rightarrow> history \<Rightarrow> bool" for r ts h where
  secret: "ReconcileSecret r ts h = (Inl err, h1) \<Longrightarrow> phase_fails r ts h ConditionReasonSecretNotReady err h1"
| config_map: "ReconcileSecret r ts h = (Inr secret, h1) \<Longrightarrow> ReconcileConfigMap r ts h1 = Some (Inl err, h2) \<Longrightarrow>
    phase_fails r ts h ConditionReasonConfigMapNotReady err h2"
| middle: "ReconcileSecret r ts h = (Inr secret, h1) \<Longrightarrow> ReconcileConfigMap r ts h1 = Some (Inr updated, h2) \<Longrightarrow>
    middle_phases r = before @ (reason, reconcile) # after \<Longrightarrow> run_phases before ts h2 = Some (None, h3) \<Longrightarrow>
    reconcile ts h3 = Some (Some err, h4) \<Longrightarrow> phase_fails r ts h reason err h4"
| statefulset: "ReconcileSecret r ts h = (Inr secret, h1) \<Longrightarrow> ReconcileConfigMap r ts h1 = Some (Inr updated, h2) \<Longrightarrow>
    run_phases (middle_phases r) ts h2 = Some (None, h3) \<Longrightarrow>
    ReconcileStatefulSet r ts h3 = Some ((sts, b, Some err), h4) \<Longrightarrow>
    phase_fails r ts h ConditionReasonStatefulSetNotReady err h4"

lemma phase_fails_reconcile:
  assumes "phase_fails r ts h reason err h'"
  shows "reconcile_cluster r ts h = Some (phase_failed r ts reason err h')"
  using assms
proof cases
  case (middle secret h1 updated h2 before reconcile after h3)
  then have "run_phases (middle_phases r) ts h2 = Some (Some (reason, err), h')"
    by (simp add: run_phases_append)
  with middle show ?thesis by (simp add: reconcile_cluster_def)
qed (simp_all add: reconcile_cluster_def)

text \<open>
  C5: Whichever phase of a run fails, be it the secret, the config map, the services, the ingress,
  the routes, the scrapers, the pod monitor or the statefulset, on a cluster whose conditions this run
  has initialised or found: the run ends there. The only request after those of the failed
  phase is the patch of the status, whose condition Ready is false with the reason of that phase and
  the message of its error; no later phase runs, nothing is requeued by delay, and the error that is
  returned is the phase's error, or wraps it when the patch failed too.
\<close>

theorem Reconcile_phase_failure:
  assumes "sets_condition (ext_SetStatusCondition r)"
    and "on_get (api_TypesenseCluster r) h req = Inr fetched"
    and "initConditions r fetched (h @ [ReqGet KTypesenseCluster req]) = (None, ts, h0)"
    and "phase_fails r ts h0 reason err h'"
  shows "\<exists>e ts'. Reconcile r req h = Some ((\<lparr>RequeueAfter = 0\<rparr>, Some e), h' @ [status_patch ts ts']) \<and>
    (e = err \<or> (\<exists>m. e = Wrap m err)) \<and> IsNotFound e = IsNotFound err \<and>
    ts' = ts\<lparr>ts_Status := ts_Status ts'\<rparr> \<and> status_Phase (ts_Status ts') = reason \<and>
    ready_condition ConditionFalse reason (Error err) \<in> set (status_Conditions (ts_Status ts'))"
proof -
  let ?ts = "not_ready r ts reason err"
  have "Reconcile r req h = Some (phase_failed r ts reason err h')"
    using assms(2,3) phase_fails_reconcile [OF assms(4)] by (simp add: Reconcile_def Get_def)
  moreover have "ready_condition ConditionFalse reason (Error err) \<in> set (status_Conditions (ts_Status ?ts))"
    using sets_condition_member [OF assms(1)] by (simp add: not_ready_def with_condition_def)
  moreover have "?ts = ts\<lparr>ts_Status := ts_Status ?ts\<rparr>" "status_Phase (ts_Status ?ts) = reason"
    by (simp_all add: not_ready_def with_condition_def)
  ultimately show ?thesis
    by (cases "on_status_patch (api_TypesenseCluster r) h' ts ?ts")
      (auto simp: phase_failed_eq failed_with_def intro!: exI [of _ ?ts])
qed

definition sample_no_services :: Reconciler where
  "sample_no_services = (sample_world 1 sample_leader)\<lparr>
     api_Service := quiet_api\<lparr>on_get := \<lambda>h key. Inl (ApiError ''down'')\<rparr>\<rparr>"

definition before_services :: "((error + bool option) \<times> history) option" where
  "before_services = ReconcileConfigMap sample_no_services sample_waiting
     (snd (ReconcileSecret sample_no_services sample_waiting [ReqGet KTypesenseCluster sample_req]))"

lemma before_services_ok: "map_option fst before_services = Some (Inr (Some True))"
  by code_simp

theorem Reconcile_phase_failure_witness:
  "\<exists>e h4 ts'. Reconcile sample_no_services sample_req [] =
       Some ((\<lparr>RequeueAfter = 0\<rparr>, Some e), h4 @ [status_patch sample_waiting ts']) \<and>
     ready_condition ConditionFalse ConditionReasonServicesNotReady (Error (ApiError ''down''))
       \<in> set (status_Conditions (ts_Status ts'))"
proof -
  let ?r = sample_no_services and ?h = "[ReqGet KTypesenseCluster sample_req]"
  obtain h2 where cm: "before_services = Some (Inr (Some True), h2)"
    using before_services_ok by (cases before_services) auto
  have sets: "sets_condition (ext_SetStatusCondition ?r)"
    using sample_world_sets by (simp add: sample_no_services_def)
  have ts: "on_get (api_TypesenseCluster ?r) [] sample_req = Inr sample_waiting"
    "initConditions ?r sample_waiting ([] @ ?h) = (None, sample_waiting, ?h)"
    by (simp_all add: sample_no_services_def sample_world_def sample_waiting_def initConditions_def)
  have sec: "ReconcileSecret ?r sample_waiting ?h = (Inr empty_Secret,
      snd (ReconcileSecret ?r sample_waiting ?h))"
    by (simp add: ReconcileSecret_def sample_no_services_def sample_world_def Get_def Let_def)
  have mid: "middle_phases ?r = [] @ (ConditionReasonServicesNotReady, ReconcileServices ?r) # tl (middle_phases ?r)"
    by (simp add: middle_phases_def)
  have pre: "run_phases [] sample_waiting h2 = Some (None, h2)" by simp
  have svc: "ReconcileServices ?r sample_waiting h2 =
      Some (Some (ApiError ''down''), h2 @ [ReqGet KService (headlessObjectKey sample_waiting)])"
    by (simp add: ReconcileServices_def reconcile_headless_def sample_no_services_def Get_def)
  show ?thesis
    using Reconcile_phase_failure [OF sets ts(1,2)
        phase_fails.middle [OF sec cm [unfolded before_services_def] mid pre svc]] by blast
qed

lemma requeue_bounds:
  "1 \<le> grace \<Longrightarrow> grace \<le> 300 \<Longrightarrow>
     int64 (60 * second + int64 (grace * second)) = (60 + grace) * second"
  by (simp add: second_def int64_id algebra_simps)

text \<open>The delay that follows a run without an error: what became of the config map decides.\<close>

definition requeue_delay :: "bool option \<Rightarrow> int \<Rightarrow> int" where
  "requeue_delay configMapUpdated grace =
     (case configMapUpdated of
        None \<Rightarrow> 15 * second
      | Some updated \<Rightarrow> if updated then 120 * second else int64 (60 * second + int64 (grace * second)))"

lemma finish_cluster_delay:
  assumes "finish_cluster r ts secret sts cmu h = Some ((res, err), h')"
  obtains grace where "ps_TerminationGracePeriodSeconds (pt_spec (sts_Template sts)) = Some grace"
    and "RequeueAfter res = (if err = None then requeue_delay cmu grace else 0)"
proof -
  obtain grace where grace: "ps_TerminationGracePeriodSeconds (pt_spec (sts_Template sts)) = Some grace"
    using assms by (auto simp: finish_cluster_def elim: bind_SomeE)
  have quorum: "RequeueAfter res = (if err = None then d else 0)"
    if "reconcile_quorum r ts' secret key d g = Some ((res, err), h')" for ts' key d g
    using that by (cases rule: reconcile_quorum_cases) auto
  from assms have "RequeueAfter res = (if err = None then requeue_delay cmu grace else 0)"
  proof (cases rule: finish_cluster_cases)
    case pushed
    then show ?thesis using quorum by (fastforce simp: configMapRequeuePeriod_def requeue_delay_def)
  next
    case settled
    then show ?thesis using quorum grace by (fastforce simp: reconcileRequeuePeriod_def requeue_delay_def)
  qed (simp_all add: done_after_def failed_with_def requeue_delay_def)
  with grace show thesis by (rule that)
qed

text \<open>
  C6: When the cluster is looked at again. A run that returns an error sets no delay, so that the
  rate limiter of the controller applies. A run without an error for a cluster that does not exist any
  more asks for no further run. Every other run without an error has passed all its phases and asks to
  be repeated: after 15 seconds when its config map phase created the config map, after two
  minutes when it updated it, and otherwise after a minute plus the grace period of the pods of the
  statefulset it reconciled; with a grace period of 1 to 300 seconds, the bounds of the custom
  resource, that is between 15 seconds and six minutes.
\<close>

theorem Reconcile_requeues:
  assumes "Reconcile r req h = Some ((res, err), h')"
  shows "(err \<noteq> None \<longrightarrow> RequeueAfter res = 0) \<and>
    (err = None \<longrightarrow>
      (\<exists>e. on_get (api_TypesenseCluster r) h req = Inl e \<and> IsNotFound e \<and> RequeueAfter res = 0) \<or>
      (\<exists>fetched ts h0 secret configMapUpdated sts g grace.
         on_get (api_TypesenseCluster r) h req = Inr fetched \<and>
         initConditions r fetched (h @ [ReqGet KTypesenseCluster req]) = (None, ts, h0) \<and>
         phases_passed r ts h0 secret configMapUpdated sts g \<and> prefix g h' \<and>
         ps_TerminationGracePeriodSeconds (pt_spec (sts_Template sts)) = Some grace \<and>
         RequeueAfter res =
           (case configMapUpdated of
              None \<Rightarrow> 15 * second
            | Some updated \<Rightarrow> if updated then 120 * second else int64 (60 * second + int64 (grace * second))) \<and>
         (1 \<le> grace \<and> grace \<le> 300 \<longrightarrow>
            15 * second \<le> RequeueAfter res \<and> RequeueAfter res \<le> 360 * second)))"
  using assms(1)
proof (cases rule: Reconcile_cases)
  case absent
  then show ?thesis by auto
next
  case init
  then show ?thesis by (simp add: failed_with_def)
next
  case (cluster ts0' ts h0)
  from cluster(3) show ?thesis
  proof (cases rule: reconcile_cluster_cases)
    case (finish secret h1 cmu h2 h3 sts b h4)
    from finish(5) obtain grace where
      grace: "ps_TerminationGracePeriodSeconds (pt_spec (sts_Template sts)) = Some grace"
      and delay: "RequeueAfter res = (if err = None then requeue_delay cmu grace else 0)"
      by (rule finish_cluster_delay)
    have "15 * second \<le> RequeueAfter res \<and> RequeueAfter res \<le> 360 * second"
      if "err = None" "1 \<le> grace" "grace \<le> 300"
      using delay that requeue_bounds [of grace] by (auto simp: requeue_delay_def second_def split: option.split)
    moreover have "phases_passed r ts h0 secret cmu sts h4" using finish(1-4) unfolding phases_passed_def by blast
    moreover have "prefix h4 h'" using emits_prefix [OF finish_cluster_gentle [OF finish(5)]] .
    moreover have "RequeueAfter res = 0" if "err \<noteq> None" using delay that by simp
    ultimately show ?thesis
      using cluster(1,2) grace delay unfolding requeue_delay_def
      by (intro conjI impI disjI2 exI [of _ ts0'] exI [of _ ts] exI [of _ h0] exI [of _ secret] exI [of _ cmu]
          exI [of _ sts] exI [of _ h4] exI [of _ grace]) simp_all
  qed (auto simp: phase_failed_eq failed_with_def)
qed

theorem Reconcile_requeues_witness:
  "\<exists>res h' ts h0 secret configMapUpdated sts g. run_single = Some ((res, None), h') \<and> RequeueAfter res = 120 * second \<and>
     phases_passed (sample_world 1 sample_leader) ts h0 secret configMapUpdated sts g \<and> prefix g h'"
proof -
  obtain res h' where run: "run_single = Some ((res, None), h')" and delay: "RequeueAfter res = 120 * second"
    using run_single_reports by (cases run_single) auto
  have get: "on_get (api_TypesenseCluster (sample_world 1 sample_leader)) [] sample_req = Inr sample_waiting"
    by (simp add: sample_world_def)
  from Reconcile_requeues [OF run [unfolded run_single_def], THEN conjunct2, THEN mp, OF refl] get
  obtain ts h0 secret cmu sts g where
    "phases_passed (sample_world 1 sample_leader) ts h0 secret cmu sts g" "prefix g h'"
    by (elim disjE exE conjE) (simp, blast)
  with run delay show ?thesis by blast
qed

lemma Reconcile_emits_gentle:
  assumes "Reconcile r req h = Some (out, h')"
  shows "emits gentle h h'"
  using assms
proof (cases rule: Reconcile_cases)
  case absent
  then show ?thesis by (simp add: gentle_def)
next
  case (init ts0 err ts)
  show ?thesis
    by (rule emits_after [OF initConditions_emits_patch [OF init(2)]]) (simp_all add: gentle_def)
next
  case (cluster ts0 ts h0)
  have h0: "emits gentle h h0"
    by (rule emits_after [OF initConditions_emits_patch [OF cluster(2)]]) (simp_all add: gentle_def)
  have "emits gentle h0 h'"
    using reconcile_cluster_emits [where P = gentle, OF cluster(3) plain_gentle creates_secret_gentle status_patch_gentle]
    by (blast intro: emits_trans finish_cluster_gentle)
  with h0 show ?thesis by (rule emits_trans)
qed

interpretation controller: operation "Reconcile r req" gentle for r req
  by unfold_locales (auto simp: run_ok_def intro: Reconcile_emits_gentle)

text \<open>
  C7: Everything a run sends is covered by the role the operator is installed with, so no run fails
  for want of a permission; and of what it sends, secrets are only ever created, never changed or
  deleted, so an admin key the user provides stays as it is; of the TypesenseCluster only the status
  is patched; an endpoint slice is never written.
\<close>

theorem Reconcile_gentle:
  assumes "Reconcile r req h = Some (out, h')"
  shows "\<exists>t. h' = h @ t \<and> (\<forall>q \<in> set t. permitted q \<and> gentle q)"
proof -
  obtain t where "h' = h @ t" and "list_all gentle t" using assms by (rule controller.appends)
  then show ?thesis by (intro exI [of _ t]) (auto simp: list_all_iff gentle_def)
qed

theorem Reconcile_gentle_witness:
  "\<exists>out t. run_single = Some (out, t) \<and> (\<forall>q \<in> set t. permitted q \<and> gentle q)"
proof -
  obtain out t where run: "run_single = Some (out, t)"
    using run_single_reports by (cases run_single) auto
  then show ?thesis
    using Reconcile_gentle [OF run [unfolded run_single_def]] by (intro exI [of _ out] exI [of _ t]) auto
qed

lemma plain_not_ready: "plain q \<Longrightarrow> \<not> reports_ready q"
  by (auto simp: plain_def dest!: reports_ready_status)

lemma with_condition_not_ready:
  assumes "sets_condition (ext_SetStatusCondition r)" and "cond_Status c \<noteq> ConditionTrue"
  shows "\<not> reports_ready (status_patch ts (with_condition r ts c p))"
  using sets_condition_member [OF assms(1)] assms(2)
  by (force simp: reports_ready_def with_condition_def list_ex_iff)

lemma not_ready_not_ready:
  assumes "sets_condition (ext_SetStatusCondition r)"
  shows "\<not> reports_ready (status_patch ts (not_ready r ts reason err))"
  unfolding not_ready_def
  by (rule with_condition_not_ready [OF assms]) (simp add: ready_condition_def)

abbreviation quiet_status :: "request \<Rightarrow> bool" where
  "quiet_status q \<equiv> \<not> reports_ready q"

lemma plain_quiet: "emits plain h h' \<Longrightarrow> emits quiet_status h h'"
  by (erule emits_mono) (rule plain_not_ready)

lemma events_quiet: "list_all (\<lambda>q. \<not> is_write q) t \<Longrightarrow> list_all quiet_status t"
  by (auto simp: list_all_iff intro!: plain_not_ready not_write_plain)

text \<open>
  The cluster as the run that started at \<open>h\<close> for the key \<open>req\<close> knows it at the history \<open>g\<close>: the object
  the server returned for the key, or the answer to a patch of the status of such an object.
\<close>

inductive cluster_at :: "Reconciler \<Rightarrow> ObjectKey \<Rightarrow> history \<Rightarrow> history \<Rightarrow> TypesenseCluster \<Rightarrow> bool" for r req h where
  fetched: "on_get (api_TypesenseCluster r) h req = Inr ts \<Longrightarrow> prefix (h @ [ReqGet KTypesenseCluster req]) g \<Longrightarrow>
    cluster_at r req h g ts"
| patched: "cluster_at r req h g ts \<Longrightarrow> on_status_patch (api_TypesenseCluster r) g ts (ts\<lparr>ts_Status := s\<rparr>) = Inr answer \<Longrightarrow>
    prefix (g @ [status_patch ts (ts\<lparr>ts_Status := s\<rparr>)]) g' \<Longrightarrow> cluster_at r req h g' answer"

lemma cluster_at_later: "cluster_at r req h g ts \<Longrightarrow> prefix g g' \<Longrightarrow> cluster_at r req h g' ts"
  by (erule cluster_at.cases) (blast intro: cluster_at.intros prefix_order.trans)+

lemma initConditions_cluster:
  assumes "initConditions r ts h = (None, ts', h')"
  shows "(ts' = ts \<and> h' = h) \<or> (\<exists>s. on_status_patch (api_TypesenseCluster r) h ts (ts\<lparr>ts_Status := s\<rparr>) = Inr ts' \<and>
    h' = h @ [status_patch ts (ts\<lparr>ts_Status := s\<rparr>)])"
  using assms
  by (auto simp: initConditions_def patchStatus_def StatusPatch_def Let_def split: if_split_asm sum.split_asm)

lemma initConditions_cluster_at:
  assumes "on_get (api_TypesenseCluster r) h req = Inr fetched"
    and "initConditions r fetched (h @ [ReqGet KTypesenseCluster req]) = (None, ts, h0)"
  shows "cluster_at r req h h0 ts"
proof -
  have "cluster_at r req h (h @ [ReqGet KTypesenseCluster req]) fetched"
    using assms(1) by (rule cluster_at.fetched) simp
  with initConditions_cluster [OF assms(2)] show ?thesis by (auto intro: cluster_at.patched)
qed

text \<open>The status patch that reports a cluster ready.\<close>

definition ready_patch :: "Reconciler \<Rightarrow> TypesenseCluster \<Rightarrow> request" where
  "ready_patch r ts = status_patch ts (with_condition r ts
     (ready_condition ConditionTrue ConditionReasonQuorumReady ''Cluster is Ready'') ConditionReasonQuorumReady)"

text \<open>
  Where a ready report comes from: a quorum that was found ready on the history \<open>g\<close>, and is
  reported at once.
\<close>

definition reported_ready ::
  "Reconciler \<Rightarrow> TypesenseCluster \<Rightarrow> Secret \<Rightarrow> ObjectKey \<Rightarrow> history \<Rightarrow> history \<Rightarrow> bool" where
  "reported_ready r ts secret key g h' \<longleftrightarrow>
     (\<exists>s e g' t. ReconcileQuorum r ts secret key g = Some ((ConditionReasonQuorumReady, s, e), g') \<and>
        h' = g' @ ready_patch r ts # t \<and> list_all quiet_status t)"

lemma reconcile_quorum_reports:
  assumes "sets_condition (ext_SetStatusCondition r)"
    and "reconcile_quorum r ts secret key d h = Some (out, h')"
  shows "emits quiet_status h h' \<or> reported_ready r ts secret key h h'"
  using assms(2)
proof (cases rule: reconcile_quorum_cases)
  case (not_ready c s e h1 err t)
  with plain_quiet [OF quorum_plain [OF not_ready(1)]] show ?thesis
    by (simp add: events_quiet not_ready_not_ready [OF assms(1)])
next
  case (ready s e h1 t)
  then show ?thesis unfolding reported_ready_def ready_patch_def using events_quiet by blast
qed

lemma finish_cluster_reports:
  assumes "sets_condition (ext_SetStatusCondition r)" and "cluster_at r req h0 h ts"
    and "finish_cluster r ts secret sts cmu h = Some (out, h')"
  shows "emits quiet_status h h' \<or> (\<exists>ts' g. emits quiet_status h g \<and> cluster_at r req h0 g ts' \<and>
    reported_ready r ts' secret (ObjectKeyFromObject (sts_meta sts)) g h')"
  using assms(3)
proof (cases rule: finish_cluster_cases)
  case (failed g err cerr)
  with plain_quiet [OF pods_plain [OF failed(1)]] show ?thesis
    by (simp add: not_ready_not_ready [OF assms(1)])
next
  case (pushed g ts' err ev)
  let ?b = "not_ready r ts ConditionReasonQuorumNotReadyWaitATerm err"
  let ?g = "g @ [status_patch ts ?b, ev]"
  have "emits quiet_status h ?g"
    using plain_quiet [OF pods_plain [OF pushed(1)]] pushed(3)
    by (simp add: not_ready_not_ready [OF assms(1)] plain_not_ready not_write_plain)
  moreover have "cluster_at r req h0 ?g ts'"
  proof -
    have b: "?b = ts\<lparr>ts_Status := ts_Status ?b\<rparr>" by (simp add: not_ready_def with_condition_def)
    have "cluster_at r req h0 g ts" using assms(2) emits_prefix [OF pushed(1)] by (rule cluster_at_later)
    moreover have "on_status_patch (api_TypesenseCluster r) g ts (ts\<lparr>ts_Status := ts_Status ?b\<rparr>) = Inr ts'"
      using pushed(4) b by simp
    ultimately show ?thesis by (rule cluster_at.patched) (use b in simp)
  qed
  ultimately show ?thesis
    using reconcile_quorum_reports [OF assms(1) pushed(2)] by (blast intro: emits_trans)
next
  case (settled grace)
  with reconcile_quorum_reports [OF assms(1) settled(3)] assms(2) show ?thesis by blast
qed simp

lemma creates_secret_quiet: "creates_secret q \<Longrightarrow> quiet_status q"
  by (auto simp: creates_secret_def is_read_def dest!: reports_ready_status)

lemma Reconcile_reports:
  assumes "sets_condition (ext_SetStatusCondition r)" and "Reconcile r req h = Some (out, h')"
  obtains (quiet) "emits quiet_status h h'"
  | (reported) fetched ts0 h0 secret cmu sts h1 ts g where
      "on_get (api_TypesenseCluster r) h req = Inr fetched"
      "initConditions r fetched (h @ [ReqGet KTypesenseCluster req]) = (None, ts0, h0)"
      "phases_passed r ts0 h0 secret cmu sts h1" "prefix h1 g" "emits quiet_status h g" "cluster_at r req h g ts"
      "reported_ready r ts secret (ObjectKeyFromObject (sts_meta sts)) g h'"
  using assms(2)
proof (cases rule: Reconcile_cases)
  case absent
  then show thesis by (intro quiet) (simp add: reports_ready_def)
next
  case (init ts0 err ts)
  have "emits quiet_status h h'"
    by (rule emits_after [OF initConditions_emits_patch [OF init(2)]])
      (simp_all add: with_condition_not_ready [OF assms(1)] ready_condition_def, simp add: reports_ready_def)
  then show thesis by (rule quiet)
next
  case (cluster fetched ts0 h0)
  have h0: "emits quiet_status h h0"
    by (rule emits_after [OF initConditions_emits_patch [OF cluster(2)]])
      (simp_all add: with_condition_not_ready [OF assms(1)] ready_condition_def, simp add: reports_ready_def)
  from reconcile_cluster_emits [where P = quiet_status, OF cluster(3) plain_not_ready creates_secret_quiet
      not_ready_not_ready [OF assms(1)]]
  consider "emits quiet_status h0 h'" | secret sts cmu h1 where "emits quiet_status h0 h1"
    "phases_passed r ts0 h0 secret cmu sts h1" "finish_cluster r ts0 secret sts cmu h1 = Some (out, h')" by blast
  then show thesis
  proof cases
    case 1
    with h0 show thesis by (blast intro: quiet emits_trans)
  next
    case (2 secret sts cmu h1)
    have h1: "emits quiet_status h h1" using h0 2(1) by (rule emits_trans)
    have "cluster_at r req h h1 ts0"
      using initConditions_cluster_at [OF cluster(1,2)] emits_prefix [OF 2(1)] by (rule cluster_at_later)
    from finish_cluster_reports [OF assms(1) this 2(3)] show thesis
    proof
      assume "emits quiet_status h1 h'"
      with h1 show thesis by (blast intro: quiet emits_trans)
    next
      assume "\<exists>ts g. emits quiet_status h1 g \<and> cluster_at r req h g ts \<and>
        reported_ready r ts secret (ObjectKeyFromObject (sts_meta sts)) g h'"
      then show thesis
        using reported [OF cluster(1,2) 2(2) emits_prefix emits_trans [OF h1]] by blast
    qed
  qed
qed

text \<open>
  C1: A run makes a cluster ready only on what this run has found. The patch that does so is one of
  the cluster the run was called for, as the server returned it in this run, and is sent directly
  after the quorum was looked at; before that, all the phases of this run passed, from the secret to the
  statefulset, and it is with that secret, and on that statefulset, that the quorum was looked at. The
  nodes list had at least the required number of nodes, the states of the members were neither a
  split brain nor an election deadlock, and at least the required number of different members were
  asked for their health after the states were read and before the patch was sent, and answered ok.
\<close>

theorem Reconcile_ready:
  assumes "sets_condition (ext_SetStatusCondition r)" and "Reconcile r req h = Some (out, h')"
    and "q \<in> set (drop (length h) h')" and "reports_ready q"
  shows "\<exists>fetched ts0 h0 secret configMapUpdated sts h1 ts g v K g' t.
    on_get (api_TypesenseCluster r) h req = Inr fetched \<and>
    initConditions r fetched (h @ [ReqGet KTypesenseCluster req]) = (None, ts0, h0) \<and>
    phases_passed r ts0 h0 secret configMapUpdated sts h1 \<and> prefix h1 g \<and> cluster_at r req h g ts \<and>
    q = status_patch ts (with_condition r ts
      (ready_condition ConditionTrue ConditionReasonQuorumReady ''Cluster is Ready'') ConditionReasonQuorumReady) \<and>
    h' = g' @ q # t \<and>
    quorum_view r ts secret (ObjectKeyFromObject (sts_meta sts)) g = Some v \<and>
    MinRequiredNodes (seen_quorum v) \<le> AvailableNodes (seen_quorum v) \<and>
    getClusterStatus (seen_states v) \<in> {ClusterStatusOK, ClusterStatusNotReady} \<and>
    K \<subseteq> set (node_endpoints (seen_quorum v)) \<and>
    MinRequiredNodes (seen_quorum v) \<le> int (card (ne_PodName ` K)) \<and>
    (\<forall>ne \<in> K. answered_ok r (seen_client v) ts (seen_logs v) (seen_history v) g' ne)"
  using assms(1,2)
proof (cases rule: Reconcile_reports)
  case quiet
  then show ?thesis using emits_new [of quiet_status h h' h' q] assms(3,4) by auto
next
  case (reported fetched ts0 h0 secret cmu sts h1 ts g)
  let ?key = "ObjectKeyFromObject (sts_meta sts)"
  from reported(7) obtain s e g' t where
    run: "ReconcileQuorum r ts secret ?key g = Some ((ConditionReasonQuorumReady, s, e), g')"
    and h': "h' = g' @ ready_patch r ts # t" and t: "list_all quiet_status t"
    by (auto simp: reported_ready_def)
  have "emits quiet_status h g'" using reported(5) plain_quiet [OF quorum_plain [OF run]] by (rule emits_trans)
  then have "q \<in> set (ready_patch r ts # t)"
    using emits_new [of quiet_status h g' h' q] assms(3,4) h' by auto
  with t assms(4) have q: "q = ready_patch r ts" by (auto simp: list_all_iff)
  from run obtain v where v: "quorum_view r ts secret ?key g = Some v"
    and dec: "decide_quorum r ts ?key v = Some ((ConditionReasonQuorumReady, s, e), g')"
    by (rule ReconcileQuorum_Ready_view)
  have listed: "MinRequiredNodes (seen_quorum v) \<le> AvailableNodes (seen_quorum v)"
    using v by (rule quorum_view_SomeE)
  note ready = decide_quorum_Ready [OF dec]
  then obtain K where "K \<subseteq> set (seen_members v)" "MinRequiredNodes (seen_quorum v) \<le> int (card (ne_PodName ` K))"
    "\<forall>ne \<in> K. answered_ok r (seen_client v) ts (seen_logs v) (seen_history v) g' ne"
    by (auto simp: enough_healthy_def)
  moreover have "getClusterStatus (seen_states v) \<in> {ClusterStatusOK, ClusterStatusNotReady}" using ready by simp
  moreover have "h' = g' @ q # t" using h' q by simp
  ultimately show ?thesis using reported(1-4,6) v listed q [unfolded ready_patch_def]
    by (intro exI [of _ fetched] exI [of _ ts0] exI [of _ h0] exI [of _ secret] exI [of _ cmu] exI [of _ sts]
        exI [of _ h1] exI [of _ ts] exI [of _ g] exI [of _ v] exI [of _ K] exI [of _ g'] exI [of _ t] conjI)
qed

theorem Reconcile_ready_witness:
  "\<exists>out q t' g' secret ts key g v. run_single = Some (out, g' @ q # t') \<and> reports_ready q \<and>
     cluster_at (sample_world 1 sample_leader) sample_req [] g ts \<and>
     quorum_view (sample_world 1 sample_leader) ts secret key g = Some v"
proof -
  obtain out t where run: "run_single = Some (out, t)" and "list_ex reports_ready t"
    using run_single_reports by (cases run_single) auto
  then obtain q where q: "q \<in> set (drop (length ([] :: history)) t)" "reports_ready q" by (auto simp: list_ex_iff)
  from Reconcile_ready [OF sample_world_sets run [unfolded run_single_def] q]
  obtain secret ts key g v g' t' where "cluster_at (sample_world 1 sample_leader) sample_req [] g ts"
    "t = g' @ q # t'" "quorum_view (sample_world 1 sample_leader) ts secret key g = Some v"
    by (elim exE conjE) (rule that)
  with run q(2) show ?thesis
    by (intro exI [of _ out] exI [of _ q] exI [of _ t'] exI [of _ g'] exI [of _ secret] exI [of _ ts]
        exI [of _ key] exI [of _ g] exI [of _ v]) simp
qed

end
