(* ===== verification/Control_Loop.thy ===== *)
theory Control_Loop
  imports Controller_Correct
begin

text \<open>
  The operator over time. The manager calls the reconciliation again and again, for any cluster and
  in any order; each call continues the history of the calls made so far. The states of the machine
  are the histories, a step is a run that returns.
\<close>

section \<open>Steps\<close>

inductive operated :: "Reconciler \<Rightarrow> history \<Rightarrow> history \<Rightarrow> bool" for r where
  start: "operated r h h"
| step: "operated r h h1 \<Longrightarrow> Reconcile r req h1 = Some (out, h2) \<Longrightarrow> operated r h h2"

inductive_cases operatedE: "operated r h h'"

lemma operated_trans: "operated r h1 h2 \<Longrightarrow> operated r h h1 \<Longrightarrow> operated r h h2"
  by (induction rule: operated.induct) (auto intro: operated.intros)

lemma operated_gentle: "operated r h h' \<Longrightarrow> emits gentle h h'"
  by (induction rule: operated.induct) (auto intro: emits_trans Reconcile_emits_gentle)

section \<open>The secrets that are stored\<close>

type_synonym secrets = "ObjectKey \<Rightarrow> Secret option"

abbreviation secret_key :: "Secret \<Rightarrow> ObjectKey" where
  "secret_key s \<equiv> ObjectKeyFromObject (sec_meta s)"

text \<open>
  What a call can do to the secrets the API server stores. It refuses to create an object under a
  name that is taken.
\<close>

fun apply_to_secrets :: "request \<Rightarrow> secrets \<Rightarrow> secrets" where
  "apply_to_secrets (ReqCreate (OSecret s)) S =
     (if S (secret_key s) = None then S(secret_key s \<mapsto> s) else S)"
| "apply_to_secrets (ReqUpdate (OSecret s)) S = S(secret_key s \<mapsto> s)"
| "apply_to_secrets (ReqPatch _ (OSecret s)) S = S(secret_key s \<mapsto> s)"
| "apply_to_secrets (ReqDelete (OSecret s)) S = S(secret_key s := None)"
| "apply_to_secrets _ S = S"

definition secrets_after :: "secrets \<Rightarrow> history \<Rightarrow> secrets" where
  "secrets_after S h = fold apply_to_secrets h S"

lemma gentle_call_keeps_secret:
  assumes "gentle q" and "S k = Some s"
  shows "apply_to_secrets q S k = Some s"
  using assms by (cases "(q, S)" rule: apply_to_secrets.cases) (auto simp: gentle_def)

lemma gentle_calls_keep_secret: "list_all gentle t \<Longrightarrow> S k = Some s \<Longrightarrow> fold apply_to_secrets t S k = Some s"
  by (induction t arbitrary: S) (auto intro: gentle_call_keeps_secret)

text \<open>
  C10: a secret that is stored at some time stays as it is for as long as the operator runs,
  however often and for whatever clusters it is called and whatever the server answers: an admin
  key, once it exists, generated or provided by the user, is never rotated, overwritten or removed.
\<close>

theorem operated_keeps_secrets:
  assumes "operated r h h'" and "secrets_after S h k = Some s"
  shows "secrets_after S h' k = Some s"
proof -
  obtain t where "h' = h @ t" and "list_all gentle t"
    using operated_gentle [OF assms(1)] by (auto simp: emits_def)
  then show ?thesis
    using assms(2) gentle_calls_keep_secret [of t "secrets_after S h"] by (simp add: secrets_after_def)
qed

definition sample_secret :: Secret where
  "sample_secret = \<lparr>sec_meta = sample_meta ''c-admin-key'', sec_Type = ''Opaque'', sec_Immutable = Some True,
     sec_Data = fmap_of_list [(''typesense-api-key'', ''k'')]\<rparr>"

theorem operated_keeps_secrets_witness:
  "\<exists>out h'. run_single = Some (out, h') \<and> operated (sample_world 1 sample_leader) [] h' \<and>
     secrets_after (Map.empty(secret_key sample_secret \<mapsto> sample_secret)) h' (secret_key sample_secret) =
       Some sample_secret"
proof -
  obtain out h' where run: "run_single = Some (out, h')"
    using run_single_reports by (cases run_single) auto
  have ran: "operated (sample_world 1 sample_leader) [] h'"
    using run unfolding run_single_def by (rule operated.step [OF operated.start])
  have "secrets_after (Map.empty(secret_key sample_secret \<mapsto> sample_secret)) [] (secret_key sample_secret) =
      Some sample_secret"
    by (simp add: secrets_after_def)
  from operated_keeps_secrets [OF ran this] ran run show ?thesis by blast
qed

end
