(* ===== verification/Type_Safety.thy ===== *)
theory Type_Safety
  imports Well_Formed Control_Loop
begin

text \<open>
  In the environment it is written for, the operator panics in three known places only, and it keeps
  that environment: every other phase returns, and what is sent is well-formed.
\<close>

section \<open>Services\<close>

lemma index_defined_iff [simp]: "(\<exists>x. index xs i = Some x) \<longleftrightarrow> i < length xs"
  by (simp add: index_def)

lemma set_first_port_wf:
  "svc_Ports svc \<noteq> [] \<Longrightarrow> \<exists>svc'. set_first_port svc p = Some svc' \<and> svc_Ports svc' \<noteq> []"
  by (simp add: set_first_port_def index_def store_index_def)

lemma updateHeadlessService_returns:
  assumes "svc_Ports svc \<noteq> []" and "wf_hist h"
  shows "returns (updateHeadlessService r svc ts h)"
  using set_first_port_wf [OF assms(1), of "int32 (spec_ApiPort (ts_Spec ts))"] assms(2)
  by (auto simp: updateHeadlessService_def req_simps intro!: safe_rules)

lemma updateService_returns:
  assumes "svc_Ports svc \<noteq> []" and "wf_hist h"
  shows "returns (updateService r svc ts h)"
  using set_first_port_wf [OF assms(1), of "int32 (spec_ApiPort (ts_Spec ts))"] assms(2)
  by (auto simp: updateService_def req_simps Let_def intro!: safe_rules)

lemma create_service_wf:
  "createHeadlessService r key ts h = (x, h') \<Longrightarrow> wf_hist h \<Longrightarrow> wf_hist h'"
  "createService r key ts h = (x, h') \<Longrightarrow> wf_hist h \<Longrightarrow> wf_hist h'"
  by (auto simp: createHeadlessService_def createService_def create_owned_service_def headless_service_def
      rest_service_def req_simps split: sum.split_asm)

lemma recreate_service_wf: "recreate_service r ts svc h = (x, h') \<Longrightarrow> wf_hist h \<Longrightarrow> wf_hist h'"
  by (auto simp: recreate_service_def deleteService_def Delete_def dest: create_service_wf
      split: option.split_asm if_split_asm sum.split_asm prod.split_asm)

lemma ReconcileServices_returns:
  assumes "sound r" and "wf_hist h"
  shows "returns (ReconcileServices r ts h)"
proof -
  have headless: "returns (reconcile_headless r ts h)"
    unfolding reconcile_headless_def Get_def
    using assms
    by (auto intro!: safe_rules safe_deref updateHeadlessService_returns
        safe_seq [of "createHeadlessService r k ts g" for k g]
        intro: create_service_wf simp: sound_get)
  have service: "returns (reconcile_service r ts g)" if "wf_hist g" for g
    unfolding reconcile_service_def Get_def
    using assms that
    by (auto intro!: safe_rules safe_deref updateService_returns
        safe_seq [of "createService r k ts g" for k g] safe_seq [of "recreate_service r ts s g" for s g]
        intro: create_service_wf recreate_service_wf simp: sound_get)
  show ?thesis
    unfolding ReconcileServices_def
    by (rule safe_bind [OF headless]) (auto intro!: safe_option service)
qed

section \<open>Scrapers and the pod monitor\<close>

lemma createScraper_wf: "createScraper r key ts s h = (x, h') \<Longrightarrow> wf_hist h \<Longrightarrow> wf_hist h'"
  by (auto simp: createScraper_def scraper_object_def req_simps Let_def split: sum.split_asm)

lemma createScraper_returns: "wf_hist h \<Longrightarrow> returns (Some (createScraper r key ts s h))"
  using createScraper_wf [of r key ts s h] by (cases "createScraper r key ts s h") simp

lemma scraper_changed_Some:
  "ps_Containers (pt_spec (cj_Template cj)) \<noteq> [] \<Longrightarrow> \<exists>b. scraper_changed cj s = Some b"
  by (auto simp: scraper_changed_def index_def)

lemma reconcile_scraper_returns:
  assumes "sound r" and "wf_hist h"
  shows "returns (reconcile_scraper r ts s h)"
  unfolding reconcile_scraper_def Get_def Let_def deleteScraper_def Delete_def
  using assms
  by (auto intro!: safe_rules safe_deref scraper_changed_Some createScraper_returns simp: sound_get)

lemma reconcile_scrapers_returns: "sound r \<Longrightarrow> wf_hist h \<Longrightarrow> returns (reconcile_scrapers r ts ss h)"
  by (induction ss arbitrary: h) (auto intro!: safe_bind [OF reconcile_scraper_returns] safe_option)

lemma emits_deletes_wf:
  "h' = h @ map (\<lambda>x. ReqDelete (f x)) ys \<Longrightarrow> wf_hist h \<Longrightarrow> wf_hist h'"
  by (auto simp: wf_hist_def list_all_iff)

lemma delete_stale_wf: "delete_stale r specs jobs h = (x, h') \<Longrightarrow> wf_hist h \<Longrightarrow> wf_hist h'"
  by (drule stale_jobs.spares) (auto intro: emits_deletes_wf [where f = "res_obj CronJobs"])

lemma ReconcileScraper_returns:
  assumes "sound r" and "wf_hist h"
  shows "returns (ReconcileScraper r ts h)"
  unfolding ReconcileScraper_def List_def
  using assms
  by (auto intro!: safe_rules safe_seq [of "delete_stale r s c g" for s c g] reconcile_scrapers_returns
      intro: delete_stale_wf)

lemma createMetricsExporterPodMonitor_returns:
  assumes "spec_Metrics (ts_Spec ts) = Some m" and "wf_hist h"
  shows "returns (createMetricsExporterPodMonitor r key ts h)"
  unfolding createMetricsExporterPodMonitor_def Create_def
  using assms by (auto intro!: safe_rules simp: podmonitor_object_def Let_def)

lemma replace_podmonitor_returns:
  assumes "spec_Metrics (ts_Spec ts) = Some m" and "pmon_PodMetricsEndpoints pm \<noteq> []" and "wf_hist h"
  shows "returns (replace_podmonitor r ts m pm h)"
  unfolding replace_podmonitor_def deleteMetricsExporterPodMonitor_def Delete_def
  using assms
  by (auto intro!: safe_deref safe_rules createMetricsExporterPodMonitor_returns [OF assms(1)]
      simp: index_def)

lemma deleteMetricsExporterServiceMonitor_wf:
  "wf_hist h \<Longrightarrow> wf_hist (deleteMetricsExporterServiceMonitor r ts h)"
  by (simp add: deleteMetricsExporterServiceMonitor_def deleteMetricsExporterDeployment_def req_simps
      split: sum.split)

lemma IsApiGroupDeployed_wf: "IsApiGroupDeployed r g h = (x, h') \<Longrightarrow> wf_hist h \<Longrightarrow> wf_hist h'"
  using emits_read_wf IsApiGroupDeployed_reads [of h r g] by fastforce

lemma ReconcilePodMonitor_returns:
  assumes "sound r" and "wf_hist h"
  shows "returns (ReconcilePodMonitor r ts h)"
  unfolding ReconcilePodMonitor_def Let_def Get_def deleteMetricsExporterPodMonitor_def Delete_def
  using assms
  by (auto intro!: safe_rules safe_seq [of "IsApiGroupDeployed r g k" for g k]
      createMetricsExporterPodMonitor_returns replace_podmonitor_returns
      intro: IsApiGroupDeployed_wf deleteMetricsExporterServiceMonitor_wf simp: sound_get)

section \<open>The ingress and its proxy\<close>

text \<open>A well-formed ingress has everything the comparison and the update touch.\<close>

lemma wf_IngressE:
  assumes "wf_Ingress ig"
  obtains cls tls tlss rule rules path paths t where "ing_IngressClassName ig = Some cls"
    "ing_TLS ig = tls # tlss" "ing_Rules ig = rule # rules" "ir_HTTP rule = Some (path # paths)"
    "ip_PathType path = Some t"
  using assms
  by (auto simp: wf_Ingress_def wf_rule_def neq_Nil_conv split: list.split_asm option.split_asm)

lemma ingress_changed_Some:
  assumes "wf_Ingress ig" and "is_PathType igs \<noteq> None"
  shows "\<exists>b. ingress_changed igs ig ts = Some b"
  using assms(1)
  by (rule wf_IngressE) (use assms(2) in \<open>auto simp: ingress_changed_def index_def split: option.split\<close>)

lemma updated_ingress_wf:
  assumes "wf_Ingress ig" and "is_PathType igs \<noteq> None"
  shows "\<exists>ig'. updated_ingress ig ts igs = Some ig' \<and> wf_Ingress ig'"
  using assms(1)
  by (rule wf_IngressE)
    (use assms(2) in \<open>auto simp: updated_ingress_def index_def store_index_def wf_Ingress_def wf_rule_def\<close>)

lemma sync_ingress_returns:
  assumes "sound r" and "wf_hist h" and "spec_Ingress (ts_Spec ts) = Some igs" and "is_PathType igs \<noteq> None"
    and "case existing of None \<Rightarrow> True | Some ig \<Rightarrow> wf_Ingress ig"
  shows "returns (sync_ingress r ts existing h)"
proof (cases existing)
  case None
  then show ?thesis
    using assms(2-4)
    by (auto simp: sync_ingress_def createIngress_def ingress_object_def wf_Ingress_def wf_rule_def req_simps
        Let_def split: sum.split)
next
  case (Some ig)
  then show ?thesis
    using assms(2-5) ingress_changed_Some [of ig igs ts] updated_ingress_wf [of ig igs ts]
    by (auto simp: sync_ingress_def updateIngress_def req_simps)
qed

lemma reconcile_proxy_config_wf: "reconcile_proxy_config r ts ig h = (x, h') \<Longrightarrow> wf_hist h \<Longrightarrow> wf_hist h'"
  by (drule reconcile_proxy_config_emits, erule emits_untyped) (simp add: untyped_def)

lemma sync_deployment_wf:
  assumes "ps_Containers (pt_spec (dep_Template d)) \<noteq> []"
  shows "\<exists>b d'. sync_deployment ts igs d = Some (b, d') \<and> ps_Containers (pt_spec (dep_Template d')) \<noteq> []"
  using assms by (auto simp: sync_deployment_def index_def store_index_def Let_def split: prod.split)

lemma reconcile_proxy_deployment_returns:
  assumes "sound r" and "wf_hist h" and "spec_Ingress (ts_Spec ts) = Some igs"
  shows "returns (reconcile_proxy_deployment r ts ig b h)"
proof -
  have create: "returns (createIngressDeployment r key ts ig g)" if "wf_hist g" for key g
    using assms(3) that
    by (auto simp: createIngressDeployment_def proxy_deployment_def Create_def Let_def split: sum.split)
  have update: "returns (do {
      (differs, d) \<leftarrow> sync_deployment ts igs d;
      if b \<or> differs then
        (case Now r g of
           (now, g) \<Rightarrow>
             (case Update r Deployments (restart_deployment now d) g of
                (Inl err, h) \<Rightarrow> Some (Some err, h)
              | (Inr _, h) \<Rightarrow> Some (None, h)))
      else Some (None, g) })"
    if "ps_Containers (pt_spec (dep_Template d)) \<noteq> []" "wf_hist g" for d g
    using sync_deployment_wf [OF that(1), of ts igs] that(2)
    by (auto simp: restart_deployment_def Let_def req_simps intro!: safe_rules)
  show ?thesis
    unfolding reconcile_proxy_deployment_def Get_def
    using assms
    by (auto intro!: safe_rules safe_bind [OF create] update simp: sound_get)
qed

lemma reconcile_proxy_service_returns:
  assumes "sound r" and "wf_hist h" and "spec_Ingress (ts_Spec ts) = Some igs"
  shows "returns (reconcile_proxy_service r ts ig h)"
proof -
  have create: "returns (createIngressService r key ts ig g)" if "wf_hist g" for key g
    using assms(3) that
    by (auto simp: createIngressService_def proxy_service_def Create_def Let_def split: sum.split)
  show ?thesis
    unfolding reconcile_proxy_service_def Get_def
    using assms
    by (auto intro!: safe_rules safe_bind [OF create]
        simp: updateIngressService_def req_simps sound_get Let_def split: sum.split)
qed

lemma reconcile_proxy_returns:
  assumes "sound r" and "wf_hist h" and "spec_Ingress (ts_Spec ts) = Some igs"
  shows "returns (reconcile_proxy r ts ig h)"
  unfolding reconcile_proxy_def
  using assms
  by (auto intro!: safe_seq [OF reconcile_proxy_config_wf] safe_rules
      safe_bind [OF reconcile_proxy_deployment_returns] reconcile_proxy_service_returns)

lemma ReconcileIngress_returns:
  assumes "sound r" and "wf_hist h" and "wf_spec (ts_Spec ts)"
  shows "returns (ReconcileIngress r ts h)"
proof -
  have sync: "returns (sync_ingress r ts existing g)"
    if "spec_Ingress (ts_Spec ts) \<noteq> None" "wf_hist g" "case existing of None \<Rightarrow> True | Some ig \<Rightarrow> wf_Ingress ig"
    for existing g
    using that assms sync_ingress_returns [of r g ts] by (auto simp: wf_spec_def)
  have proxy: "returns (reconcile_proxy r ts ig g)" if "spec_Ingress (ts_Spec ts) \<noteq> None" "wf_hist g" for ig g
    using that assms(1) by (auto intro: reconcile_proxy_returns)
  show ?thesis
    unfolding ReconcileIngress_def Get_def deleteIngress_def Delete_def
    using assms(1,2)
    by (auto intro!: safe_rules safe_bind [OF sync] proxy simp: sound_get)
qed

section \<open>Routes and grants\<close>

lemma wf_HTTPRouteE:
  assumes "wf_HTTPRoute hr"
  obtains ref refs rule rules p ms v t where "hr_ParentRefs hr = ref # refs" "hr_Rules hr = rule # rules"
    "rule_Matches rule = Some p # ms" "pm_Value p = Some v" "pm_Type p = Some t"
  using assms
  by (auto simp: wf_HTTPRoute_def neq_Nil_conv split: list.split_asm option.split_asm)

lemma route_changed_Some:
  assumes "wf_HTTPRoute hr" and "wf_route_spec hrt"
  shows "\<exists>b. route_changed hrt hr ts = Some b"
  using assms(1)
  by (rule wf_HTTPRouteE)
    (use assms(2) in \<open>auto simp: route_changed_def route_path_def wf_route_spec_def index_def Let_def\<close>)

lemma updated_route_wf:
  assumes "wf_HTTPRoute hr" and "wf_route_spec hrt"
  shows "\<exists>hr'. updated_route hrt hr ts = Some hr' \<and> wf_HTTPRoute hr'"
  using assms(1)
  by (rule wf_HTTPRouteE)
    (use assms(2) in \<open>auto simp: updated_route_def set_route_path_def wf_route_spec_def wf_HTTPRoute_def
      index_def store_index_def Let_def\<close>)

text \<open>A grant is created in the namespace of the gateway, which is read without a check.\<close>

abbreviation no_gateway_namespace :: "HttpRouteSpec \<Rightarrow> bool" where
  "no_gateway_namespace hrt \<equiv> gp_Namespace (hrs_ParentRef hrt) = None"

lemma createReferenceGrant_safe:
  "wf_hist h \<Longrightarrow> safe (no_gateway_namespace hrt) (\<lambda>_. True) (createReferenceGrant r hrt ts h)"
  by (auto simp: createReferenceGrant_def getReferenceGrantObjectMeta_def Create_def intro!: safe_deref_or)

lemma updateReferenceGrant_safe:
  assumes "wf_route_spec hrt" and "wf_hist h"
  shows "safe (no_gateway_namespace hrt) (\<lambda>_. True) (updateReferenceGrant r hrt ts h)"
  unfolding updateReferenceGrant_def deleteReferenceGrant_def Delete_def Get_def Let_def
  using assms
  by (auto simp: wf_route_spec_def intro!: safe_rules safe_deref_or safe_bind [OF createReferenceGrant_safe])

lemma sync_route_safe:
  assumes "wf_HTTPRoute hr" and "wf_route_spec hrt" and "wf_hist h"
  shows "safe (no_gateway_namespace hrt) (\<lambda>_. True) (sync_route r hrt hr ts h)"
proof -
  obtain b where b: "route_changed hrt hr ts = Some b" using route_changed_Some [OF assms(1,2)] by blast
  obtain hr' where hr': "updated_route hrt hr ts = Some hr'" "wf_HTTPRoute hr'"
    using updated_route_wf [OF assms(1,2)] by blast
  show ?thesis
    using assms(3) b hr'
    by (auto simp: sync_route_def updateHttpRoute_def Patch_def
        intro!: safe_option updateReferenceGrant_safe [OF assms(2)])
qed

lemma delete_grants_wf: "wf_hist h \<Longrightarrow> wf_hist (delete_grants r rgs h)"
  by (induction rgs arbitrary: h) (auto simp: deleteReferenceGrant_def Delete_def)

lemma remove_disabled_wf: "remove_disabled r hr h = (x, h') \<Longrightarrow> wf_hist h \<Longrightarrow> wf_hist h'"
  by (auto simp: remove_disabled_def deleteHttpRoute_def req_simps delete_grants_wf
      split: sum.split_asm option.split_asm)

lemma remove_disabled_nameless:
  assumes "sound r" and "Name (hr_meta hr) = []"
  shows "fst (remove_disabled r hr h) \<noteq> None"
proof -
  have "on_delete (api_HTTPRoute r) g hr = Some (the (on_delete (api_HTTPRoute r) g hr))" for g
    using soundD(10) [OF assms] by simp
  then obtain e where "\<And>g. on_delete (api_HTTPRoute r) g hr = Some (e g)" by (rule that)
  then show ?thesis
    by (simp add: remove_disabled_def deleteHttpRoute_def req_simps split: sum.split)
qed

lemma createHttpRoute_wf:
  "createHttpRoute r key spec ts h = (x, h') \<Longrightarrow> wf_route_spec spec \<Longrightarrow> wf_hist h \<Longrightarrow> wf_hist h'"
  by (auto simp: createHttpRoute_def route_object_def wf_HTTPRoute_def wf_route_spec_def req_simps Let_def
      split: sum.split_asm)

lemma reconcile_route_safe:
  assumes "sound r" and "wf_route_spec hrt" and "wf_hist h"
  shows "safe (no_gateway_namespace hrt) (\<lambda>_. True) (reconcile_route r ts hrt h)"
proof -
  have empty: "safe p (\<lambda>_. True) (case remove_disabled r empty_HTTPRoute g of
      (Some err, h) \<Rightarrow> Some (Some err, h) | (None, h) \<Rightarrow> sync_route r hrt empty_HTTPRoute ts h)"
    if "wf_hist g" for p g
    using remove_disabled_nameless [OF assms(1), of empty_HTTPRoute g] remove_disabled_wf [of r empty_HTTPRoute g] that
    by (cases "remove_disabled r empty_HTTPRoute g") (auto simp: empty_HTTPRoute_def empty_meta_def)
  have grant: "safe (no_gateway_namespace hrt) (\<lambda>_. True) (do { wanted \<leftarrow> hrs_ReferenceGrant hrt;
      if wanted then do { (created, h) \<leftarrow> createReferenceGrant r hrt ts g;
        case created of Inl err \<Rightarrow> Some (Some err, h) | Inr _ \<Rightarrow> Some (None, h) }
      else Some (None, g) })" if "wf_hist g" for g
    using assms(2) that
    by (auto simp: wf_route_spec_def
        intro!: safe_rules safe_bind [OF createReferenceGrant_safe])
  have removed: "wf_hist g'" if "(if b then remove_disabled r hr g else (None, g)) = (x, g')" "wf_hist g"
    for b hr g x g'
    using that remove_disabled_wf by (auto split: if_split_asm)
  show ?thesis
    unfolding reconcile_route_def Get_def
    using assms
    by (auto intro!: safe_rules empty grant sync_route_safe
        safe_seq [of "createHttpRoute r k hrt ts g" for k g]
        safe_seq [of "if b then remove_disabled r hr g else (None, g)" for b hr g]
        intro: createHttpRoute_wf removed simp: sound_get)
qed

lemma reconcile_routes_safe:
  assumes "sound r" and "list_all wf_route_spec hrts" and "wf_hist h"
  shows "safe (\<exists>hrt \<in> set hrts. no_gateway_namespace hrt) (\<lambda>_. True) (reconcile_routes r ts hrts h)"
  using assms(2,3)
proof (induction hrts arbitrary: h)
  case (Cons hrt hrts)
  have one: "safe (\<exists>s \<in> set (hrt # hrts). no_gateway_namespace s) (\<lambda>_. True) (reconcile_route r ts hrt h)"
    by (rule safe_weaken [OF reconcile_route_safe [OF assms(1)]]) (use Cons.prems in auto)
  have rest: "safe (\<exists>s \<in> set (hrt # hrts). no_gateway_namespace s) (\<lambda>_. True) (reconcile_routes r ts hrts g)"
    if "wf_hist g" for g
    by (rule safe_weaken [OF Cons.IH]) (use Cons.prems that in auto)
  show ?case
    unfolding reconcile_routes.simps
    by (rule safe_bind [OF one]) (use rest in \<open>simp split: option.split\<close>)
qed simp

lemma orphans_wf:
  "deleteOrphanedHttpRoutes r ts h = (x, h') \<Longrightarrow> wf_hist h \<Longrightarrow> wf_hist h'"
  "deleteOrphanedReferenceGrants r h = (x, h') \<Longrightarrow> wf_hist h \<Longrightarrow> wf_hist h'"
  by (auto simp: deleteOrphanedHttpRoutes_def deleteOrphanedReferenceGrants_def List_def wf_hist_def
      list_all_iff dest!: orphaned_routes.spares orphaned_grants.spares split: sum.split_asm)

lemma IsFeatureSupported_wf: "IsFeatureSupported r m h = (x, h') \<Longrightarrow> wf_hist h \<Longrightarrow> wf_hist h'"
  using emits_read_wf IsFeatureSupported_reads [of h r m] by fastforce

definition route_specs :: "TypesenseCluster \<Rightarrow> HttpRouteSpec list" where
  "route_specs ts = (case spec_HttpRoutes (ts_Spec ts) of None \<Rightarrow> [] | Some rs \<Rightarrow> rs)"

lemma ReconcileHttpRoute_safe:
  assumes "sound r" and "wf_hist h" and "wf_spec (ts_Spec ts)"
  shows "safe (\<exists>hrt \<in> set (route_specs ts). no_gateway_namespace hrt) (\<lambda>_. True) (ReconcileHttpRoute r ts h)"
proof -
  have "list_all wf_route_spec (route_specs ts)"
    using assms(3) by (auto simp: wf_spec_def route_specs_def split: option.split)
  note routes = reconcile_routes_safe [OF assms(1) this]
  obtain supported ver err h1 where f:
      "IsFeatureSupported r minimumSupportedVersionForGateway h = ((supported, ver, err), h1)"
    by (metis prod.exhaust)
  have "wf_hist h1" using IsFeatureSupported_wf [OF f assms(2)] .
  then show ?thesis
    unfolding ReconcileHttpRoute_def f route_specs_def [symmetric]
    by (auto intro!: safe_rules routes safe_seq [of "IsApiGroupDeployed r k g" for k g]
        safe_seq [of "deleteOrphanedHttpRoutes r ts g" for g] safe_seq [of "deleteOrphanedReferenceGrants r g" for g]
        intro: IsApiGroupDeployed_wf orphans_wf simp del: bex_simps)
qed

section \<open>The nodes list\<close>

lemma list_pods_returns: "wf_StatefulSet sts \<Longrightarrow> wf_hist h \<Longrightarrow> returns (list_pods r sts h)"
  by (auto simp: list_pods_def wf_StatefulSet_def List_def)

lemma getNodes_rest_returns:
  assumes "wf_hist h" and "case sts of None \<Rightarrow> u = n | Some s \<Rightarrow> wf_StatefulSet s"
  shows "returns (getNodes_rest r ts sts u n h)"
proof -
  have slices: "returns (getEndpointSlicesForStatefulSet r s g)" if "wf_StatefulSet s" "wf_hist g" for s g
    unfolding getEndpointSlicesForStatefulSet_def List_def
    using that by (auto intro!: safe_rules safe_bind [OF list_pods_returns] simp: Let_def)
  show ?thesis
    unfolding getNodes_rest_def
    using assms by (cases sts) (auto intro!: safe_if safe_sum safe_bind [OF slices])
qed

lemma getNodes_returns:
  assumes "sound r" and "wf_hist h"
  shows "returns (getNodes r ts n b h)"
  unfolding getNodes_def GetFreshStatefulSet_def Get_def
  using assms
  by (auto intro!: safe_rules safe_bind [OF list_pods_returns] getNodes_rest_returns simp: sound_get)

lemma updateConfigMap_returns:
  assumes "sound r" and "wf_hist h"
  shows "returns (updateConfigMap r ts cm n b h)"
  unfolding updateConfigMap_def deleteConfigMap_def req_simps Let_def
  using assms by (auto intro!: safe_rules safe_bind [OF getNodes_returns])

lemma createConfigMap_returns:
  assumes "sound r" and "wf_hist h"
  shows "returns (createConfigMap r key ts h)"
  unfolding createConfigMap_def req_simps Let_def
  using assms by (auto intro!: safe_rules safe_bind [OF getNodes_returns])

lemma ReconcileConfigMap_returns:
  assumes "sound r" and "wf_hist h"
  shows "returns (ReconcileConfigMap r ts h)"
  unfolding ReconcileConfigMap_def Get_def
  using assms
  by (auto intro!: safe_rules safe_bind [OF createConfigMap_returns] safe_bind [OF updateConfigMap_returns])

lemma forcePodsConfigMapUpdate_wf:
  "forcePodsConfigMapUpdate r ts h = (x, h') \<Longrightarrow> wf_hist h \<Longrightarrow> wf_hist h'"
  by (drule forcePodsConfigMapUpdate_emits, erule emits_untyped) (simp add: untyped_def)

section \<open>The statefulset\<close>

text \<open>Where the object can be built, it has the shape every later run relies on, and all three containers.\<close>

lemma buildStatefulSet_safe:
  assumes "wf_spec (ts_Spec ts)" and "wf_hist h"
  shows "safe False (\<lambda>x. \<forall>sts. x = Inr sts \<longrightarrow> wf_StatefulSet sts) (buildStatefulSet r key ts h)"
proof -
  obtain rd wr h1 where th: "getHealthyLagThresholds r ts h = ((rd, wr), h1)" by (metis prod.exhaust)
  have h1: "wf_hist h1" using emits_read_wf [OF getHealthyLagThresholds_reads [OF th] assms(2)] .
  obtain obj where obj: "statefulset_object key ts (pod_annotations ts rd wr) = Some obj"
      "pt_spec (sts_Template obj) = pod_spec ts"
    using assms(1) by (auto simp: statefulset_object_def wf_spec_def Let_def)
  obtain m h2 where m:
      "additional_configuration r ts (GetAdditionalServerConfiguration (ts_Spec ts)) fmempty h1 = (m, h2)"
    by fastforce
  have h2: "wf_hist h2" using emits_read_wf [OF additional_configuration_reads [OF m] h1] .
  have "\<exists>x. buildStatefulSetHash r obj ts h1 = Some (x, h2)"
    using m obj(2)
    by (cases m) (auto simp: buildStatefulSetHash_def pod_spec_containers index_def Let_def split: sum.split)
  then obtain x where x: "buildStatefulSetHash r obj ts h1 = Some (x, h2)" ..
  show ?thesis
  proof (cases x)
    case (Inl err)
    then show ?thesis using th obj x h2 by (simp add: buildStatefulSet_def)
  next
    case (Inr hash)
    then have "buildStatefulSet r key ts h = Some (Inr (annotate_template hashAnnotationKey hash obj), h2)"
      using th obj x by (auto simp: buildStatefulSet_def)
    moreover from this have "wf_StatefulSet (annotate_template hashAnnotationKey hash obj)"
      by (auto dest!: buildStatefulSet_fields simp: wf_StatefulSet_def pod_spec_containers pod_spec_def Let_def)
    ultimately show ?thesis using h2 by simp
  qed
qed

lemma refresh_nodes_returns:
  assumes "sound r" and "wf_hist h"
  shows "returns (refresh_nodes r ts n h)"
  unfolding refresh_nodes_def Get_def Let_def
  using assms
  by (auto intro!: safe_bind [OF updateConfigMap_returns] safe_rules
      safe_seq [of "forcePodsConfigMapUpdate r ts g" for g] intro: forcePodsConfigMapUpdate_wf)

text \<open>What the phase returns without an error is a statefulset that is well-formed.\<close>

abbreviation sts_result :: "StatefulSet option \<times> bool \<times> error option \<Rightarrow> bool" where
  "sts_result x \<equiv> (case x of (sts, _, err) \<Rightarrow> err = None \<longrightarrow> (\<exists>s. sts = Some s \<and> wf_StatefulSet s))"

lemma wf_containers:
  "wf_StatefulSet sts \<Longrightarrow> \<exists>c. index (ps_Containers (pt_spec (sts_Template sts))) 0 = Some c"
  by (simp add: wf_StatefulSet_def)

lemma update_object_wf: "wf_StatefulSet desired \<Longrightarrow> wf_StatefulSet (update_object sts desired now)"
  by (simp add: wf_StatefulSet_def update_object_def Let_def)

lemma update_branch_safe:
  assumes "sound r" and "wf_hist h" and "wf_StatefulSet sts" and "wf_StatefulSet desired"
  shows "safe False sts_result (update_branch r ts sts desired h)"
proof -
  obtain c d where "index (ps_Containers (pt_spec (sts_Template sts))) 0 = Some c"
    and "index (ps_Containers (pt_spec (sts_Template desired))) 0 = Some d"
    using wf_containers assms(3,4) by blast
  moreover have "safe False sts_result (case updateStatefulSet r sts desired g of
      (Inl err, h) \<Rightarrow> Some ((None, False, Some err), h)
    | (Inr u, h) \<Rightarrow> do { (_, h) \<leftarrow> refresh_nodes r ts (sts_Replicas u) h; Some ((Some u, True, None), h) })"
    if "wf_hist g" for g
    unfolding updateStatefulSet_def Now_def Patch_def
    using that assms(1) update_object_wf [OF assms(4)]
      sound_write(2) [OF assms(1), of "g @ [ReqNow]" sts "update_object sts desired (on_now r g)"]
    by (auto intro!: safe_sum safe_bind [OF refresh_nodes_returns])
  ultimately show ?thesis
    using assms(2) by (simp add: update_branch_def Let_def Eventf_def)
qed

lemma ScaleStatefulSet_wf:
  assumes "ScaleStatefulSet r key n h = (e, h')" and "sound r" and "wf_hist h"
  shows "wf_hist h'"
  using assms(1)
proof (cases rule: ScaleStatefulSet_cases)
  case (updated sts)
  then show ?thesis
    using sound_get(3) [OF assms(2,3) updated(1)] assms(3) by (simp add: wf_StatefulSet_def)
qed (use assms(3) in simp_all)

lemma scale_branch_safe:
  assumes "sound r" and "wf_hist h" and "wf_StatefulSet desired"
  shows "safe False sts_result (scale_branch r key ts desired h)"
  unfolding scale_branch_def Let_def
  using assms
  by (auto intro!: safe_option safe_bind [OF refresh_nodes_returns]
      safe_seq [of "ScaleStatefulSet r key n g" for n g] intro: ScaleStatefulSet_wf)

text \<open>
  The emergency comparison asks for the number of containers before it looks at the second and the third;
  the regular one counts them and looks at them all the same.
\<close>

lemma emergency_Some:
  assumes "wf_StatefulSet sts" and "status_Conditions (ts_Status ts) \<noteq> []"
  shows "\<exists>b. shouldEmergencyUpdateStatefulSet sts ts = Some b"
  using assms
  by (auto simp: shouldEmergencyUpdateStatefulSet_def getConditionReady_def wf_StatefulSet_def index_def Let_def
      split: option.split)

lemma comparison_Some:
  assumes "wf_StatefulSet sts" and "status_Conditions (ts_Status ts) \<noteq> []"
    and "3 \<le> length (ps_Containers (pt_spec (sts_Template sts)))"
  shows "\<exists>x. shouldUpdateStatefulSet sts (Some desired) ts = Some x"
  using assms
  by (auto simp: shouldUpdateStatefulSet_def getConditionReady_def wf_StatefulSet_def index_def Let_def
      split: option.split)

lemma createStatefulSet_safe:
  assumes "sound r" and "wf_spec (ts_Spec ts)" and "wf_hist h"
  shows "safe False (\<lambda>x. \<forall>sts. x = Inr sts \<longrightarrow> wf_StatefulSet sts) (createStatefulSet r key ts h)"
proof -
  have "safe False (\<lambda>x. \<forall>sts. x = Inr sts \<longrightarrow> wf_StatefulSet sts) (Some (Create r StatefulSets
      (d\<lparr>sts_meta := m\<rparr>) g))" if "wf_StatefulSet d" "wf_hist g" for d m g
    using that sound_write(1) [OF assms(1)] by (auto simp: Create_def wf_StatefulSet_def)
  then show ?thesis
    unfolding createStatefulSet_def
    by (intro safe_bind [OF buildStatefulSet_safe [OF assms(2,3)]]) (auto intro!: safe_sum)
qed

text \<open>
  What makes the statefulset phase panic: the statefulset it fetches has fewer than three containers, or
  the object it is to be compared with cannot be built.
\<close>

definition cannot_compare :: "Reconciler \<Rightarrow> TypesenseCluster \<Rightarrow> history \<Rightarrow> bool" where
  "cannot_compare r ts h \<longleftrightarrow>
     (\<exists>sts. on_get (api_StatefulSet r) h (stsObjectKey ts) = Inr sts \<and>
        (length (ps_Containers (pt_spec (sts_Template sts))) < 3 \<or>
         (\<exists>err g. buildStatefulSet r (stsObjectKey ts) ts (h @ [ReqGet KStatefulSet (stsObjectKey ts)]) =
            Some (Inl err, g))))"

lemma ReconcileStatefulSet_safe:
  assumes "sound r" and "wf_spec (ts_Spec ts)" and "status_Conditions (ts_Status ts) \<noteq> []" and "wf_hist h"
  shows "safe (cannot_compare r ts h) sts_result (ReconcileStatefulSet r ts h)"
proof -
  let ?key = "stsObjectKey ts"
  let ?h = "h @ [ReqGet KStatefulSet ?key]"
  obtain c where c: "getConditionReady ts = Some c"
    using assms(3) by (auto simp: getConditionReady_def index_def)
  have known: "safe (cannot_compare r ts h) sts_result (do {
      (built, h) \<leftarrow> buildStatefulSet r ?key ts ?h;
      let desired = (case built of Inl err \<Rightarrow> None | Inr d \<Rightarrow> Some d);
      (update, scaleOnly, triggers) \<leftarrow> shouldUpdateStatefulSet sts desired ts;
      desiredSts \<leftarrow> desired;
      if update \<and> \<not> scaleOnly then update_branch r ts sts desiredSts h
      else if \<not> update \<and> scaleOnly then scale_branch r ?key ts desiredSts h
      else Some ((Some sts, False, None), h) })" (is "safe _ _ (Option.bind _ ?rest)")
    if sts: "on_get (api_StatefulSet r) h ?key = Inr sts" for sts
  proof (rule safe_bind_returns [OF buildStatefulSet_safe [OF assms(2)]])
    show "wf_hist ?h" using assms(4) by simp
    fix built g
    assume built: "\<forall>d. built = Inr d \<longrightarrow> wf_StatefulSet d" "wf_hist g" "buildStatefulSet r ?key ts ?h = Some (built, g)"
    have wf: "wf_StatefulSet sts" using sound_get(3) [OF assms(1,4) sts] .
    show "safe (cannot_compare r ts h) sts_result (?rest (built, g))"
    proof (cases "cannot_compare r ts h")
      case True
      have "safe True sts_result (update_branch r ts sts d g)" "safe True sts_result (scale_branch r ?key ts d g)"
        if "built = Inr d" for d
        by (rule safe_weaken [OF update_branch_safe [OF assms(1) built(2) wf]]
              safe_weaken [OF scale_branch_safe [OF assms(1) built(2)]]; use built(1) that in simp)+
      then show ?thesis
        using True wf built(2) by (cases built) (auto simp: Let_def intro!: safe_deref_or safe_if)
    next
      case False
      then obtain d where d: "built = Inr d" and three: "3 \<le> length (ps_Containers (pt_spec (sts_Template sts)))"
        using sts built(3) unfolding cannot_compare_def by (cases built) (auto simp: not_less)
      obtain u so trs where "shouldUpdateStatefulSet sts (Some d) ts = Some (u, so, trs)"
        using comparison_Some [OF wf assms(3) three] by (metis prod_cases3)
      then show ?thesis
        using False d built(1,2) wf assms(1) by (auto intro!: safe_if update_branch_safe scale_branch_safe)
    qed
  qed
  show ?thesis
    unfolding ReconcileStatefulSet_def Get_def Let_def
    using assms c
    by (auto intro!: safe_rules safe_bind_returns [OF createStatefulSet_safe]
        safe_deref [of "shouldEmergencyUpdateStatefulSet s ts" for s] emergency_Some
        known [unfolded Let_def] simp: sound_get)
qed

section \<open>The quorum\<close>

lemma getQuorum_returns:
  assumes "wf_StatefulSet sts" and "wf_hist h"
  shows "returns (getQuorum r ts sts h)"
  unfolding getQuorum_def Get_def Let_def
  using assms by (auto intro!: safe_rules safe_bind [OF list_pods_returns])

lemma restart_unscheduled_returns:
  assumes "wf_StatefulSet sts" and "wf_hist h"
  shows "returns (restart_unscheduled r sts ts h)"
proof (rule returns_untyped [OF _ restart_unscheduled_emits])
  show "restart_unscheduled r sts ts h \<noteq> None"
    using list_pods_returns [OF assms, of r]
    by (auto simp: restart_unscheduled_def GetUnscheduledPods_def Let_def elim!: safeE split: sum.split)
qed (use assms(2) in \<open>simp_all add: untyped_def\<close>)

lemma PurgeStatefulSetPods_returns:
  assumes "wf_StatefulSet sts" and "wf_hist h"
  shows "returns (PurgeStatefulSetPods r sts ts h)"
proof (rule returns_untyped [OF _ PurgeStatefulSetPods_emits])
  show "PurgeStatefulSetPods r sts ts h \<noteq> None"
    using list_pods_returns [OF assms, of r]
    by (auto simp: PurgeStatefulSetPods_def elim!: safeE split: sum.split option.split prod.split)
qed (use assms(2) in \<open>simp_all add: untyped_def\<close>)

lemma resize_configmap_returns:
  assumes "sound r" and "wf_hist h"
  shows "returns (resize_configmap f r ts cm n h)"
  unfolding resize_configmap_def
  using assms
  by (auto intro!: safe_bind [OF updateConfigMap_returns] safe_rules
      safe_seq [of "forcePodsConfigMapUpdate r ts g" for g] intro: forcePodsConfigMapUpdate_wf)

lemma resizing_returns:
  assumes "sound r" and "wf_hist h"
  shows "returns (downgradeQuorum r ts cm key hn m h)" and "returns (upgradeQuorum r ts cm key h)"
  unfolding downgradeQuorum_def upgradeQuorum_def GetFreshStatefulSet_def Get_def Let_def
  using assms
  by (auto intro!: safe_rules safe_bind [OF PurgeStatefulSetPods_returns] resize_configmap_returns
      safe_seq [of "ScaleStatefulSet r key n g" for n g] intro: ScaleStatefulSet_wf simp: sound_get)

lemma wait_or_downgrade_returns:
  "sound r \<Longrightarrow> wf_hist h \<Longrightarrow> returns (wait_or_downgrade r ts cm key hn m h)"
  unfolding wait_or_downgrade_def by (auto intro!: safe_rules resizing_returns)

lemma evaluate_quorum_returns:
  assumes "sound r" and "wf_hist h" and "wf_StatefulSet sts"
  shows "returns (evaluate_quorum r ts key sts quorum cs ns qw wl att nh h)"
proof -
  obtain n where "sts_Replicas sts = Some n" using assms(3) by (auto simp: wf_StatefulSet_def)
  then show ?thesis
    unfolding evaluate_quorum_def Let_def
    using assms
    by (auto intro!: safe_rules safe_bind [OF PurgeStatefulSetPods_returns] wait_or_downgrade_returns
        resizing_returns)
qed

lemma probes_wf:
  "getHttpClient r ts h = (a, h') \<Longrightarrow> wf_hist h \<Longrightarrow> wf_hist h'"
  "getHealthyWriteLagThreshold r ts h = (b, h') \<Longrightarrow> wf_hist h \<Longrightarrow> wf_hist h'"
  "fetch_logs r ts nes logs h = (c, h') \<Longrightarrow> wf_hist h \<Longrightarrow> wf_hist h'"
  "fetch_statuses r cl ts sec logs nes q ns h = (d, e, h') \<Longrightarrow> wf_hist h \<Longrightarrow> wf_hist h'"
  by (auto intro: emits_read_wf dest: getHttpClient_reads getHealthyWriteLagThreshold_reads fetch_logs_reads
      fetch_statuses_reads)

lemma update_gates_wf: "update_gates r c ts logs ns nes b nh h = (x, h') \<Longrightarrow> wf_hist h \<Longrightarrow> wf_hist h'"
  by (drule update_gates_emits, erule emits_untyped) (simp add: untyped_def)

lemma probe_quorum_returns:
  assumes "sound r" and "wf_hist h" and "wf_StatefulSet sts"
  shows "returns (probe_quorum r ts secret key sts quorum h)"
proof -
  have gates: "returns (case update_gates r c ts logs ns nes False [] g of
      (Inl err, h) \<Rightarrow> Some (quorum_failed err, h)
    | (Inr (att, nh), h) \<Rightarrow> evaluate_quorum r ts key sts quorum cs ns qw wl att nh h)"
    if "wf_hist g" for c logs ns nes g cs qw wl
    using that assms(1,3)
    by (auto intro!: safe_seq [of "update_gates r c ts logs ns nes False [] g"] safe_sum evaluate_quorum_returns
        intro: update_gates_wf)
  obtain cl h1 where 1: "getHttpClient r ts h = (cl, h1)" by fastforce
  obtain wl h2 where 2: "getHealthyWriteLagThreshold r ts h1 = (wl, h2)" by fastforce
  obtain logs h3 where 3: "fetch_logs r ts (node_endpoints quorum) [] h2 = (logs, h3)" by fastforce
  have h3: "wf_hist h1" "wf_hist h3" using probes_wf(1-3) 1 2 3 assms(2) by blast+
  have "returns (case fetch_statuses r c ts secret logs (node_endpoints quorum) 0 [] h3 of
      (queuedWrites, nodesStatus, h) \<Rightarrow>
        if getClusterStatus nodesStatus = ClusterStatusSplitBrain
        then wait_or_downgrade r ts (NodesListConfigMap quorum) key (sts_StatusReadyReplicas sts)
               (int32 (MinRequiredNodes quorum)) h
        else case update_gates r c ts logs nodesStatus (node_endpoints quorum) False [] h of
            (Inl err, h) \<Rightarrow> Some (quorum_failed err, h)
          | (Inr (att, nh), h) \<Rightarrow> evaluate_quorum r ts key sts quorum (getClusterStatus nodesStatus)
              nodesStatus queuedWrites wl att nh h)" for c
    using probes_wf(4) [OF _ h3(2), of r c ts secret logs "node_endpoints quorum"] assms(1) gates
    by (cases "fetch_statuses r c ts secret logs (node_endpoints quorum) 0 [] h3")
      (auto intro!: safe_if wait_or_downgrade_returns)
  then show ?thesis
    using h3(1) by (simp add: probe_quorum_def 1 2 3 Let_def split: sum.split)
qed

lemma ReconcileQuorum_returns:
  assumes "sound r" and "wf_hist h"
  shows "returns (ReconcileQuorum r ts secret key h)"
  unfolding ReconcileQuorum_def GetFreshStatefulSet_def Get_def
  using assms
  by (auto intro!: safe_rules safe_bind [OF getQuorum_returns] safe_bind [OF restart_unscheduled_returns]
      probe_quorum_returns simp: sound_get)

section \<open>The whole run\<close>

text \<open>A cluster a run can be made for: admitted, and with its conditions initialised.\<close>

definition initialised :: "TypesenseCluster \<Rightarrow> bool" where
  "initialised ts \<longleftrightarrow> wf_spec (ts_Spec ts) \<and> status_Conditions (ts_Status ts) \<noteq> []"

lemma patchStatus_initialised:
  assumes "patchStatus r ts f h = (e, ts', h')" and "sound r" and "wf_hist h" and "wf_spec (ts_Spec ts)"
    and "status_Conditions (f (ts_Status ts)) \<noteq> []"
  shows "wf_hist h' \<and> initialised ts'"
  using assms(1,3-5) sound_write(5) [OF assms(2,3)] soundD(11) [OF assms(2)]
  by (auto simp: patchStatus_def StatusPatch_def initialised_def Let_def split: sum.split_asm)

lemma SetStatusCondition_nonempty:
  assumes "sound r"
  shows "ext_SetStatusCondition r cs c \<noteq> []"
  using sets_condition_member [OF soundD(9) [OF assms], of c cs] by auto

lemma patch_condition_initialised:
  assumes "patchStatus r ts (\<lambda>s. s\<lparr>status_Conditions := ext_SetStatusCondition r (status_Conditions s) c,
      status_Phase := p\<rparr>) h = (e, ts', h')"
    and "sound r" and "wf_hist h" and "wf_spec (ts_Spec ts)"
  shows "wf_hist h' \<and> initialised ts'"
  by (rule patchStatus_initialised [OF assms]) (simp add: SetStatusCondition_nonempty [OF assms(2)])

lemma setters_initialised:
  assumes "sound r" and "wf_hist h" and "initialised ts"
  shows "setConditionNotReady r ts reason err h = (e, ts', h') \<Longrightarrow> wf_hist h' \<and> initialised ts'"
    and "setConditionReady r ts reason h = (e, ts', h') \<Longrightarrow> wf_hist h' \<and> initialised ts'"
  unfolding setConditionNotReady_def setConditionReady_def
  by (erule patch_condition_initialised [OF _ assms(1,2)]; use assms(3) in \<open>simp add: initialised_def\<close>)+

lemma initConditions_initialised:
  assumes "initConditions r ts h = (e, ts', h')" and "sound r" and "wf_hist h" and "wf_spec (ts_Spec ts)"
  shows "wf_hist h' \<and> initialised ts'"
proof (cases "status_Conditions (ts_Status ts) = []")
  case True
  then show ?thesis
    using assms(1) by (intro patch_condition_initialised [OF _ assms(2-4)]) (simp add: initConditions_def)
next
  case False
  then show ?thesis using assms by (auto simp: initConditions_def initialised_def)
qed

lemma phase_failed_returns:
  "sound r \<Longrightarrow> wf_hist h \<Longrightarrow> initialised ts \<Longrightarrow> returns (Some (phase_failed r ts reason err h))"
  using setters_initialised(1) [of r h ts reason err]
  by (cases "setConditionNotReady r ts reason err h") (auto simp: phase_failed_def split: option.split)

lemma report_not_ready_returns:
  "sound r \<Longrightarrow> wf_hist h \<Longrightarrow> initialised ts \<Longrightarrow> returns (Some (report_not_ready r ts c err d h))"
  using setters_initialised(1) [of r h ts c err]
  by (cases "setConditionNotReady r ts c err h") (auto simp: report_not_ready_def Eventf_def split: option.split)

lemma report_ready_returns:
  assumes "sound r" and "wf_hist h" and "initialised ts"
  shows "returns (report_ready r ts c d h)"
proof -
  obtain c0 where "index (status_Conditions (ts_Status ts)) 0 = Some c0"
    using assms(3) by (auto simp: initialised_def index_def)
  then show ?thesis
    using setters_initialised(2) [OF assms, of c]
    by (cases "setConditionReady r ts c h") (auto simp: report_ready_def Eventf_def Let_def split: option.split)
qed

lemma reconcile_quorum_returns:
  assumes "sound r" and "wf_hist h" and "initialised ts"
  shows "returns (reconcile_quorum r ts secret key d h)"
  unfolding reconcile_quorum_def
  using assms
  by (intro safe_bind [OF ReconcileQuorum_returns])
    (auto intro!: safe_if report_not_ready_returns report_ready_returns)

lemma finish_cluster_returns:
  assumes "sound r" and "wf_hist h" and "initialised ts" and "wf_StatefulSet sts"
  shows "returns (finish_cluster r ts secret sts cmu h)"
proof -
  obtain n where n: "ps_TerminationGracePeriodSeconds (pt_spec (sts_Template sts)) = Some n"
    using assms(4) by (auto simp: wf_StatefulSet_def)
  obtain x h1 where 1: "forcePodsConfigMapUpdate r ts h = (x, h1)" by fastforce
  have h1: "wf_hist h1" using forcePodsConfigMapUpdate_wf [OF 1 assms(2)] .
  obtain e ts2 h2 where 2: "setConditionNotReady r ts ConditionReasonQuorumNotReadyWaitATerm
      (GoError ''wait on configmap updates'') h1 = (e, ts2, h2)" by (metis prod_cases3)
  have "wf_hist h2" "initialised ts2" using setters_initialised(1) [OF assms(1) h1 assms(3) 2] by auto
  then show ?thesis
    using assms n 1 2
    by (auto simp: finish_cluster_def Let_def Eventf_def
        intro!: safe_option safe_if reconcile_quorum_returns split: option.split)
qed

text \<open>
  The phases of a run that were passed when its \<open>n\<close>th middle phase begins: on the cluster it fetched
  and initialised, with the history there.
\<close>

inductive begins_phase :: "Reconciler \<Rightarrow> TypesenseCluster \<Rightarrow> history \<Rightarrow> nat \<Rightarrow> history \<Rightarrow> bool" for r ts h n where
  begins: "ReconcileSecret r ts h = (Inr secret, h1) \<Longrightarrow> ReconcileConfigMap r ts h1 = Some (Inr cmu, h2) \<Longrightarrow>
    run_phases (take n (middle_phases r)) ts h2 = Some (None, g) \<Longrightarrow> begins_phase r ts h n g"

text \<open>The three places at which a run panics, by what the server answered there.\<close>

inductive known_panic :: "Reconciler \<Rightarrow> TypesenseCluster \<Rightarrow> history \<Rightarrow> bool" for r ts h where
  gateway: "begins_phase r ts h 2 g \<Longrightarrow> ReconcileHttpRoute r ts g = None \<Longrightarrow>
    hrt \<in> set (route_specs ts) \<Longrightarrow> no_gateway_namespace hrt \<Longrightarrow> known_panic r ts h"
| containers: "begins_phase r ts h 5 g \<Longrightarrow> ReconcileStatefulSet r ts g = None \<Longrightarrow>
    on_get (api_StatefulSet r) g (stsObjectKey ts) = Inr sts \<Longrightarrow>
    length (ps_Containers (pt_spec (sts_Template sts))) < 3 \<Longrightarrow> known_panic r ts h"
| unbuilt: "begins_phase r ts h 5 g \<Longrightarrow> ReconcileStatefulSet r ts g = None \<Longrightarrow>
    on_get (api_StatefulSet r) g (stsObjectKey ts) = Inr sts \<Longrightarrow>
    buildStatefulSet r (stsObjectKey ts) ts (g @ [ReqGet KStatefulSet (stsObjectKey ts)]) =
      Some (Inl err, g') \<Longrightarrow> known_panic r ts h"

inductive_cases known_panicE: "known_panic r ts h"

lemma statefulset_panic:
  assumes "begins_phase r ts h 5 g" and "ReconcileStatefulSet r ts g = None" and "cannot_compare r ts g"
  shows "known_panic r ts h"
  using assms known_panic.containers known_panic.unbuilt unfolding cannot_compare_def by blast

lemma middle_phases_safe:
  assumes "sound r" and "wf_hist h" and "initialised ts"
    and "\<And>n g. run_phases (take n (middle_phases r)) ts h = Some (None, g) \<Longrightarrow> begins_phase r ts h0 n g"
  shows "safe (known_panic r ts h0) (\<lambda>_. True) (run_phases (middle_phases r) ts h)"
proof -
  have wf: "wf_spec (ts_Spec ts)" using assms(3) by (simp add: initialised_def)
  have routes: "safe (known_panic r ts h0) (\<lambda>_. True) (ReconcileHttpRoute r ts g)"
    if "begins_phase r ts h0 2 g" "wf_hist g" for g
    using ReconcileHttpRoute_safe [OF assms(1) that(2) wf] known_panic.gateway [OF that(1)]
    by (cases "ReconcileHttpRoute r ts g") auto
  have last: "returns (run_phases (drop 3 (middle_phases r)) ts g)" if "wf_hist g" for g
    using that assms(1)
    by (auto simp: middle_phases_def intro!: safe_option safe_bind [OF ReconcileScraper_returns]
        safe_bind [OF ReconcilePodMonitor_returns])
  have first: "returns (run_phases (take 2 (middle_phases r)) ts h)"
    using assms(1,2) wf
    by (auto simp: middle_phases_def intro!: safe_option safe_bind [OF ReconcileServices_returns]
        safe_bind [OF ReconcileIngress_returns])
  have split: "middle_phases r = take 2 (middle_phases r) @
      (ConditionReasonHttpRouteNotReady, ReconcileHttpRoute r) # drop 3 (middle_phases r)"
    by (simp add: middle_phases_def)
  show ?thesis
    by (subst split, subst run_phases_append, rule safe_bind_returns [OF first])
      (use assms(4) in \<open>auto intro!: safe_option safe_bind [OF routes] safe_weaken [OF last]\<close>)
qed

lemma reconcile_cluster_safe:
  assumes "sound r" and "wf_hist h" and "initialised ts"
  shows "safe (known_panic r ts h) (\<lambda>_. True) (reconcile_cluster r ts h)"
proof -
  note fail = phase_failed_returns [OF assms(1) _ assms(3), THEN safe_weaken]
  have "wf_req q" if "creates_secret q" for q
    using that by (cases q) (auto simp: creates_secret_def is_read_def)
  then have sec: "wf_hist h1" if "ReconcileSecret r ts h = (x, h1)" for x h1
    using emits_wf [OF emits_mono [OF ReconcileSecret_creates [OF that]] assms(2)] by blast
  have sts: "safe (known_panic r ts h) sts_result (ReconcileStatefulSet r ts g)"
    if "begins_phase r ts h 5 g" "wf_hist g" for g
  proof -
    have "safe (cannot_compare r ts g) sts_result (ReconcileStatefulSet r ts g)"
      using ReconcileStatefulSet_safe [OF assms(1) _ _ that(2), of ts] assms(3) by (simp add: initialised_def)
    then show ?thesis
      using statefulset_panic [OF that(1)] by (cases "ReconcileStatefulSet r ts g") (simp_all add: safe_def)
  qed
  have all: "take 5 (middle_phases r) = middle_phases r" by (simp add: middle_phases_def)
  show ?thesis
    unfolding reconcile_cluster_def
    using assms
    by (auto intro!: safe_seq [of "ReconcileSecret r ts h"] safe_sum safe_option fail
        safe_bind_returns [OF ReconcileConfigMap_returns] safe_bind [OF middle_phases_safe] safe_bind [OF sts]
        safe_weaken [OF finish_cluster_returns] begins intro: sec simp: all)
qed

text \<open>The places of a run of the reconciliation, from the cluster it fetches on.\<close>

definition run_panics :: "Reconciler \<Rightarrow> ObjectKey \<Rightarrow> history \<Rightarrow> bool" where
  "run_panics r req h \<longleftrightarrow> (\<exists>ts0 ts g. on_get (api_TypesenseCluster r) h req = Inr ts0 \<and>
     initConditions r ts0 (h @ [ReqGet KTypesenseCluster req]) = (None, ts, g) \<and> known_panic r ts g)"

lemma Reconcile_safe:
  assumes "sound r" and "wf_hist h"
  shows "safe (run_panics r req h) (\<lambda>_. True) (Reconcile r req h)"
proof (cases "on_get (api_TypesenseCluster r) h req")
  case (Inl err)
  then show ?thesis using assms(2) by (simp add: Reconcile_def Get_def)
next
  case (Inr ts)
  let ?h = "h @ [ReqGet KTypesenseCluster req]"
  obtain e ts1 h1 where init: "initConditions r ts ?h = (e, ts1, h1)" by (metis prod_cases3)
  have "wf_hist h1" "initialised ts1"
    using initConditions_initialised [OF init assms(1)] assms(2) sound_get(1) [OF assms Inr] by auto
  with reconcile_cluster_safe [OF assms(1) this] show ?thesis
    using Inr init
    by (cases "reconcile_cluster r ts1 h1")
      (auto simp: Reconcile_def Get_def run_panics_def split: option.split)
qed

section \<open>The operator over time\<close>

lemma operated_wf:
  assumes "operated r h h'" and "sound r" and "wf_hist h"
  shows "wf_hist h'"
  using assms(1,3)
proof (induction rule: operated.induct)
  case (step h h1 req out h2)
  then show ?case using Reconcile_safe [OF assms(2) step.IH [OF step.prems], of req] by simp
qed

text \<open>
  C8: progress and preservation. In its environment, whatever runs there have been, for whatever
  clusters, the next one either returns or panics at one of three places: in the phase of the routes, where a
  route of the specification leaves out the namespace of its gateway; or in the phase of the
  statefulset, where the one it fetched has fewer than three containers, or where the one to
  compare it with could not be built (an additional configuration that cannot be read, a hash that
  fails). All other phases return in any case. All the operator ever sends is well-formed, so it does
  not break what the later runs rely on.
\<close>

theorem operated_type_safe:
  assumes "sound r" and "wf_hist h" and "operated r h h'"
  shows "wf_hist h' \<and>
    (case Reconcile r req h' of
       None \<Rightarrow> run_panics r req h'
     | Some (out, h'') \<Rightarrow> wf_hist h'')"
proof -
  have "wf_hist h'" using operated_wf [OF assms(3,1,2)] .
  with Reconcile_safe [OF assms(1) this, of req] show ?thesis by (cases "Reconcile r req h'") auto
qed

text \<open>A server that has one cluster and nothing else, and accepts every write.\<close>

definition fresh_world :: Reconciler where
  "fresh_world = sample_reconciler\<lparr>
     api_TypesenseCluster := quiet_api\<lparr>on_get := \<lambda>h key. Inr sample_ts\<rparr>,
     api_HTTPRoute := quiet_api\<lparr>on_delete := \<lambda>h x. if Name (hr_meta x) = [] then Some (ApiError ''name'') else None\<rparr>\<rparr>"

lemma sound_fresh_world: "sound fresh_world"
  unfolding sound_def
  by (intro conjI; simp add: fresh_world_def sample_reconciler_def quiet_keeps_wf;
      simp add: keeps_wf_def quiet_api_def wf_spec_def sample_ts_def sample_spec_def sets_condition_set_condition)

text \<open>None of the three places is met there: no routes, and no statefulset.\<close>

lemma fresh_world_simps:
  "on_get (api_TypesenseCluster fresh_world) h key = Inr sample_ts"
  "on_get (api_StatefulSet fresh_world) h key = Inl (NotFound (key_Name key))"
  "initConditions fresh_world sample_ts h = (None, sample_ts, h)" "route_specs sample_ts = []"
  by (simp_all add: fresh_world_def sample_reconciler_def quiet_api_def initConditions_def sample_ts_def
      sample_spec_def route_specs_def)

lemma fresh_world_calm: "\<not> run_panics fresh_world req h"
  by (auto simp: run_panics_def fresh_world_simps elim!: known_panicE)

theorem operated_type_safe_witness:
  "\<exists>out h. Reconcile fresh_world sample_req [] = Some (out, h) \<and> operated fresh_world [] h \<and> wf_hist h \<and>
     (\<exists>out h'. Reconcile fresh_world sample_req h = Some (out, h') \<and> wf_hist h')"
proof -
  note runs = operated_type_safe [OF sound_fresh_world wf_hist_simps(1), of _ sample_req]
  obtain out h where run: "Reconcile fresh_world sample_req [] = Some (out, h)"
    using runs [OF operated.start] fresh_world_calm by (auto split: option.split_asm)
  have ran: "operated fresh_world [] h" using run by (rule operated.step [OF operated.start])
  from runs [OF ran] fresh_world_calm
  obtain out' h' where "wf_hist h" "Reconcile fresh_world sample_req h = Some (out', h')" "wf_hist h'"
    by (auto split: option.split_asm)
  with run ran show ?thesis by blast
qed

text \<open>The first place is real: the namespace of a gateway is optional, and not checked.\<close>

lemma missing_gateway_namespace_panics:
  "gp_Namespace (hrs_ParentRef spec) = None \<Longrightarrow> updateReferenceGrant r spec ts h = None"
  by (simp add: updateReferenceGrant_def)

end
