(* ===== verification/Recovery.thy ===== *)
theory Recovery
  imports Quorum_Correct
begin

text \<open>
  The recovery of a quorum over several runs: what the runs make of the size of the statefulset, and
  why they do not scale it up forever.
\<close>

section \<open>The size of the statefulset\<close>

text \<open>
  The size the server stores after a history of calls, from the size at its start: an update of the
  statefulset changes it if the server accepts it.
\<close>

fun resized :: "Reconciler \<Rightarrow> ObjectKey \<Rightarrow> history \<Rightarrow> request \<Rightarrow> int \<Rightarrow> int" where
  "resized r key h (ReqUpdate (OStatefulSet sts)) n =
     (if ObjectKeyFromObject (sts_meta sts) = key
      then (case (on_update (api_StatefulSet r) h sts, sts_Replicas sts) of (Inr _, Some m) \<Rightarrow> m | _ \<Rightarrow> n)
      else n)"
| "resized r key h q n = n"

definition size_after :: "Reconciler \<Rightarrow> ObjectKey \<Rightarrow> int \<Rightarrow> history \<Rightarrow> int" where
  "size_after r key n h = snd (fold (\<lambda>q (g, n). (g @ [q], resized r key g q n)) h ([], n))"

text \<open>
  What the server answers when it is asked for the statefulset: the object of that name, with the size
  that is stored (nobody else resizes it, and the answers are up to date), and with a status that
  counts pods. The status may lag behind the size by any amount, a request may fail, and so may an
  update.
\<close>

definition tells_sizes :: "Reconciler \<Rightarrow> ObjectKey \<Rightarrow> int \<Rightarrow> bool" where
  "tells_sizes r key base \<longleftrightarrow>
     (\<forall>h sts. on_get (api_StatefulSet r) h key = Inr sts \<longrightarrow>
        ObjectKeyFromObject (sts_meta sts) = key \<and> sts_Replicas sts = Some (size_after r key base h) \<and>
        0 \<le> sts_StatusReplicas sts \<and> sts_StatusReplicas sts < 2 ^ 31 - 1)"

text \<open>A statefulset controller that creates no pods beyond the size and counts those it has.\<close>

definition status_within_size :: "Reconciler \<Rightarrow> ObjectKey \<Rightarrow> int \<Rightarrow> bool" where
  "status_within_size r key base \<longleftrightarrow>
     (\<forall>h sts. on_get (api_StatefulSet r) h key = Inr sts \<longrightarrow> sts_StatusReplicas sts \<le> size_after r key base h)"

lemma size_after_Nil [simp]: "size_after r key n [] = n"
  by (simp add: size_after_def)

lemma size_after_snoc [simp]: "size_after r key n (h @ [q]) = resized r key h q (size_after r key n h)"
proof -
  have "fst (fold (\<lambda>q (g, n). (g @ [q], resized r key g q n)) t (g, m)) = g @ t" for t g m
    by (induction t arbitrary: g m) simp_all
  from this [of h "[]" n] show ?thesis by (auto simp: size_after_def split: prod.split)
qed

lemma resized_minor: "minor q \<Longrightarrow> resized r key h q n = n"
  by (cases "(r, key, h, q, n)" rule: resized.cases) auto

lemma size_after_quiet: "list_all minor t \<Longrightarrow> size_after r key n (h @ t) = size_after r key n h"
proof (induction t rule: rev_induct)
  case (snoc q t)
  then show ?case using size_after_snoc [of r key n "h @ t" q] by (simp add: resized_minor)
qed simp

lemma size_after_minor: "emits minor h h' \<Longrightarrow> size_after r key n h' = size_after r key n h"
  by (auto simp: emits_def size_after_quiet)

section \<open>One run\<close>

text \<open>
  What a run makes of the size \<open>n\<close>: it stays, or becomes one, or, where there are fewer replicas than
  are asked for, the target of an upgrade, by the status of some answer in this run.
\<close>

inductive moved :: "Reconciler \<Rightarrow> TypesenseCluster \<Rightarrow> ObjectKey \<Rightarrow> int \<Rightarrow> int \<Rightarrow> int \<Rightarrow> bool" for r ts key base n where
  stayed: "moved r ts key base n n"
| shrunk: "moved r ts key base n 1"
| grown: "n < spec_Replicas (ts_Spec ts) \<Longrightarrow> on_get (api_StatefulSet r) g key = Inr fresh \<Longrightarrow>
    size_after r key base g = n \<Longrightarrow> moved r ts key base n (upgrade_target ts fresh)"

inductive_cases movedE: "moved r ts key base n m"

lemma ReconcileQuorum_moves:
  assumes "ReconcileQuorum r ts secret key h = Some (res, h')" and "tells_sizes r key base"
  shows "moved r ts key base (size_after r key base h) (size_after r key base h')"
  using assms(1)
proof (cases rule: ReconcileQuorum_outcome)
  case blind
  then show ?thesis by (simp add: size_after_minor moved.stayed)
next
  case (decided v)
  let ?n = "size_after r key base h" and ?gets = "[ReqGet KStatefulSet key, ReqGet KStatefulSet key]"
  from decided(4) show ?thesis
    unfolding resizes_def
  proof (elim disjE exE conjE)
    assume "emits minor (seen_history v) h'"
    with decided(2) show ?thesis by (simp add: size_after_minor moved.stayed)
  next
    fix g fresh current m t
    assume quiet: "emits minor (seen_history v) g" and fresh: "on_get (api_StatefulSet r) g key = Inr fresh"
      and current: "on_get (api_StatefulSet r) (g @ [ReqGet KStatefulSet key]) key = Inr current"
      and reason: "resize_reason ts v fresh m" and t: "list_all minor t"
      and h': "h' = g @ [ReqGet KStatefulSet key, ReqGet KStatefulSet key,
        ReqUpdate (OStatefulSet (current\<lparr>sts_Replicas := Some m\<rparr>))] @ t"
    have n: "size_after r key base g = ?n" using size_after_minor quiet decided(2) by metis
    have key: "ObjectKeyFromObject (sts_meta current) = key" using assms(2) current by (simp add: tells_sizes_def)
    have "size_after r key base h' = size_after r key base
        ((g @ ?gets) @ [ReqUpdate (OStatefulSet (current\<lparr>sts_Replicas := Some m\<rparr>))])"
      unfolding h' using size_after_quiet [OF t] by (metis append.assoc append_Cons append_Nil)
    moreover have "size_after r key base (g @ ?gets) = ?n" using n by (simp add: size_after_quiet)
    ultimately have "size_after r key base h' = m \<or> size_after r key base h' = ?n"
      using key by (simp add: size_after_snoc del: append_assoc split: sum.split)
    moreover have "moved r ts key base ?n m"
    proof -
      have "on_get (api_StatefulSet r) h key = Inr (seen_sts v)"
        using decided(1) by (rule quorum_view_SomeE)
      then have "sts_Replicas (seen_sts v) = Some ?n" using assms(2) by (simp add: tells_sizes_def)
      with reason show ?thesis
        using moved.shrunk moved.grown [OF _ fresh n] by (auto simp: resize_reason_def)
    qed
    ultimately show ?thesis using moved.stayed by metis
  qed
qed

lemma upgrade_target_bounds:
  assumes "tells_sizes r key base" and "on_get (api_StatefulSet r) g key = Inr fresh"
  shows "spec_IncrementalQuorumRecovery (ts_Spec ts) \<Longrightarrow> upgrade_target ts fresh = sts_StatusReplicas fresh + 1"
    and "\<not> spec_IncrementalQuorumRecovery (ts_Spec ts) \<Longrightarrow> upgrade_target ts fresh = spec_Replicas (ts_Spec ts)"
  using assms by (auto simp: tells_sizes_def upgrade_target_def intro!: int32_id)

lemma status_counts:
  "tells_sizes r key base \<Longrightarrow> on_get (api_StatefulSet r) g key = Inr sts \<Longrightarrow> 0 \<le> sts_StatusReplicas sts"
  by (simp add: tells_sizes_def)

section \<open>Several runs\<close>

text \<open>
  A sequence of runs, with the number of those after which there are more replicas than before,
  whatever the run reported, and of those after which there are fewer.
\<close>

inductive quorum_runs ::
  "Reconciler \<Rightarrow> TypesenseCluster \<Rightarrow> Secret \<Rightarrow> ObjectKey \<Rightarrow> int \<Rightarrow> history \<Rightarrow> nat \<Rightarrow> nat \<Rightarrow> history \<Rightarrow> bool"
  for r ts secret key base h where
  none: "quorum_runs r ts secret key base h 0 0 h"
| more: "quorum_runs r ts secret key base h u d h1 \<Longrightarrow>
    ReconcileQuorum r ts secret key h1 = Some (res, h2) \<Longrightarrow>
    quorum_runs r ts secret key base h
      (if size_after r key base h1 < size_after r key base h2 then Suc u else u)
      (if size_after r key base h2 < size_after r key base h1 then Suc d else d) h2"

text \<open>One step of the counting: the size, up to the requested number, rises with every upgrade.\<close>

lemma moved_counts:
  assumes "moved r ts key base n m" and "tells_sizes r key base" and "1 \<le> n" and "R = spec_Replicas (ts_Spec ts)"
    and "1 \<le> R"
  shows "1 \<le> m" and "n < m \<Longrightarrow> n < R" and "m < n \<Longrightarrow> min n R - min m R \<le> R - 1"
    and "\<not> spec_IncrementalQuorumRecovery (ts_Spec ts) \<Longrightarrow> m = n \<or> m = 1 \<or> m = R"
    and "status_within_size r key base \<Longrightarrow> n \<le> R \<Longrightarrow> m \<le> R"
proof -
  consider "m = n" | "m = 1" | g fresh where "n < R" "on_get (api_StatefulSet r) g key = Inr fresh"
      "size_after r key base g = n" "m = upgrade_target ts fresh"
    using assms(1,4) by (auto elim: movedE)
  then have "1 \<le> m \<and> (n < m \<longrightarrow> n < R) \<and>
      (\<not> spec_IncrementalQuorumRecovery (ts_Spec ts) \<longrightarrow> m = n \<or> m = 1 \<or> m = R) \<and>
      (status_within_size r key base \<longrightarrow> n \<le> R \<longrightarrow> m \<le> R)"
  proof cases
    case (3 g fresh)
    note up = upgrade_target_bounds [OF assms(2) 3(2), of ts]
    show ?thesis
    proof (cases "spec_IncrementalQuorumRecovery (ts_Spec ts)")
      case True
      have "sts_StatusReplicas fresh \<le> n" if "status_within_size r key base"
        using that 3(2,3) by (auto simp: status_within_size_def)
      then show ?thesis using up(1) [OF True] status_counts [OF assms(2) 3(2)] 3(1,4) True by auto
    next
      case False
      then show ?thesis using up(2) 3(1,4) assms(4,5) by simp
    qed
  qed (use assms(3,5) in auto)
  then show "1 \<le> m" "n < m \<Longrightarrow> n < R" "m < n \<Longrightarrow> min n R - min m R \<le> R - 1"
    "\<not> spec_IncrementalQuorumRecovery (ts_Spec ts) \<Longrightarrow> m = n \<or> m = 1 \<or> m = R"
    "status_within_size r key base \<Longrightarrow> n \<le> R \<Longrightarrow> m \<le> R"
    using assms(5) by auto
qed

lemma quorum_runs_sizes:
  assumes "quorum_runs r ts secret key base h u d h'" and "tells_sizes r key base"
    and "R = spec_Replicas (ts_Spec ts)" and "1 \<le> size_after r key base h" and "size_after r key base h \<le> R"
  shows "1 \<le> size_after r key base h' \<and>
    size_after r key base h + int u \<le> min (size_after r key base h') R + int d * (R - 1) \<and>
    (\<not> spec_IncrementalQuorumRecovery (ts_Spec ts) \<longrightarrow> size_after r key base h' \<le> R \<and>
       u \<le> d + (if size_after r key base h' < R then 0 else 1)) \<and>
    (status_within_size r key base \<longrightarrow> size_after r key base h' \<le> R)"
  using assms(1)
proof (induction rule: quorum_runs.induct)
  case none
  then show ?case using assms(4,5) by simp
next
  case (more u d h1 res h2)
  let ?n = "size_after r key base h1" and ?m = "size_after r key base h2"
  have R: "1 \<le> R" using assms(4,5) by simp
  note counts = moved_counts [OF ReconcileQuorum_moves [OF more.hyps(2) assms(2)] assms(2) _ assms(3) R]
  have "1 \<le> ?n" using more.IH by simp
  note counts = counts [OF this]
  let ?u = "if ?n < ?m then 1 else 0 :: int" and ?d = "if ?m < ?n then R - 1 else 0"
  have step: "min ?n R + ?u \<le> min ?m R + ?d" using counts(1-3) R by auto
  have ups: "int (if ?n < ?m then Suc u else u) = int u + ?u" by simp
  have downs: "int (if ?m < ?n then Suc d else d) * (R - 1) = int d * (R - 1) + ?d"
    by (simp add: algebra_simps)
  have "size_after r key base h + int (if ?n < ?m then Suc u else u)
      \<le> min ?m R + int (if ?m < ?n then Suc d else d) * (R - 1)"
    unfolding ups downs using more.IH step by linarith
  moreover have "?m \<le> R \<and> (if ?n < ?m then Suc u else u) \<le> (if ?m < ?n then Suc d else d) + (if ?m < R then 0 else 1)"
    if "\<not> spec_IncrementalQuorumRecovery (ts_Spec ts)"
    using more.IH counts(4) [OF that] that R by (auto split: if_split_asm)
  moreover have "?m \<le> R" if "status_within_size r key base"
    using more.IH counts(5) [OF that] that by blast
  ultimately show ?case using counts(1) by blast
qed

text \<open>
  C9: the recovery ends. The runs after which there are more replicas than before, whatever they report
  and whatever fails in them, are bounded by the replicas that are missing and by how often the size
  went down in between, even if the status of the statefulset lags behind: without a run that makes it
  smaller there are at most as many that make it larger as replicas are missing, or a single one when
  the recovery is not incremental. The size stays at least one; it does not exceed the requested
  number if the recovery is not incremental, or if the status never counts more pods than the size.
  The server is assumed to answer with the size it stores, which nobody else changes.
\<close>

theorem quorum_runs_bounded:
  assumes "quorum_runs r ts secret key base h u d h'" and "tells_sizes r key base"
    and "1 \<le> size_after r key base h" and "size_after r key base h \<le> spec_Replicas (ts_Spec ts)"
  shows "1 \<le> size_after r key base h' \<and>
    int u \<le> (spec_Replicas (ts_Spec ts) - size_after r key base h) + int d * (spec_Replicas (ts_Spec ts) - 1) \<and>
    (\<not> spec_IncrementalQuorumRecovery (ts_Spec ts) \<longrightarrow> u \<le> d + 1) \<and>
    (\<not> spec_IncrementalQuorumRecovery (ts_Spec ts) \<or> status_within_size r key base \<longrightarrow>
       size_after r key base h' \<le> spec_Replicas (ts_Spec ts))"
  using quorum_runs_sizes [OF assms(1,2) refl assms(3,4)] by (auto split: if_split_asm)

text \<open>One replica of three, a leader, and a server that accepts every update.\<close>

definition growing_world :: Reconciler where
  "growing_world = sample_leader\<lparr>
     api_StatefulSet := quiet_api\<lparr>on_get := \<lambda>h key. Inr ((sample_sts (size_after sample_reconciler key 1 h))\<lparr>
       sts_StatusReplicas := max 0 (min 3 (size_after sample_reconciler key 1 h)), sts_meta := (sample_meta (key_Name key))\<lparr>Namespace := key_Namespace key\<rparr>\<rparr>)\<rparr>,
     api_EndpointSlice := quiet_api\<lparr>on_list := \<lambda>h opts. Inr [\<lparr>es_meta = sample_meta ''s'',
       es_Endpoints = [\<lparr>ep_Addresses = [''a''], ep_TargetRef_Kind = Some ''Pod''\<rparr>]\<rparr>]\<rparr>\<rparr>"

definition sample_three :: TypesenseCluster where
  "sample_three = sample_single\<lparr>ts_Spec := (ts_Spec sample_single)\<lparr>spec_Replicas := 3\<rparr>\<rparr>"

definition run_growing :: "(quorum_result \<times> history) option" where
  "run_growing = ReconcileQuorum growing_world sample_three empty_Secret (stsObjectKey sample_three) []"

lemma run_growing_upgrades:
  "map_option (\<lambda>((c, s, e), h). (c, size_after sample_reconciler (stsObjectKey sample_three) 1 h)) run_growing =
     Some (ConditionReasonQuorumUpgraded, 3)"
  by code_simp

lemma growing_size: "size_after growing_world key n h = size_after sample_reconciler key n h"
proof (induction h rule: rev_induct)
  case (snoc q h)
  have "resized growing_world key h q m = resized sample_reconciler key h q m" for m
    by (cases "(growing_world, key, h, q, m)" rule: resized.cases)
      (simp_all add: growing_world_def sample_reconciler_def quiet_api_def)
  with snoc show ?case by simp
qed simp

lemma growing_world_tells: "tells_sizes growing_world key 1"
  unfolding tells_sizes_def growing_size
  by (simp add: growing_world_def sample_leader_def sample_quorum_def sample_sts_def
      sample_meta_def ObjectKeyFromObject_def min_less_iff_disj)

theorem quorum_runs_bounded_witness:
  "\<exists>h. quorum_runs growing_world sample_three empty_Secret (stsObjectKey sample_three) 1 [] 1 0 h \<and>
     size_after growing_world (stsObjectKey sample_three) 1 h = 3 \<and>
     int 1 \<le> 3 - size_after growing_world (stsObjectKey sample_three) 1 []"
proof -
  let ?k = "stsObjectKey sample_three"
  obtain c s e h where run: "run_growing = Some ((c, s, e), h)" and size: "size_after growing_world ?k 1 h = 3"
    using run_growing_upgrades unfolding growing_size by (cases run_growing) auto
  have ran: "quorum_runs growing_world sample_three empty_Secret ?k 1 [] 1 0 h"
    using quorum_runs.more [OF quorum_runs.none run [unfolded run_growing_def], of 1] size by simp
  have n: "spec_Replicas (ts_Spec sample_three) = 3" by (simp add: sample_three_def)
  from quorum_runs_bounded [OF ran growing_world_tells] n ran size show ?thesis
    by (intro exI [of _ h]) simp
qed

end
