(* ===== verification/Startup.thy ===== *)
theory Startup
  imports Controller
begin

text \<open>
  The process: \<^verbatim>\<open>cmd/main.go\<close>, the watch that \<^verbatim>\<open>SetupWithManager\<close> sets up and the
  group and version of \<^verbatim>\<open>groupversion_info.go\<close>. The libraries that build the manager, the clients
  and the certificate watchers are an environment that answers each call, with an error or without.
\<close>

section \<open>Flags\<close>

record Flags =
  metricsAddr :: string
  probeAddr :: string
  enableLeaderElection :: bool
  secureMetrics :: bool
  webhookCertPath :: string
  webhookCertName :: string
  webhookCertKey :: string
  metricsCertPath :: string
  metricsCertName :: string
  metricsCertKey :: string
  enableHTTP2 :: bool

definition default_flags :: Flags where
  "default_flags = \<lparr>metricsAddr = ''0'', probeAddr = '':8081'', enableLeaderElection = False,
     secureMetrics = True, webhookCertPath = [], webhookCertName = ''tls.crt'', webhookCertKey = ''tls.key'',
     metricsCertPath = [], metricsCertName = ''tls.crt'', metricsCertKey = ''tls.key'', enableHTTP2 = False\<rparr>"

text \<open>
  One argument, as the package \<^verbatim>\<open>flag\<close> splits it into a name and a value (\<^verbatim>\<open>true\<close> for a boolean flag
  without one). The logging library registers flags of its own, which only concern the log; what it
  accepts is the parameter.
\<close>

definition set_flag :: "(string \<Rightarrow> string \<Rightarrow> bool) \<Rightarrow> string \<times> string \<Rightarrow> Flags \<Rightarrow> Flags option" where
  "set_flag zap_flag arg fl = (case arg of (name, v) \<Rightarrow>
     if name = ''metrics-bind-address'' then Some (fl\<lparr>metricsAddr := v\<rparr>)
     else if name = ''health-probe-bind-address'' then Some (fl\<lparr>probeAddr := v\<rparr>)
     else if name = ''leader-elect'' then do { b \<leftarrow> ParseBool v; Some (fl\<lparr>enableLeaderElection := b\<rparr>) }
     else if name = ''metrics-secure'' then do { b \<leftarrow> ParseBool v; Some (fl\<lparr>secureMetrics := b\<rparr>) }
     else if name = ''webhook-cert-path'' then Some (fl\<lparr>webhookCertPath := v\<rparr>)
     else if name = ''webhook-cert-name'' then Some (fl\<lparr>webhookCertName := v\<rparr>)
     else if name = ''webhook-cert-key'' then Some (fl\<lparr>webhookCertKey := v\<rparr>)
     else if name = ''metrics-cert-path'' then Some (fl\<lparr>metricsCertPath := v\<rparr>)
     else if name = ''metrics-cert-name'' then Some (fl\<lparr>metricsCertName := v\<rparr>)
     else if name = ''metrics-cert-key'' then Some (fl\<lparr>metricsCertKey := v\<rparr>)
     else if name = ''enable-http2'' then do { b \<leftarrow> ParseBool v; Some (fl\<lparr>enableHTTP2 := b\<rparr>) }
     else if zap_flag name v then Some fl
     else None)"

fun parse_flags :: "(string \<Rightarrow> string \<Rightarrow> bool) \<Rightarrow> (string \<times> string) list \<Rightarrow> Flags \<Rightarrow> Flags option" where
  "parse_flags zap_flag [] fl = Some fl"
| "parse_flags zap_flag (arg # args) fl = do { fl \<leftarrow> set_flag zap_flag arg fl; parse_flags zap_flag args fl }"

section \<open>Paths\<close>

text \<open>
  \<^verbatim>\<open>filepath.Join\<close>: the elements that are not empty, joined and cleaned. The third argument of
  \<open>clean_elems\<close> holds the elements kept so far, the last first.
\<close>

fun clean_elems :: "bool \<Rightarrow> string list \<Rightarrow> string list \<Rightarrow> string list" where
  "clean_elems rooted [] acc = rev acc"
| "clean_elems rooted (e # es) acc =
     (if e = [] \<or> e = ''.'' then clean_elems rooted es acc
      else if e = ''..'' then
        (case acc of
           [] \<Rightarrow> clean_elems rooted es (if rooted then [] else [e])
         | a # as \<Rightarrow> clean_elems rooted es (if a = ''..'' then e # acc else as))
      else clean_elems rooted es (e # acc))"

definition Clean :: "string \<Rightarrow> string" where
  "Clean path =
     (let rooted = prefix ''/'' path;
          body = Join (clean_elems rooted (Split path (CHR ''/'')) []) ''/'';
          result = (if rooted then ''/'' @ body else body)
      in if result = [] then ''.'' else result)"

definition path_Join :: "string \<Rightarrow> string \<Rightarrow> string" where
  "path_Join a b =
     (let elems = filter (\<lambda>e. e \<noteq> []) [a, b] in if elems = [] then [] else Clean (Join elems ''/''))"

section \<open>TLS\<close>

text \<open>The functions that change a TLS configuration, and the configuration they are applied to.\<close>

type_synonym certificate = "string \<times> string" \<comment> \<open>the files of the certificate and of its key\<close>

datatype tls_option = DisableHTTP2 | GetCertificate certificate

record TlsConfig =
  NextProtos :: "string list"
  Certificate :: "certificate option"

fun apply_option :: "tls_option \<Rightarrow> TlsConfig \<Rightarrow> TlsConfig" where
  "apply_option DisableHTTP2 c = c\<lparr>NextProtos := [''http/1.1'']\<rparr>"
| "apply_option (GetCertificate w) c = c\<lparr>Certificate := Some w\<rparr>"

definition configure :: "tls_option list \<Rightarrow> TlsConfig \<Rightarrow> TlsConfig" where
  "configure opts c = fold apply_option opts c"

section \<open>The calls of main\<close>

record MetricsOptions =
  BindAddress :: string
  SecureServing :: bool
  MetricsTLSOpts :: "tls_option list"
  FilterProvider :: "string option"

record ManagerOptions =
  Metrics :: MetricsOptions
  WebhookTLSOpts :: "tls_option list"
  HealthProbeBindAddress :: string
  LeaderElection :: bool
  LeaderElectionID :: string

datatype startup_call =
    AddToScheme string
  | NewCertWatcher certificate
  | GetConfig
  | NewManager ManagerOptions
  | NewClientset
  | StatFile string
  | SetupWithManager string string bool \<comment> \<open>controller, event recorder, in the cluster\<close>
  | AddWatcher certificate
  | AddHealthzCheck string
  | AddReadyzCheck string
  | StartManager

type_synonym environment = "startup_call list \<Rightarrow> startup_call \<Rightarrow> error option"

datatype exit_status = Panicked | Exited nat | Returned

type_synonym process = "exit_status \<times> startup_call list"

text \<open>A call whose error ends the process: \<^verbatim>\<open>os.Exit(1)\<close>, or the status given.\<close>

definition checked ::
  "environment \<Rightarrow> exit_status \<Rightarrow> startup_call \<Rightarrow> startup_call list \<Rightarrow> (startup_call list \<Rightarrow> process) \<Rightarrow> process"
  where
  "checked env st c t k = (case env t c of Some err \<Rightarrow> (st, t @ [c]) | None \<Rightarrow> k (t @ [c]))"

definition GroupVersion :: "string \<times> string" where
  "GroupVersion = (''ts.opentelekomcloud.com'', ''v1alpha1'')"

text \<open>The schemes of \<^verbatim>\<open>init\<close>; \<^verbatim>\<open>utilruntime.Must\<close> panics on an error.\<close>

definition schemes :: "string list" where
  "schemes = [''k8s.io/client-go'', ''gateway.networking.k8s.io/v1'', ''gateway.networking.k8s.io/v1beta1'',
     ''monitoring.coreos.com/v1'', ''discovery.k8s.io/v1'', fst GroupVersion @ ''/'' @ snd GroupVersion]"

fun init_schemes ::
  "environment \<Rightarrow> string list \<Rightarrow> startup_call list \<Rightarrow> (startup_call list \<Rightarrow> process) \<Rightarrow> process" where
  "init_schemes env [] t k = k t"
| "init_schemes env (g # gs) t k = checked env Panicked (AddToScheme g) t (\<lambda>t. init_schemes env gs t k)"

definition tokenFile :: string where
  "tokenFile = ''/var/run/secrets/kubernetes.io/serviceaccount/token''"

definition isInCluster :: "environment \<Rightarrow> startup_call list \<Rightarrow> bool \<times> startup_call list" where
  "isInCluster env t = (env t (StatFile tokenFile) = None, t @ [StatFile tokenFile])"

text \<open>A certificate watcher, if a path is given (lines 128 to 145 and 183 to 200).\<close>

definition cert_watcher ::
  "environment \<Rightarrow> string \<Rightarrow> string \<Rightarrow> string \<Rightarrow> startup_call list
     \<Rightarrow> (certificate option \<Rightarrow> startup_call list \<Rightarrow> process) \<Rightarrow> process" where
  "cert_watcher env path name key t k =
     (if length path > 0 then
        (let w = (path_Join path name, path_Join path key)
         in checked env (Exited 1) (NewCertWatcher w) t (k (Some w)))
      else k None t)"

definition with_certificate :: "certificate option \<Rightarrow> tls_option list \<Rightarrow> tls_option list" where
  "with_certificate w opts = (case w of None \<Rightarrow> opts | Some c \<Rightarrow> opts @ [GetCertificate c])"

definition tls_options :: "Flags \<Rightarrow> tls_option list" where
  "tls_options fl = (if \<not> enableHTTP2 fl then [DisableHTTP2] else [])"

definition metrics_options :: "Flags \<Rightarrow> certificate option \<Rightarrow> MetricsOptions" where
  "metrics_options fl w =
     \<lparr>BindAddress = metricsAddr fl, SecureServing = secureMetrics fl,
      MetricsTLSOpts = with_certificate w (tls_options fl),
      FilterProvider = (if secureMetrics fl then Some ''WithAuthenticationAndAuthorization'' else None)\<rparr>"

definition manager_options :: "Flags \<Rightarrow> certificate option \<Rightarrow> certificate option \<Rightarrow> ManagerOptions" where
  "manager_options fl webhook metrics =
     \<lparr>Metrics = metrics_options fl metrics,
      WebhookTLSOpts = with_certificate webhook (tls_options fl),
      HealthProbeBindAddress = probeAddr fl, LeaderElection = enableLeaderElection fl,
      LeaderElectionID = ''9cf0818f.opentelekomcloud.com''\<rparr>"

definition add_watcher ::
  "environment \<Rightarrow> certificate option \<Rightarrow> startup_call list \<Rightarrow> (startup_call list \<Rightarrow> process) \<Rightarrow> process" where
  "add_watcher env w t k =
     (case w of None \<Rightarrow> k t | Some c \<Rightarrow> checked env (Exited 1) (AddWatcher c) t k)"

text \<open>The watchers, the checks and the start (lines 252 to 281).\<close>

definition start_manager ::
  "environment \<Rightarrow> certificate option \<Rightarrow> certificate option \<Rightarrow> startup_call list \<Rightarrow> process" where
  "start_manager env webhook metrics t =
     add_watcher env metrics t (\<lambda>t.
     add_watcher env webhook t (\<lambda>t.
     checked env (Exited 1) (AddHealthzCheck ''healthz'') t (\<lambda>t.
     checked env (Exited 1) (AddReadyzCheck ''readyz'') t (\<lambda>t.
     checked env (Exited 1) StartManager t (\<lambda>t. (Returned, t))))))"

text \<open>The manager and the reconciler (lines 202 to 249).\<close>

definition setup_manager ::
  "environment \<Rightarrow> Flags \<Rightarrow> certificate option \<Rightarrow> certificate option \<Rightarrow> startup_call list \<Rightarrow> process" where
  "setup_manager env fl webhook metrics t =
     checked env (Exited 1) GetConfig t (\<lambda>t.
     checked env (Exited 1) (NewManager (manager_options fl webhook metrics)) t (\<lambda>t.
     checked env (Exited 1) NewClientset t (\<lambda>t.
     case isInCluster env t of
       (inCluster, t) \<Rightarrow>
         checked env (Exited 1)
           (SetupWithManager ''typesense-kubernetes-operator'' ''typesensecluster-controller'' inCluster) t
           (start_manager env webhook metrics))))"

definition main :: "environment \<Rightarrow> Flags \<Rightarrow> startup_call list \<Rightarrow> process" where
  "main env fl t =
     cert_watcher env (webhookCertPath fl) (webhookCertName fl) (webhookCertKey fl) t (\<lambda>webhook t.
     cert_watcher env (metricsCertPath fl) (metricsCertName fl) (metricsCertKey fl) t (\<lambda>metrics t.
     setup_manager env fl webhook metrics t))"

text \<open>The process: the initialisation of the package, the flags (an error ends it with status 2), and main.\<close>

definition run_process :: "environment \<Rightarrow> (string \<Rightarrow> string \<Rightarrow> bool) \<Rightarrow> (string \<times> string) list \<Rightarrow> process" where
  "run_process env zap_flag args =
     init_schemes env schemes [] (\<lambda>t.
       case parse_flags zap_flag args default_flags of
         None \<Rightarrow> (Exited 2, t)
       | Some fl \<Rightarrow> main env fl t)"

section \<open>The watch\<close>

text \<open>
  The events of the cluster objects that lead to a reconciliation: \<^verbatim>\<open>eventFilters\<close>. A
  predicate without a function for a kind of event lets it pass.
\<close>

datatype watch_event = CreateEvent | UpdateEvent int int | DeleteEvent bool | GenericEvent

fun eventFilters :: "watch_event \<Rightarrow> bool" where
  "eventFilters (UpdateEvent objectOld objectNew) = UpdateFunc objectOld objectNew"
| "eventFilters (DeleteEvent deleteStateUnknown) = DeleteFunc deleteStateUnknown"
| "eventFilters _ = True"

section \<open>The order of the calls\<close>

text \<open>
  A plan: calls in order, each with the status its error ends the process with, or without one if
  the error is only taken note of. A plan stops at the first call that fails.
\<close>

type_synonym plan = "(exit_status option \<times> startup_call) list"

fun run_plan :: "environment \<Rightarrow> plan \<Rightarrow> startup_call list \<Rightarrow> process" where
  "run_plan env [] t = (Returned, t)"
| "run_plan env ((Some st, c) # cs) t = checked env st c t (run_plan env cs)"
| "run_plan env ((None, c) # cs) t = run_plan env cs (t @ [c])"

text \<open>All calls of a plan that count succeed.\<close>

fun passes :: "environment \<Rightarrow> startup_call list \<Rightarrow> plan \<Rightarrow> bool" where
  "passes env t [] = True"
| "passes env t ((st, c) # cs) \<longleftrightarrow> (st \<noteq> None \<longrightarrow> env t c = None) \<and> passes env (t @ [c]) cs"

definition watcher_files :: "string \<Rightarrow> string \<Rightarrow> string \<Rightarrow> certificate option" where
  "watcher_files path name key = (if path = [] then None else Some (path_Join path name, path_Join path key))"

definition webhook_files :: "Flags \<Rightarrow> certificate option" where
  "webhook_files fl = watcher_files (webhookCertPath fl) (webhookCertName fl) (webhookCertKey fl)"

definition metrics_files :: "Flags \<Rightarrow> certificate option" where
  "metrics_files fl = watcher_files (metricsCertPath fl) (metricsCertName fl) (metricsCertKey fl)"

definition opt_list :: "'a option \<Rightarrow> 'a list" where
  "opt_list x = (case x of None \<Rightarrow> [] | Some y \<Rightarrow> [y])"

definition fatal :: "startup_call list \<Rightarrow> plan" where
  "fatal cs = map (\<lambda>c. (Some (Exited 1), c)) cs"

text \<open>From the configuration on, with the watchers that were made and what the test for a cluster found.\<close>

definition manager_plan :: "Flags \<Rightarrow> certificate option \<Rightarrow> certificate option \<Rightarrow> bool \<Rightarrow> plan" where
  "manager_plan fl webhook metrics inCluster =
     fatal [GetConfig, NewManager (manager_options fl webhook metrics), NewClientset] @
     [(None, StatFile tokenFile)] @
     fatal ([SetupWithManager ''typesense-kubernetes-operator'' ''typesensecluster-controller'' inCluster] @
       map AddWatcher (opt_list metrics @ opt_list webhook) @
       [AddHealthzCheck ''healthz'', AddReadyzCheck ''readyz'', StartManager])"

definition main_plan :: "Flags \<Rightarrow> bool \<Rightarrow> plan" where
  "main_plan fl inCluster =
     fatal (map NewCertWatcher (opt_list (webhook_files fl) @ opt_list (metrics_files fl))) @
     manager_plan fl (webhook_files fl) (metrics_files fl) inCluster"

definition process_plan :: "Flags \<Rightarrow> bool \<Rightarrow> plan" where
  "process_plan fl inCluster = map (\<lambda>g. (Some Panicked, AddToScheme g)) schemes @ main_plan fl inCluster"

lemma run_plan_cases:
  assumes "run_plan env cs t = (st, t')"
  shows "st = Returned \<and> t' = t @ map snd cs \<and> passes env t cs \<or>
    (\<exists>pre c post. cs = pre @ (Some st, c) # post \<and> passes env t pre \<and> env (t @ map snd pre) c \<noteq> None \<and>
       t' = t @ map snd pre @ [c])"
  using assms
proof (induction env cs t rule: run_plan.induct)
  case (2 env st0 c cs t)
  show ?case
  proof (cases "env t c")
    case None
    with "2.prems" have "run_plan env cs (t @ [c]) = (st, t')" by (simp add: checked_def)
    from "2.IH" [OF this] show ?thesis
    proof (elim disjE exE conjE)
      fix pre d post
      assume "cs = pre @ (Some st, d) # post" "passes env (t @ [c]) pre"
        "env ((t @ [c]) @ map snd pre) d \<noteq> None" "t' = (t @ [c]) @ map snd pre @ [d]"
      with None show ?thesis by (intro disjI2 exI [of _ "(Some st0, c) # pre"] exI [of _ d] exI [of _ post]) simp
    qed (use None in simp)
  next
    case (Some err)
    with "2.prems" show ?thesis by (intro disjI2 exI [of _ "[]"]) (simp add: checked_def)
  qed
next
  case (3 env c cs t)
  from "3.prems" have "run_plan env cs (t @ [c]) = (st, t')" by simp
  from "3.IH" [OF this] show ?case
  proof (elim disjE exE conjE)
    fix pre d post
    assume "cs = pre @ (Some st, d) # post" "passes env (t @ [c]) pre"
      "env ((t @ [c]) @ map snd pre) d \<noteq> None" "t' = (t @ [c]) @ map snd pre @ [d]"
    then show ?thesis by (intro disjI2 exI [of _ "(None, c) # pre"] exI [of _ d] exI [of _ post]) simp
  qed simp
qed simp

lemma run_plan_checked: "run_plan env ((Some st, c) # cs) = (\<lambda>t. checked env st c t (run_plan env cs))"
  by (rule ext) simp

lemma run_plan_Nil: "run_plan env [] = Pair Returned"
  by (rule ext) simp

lemma start_manager_plan:
  "start_manager env webhook metrics = run_plan env (fatal (map AddWatcher (opt_list metrics @ opt_list webhook) @
     [AddHealthzCheck ''healthz'', AddReadyzCheck ''readyz'', StartManager]))"
  by (rule ext)
    (simp add: start_manager_def add_watcher_def fatal_def opt_list_def run_plan_checked run_plan_Nil split: option.split)

lemma setup_manager_plan:
  "\<exists>b. setup_manager env fl webhook metrics t = run_plan env (manager_plan fl webhook metrics b) t"
  by (rule exI [of _ "env (t @ [GetConfig, NewManager (manager_options fl webhook metrics), NewClientset])
      (StatFile tokenFile) = None"])
    (simp add: setup_manager_def manager_plan_def isInCluster_def start_manager_plan fatal_def checked_def
      split: option.split)

lemma main_runs_plan: "\<exists>b. main env fl t = run_plan env (main_plan fl b) t"
proof -
  obtain b where "setup_manager env fl (webhook_files fl) (metrics_files fl)
      (t @ map NewCertWatcher (opt_list (webhook_files fl) @ opt_list (metrics_files fl))) =
    run_plan env (manager_plan fl (webhook_files fl) (metrics_files fl) b)
      (t @ map NewCertWatcher (opt_list (webhook_files fl) @ opt_list (metrics_files fl)))"
    using setup_manager_plan by blast
  then have "main env fl t = run_plan env (main_plan fl b) t"
    by (cases "webhookCertPath fl = []"; cases "metricsCertPath fl = []")
      (simp_all add: main_def main_plan_def cert_watcher_def watcher_files_def webhook_files_def
        metrics_files_def opt_list_def fatal_def checked_def Let_def split: option.split)
  then show ?thesis ..
qed

lemma init_schemes_plan:
  "init_schemes env gs t k = (case run_plan env (map (\<lambda>g. (Some Panicked, AddToScheme g)) gs) t of
     (Returned, t) \<Rightarrow> k t | (st, t) \<Rightarrow> (st, t))"
  by (induction gs arbitrary: t) (simp_all add: checked_def split: option.split)

lemma run_plan_append:
  assumes "\<forall>x \<in> set xs. fst x \<noteq> Some Returned"
  shows "run_plan env (xs @ ys) t =
    (case run_plan env xs t of (Returned, t) \<Rightarrow> run_plan env ys t | (st, t) \<Rightarrow> (st, t))"
  using assms
  by (induction env xs t rule: run_plan.induct) (auto simp: checked_def split: option.split exit_status.split)

lemma run_process_runs_plan:
  assumes "parse_flags zap_flag args default_flags = Some fl"
  shows "\<exists>b. run_process env zap_flag args = run_plan env (process_plan fl b) []"
proof -
  let ?s = "map (\<lambda>g. (Some Panicked, AddToScheme g)) schemes"
  obtain st t where s: "run_plan env ?s [] = (st, t)" by fastforce
  obtain b where "main env fl t = run_plan env (main_plan fl b) t" using main_runs_plan by blast
  then have "run_process env zap_flag args = run_plan env (process_plan fl b) []"
    using s assms
    by (auto simp: run_process_def process_plan_def init_schemes_plan run_plan_append split: exit_status.split)
  then show ?thesis ..
qed

section \<open>Properties\<close>

text \<open>
  C13: the process makes the calls of its plan in order and stops at the first one that fails: it panics
  if a scheme cannot be registered and exits with status 1 otherwise, and it returns only if every call
  succeeded. So the manager is started only after the schemes, the options, the controller, the
  certificate watchers and both checks are in place.
\<close>

theorem run_process_ordered:
  assumes "parse_flags zap_flag args default_flags = Some fl"
    and "run_process env zap_flag args = (st, t)"
  shows "\<exists>b. st = Returned \<and> t = map snd (process_plan fl b) \<and> passes env [] (process_plan fl b) \<or>
    (\<exists>pre c post. process_plan fl b = pre @ (Some st, c) # post \<and> st \<in> {Panicked, Exited 1} \<and>
       passes env [] pre \<and> env (map snd pre) c \<noteq> None \<and> t = map snd pre @ [c])"
proof -
  obtain b where run: "run_plan env (process_plan fl b) [] = (st, t)"
    using run_process_runs_plan [OF assms(1)] assms(2) by metis
  have status: "st' \<in> {Panicked, Exited 1}" if "process_plan fl b = pre @ (Some st', c) # post" for st' c pre post
  proof -
    have "(Some st', c) \<in> set (process_plan fl b)" using that by simp
    then show ?thesis by (auto simp: process_plan_def main_plan_def manager_plan_def fatal_def)
  qed
  from run_plan_cases [OF run] show ?thesis
  proof (elim disjE exE conjE)
    fix pre c post
    assume "process_plan fl b = pre @ (Some st, c) # post" "passes env [] pre" "env ([] @ map snd pre) c \<noteq> None"
      "t = [] @ map snd pre @ [c]"
    with status show ?thesis by (intro exI [of _ b] disjI2 exI [of _ pre] exI [of _ c] exI [of _ post]) simp
  qed (auto intro!: exI [of _ b])
qed

definition no_certificates :: environment where
  "no_certificates t c = (case c of NewCertWatcher w \<Rightarrow> Some (GoError ''no such file'') | _ \<Rightarrow> None)"

theorem run_process_ordered_witness:
  "run_process no_certificates (\<lambda>_ _. False) [(''metrics-cert-path'', ''/certs/'')] =
     (Exited 1, map AddToScheme schemes @ [NewCertWatcher (''/certs/tls.crt'', ''/certs/tls.key'')]) \<and>
   (\<exists>b pre c post. process_plan (default_flags\<lparr>metricsCertPath := ''/certs/''\<rparr>) b = pre @ (Some (Exited 1), c) # post \<and>
      no_certificates (map snd pre) c \<noteq> None \<and>
      map AddToScheme schemes @ [NewCertWatcher (''/certs/tls.crt'', ''/certs/tls.key'')] = map snd pre @ [c])"
proof -
  have flags: "parse_flags (\<lambda>_ _. False) [(''metrics-cert-path'', ''/certs/'')] default_flags =
      Some (default_flags\<lparr>metricsCertPath := ''/certs/''\<rparr>)"
    by code_simp
  have run: "run_process no_certificates (\<lambda>_ _. False) [(''metrics-cert-path'', ''/certs/'')] =
      (Exited 1, map AddToScheme schemes @ [NewCertWatcher (''/certs/tls.crt'', ''/certs/tls.key'')])"
    by code_simp
  from run_process_ordered [OF flags run] run show ?thesis by fastforce
qed

text \<open>
  C14: the servers a process configures. Unless HTTP/2 is enabled by its flag, the metrics server and the
  webhook server offer HTTP/1.1 only, whatever their configuration was; metrics that are served over
  TLS are served behind authentication and authorisation; and a server has the certificate its flags
  name, if they name one.
\<close>

theorem run_process_hardened:
  assumes "parse_flags zap_flag args default_flags = Some fl"
    and "run_process env zap_flag args = (st, t)" and "NewManager opts \<in> set t"
  shows "(\<not> enableHTTP2 fl \<longrightarrow>
      NextProtos (configure (MetricsTLSOpts (Metrics opts)) c) = [''http/1.1''] \<and>
      NextProtos (configure (WebhookTLSOpts opts) c) = [''http/1.1'']) \<and>
    (SecureServing (Metrics opts) \<longrightarrow> FilterProvider (Metrics opts) \<noteq> None) \<and>
    (metricsCertPath fl \<noteq> [] \<longrightarrow> Certificate (configure (MetricsTLSOpts (Metrics opts)) c) = metrics_files fl) \<and>
    (webhookCertPath fl \<noteq> [] \<longrightarrow> Certificate (configure (WebhookTLSOpts opts) c) = webhook_files fl)"
proof -
  obtain b where run: "run_plan env (process_plan fl b) [] = (st, t)"
    using run_process_runs_plan [OF assms(1)] assms(2) by metis
  from run_plan_cases [OF run] have "set t \<subseteq> snd ` set (process_plan fl b)" by auto
  with assms(3) have "opts = manager_options fl (webhook_files fl) (metrics_files fl)"
    by (auto simp: process_plan_def main_plan_def manager_plan_def fatal_def)
  then show ?thesis
    by (auto simp: manager_options_def metrics_options_def with_certificate_def tls_options_def configure_def
        metrics_files_def webhook_files_def watcher_files_def)
qed

theorem run_process_hardened_witness:
  "\<exists>st t opts. run_process (\<lambda>_ _. None) (\<lambda>_ _. False) [(''leader-elect'', ''true'')] = (st, t) \<and>
     NewManager opts \<in> set t \<and> LeaderElection opts \<and>
     NextProtos (configure (WebhookTLSOpts opts) \<lparr>NextProtos = [''h2''], Certificate = None\<rparr>) = [''http/1.1'']"
proof -
  let ?fl = "default_flags\<lparr>enableLeaderElection := True\<rparr>" and ?o = "\<lambda>_ _. None" and ?z = "\<lambda>_ _. False"
  let ?opts = "manager_options ?fl None None"
  have flags: "parse_flags ?z [(''leader-elect'', ''true'')] default_flags = Some ?fl" by code_simp
  obtain st t where run: "run_process ?o ?z [(''leader-elect'', ''true'')] = (st, t)" by fastforce
  have "list_ex (\<lambda>c. c = NewManager ?opts) (snd (run_process ?o ?z [(''leader-elect'', ''true'')]))"
    by code_simp
  then have "NewManager ?opts \<in> set t" using run by (auto simp: list_ex_iff)
  moreover have "LeaderElection ?opts" "\<not> enableHTTP2 ?fl"
    by (simp_all add: manager_options_def default_flags_def)
  ultimately show ?thesis
    using run run_process_hardened [OF flags run, of ?opts "\<lparr>NextProtos = [''h2''], Certificate = None\<rparr>"] by blast
qed

end
