(* ===== verification/StatefulSet_Correct.thy ===== *)
theory StatefulSet_Correct
  imports StatefulSet_Reconcile Sample_Env
begin

text \<open>
  The correctness of the statefulset reconciliation: how the object that is built fits the other
  objects of the cluster, that an update is not followed by another one, when nothing is written,
  and what the code does with combinations of changes it does not separate.
\<close>

text \<open>A container that finds a file of the volume at the path its variable for the nodes names.\<close>

definition reads_nodes_file :: "Container \<Rightarrow> string \<Rightarrow> string \<Rightarrow> bool" where
  "reads_nodes_file c volume file \<longleftrightarrow>
     (\<exists>m \<in> set (c_VolumeMounts c). vm_Name m = volume \<and> vm_SubPath m = [] \<and>
        (\<exists>e \<in> set (c_Env c). env_Name e = ''TYPESENSE_NODES'' \<and> env_Value e = vm_MountPath m @ ''/'' @ file))"

text \<open>What is hashed for the annotation of the pod template.\<close>

lemma buildStatefulSetHash_InrE:
  assumes "buildStatefulSetHash r obj ts h = Some (Inr x, h')" and "pt_spec (sts_Template obj) = pod_spec ts"
  obtains n additional where
    "ext_Hash r \<lparr>StsSpecAnnotations = Annotations (pt_meta (sts_Template obj)), PodSpecTemplate = pod_spec ts,
       TypesenseContainerResources = GetResources (ts_Spec ts),
       MetricsContainerResources = GetMetricsExporterResources (ts_Spec ts),
       HealthcheckContainerResources = GetHealthCheckSidecarResources (ts_Spec ts),
       AdditionalConfigurationData = additional\<rparr> = Inr n"
    "additional_configuration r ts (GetAdditionalServerConfiguration (ts_Spec ts)) fmempty h = (Inr additional, h')"
    "x = ext_Sha256Hex r (Itoa (int n))"
  using assms
  by (auto simp: buildStatefulSetHash_def Let_def pod_spec_containers index_def typesense_container_def
      metrics_container_def healthcheck_container_def split: sum.split_asm prod.split_asm if_split_asm)

text \<open>
  C23: The statefulset that is built fits the other objects: its selector is part of the labels of its
  pods, it is governed by the headless service, every pod has the raft readiness gate, every mount of
  a container names a volume of the pod, the data volume is claimed from the only claim template, all
  three containers take the admin key from the secret that the reconciliation reads or creates, and it
  asks for the replicas of the specification. The nodes list config map is a volume that the container
  of the server and the one of the health check mount: the server reads its nodes from the file of the key
  \<^verbatim>\<open>nodes\<close>, the health check from that of the key \<^verbatim>\<open>fallback\<close>. The pod template
  carries the hash of the pod specification, of the other annotations of the template, of the
  resources of the containers and of the additional configuration.
\<close>

theorem buildStatefulSet_wiring:
  assumes "buildStatefulSet r (stsObjectKey ts) ts h = Some (Inr sts, h')"
  shows "sts_Replicas sts = Some (spec_Replicas (ts_Spec ts)) \<and>
    ObjectKeyFromObject (sts_meta sts) = stsObjectKey ts \<and>
    sts_ServiceName sts = ClusterHeadlessService (ts_Name ts) \<and>
    (\<exists>sel. sts_Selector sts = Some sel \<and> fmsubset sel (Labels (pt_meta (sts_Template sts)))) \<and>
    ps_ReadinessGates (pt_spec (sts_Template sts)) = [QuorumReadinessGateCondition] \<and>
    (\<forall>c \<in> set (ps_Containers (pt_spec (sts_Template sts))). \<forall>m \<in> set (c_VolumeMounts c).
       vm_Name m \<in> vol_Name ` set (ps_Volumes (pt_spec (sts_Template sts)))) \<and>
    (\<exists>claim. sts_VolumeClaimTemplates sts = [claim] \<and>
       (\<exists>v \<in> set (ps_Volumes (pt_spec (sts_Template sts))). vol_Source v = PersistentVolumeClaim (pvc_Name claim))) \<and>
    list_all (\<lambda>c. \<exists>e \<in> set (c_Env c). env_Name e = ''TYPESENSE_API_KEY'' \<and>
        env_ValueFrom e = Some (SecretKeyRef ClusterAdminApiKeySecretKeyName
          (key_Name (getAdminApiKeyObjectKey ts))))
      (ps_Containers (pt_spec (sts_Template sts))) \<and>
    (\<exists>v \<in> set (ps_Volumes (pt_spec (sts_Template sts))).
       vol_Source v = ConfigMapVolume (key_Name (nodesConfigMapKey ts)) None \<and>
       (\<exists>server metrics health. ps_Containers (pt_spec (sts_Template sts)) = [server, metrics, health] \<and>
          reads_nodes_file server (vol_Name v) ''nodes'' \<and> reads_nodes_file health (vol_Name v) ''fallback'')) \<and>
    (\<exists>annotations additional g n x.
       Annotations (pt_meta (sts_Template sts)) = fmupd hashAnnotationKey x annotations \<and>
       prefix h g \<and>
       additional_configuration r ts (GetAdditionalServerConfiguration (ts_Spec ts)) fmempty g = (Inr additional, h') \<and>
       ext_Hash r \<lparr>StsSpecAnnotations = annotations, PodSpecTemplate = pt_spec (sts_Template sts),
         TypesenseContainerResources = GetResources (ts_Spec ts),
         MetricsContainerResources = GetMetricsExporterResources (ts_Spec ts),
         HealthcheckContainerResources = GetHealthCheckSidecarResources (ts_Spec ts),
         AdditionalConfigurationData = additional\<rparr> = Inr n \<and>
       x = ext_Sha256Hex r (Itoa (int n)))"
proof -
  note f = buildStatefulSet_fields [OF assms]
  then obtain a where "pt_meta (sts_Template sts) = getObjectMeta ts (Some (key_Name (stsObjectKey ts))) a"
    by blast
  then have labels: "fmsubset (getLabels ts) (Labels (pt_meta (sts_Template sts)))"
    by (auto simp: fmsubset_alt_def fmpred_iff getLabels_selects)
  from assms have claim: "\<exists>claim. sts_VolumeClaimTemplates sts = [claim] \<and> pvc_Name claim = ''data''"
    by (rule buildStatefulSet_InrE) (auto simp: statefulset_object_def claim_templates_def Let_def)
  have nodes: "reads_nodes_file (typesense_container ts) ''nodeslist'' ''nodes''"
    "reads_nodes_file (healthcheck_container ts) ''nodeslist'' ''fallback''"
    by (simp_all add: reads_nodes_file_def typesense_container_def healthcheck_container_def mount_def
        env_value_def env_from_def api_key_env_def Let_def)
  have hash: "\<exists>annotations additional g n x.
       Annotations (pt_meta (sts_Template sts)) = fmupd hashAnnotationKey x annotations \<and>
       prefix h g \<and>
       additional_configuration r ts (GetAdditionalServerConfiguration (ts_Spec ts)) fmempty g = (Inr additional, h') \<and>
       ext_Hash r \<lparr>StsSpecAnnotations = annotations, PodSpecTemplate = pod_spec ts,
         TypesenseContainerResources = GetResources (ts_Spec ts),
         MetricsContainerResources = GetMetricsExporterResources (ts_Spec ts),
         HealthcheckContainerResources = GetHealthCheckSidecarResources (ts_Spec ts),
         AdditionalConfigurationData = additional\<rparr> = Inr n \<and>
       x = ext_Sha256Hex r (Itoa (int n))"
    using assms
  proof (cases rule: buildStatefulSet_InrE)
    case (1 storage rd wr x h1 obj)
    have "pt_spec (sts_Template obj) = pod_spec ts" using 1(1,3) by (auto simp: statefulset_object_def Let_def)
    moreover have "prefix h h1" using emits_prefix [OF getHealthyLagThresholds_reads [OF 1(2)]] .
    ultimately show ?thesis using 1(5) by (elim buildStatefulSetHash_InrE [OF 1(4)]) auto
  qed
  have spec: "pt_spec (sts_Template sts) = pod_spec ts" using f by simp
  have volumes: "\<exists>v \<in> set (ps_Volumes (pod_spec ts)). vol_Source v = ConfigMapVolume (key_Name (nodesConfigMapKey ts)) None \<and>
       (\<exists>server metrics health. ps_Containers (pod_spec ts) = [server, metrics, health] \<and>
          reads_nodes_file server (vol_Name v) ''nodes'' \<and> reads_nodes_file health (vol_Name v) ''fallback'')"
    using nodes by (simp add: pod_spec_def pod_volumes_def nodesConfigMapKey_def Let_def)
  show ?thesis
    unfolding spec
    by (intro conjI, insert f labels claim volumes hash)
      (auto simp: ObjectKeyFromObject_def stsObjectKey_def pod_spec_def pod_volumes_def
        mount_def Let_def typesense_container_def metrics_container_def healthcheck_container_def api_key_env_def env_from_def)
qed

definition sample_built :: "((error + StatefulSet) \<times> history) option" where
  "sample_built = buildStatefulSet sample_reconciler (stsObjectKey sample_ts) sample_ts []"

lemma sample_ts_plain:
  "spec_AdditionalServerConfiguration (ts_Spec sample_ts) = None"
  "spec_Storage (ts_Spec sample_ts) = Some (GetStorage sample_spec)"
  "ext_Hash sample_reconciler i = Inr 0" "ext_Sha256Hex sample_reconciler s = s"
  by (simp_all add: sample_ts_def sample_spec_def sample_reconciler_def GetStorage_def)

lemma sample_built_ok: "\<exists>sts h. sample_built = Some (Inr sts, h)"
  using buildStatefulSet_plain [OF sample_ts_plain(1,2,3)] unfolding sample_built_def by blast

theorem buildStatefulSet_wiring_witness:
  "\<exists>sts h. sample_built = Some (Inr sts, h) \<and> sts_Replicas sts = Some (spec_Replicas (ts_Spec sample_ts)) \<and>
     (\<exists>sel. sts_Selector sts = Some sel \<and> fmsubset sel (Labels (pt_meta (sts_Template sts))))"
  using sample_built_ok buildStatefulSet_wiring [of sample_reconciler sample_ts "[]"]
  unfolding sample_built_def by blast

text \<open>
  C24: An update settles: when the statefulset has been replaced by the desired one (with the time of
  the update in its pod template), the next comparison with the same desired object finds nothing to
  update and nothing to scale, and neither does the check for emergency updates. The annotations the
  user asks for must not be among those that the comparison ignores.
\<close>

theorem updateStatefulSet_settles:
  assumes "buildStatefulSet r (stsObjectKey ts) ts h = Some (Inr desired, h')"
    and "getConditionReady ts = Some (Some c)"
    and "keeps_annotations (rancherDomainAnnotationKey #
          spec_IgnoreAnnotationsFromExternalMutations (ts_Spec ts)) (Annotations (sts_meta desired))"
    and "keeps_annotations (restartPodsAnnotationKey # rancherDomainAnnotationKey #
          spec_IgnoreAnnotationsFromExternalMutations (ts_Spec ts))
          (Annotations (pt_meta (sts_Template desired)))"
  shows "shouldUpdateStatefulSet (update_object sts desired now) (Some desired) ts = Some (False, False, []) \<and>
    shouldEmergencyUpdateStatefulSet (update_object sts desired now) ts = Some False"
proof -
  let ?new = "update_object sts desired now" and ?a = "Annotations (pt_meta (sts_Template desired))"
  note f = buildStatefulSet_fields [OF assms(1)]
  have spec: "pt_spec (sts_Template ?new) = pod_spec ts" and n: "sts_Replicas ?new = Some (spec_Replicas (ts_Spec ts))"
    and meta: "Annotations (sts_meta ?new) = Annotations (sts_meta desired)"
    using f by (simp_all add: update_object_def Let_def)
  have ne: "hashAnnotationKey \<noteq> restartPodsAnnotationKey" by (simp add: annotation_key_defs)
  have "fmupd hashAnnotationKey (lookup ?a hashAnnotationKey) (fmupd restartPodsAnnotationKey now ?a) =
      fmupd restartPodsAnnotationKey now ?a"
    using f ne by (intro fmap_ext) auto
  then have ann: "Annotations (pt_meta (sts_Template ?new)) = fmupd restartPodsAnnotationKey now ?a"
    by (simp add: update_object_def Let_def)
  have r: "replicas_changed n ts c \<longleftrightarrow> n \<noteq> spec_Replicas (ts_Spec ts)" for n
    by (auto simp: replicas_changed_def reason_defs)
  have "shouldUpdateStatefulSet ?new (Some desired) ts = Some (False, False, [])"
    using shouldUpdateStatefulSet_same [OF assms(2) spec n, of desired]
      filterMap_keeps [OF assms(3)] filterMap_restarted [OF assms(4)] ne
    by (simp add: meta ann trigger_if_def)
  moreover have "shouldEmergencyUpdateStatefulSet ?new ts = Some False"
    using assms(2) n
    by (simp add: shouldEmergencyUpdateStatefulSet_def Let_def spec r pod_spec_def index_def
        typesense_container_def metrics_container_def healthcheck_container_def)
  ultimately show ?thesis ..
qed

lemma own_annotations_kept:
  "list_all (\<lambda>k. \<not> list_ex (\<lambda>f. Contains k f) [restartPodsAnnotationKey, rancherDomainAnnotationKey])
     [hashAnnotationKey, writeLagAnnotationKey, readLagAnnotationKey]"
  by code_simp

theorem updateStatefulSet_settles_witness:
  "\<exists>desired h. sample_built = Some (Inr desired, h) \<and>
     shouldUpdateStatefulSet (update_object (sample_sts 1) desired ''now'') (Some desired) sample_ts =
       Some (False, False, [])"
proof -
  obtain desired h where b: "sample_built = Some (Inr desired, h)" using sample_built_ok by blast
  have i: "spec_IgnoreAnnotationsFromExternalMutations (ts_Spec sample_ts) = []"
    by (simp add: sample_ts_def sample_spec_def)
  have c: "getConditionReady sample_ts = Some (Some (ready_condition ConditionUnknown
      ConditionReasonReconciliationInProgress InitReconciliationMessage))"
    by (simp add: getConditionReady_def sample_ts_def ready_condition_def)
  note f = buildStatefulSet_fields [OF b [unfolded sample_built_def]]
  have a: "Annotations (sts_meta desired) = fmempty" using f by (simp add: sample_ts_def sample_spec_def)
  obtain x rd wr where "Annotations (pt_meta (sts_Template desired)) =
      fmupd hashAnnotationKey x (pod_annotations sample_ts rd wr)" using f by blast
  moreover have "pod_annotations sample_ts rd wr =
      fmupd readLagAnnotationKey (Itoa rd) (fmupd writeLagAnnotationKey (Itoa wr) fmempty)"
    by (intro fmap_ext) (auto simp: pod_annotations_def sample_ts_def sample_spec_def fmlookup_of_list)
  ultimately have k: "keeps_annotations [restartPodsAnnotationKey, rancherDomainAnnotationKey]
      (Annotations (pt_meta (sts_Template desired)))"
    using own_annotations_kept by (auto intro!: keeps_annotations_fmupd)
  have "shouldUpdateStatefulSet (update_object (sample_sts 1) desired ''now'') (Some desired) sample_ts =
       Some (False, False, [])"
    using updateStatefulSet_settles [OF b [unfolded sample_built_def] c] k by (simp add: i a)
  with b show ?thesis by (intro exI conjI)
qed

section \<open>When nothing is written\<close>

lemma emergency_if_replicas_differ:
  assumes "getConditionReady ts = Some (Some c)" and "sts_Replicas sts = Some n"
    and "n \<noteq> spec_Replicas (ts_Spec ts)"
  shows "shouldEmergencyUpdateStatefulSet sts ts = Some True"
  using assms
  by (auto simp: shouldEmergencyUpdateStatefulSet_def replicas_changed_def reason_defs)

text \<open>
  C25: While the cluster has one of the reasons that put off updates and nothing calls for an
  emergency update (replicas, resources and security contexts are as specified), the statefulset is
  returned as it was read and nothing is written.
\<close>

theorem ReconcileStatefulSet_skips:
  assumes "on_get (api_StatefulSet r) h (stsObjectKey ts) = Inr sts"
    and "getConditionReady ts = Some (Some c)" and "cond_Reason c \<in> set skipConditions"
    and "shouldEmergencyUpdateStatefulSet sts ts = Some False"
  shows "ReconcileStatefulSet r ts h =
    Some ((Some sts, False, None), h @ [ReqGet KStatefulSet (stsObjectKey ts)])"
  using assms by (simp add: ReconcileStatefulSet_def req_simps)

theorem ReconcileStatefulSet_skips_witness:
  "\<exists>desired h. sample_built = Some (Inr desired, h) \<and>
     ReconcileStatefulSet (sample_reconciler\<lparr>api_StatefulSet := quiet_api\<lparr>on_get := \<lambda>h key. Inr desired\<rparr>\<rparr>)
       sample_ts [] =
     Some ((Some desired, False, None), [ReqGet KStatefulSet (stsObjectKey sample_ts)])"
proof -
  obtain desired h where b: "sample_built = Some (Inr desired, h)" using sample_built_ok by blast
  let ?c = "ready_condition ConditionUnknown ConditionReasonReconciliationInProgress InitReconciliationMessage"
  have c: "getConditionReady sample_ts = Some (Some ?c)"
    by (simp add: getConditionReady_def sample_ts_def ready_condition_def)
  note f = buildStatefulSet_fields [OF b [unfolded sample_built_def]]
  have r: "\<not> replicas_changed (spec_Replicas (ts_Spec sample_ts)) sample_ts ?c"
    by (simp add: replicas_changed_def)
  have e: "shouldEmergencyUpdateStatefulSet desired sample_ts = Some False"
    using f r
    by (simp add: shouldEmergencyUpdateStatefulSet_def c pod_spec_def index_def Let_def
        typesense_container_def metrics_container_def healthcheck_container_def)
  have s: "cond_Reason ?c \<in> set skipConditions" by (simp add: ready_condition_def skipConditions_def)
  have "ReconcileStatefulSet (sample_reconciler\<lparr>api_StatefulSet := quiet_api\<lparr>on_get := \<lambda>h key. Inr desired\<rparr>\<rparr>)
       sample_ts [] =
     Some ((Some desired, False, None), [ReqGet KStatefulSet (stsObjectKey sample_ts)])"
    using ReconcileStatefulSet_skips [OF _ c s e] by simp
  with b show ?thesis by blast
qed

text \<open>
  Whatever happens, the reconciliation of the statefulset only changes statefulsets, the nodes
  list and pods, and it never forgets a call: what was done before stays a prefix of the history.
\<close>

theorem ReconcileStatefulSet_footprint:
  assumes "ReconcileStatefulSet r ts h = Some (res, h')"
  shows "\<exists>t. h' = h @ t \<and> (\<forall>q \<in> set t. writes_only {KStatefulSet, KConfigMap, KPod} q)"
  using run_okD [OF ReconcileStatefulSet_emits assms] by (auto simp: emits_def list_all_iff)

theorem ReconcileStatefulSet_footprint_witness:
  "\<exists>desired h t. sample_built = Some (Inr desired, h) \<and>
     ReconcileStatefulSet (sample_reconciler\<lparr>api_StatefulSet := quiet_api\<lparr>on_get := \<lambda>h key. Inr desired\<rparr>\<rparr>)
       (sample_ts\<lparr>ts_Status := \<lparr>status_Conditions = [\<lparr>cond_Type = [], cond_Status = ConditionTrue,
          cond_Reason = [], cond_Message = []\<rparr>], status_Phase = []\<rparr>\<rparr>) [] =
       Some ((Some desired, False, None), t) \<and>
     (\<forall>q \<in> set t. writes_only {KStatefulSet, KConfigMap, KPod} q)"
proof -
  obtain desired h where b: "sample_built = Some (Inr desired, h)" using sample_built_ok by blast
  let ?r = "sample_reconciler\<lparr>api_StatefulSet := quiet_api\<lparr>on_get := \<lambda>h key. Inr desired\<rparr>\<rparr>"
  let ?ts = "sample_ts\<lparr>ts_Status := \<lparr>status_Conditions = [\<lparr>cond_Type = [], cond_Status = ConditionTrue,
          cond_Reason = [], cond_Message = []\<rparr>], status_Phase = []\<rparr>\<rparr>"
  obtain t where run: "ReconcileStatefulSet ?r ?ts [] = Some ((Some desired, False, None), t)"
    by (simp add: ReconcileStatefulSet_def req_simps getConditionReady_def ConditionTypeReady_def)
  with b show ?thesis
    using ReconcileStatefulSet_footprint [OF run] by (intro exI [of _ desired] exI [of _ h] exI [of _ t]) simp
qed

section \<open>Combinations of changes\<close>

text \<open>
  C36: After the quorum was scaled down to recover it (reason QuorumDowngraded), or while writes are
  queued, a difference in the replicas still counts as an emergency: the exception the code makes for
  these two reasons never applies, since a reason always differs from one of two constants.
\<close>

theorem downgraded_is_emergency:
  assumes "getConditionReady ts = Some (Some c)"
    and "cond_Reason c \<in> {ConditionReasonQuorumDowngraded, ConditionReasonQuorumQueuedWrites}"
    and "sts_Replicas sts = Some n" and "n \<noteq> spec_Replicas (ts_Spec ts)"
  shows "shouldEmergencyUpdateStatefulSet sts ts = Some True"
  using emergency_if_replicas_differ [OF assms(1,3,4)] .

theorem downgraded_is_emergency_witness:
  "shouldEmergencyUpdateStatefulSet (sample_sts 1)
     (sample_ts\<lparr>ts_Status := \<lparr>status_Conditions =
        [ready_condition ConditionFalse ConditionReasonQuorumDowngraded []], status_Phase = []\<rparr>\<rparr>) = Some True"
  by (rule downgraded_is_emergency [where n = 1 and
        c = "ready_condition ConditionFalse ConditionReasonQuorumDowngraded []"])
    (simp_all add: getConditionReady_def ready_condition_def sample_sts_def sample_ts_def sample_spec_def)

lemma ReconcileStatefulSet_compared:
  assumes "on_get (api_StatefulSet r) h (stsObjectKey ts) = Inr sts"
    and "getConditionReady ts = Some (Some c)" and "shouldEmergencyUpdateStatefulSet sts ts = Some True"
    and "buildStatefulSet r (stsObjectKey ts) ts (h @ [ReqGet KStatefulSet (stsObjectKey ts)]) =
      Some (Inr desired, h')"
    and "shouldUpdateStatefulSet sts (Some desired) ts = Some (update, scaleOnly, triggers)"
  shows "ReconcileStatefulSet r ts h =
    (if update \<and> \<not> scaleOnly then update_branch r ts sts desired h'
     else if \<not> update \<and> scaleOnly then scale_branch r (stsObjectKey ts) ts desired h'
     else Some ((Some sts, False, None), h'))"
  using assms by (simp add: ReconcileStatefulSet_def req_simps)

text \<open>
  C37: When the number of replicas and the pod template have both changed, neither branch of the
  reconciliation runs: the statefulset is returned as it was read and nothing is written, in every
  reconciliation until one of the two changes is taken back or made by somebody else.
\<close>

theorem replicas_and_template_changed_ignored:
  assumes "on_get (api_StatefulSet r) h (stsObjectKey ts) = Inr sts"
    and "getConditionReady ts = Some (Some c)"
    and "sts_Replicas sts = Some n" and "n \<noteq> spec_Replicas (ts_Spec ts)"
    and "3 \<le> length (ps_Containers (pt_spec (sts_Template sts)))"
    and "buildStatefulSet r (stsObjectKey ts) ts (h @ [ReqGet KStatefulSet (stsObjectKey ts)]) =
      Some (Inr desired, h')"
    and "lookup (Annotations (pt_meta (sts_Template sts))) hashAnnotationKey \<noteq>
      lookup (Annotations (pt_meta (sts_Template desired))) hashAnnotationKey"
  shows "ReconcileStatefulSet r ts h = Some ((Some sts, False, None), h') \<and> writes h' = writes h"
proof -
  have r: "replicas_changed n ts c" using assms(4) by (auto simp: replicas_changed_def reason_defs)
  obtain c0 c1 c2 where "index (ps_Containers (pt_spec (sts_Template sts))) 0 = Some c0"
    "index (ps_Containers (pt_spec (sts_Template sts))) 1 = Some c1"
    "index (ps_Containers (pt_spec (sts_Template sts))) 2 = Some c2"
    using assms(5) by (fastforce simp: index_def)
  then obtain triggers where "shouldUpdateStatefulSet sts (Some desired) ts = Some (True, True, triggers)"
    using assms(2,3,7) r by (simp add: shouldUpdateStatefulSet_def Let_def)
  note run = ReconcileStatefulSet_compared [OF assms(1,2) emergency_if_replicas_differ [OF assms(2,3,4)]
      assms(6) this]
  have "writes h' = writes (h @ [ReqGet KStatefulSet (stsObjectKey ts)])"
    using run_okD [OF buildStatefulSet_reads assms(6)] by (rule emits_read_writes)
  with run show ?thesis by (simp add: writes_Cons)
qed

definition sample_outdated :: StatefulSet where
  "sample_outdated = (sample_sts 1)\<lparr>sts_Template := \<lparr>pt_meta = sample_meta ''c-sts'', pt_spec = pod_spec sample_ts\<rparr>\<rparr>"

definition sample_server :: Reconciler where
  "sample_server = sample_reconciler\<lparr>api_StatefulSet := quiet_api\<lparr>on_get := \<lambda>h key. Inr sample_outdated\<rparr>\<rparr>"

lemma sample_server_builds:
  "\<exists>obj. buildStatefulSet sample_server (stsObjectKey sample_ts) sample_ts h =
     Some (Inr (annotate_template hashAnnotationKey ''0'' obj), h)"
proof -
  have "ext_Hash sample_server i = Inr 0" and "ext_Sha256Hex sample_server s = s" for i s
    using sample_ts_plain by (simp_all add: sample_server_def)
  moreover have "Itoa (int 0) = ''0''" by code_simp
  ultimately show ?thesis
    using buildStatefulSet_plain [OF sample_ts_plain(1,2), of sample_server 0] by simp
qed

theorem replicas_and_template_changed_ignored_witness:
  "\<exists>h'. ReconcileStatefulSet sample_server sample_ts [] = Some ((Some sample_outdated, False, None), h') \<and>
     writes h' = []"
proof -
  let ?h = "[] @ [ReqGet KStatefulSet (stsObjectKey sample_ts)]"
  let ?c = "ready_condition ConditionUnknown ConditionReasonReconciliationInProgress InitReconciliationMessage"
  obtain obj where b: "buildStatefulSet sample_server (stsObjectKey sample_ts) sample_ts ?h =
     Some (Inr (annotate_template hashAnnotationKey ''0'' obj), ?h)"
    using sample_server_builds by blast
  have "ReconcileStatefulSet sample_server sample_ts [] = Some ((Some sample_outdated, False, None), ?h) \<and>
      writes ?h = writes []"
  proof (rule replicas_and_template_changed_ignored [where n = 1 and c = ?c, OF _ _ _ _ _ b])
    show "on_get (api_StatefulSet sample_server) [] (stsObjectKey sample_ts) = Inr sample_outdated"
      by (simp add: sample_server_def)
    show "getConditionReady sample_ts = Some (Some ?c)"
      by (simp add: getConditionReady_def sample_ts_def ready_condition_def)
    show "lookup (Annotations (pt_meta (sts_Template sample_outdated))) hashAnnotationKey \<noteq>
        lookup (Annotations (pt_meta (sts_Template (annotate_template hashAnnotationKey ''0'' obj)))) hashAnnotationKey"
      by (simp add: sample_outdated_def sample_meta_def)
  qed (simp_all add: sample_outdated_def sample_sts_def sample_ts_def sample_spec_def pod_spec_def Let_def)
  then show ?thesis by (intro exI [of _ ?h]) simp
qed

text \<open>
  C38: A desired statefulset that cannot be built while a regular update is due (an additional server
  configuration that cannot be read is enough) makes the reconciliation panic: the error is logged
  and the nil pointer is dereferenced by the comparison that follows.
\<close>

theorem build_failure_panics:
  assumes "on_get (api_StatefulSet r) h (stsObjectKey ts) = Inr sts"
    and "getConditionReady ts = Some (Some c)" and "cond_Reason c \<notin> set skipConditions"
    and "spec_AdditionalServerConfiguration (ts_Spec ts) = Some name"
    and "\<And>g. on_get (api_ConfigMap r) g (additionalConfigKey ts name) = Inl err"
  shows "ReconcileStatefulSet r ts h = None"
proof -
  let ?h = "h @ [ReqGet KStatefulSet (stsObjectKey ts)]"
  have hash: "buildStatefulSetHash r s ts g = Some (Inl err, g @ [ReqGet KConfigMap (additionalConfigKey ts name)])"
    for s g
    using assms(4,5)
    by (simp add: buildStatefulSetHash_def GetAdditionalServerConfiguration_def req_simps Let_def
        additionalConfigKey_def)
  have "buildStatefulSet r (stsObjectKey ts) ts ?h = None \<or>
      (\<exists>h1. buildStatefulSet r (stsObjectKey ts) ts ?h = Some (Inl err, h1))"
    by (cases "getHealthyLagThresholds r ts ?h"; cases "spec_Storage (ts_Spec ts)")
      (auto simp: buildStatefulSet_def hash statefulset_object_def Let_def split: prod.splits)
  moreover have "shouldUpdateStatefulSet sts None ts = None"
    using assms(2) by (cases "sts_Replicas sts") (simp_all add: shouldUpdateStatefulSet_def Let_def)
  ultimately show ?thesis
    using assms(1,2,3)
    by (cases "shouldEmergencyUpdateStatefulSet sts ts")
      (auto simp: ReconcileStatefulSet_def req_simps Let_def)
qed

theorem build_failure_panics_witness:
  "ReconcileStatefulSet sample_server
     (sample_ts\<lparr>ts_Spec := sample_spec\<lparr>spec_AdditionalServerConfiguration := Some ''cfg''\<rparr>,
        ts_Status := \<lparr>status_Conditions = [ready_condition ConditionTrue ConditionReasonQuorumReady []],
          status_Phase = []\<rparr>\<rparr>) [] = None"
  by (rule build_failure_panics [where name = "''cfg''" and sts = sample_outdated
        and c = "ready_condition ConditionTrue ConditionReasonQuorumReady []" and err = "NotFound ''cfg''"])
    (simp_all add: sample_server_def getConditionReady_def ready_condition_def skipConditions_def reason_defs
      additionalConfigKey_def quiet_api_def sample_reconciler_def)

text \<open>
  A statefulset with one or two containers is not repaired: the check that counts the containers
  is followed by an access to the third one, so that a due comparison panics.
\<close>

theorem missing_containers_panic:
  assumes "getConditionReady ts = Some (Some c)"
    and "length (ps_Containers (pt_spec (sts_Template sts))) < 3"
  shows "shouldUpdateStatefulSet sts desired ts = None"
proof -
  have "index (ps_Containers (pt_spec (sts_Template sts))) 2 = None" using assms(2) by (simp add: index_def)
  then show ?thesis
    using assms(1)
    by (cases "sts_Replicas sts"; cases desired; cases "index (ps_Containers (pt_spec (sts_Template sts))) 0";
        cases "index (ps_Containers (pt_spec (sts_Template sts))) 1")
      (simp_all add: shouldUpdateStatefulSet_def Let_def)
qed

theorem missing_containers_panic_witness:
  "shouldUpdateStatefulSet (sample_sts 3) (Some (sample_sts 3)) sample_ts = None"
  by (rule missing_containers_panic [where c = "ready_condition ConditionUnknown
      ConditionReasonReconciliationInProgress InitReconciliationMessage"])
    (simp_all add: getConditionReady_def ready_condition_def sample_sts_def sample_ts_def empty_PodSpec_def)

end
