(* ===== verification/Config_Correct.thy ===== *)
theory Config_Correct
  imports Quorum_Correct Admin_Secret Cluster_Services
begin

text \<open>
  What the phases before the statefulset guarantee: the admin key, the nodes list and its way to the
  pods, and the thresholds read from the additional configuration.
\<close>

section \<open>The admin key\<close>

text \<open>
  C21: The operator writes a secret only when the user named none and the server says that there is
  none; what it then creates is immutable, carries the name derived from the cluster, and holds
  under the key of the API key the base64 text of the random bytes, 344 characters for 256 bytes. A
  secret the user names is returned as it was read, or the error of reading it.
\<close>

theorem ReconcileSecret_spec:
  assumes "ReconcileSecret r ts h = (x, h')"
  shows "\<exists>t. h' = h @ t \<and>
    (\<forall>q \<in> set t. is_write q \<longrightarrow>
       spec_AdminApiKey (ts_Spec ts) = None \<and>
       (\<exists>err. on_get (api_Secret r) h (getAdminApiKeyObjectKey ts) = Inl err \<and> IsNotFound err) \<and>
       (\<exists>s bytes g. q = ReqCreate (OSecret s) \<and> sec_Immutable s = Some True \<and>
          Name (sec_meta s) = ClusterAdminApiKeySecret (ts_Name ts) \<and>
          Namespace (sec_meta s) = ts_Namespace ts \<and> on_rand r g 256 = Inr bytes \<and>
          lookup (sec_Data s) ClusterAdminApiKeySecretKeyName = EncodeToString bytes \<and>
          (length bytes = 256 \<longrightarrow>
             length (lookup (sec_Data s) ClusterAdminApiKeySecretKeyName) = 344))) \<and>
    (spec_AdminApiKey (ts_Spec ts) \<noteq> None \<longrightarrow> x = on_get (api_Secret r) h (getAdminApiKeyObjectKey ts))"
proof -
  let ?key = "getAdminApiKeyObjectKey ts" and ?h = "h @ [ReqGet KSecret (getAdminApiKeyObjectKey ts)]"
  have name: "Name (sec_meta (adminSecret ts ?key t)) = ClusterAdminApiKeySecret (ts_Name ts)"
    if "spec_AdminApiKey (ts_Spec ts) = None" for t
    using that by (simp add: adminSecret_def getObjectMeta_def object_meta_def getAdminApiKeyObjectKey_def)
  have secret: "sec_Immutable (adminSecret ts ?key t) = Some True"
    "Namespace (sec_meta (adminSecret ts ?key t)) = ts_Namespace ts"
    "lookup (sec_Data (adminSecret ts ?key t)) ClusterAdminApiKeySecretKeyName = t" for t
    by (simp_all add: adminSecret_def getObjectMeta_def object_meta_def)
  consider (quiet) "h' = ?h" "spec_AdminApiKey (ts_Spec ts) \<noteq> None \<Longrightarrow> x = on_get (api_Secret r) h ?key"
    | (create) err where "on_get (api_Secret r) h ?key = Inl err" "IsNotFound err"
        "spec_AdminApiKey (ts_Spec ts) = None" "createAdminApiKey r ?key ts ?h = (x, h')"
    using assms by (auto simp: ReconcileSecret_def Get_def Let_def split: sum.split_asm if_split_asm)
  then show ?thesis
  proof cases
    case create
    from createAdminApiKey_cases [OF create(4)] show ?thesis
    proof (elim disjE exE conjE)
      fix e assume "h' = ?h @ [ReqRand 256]"
      then show ?thesis using create(3) by simp
    next
      fix token owners s
      assume rand: "on_rand r ?h 256 = Inr token" and h': "h' = ?h @ [ReqRand 256, ReqCreate (OSecret s)]"
        and "s = (adminSecret ts ?key (EncodeToString token))\<lparr>sec_meta :=
          (sec_meta (adminSecret ts ?key (EncodeToString token)))\<lparr>OwnerReferences := owners\<rparr>\<rparr>"
      then have "sec_Immutable s = Some True" "Name (sec_meta s) = ClusterAdminApiKeySecret (ts_Name ts)"
        "Namespace (sec_meta s) = ts_Namespace ts"
        "lookup (sec_Data s) ClusterAdminApiKeySecretKeyName = EncodeToString token"
        using secret name [OF create(3)] by simp_all
      with rand h' create(1-3) show ?thesis
        by (intro exI [of _ "[ReqGet KSecret ?key, ReqRand 256, ReqCreate (OSecret s)]"])
          (auto simp: length_EncodeToString)
    qed
  qed auto
qed

theorem ReconcileSecret_spec_witness:
  "\<exists>q. q \<in> set (snd (ReconcileSecret sample_reconciler sample_ts [])) \<and> is_write q \<and>
     (\<exists>s. q = ReqCreate (OSecret s) \<and>
        length (lookup (sec_Data s) ClusterAdminApiKeySecretKeyName) = 344)"
proof -
  let ?x = "fst (ReconcileSecret sample_reconciler sample_ts [])"
    and ?t = "snd (ReconcileSecret sample_reconciler sample_ts [])"
  have "ReconcileSecret sample_reconciler sample_ts [] = (?x, ?t)" by simp
  note spec = ReconcileSecret_spec [OF this]
  have "list_ex is_write ?t"
    by (simp add: ReconcileSecret_def createAdminApiKey_def generateToken_def req_simps Let_def
        sample_reconciler_def quiet_api_def sample_ts_def sample_spec_def getAdminApiKeyObjectKey_def)
  then obtain q where q: "q \<in> set ?t" "is_write q" by (auto simp: list_ex_iff)
  have rand: "on_rand sample_reconciler g 256 = Inr bytes \<Longrightarrow> length bytes = 256" for g bytes
    by (auto simp: sample_reconciler_def)
  show ?thesis using spec q rand by fastforce
qed

section \<open>The nodes list\<close>

text \<open>
  C18: An update of the nodes list that succeeds leaves a list with at least one node, sends the
  config map exactly if the list or the fallback list differs from what was read, changes nothing
  but the data of the config map, and says truthfully whether it did.
\<close>

theorem updateConfigMap_spec:
  assumes "updateConfigMap r ts cm replicas b h = Some (Inr (cm', n, updated), h')"
  shows "\<exists>nodes fallback. nodes \<noteq> [] \<and> n = int (length nodes) \<and> fallback = fallback_list ts \<and>
    updated = (lookup (cm_Data cm) ''nodes'' \<noteq> Join nodes '','' \<or>
               lookup (cm_Data cm) ''fallback'' \<noteq> Join fallback '','') \<and>
    writes h' = writes h @
      (if updated then [ReqUpdate (OConfigMap (cm\<lparr>cm_Data := nodes_data nodes fallback\<rparr>))] else []) \<and>
    (\<not> updated \<longrightarrow> cm' = cm\<lparr>cm_Data := nodes_data nodes fallback\<rparr>)"
proof -
  have data: "lookup (nodes_data nodes fb) ''nodes'' = Join nodes '',''"
    "lookup (nodes_data nodes fb) ''fallback'' = Join fb '',''" for nodes fb
    by (simp_all add: nodes_data_def)
  have reads: "writes g' = writes g" if "getNodes r ts k bs g = Some (y, g')" for k bs g y g'
    using run_okD [OF getNodes_reads that] by (rule emits_read_writes)
  have fallback: "fb = fallback_list ts" if "getNodes r ts k True g = Some (Inr fb, g')" for k g fb g'
    using that by (simp add: getNodes_def getFallbackNodes_Inr_iff)
  from assms obtain k g1 nodes g2 fb where
    get: "getNodes r ts k False (h @ [ReqGet KStatefulSet (stsObjectKey ts)]) = Some (Inr nodes, g1)"
      "getNodes r ts k True g1 = Some (Inr fb, g2)" and ne: "nodes \<noteq> []"
    and rest: "(if lookup (cm_Data cm) ''nodes'' \<noteq> Join nodes '','' \<or> lookup (cm_Data cm) ''fallback'' \<noteq> Join fb '',''
       then (case Update r ConfigMaps (cm\<lparr>cm_Data := nodes_data nodes fb\<rparr>) g2 of
               (Inl err, h) \<Rightarrow> Some (Inl err, h)
             | (Inr desired, h) \<Rightarrow> Some (Inr (desired, int (length nodes), True), h))
       else Some (Inr (cm\<lparr>cm_Data := nodes_data nodes fb\<rparr>, int (length nodes), False), g2)) =
         Some (Inr (cm', n, updated), h')"
    unfolding updateConfigMap_def Get_def Let_def
    by (auto simp: data elim!: bind_SomeE split: sum.split_asm option.split_asm prod.split_asm if_split_asm)
  have "writes g2 = writes h" using reads [OF get(1)] reads [OF get(2)] by (simp add: writes_Cons)
  with ne rest fallback [OF get(2)] show ?thesis
    by (intro exI [of _ nodes] exI [of _ fb])
      (auto simp: Update_def writes_Cons split: if_split_asm sum.split_asm)
qed

text \<open>The member of \<open>sample_leader\<close>, with its address in the endpoints of the service.\<close>

definition sample_listed :: Reconciler where
  "sample_listed = sample_leader\<lparr>
     api_EndpointSlice := quiet_api\<lparr>on_list := \<lambda>h opts. Inr [\<lparr>es_meta = sample_meta ''s'',
       es_Endpoints = [\<lparr>ep_Addresses = [''a''], ep_TargetRef_Kind = Some ''Pod''\<rparr>]\<rparr>]\<rparr>\<rparr>"

definition run_listed :: "((error + ConfigMap \<times> int \<times> bool) \<times> history) option" where
  "run_listed = updateConfigMap sample_listed sample_single (sample_cm ''old'') None False []"

lemma run_listed_ok:
  "map_option (map_sum (\<lambda>e. ()) (\<lambda>(cm, n, updated). updated) \<circ> fst) run_listed = Some (Inr True)"
  by code_simp

theorem updateConfigMap_spec_witness:
  "\<exists>cm n h' nodes. run_listed = Some (Inr (cm, n, True), h') \<and> nodes \<noteq> [] \<and> n = int (length nodes) \<and>
     writes h' = [ReqUpdate (OConfigMap
       ((sample_cm ''old'')\<lparr>cm_Data := nodes_data nodes (fallback_list sample_single)\<rparr>))]"
proof -
  obtain x h' where x: "run_listed = Some (x, h')" and "map_sum (\<lambda>e. ()) (\<lambda>(cm, n, updated). updated) x = Inr True"
    using run_listed_ok by auto
  then obtain cm n where run: "run_listed = Some (Inr (cm, n, True), h')"
    by (cases x) auto
  from updateConfigMap_spec [OF run [unfolded run_listed_def]] run show ?thesis by auto
qed

lemma Itoa_chars: "c \<in> set (Itoa i) \<Longrightarrow> is_digit c \<or> c = CHR ''-''"
  using nat_string_digits by (auto simp: Itoa_def split: if_split_asm)

lemma is_digit_not [simp]: "\<not> is_digit (CHR '','')" "\<not> is_digit (CHR ''.'')" "\<not> is_digit (CHR '':'')"
  by (simp_all add: is_digit_def)

lemma Itoa_no_sep [simp]: "CHR '','' \<notin> set (Itoa i)" "CHR ''.'' \<notin> set (Itoa i)" "CHR '':'' \<notin> set (Itoa i)"
  by (auto dest: Itoa_chars)

lemma fallback_endpoint_no_comma:
  "CHR '','' \<notin> set (ts_Name ts) \<Longrightarrow> CHR '','' \<notin> set (raftEndpoint ts (fallbackNodeName ts i))"
  by (auto simp: raftEndpoint_def fallbackNodeName_def)

lemma digits_value_snoc: "digits_value (ds @ [d]) = 10 * digits_value ds + (of_char d - 48)"
  by (simp add: digits_value_def)

lemma digits_value_nat_string: "digits_value (nat_string n) = n"
proof (induction n rule: nat_string.induct)
  case (1 n)
  show ?case
  proof (cases "n < 10")
    case True
    then show ?thesis by (subst nat_string.simps) (simp add: digits_value_def)
  next
    case False
    then have "digits_value (nat_string n) = 10 * (n div 10) + n mod 10"
      using "1" by (subst nat_string.simps) (simp add: digits_value_snoc)
    then show ?thesis by simp
  qed
qed

text \<open>Different replicas have different endpoints.\<close>

lemma Itoa_int_inj: "Itoa (int i) = Itoa (int j) \<longleftrightarrow> i = j"
proof
  assume "Itoa (int i) = Itoa (int j)"
  then have "nat_string i = nat_string j" by (simp add: Itoa_def)
  then have "digits_value (nat_string i) = digits_value (nat_string j)" by (rule arg_cong)
  then show "i = j" by (simp only: digits_value_nat_string)
qed simp

lemma distinct_fallback_list: "distinct (fallback_list ts)"
  by (auto simp: fallback_list_def distinct_map inj_on_def raftEndpoint_def fallbackNodeName_def Itoa_int_inj)

text \<open>
  C19: The config map a new cluster starts with is recognised as holding bootstrap values, so that
  the quorum logic does not downgrade a cluster whose pods have not been seen yet; its two lists are
  equal, and list every replica: entry \<open>i\<close> is the raft endpoint of the host name of replica \<open>i\<close>, from 0
  to the number of replicas less one, all of them different, and no host name is longer than 64
  characters.
\<close>

theorem createConfigMap_bootstrap:
  assumes "createConfigMap r key ts h = Some (x, h')" and "ReqCreate (OConfigMap cm) \<in> set (drop (length h) h')"
    and "0 < spec_Replicas (ts_Spec ts)" and "CHR '','' \<notin> set (ts_Name ts)"
  shows "hasBootstrapValues ts cm = Inr True \<and>
    lookup (cm_Data cm) ''nodes'' = lookup (cm_Data cm) ''fallback'' \<and>
    Split (lookup (cm_Data cm) ''nodes'') (CHR '','') =
      map (\<lambda>i. raftEndpoint ts (fallbackNodeName ts (int i))) [0..<nat (spec_Replicas (ts_Spec ts))] \<and>
    distinct (Split (lookup (cm_Data cm) ''nodes'') (CHR '','')) \<and>
    (\<forall>i < nat (spec_Replicas (ts_Spec ts)). length (fallbackNodeName ts (int i)) \<le> 64)"
proof -
  let ?fl = "fallback_list ts"
  from assms(1,2) have nodes: "getFallbackNodes ts [] = Inr ?fl" and data: "cm_Data cm = nodes_data ?fl ?fl"
    by (auto simp: createConfigMap_def getNodes_def Create_def Let_def getFallbackNodes_Inr_iff
        elim!: bind_SomeE split: sum.split_asm)
  have ne: "?fl \<noteq> []" using assms(3) by (simp add: fallback_list_def)
  have "\<forall>w \<in> set ?fl. CHR '','' \<notin> set w"
    using assms(4) by (auto simp: fallback_list_def fallback_endpoint_no_comma)
  then have split: "Split (Join ?fl '','') (CHR '','') = ?fl" using ne by (simp add: Split_Join)
  have all: "list_all (\<lambda>node. node \<noteq> [] \<and> Contains node (ClusterStatefulSet (ts_Name ts))) ?fl"
    by (auto simp: fallback_list_def list_all_iff raftEndpoint_def fallbackNodeName_def ClusterStatefulSet_def
        Contains_iff_sublist prefix_def intro!: prefix_imp_sublist)
  then obtain w ws where w: "?fl = w # ws" "w \<noteq> []" "Contains w (ClusterStatefulSet (ts_Name ts))"
    using ne by (cases ?fl) auto
  have raw: "Join ?fl '','' \<noteq> []" using w by (cases ws) auto
  have "hasBootstrapValues ts cm = Inr True"
    using raw split w by (simp add: hasBootstrapValues_def data nodes_data_def)
  then show ?thesis
    using nodes split distinct_fallback_list [of ts] fallback_list_def [of ts]
    by (simp add: data nodes_data_def getFallbackNodes_Inr_iff nodeNameLenLimit_def)
qed

definition run_bootstrap :: "((error + ConfigMap) \<times> history) option" where
  "run_bootstrap = createConfigMap sample_reconciler (nodesConfigMapKey sample_single) sample_single []"

theorem createConfigMap_bootstrap_witness:
  "\<exists>x cm h'. run_bootstrap = Some (x, h') \<and> ReqCreate (OConfigMap cm) \<in> set h' \<and>
     hasBootstrapValues sample_single cm = Inr True"
proof -
  have "case getFallbackNodes sample_single [] of Inl e \<Rightarrow> False | Inr nodes \<Rightarrow> True" by code_simp
  then obtain nodes where "getFallbackNodes sample_single [] = Inr nodes" by (auto split: sum.split_asm)
  then obtain x h' cm where run: "run_bootstrap = Some (x, h')" and cm: "ReqCreate (OConfigMap cm) \<in> set h'"
    by (auto simp: run_bootstrap_def createConfigMap_def getNodes_def Create_def sample_reconciler_def Let_def)
  have "0 < spec_Replicas (ts_Spec sample_single)" "CHR '','' \<notin> set (ts_Name sample_single)"
    by (simp_all add: sample_single_def sample_ts_def sample_meta_def)
  with createConfigMap_bootstrap [OF run [unfolded run_bootstrap_def], of cm] run cm show ?thesis by auto
qed

text \<open>
  C20: Pushing the nodes list to the pods patches every pod of the cluster that is not being deleted,
  once, in the order of the list, and adds one annotation to it and nothing else; a pod that cannot be
  patched does not keep the others from being patched, and there are at most as many errors as such
  pods.
\<close>

theorem forcePodsConfigMapUpdate_spec:
  assumes "forcePodsConfigMapUpdate r ts h = (Inr errs, h')"
  shows "\<exists>pods ws. on_list (api_Pod r) h \<lparr>lo_Namespace = Some (ts_Namespace ts), lo_LabelSelector = getLabels ts\<rparr> =
      Inr pods \<and> writes h' = writes h @ ws \<and> list_all2 forces (staying pods) ws \<and>
    length errs \<le> length (staying pods)"
proof -
  let ?opts = "\<lparr>lo_Namespace = Some (ts_Namespace ts), lo_LabelSelector = getLabels ts\<rparr>"
  from assms obtain pods where list: "on_list (api_Pod r) h ?opts = Inr pods"
    and run: "force_pods r pods [] (h @ [ReqList KPod ?opts]) = (errs, h')"
    by (auto simp: forcePodsConfigMapUpdate_def List_def split: sum.split_asm prod.split_asm)
  from force_pods_patches [OF run] force_pods_errors [OF run] list show ?thesis
    by (auto simp: writes_Cons)
qed

theorem forcePodsConfigMapUpdate_spec_witness:
  "\<exists>errs h' ws. forcePodsConfigMapUpdate sample_leader sample_single [] = (Inr errs, h') \<and>
     writes h' = ws \<and> list_all2 forces (staying [sample_pod ''c-sts-0'' ''a'']) ws"
proof -
  have list: "on_list (api_Pod sample_leader) h opts = Inr [sample_pod ''c-sts-0'' ''a'']" for h opts
    by (simp add: sample_leader_def sample_quorum_def)
  let ?opts = "\<lparr>lo_Namespace = Some (ts_Namespace sample_single), lo_LabelSelector = getLabels sample_single\<rparr>"
  obtain errs h' where "force_pods sample_leader [sample_pod ''c-sts-0'' ''a''] [] [ReqList KPod ?opts] = (errs, h')"
    by fastforce
  then have run: "forcePodsConfigMapUpdate sample_leader sample_single [] = (Inr errs, h')"
    by (simp add: forcePodsConfigMapUpdate_def List_def list del: force_pods.simps)
  from forcePodsConfigMapUpdate_spec [OF run] show ?thesis using run by (auto simp: list)
qed

section \<open>Thresholds of the additional configuration\<close>

lemma nat_string_not_Nil [simp]: "nat_string n \<noteq> []"
  by (subst nat_string.simps) simp

lemma nat_string_no_sign: "nat_string n = c # cs \<Longrightarrow> c \<noteq> CHR ''-'' \<and> c \<noteq> CHR ''+''"
  using nat_string_digits [of n] by (auto simp: is_digit_def)

text \<open>What \<^verbatim>\<open>Itoa\<close> prints, \<^verbatim>\<open>Atoi\<close> reads back.\<close>

lemma Atoi_Itoa:
  assumes "- (2 ^ 63) \<le> i" and "i < 2 ^ 63"
  shows "Atoi (Itoa i) = (i, True)"
proof -
  have digits: "list_all is_digit (nat_string n)" for n
    using nat_string_digits [of n] by (auto simp: list_all_iff)
  obtain c cs where c: "nat_string (nat i) = c # cs" by (meson nat_string_not_Nil neq_Nil_conv)
  show ?thesis
  proof (cases "i < 0")
    case True
    then show ?thesis
      using assms digits by (simp add: Atoi_def Itoa_def digits_value_nat_string Let_def)
  next
    case False
    then show ?thesis
      using assms digits [of "nat i"] nat_string_no_sign [OF c] digits_value_nat_string [of "nat i"]
      by (simp add: Atoi_def Itoa_def c Let_def)
  qed
qed

text \<open>What a failed conversion returns is 0 or a bound of the integers, never one of the defaults.\<close>

lemma Atoi_failed: "\<not> snd (Atoi v) \<Longrightarrow> fst (Atoi v) \<in> {0, 2 ^ 63 - 1, - (2 ^ 63)}"
  by (auto simp: Atoi_def Let_def split: list.split_asm if_split_asm)

text \<open>
  C22: the quorum logic and the health check container of the pods read the thresholds for lagging
  writes and reads from the same config map, and agree on each of them exactly if its value is
  missing or is a number. When a value is not a number the single reader of the threshold uses its
  default, and the container gets what the failed conversion returned (0, or a bound of the
  integers), which is never the default. This holds for the write threshold and for the read
  threshold alike.
\<close>

theorem lag_thresholds_agree:
  assumes "spec_AdditionalServerConfiguration (ts_Spec ts) = Some name"
    and "on_get (api_ConfigMap r) h (additionalConfigKey ts name) = Inr cm"
    and "wv = lookup (cm_Data cm) HealthyWriteLagKey" and "rv = lookup (cm_Data cm) HealthyReadLagKey"
  shows "(snd (fst (getHealthyLagThresholds r ts h)) = fst (getHealthyWriteLagThreshold r ts h) \<longleftrightarrow>
      wv = [] \<or> snd (Atoi wv)) \<and>
    (fst (fst (getHealthyLagThresholds r ts h)) = fst (getHealthyReadLagThreshold r ts h) \<longleftrightarrow>
      rv = [] \<or> snd (Atoi rv)) \<and>
    fst (getHealthyWriteLagThreshold r ts h) =
      (if wv \<noteq> [] \<and> snd (Atoi wv) then fst (Atoi wv) else HealthyWriteLagDefaultValue) \<and>
    fst (getHealthyReadLagThreshold r ts h) =
      (if rv \<noteq> [] \<and> snd (Atoi rv) then fst (Atoi rv) else HealthyReadLagDefaultValue) \<and>
    (wv \<noteq> [] \<longrightarrow> snd (fst (getHealthyLagThresholds r ts h)) = fst (Atoi wv)) \<and>
    (rv \<noteq> [] \<longrightarrow> fst (fst (getHealthyLagThresholds r ts h)) = fst (Atoi rv))"
proof -
  have d: "Atoi (Itoa HealthyWriteLagDefaultValue) = (HealthyWriteLagDefaultValue, True)"
    "Atoi (Itoa HealthyReadLagDefaultValue) = (HealthyReadLagDefaultValue, True)"
    by (rule Atoi_Itoa; simp add: HealthyWriteLagDefaultValue_def HealthyReadLagDefaultValue_def)+
  have pair: "snd (fst (getHealthyLagThresholds r ts h)) = (if wv = [] then HealthyWriteLagDefaultValue else fst (Atoi wv))"
    "fst (fst (getHealthyLagThresholds r ts h)) = (if rv = [] then HealthyReadLagDefaultValue else fst (Atoi rv))"
    using assms d by (simp_all add: getHealthyLagThresholds_def Get_def Let_def)
  have single_w: "fst (getHealthyWriteLagThreshold r ts h) =
      (if wv \<noteq> [] \<and> snd (Atoi wv) then fst (Atoi wv) else HealthyWriteLagDefaultValue)"
    using assms by (auto simp: getHealthyWriteLagThreshold_def Get_def Let_def split: prod.split)
  have single_r: "fst (getHealthyReadLagThreshold r ts h) =
      (if rv \<noteq> [] \<and> snd (Atoi rv) then fst (Atoi rv) else HealthyReadLagDefaultValue)"
    using assms by (auto simp: getHealthyReadLagThreshold_def Get_def Let_def split: prod.split)
  have "fst (Atoi v) \<noteq> HealthyWriteLagDefaultValue" "fst (Atoi v) \<noteq> HealthyReadLagDefaultValue"
    if "\<not> snd (Atoi v)" for v
    using Atoi_failed [OF that] by (auto simp: HealthyWriteLagDefaultValue_def HealthyReadLagDefaultValue_def)
  then show ?thesis by (simp add: pair single_w single_r)
qed

definition lagging_cm :: ConfigMap where
  "lagging_cm = \<lparr>cm_meta = sample_meta ''extra'', cm_Data = fmap_of_list [(HealthyWriteLagKey, ''1k'')]\<rparr>"

definition lagging_server :: Reconciler where
  "lagging_server = sample_reconciler\<lparr>api_ConfigMap := quiet_api\<lparr>on_get := \<lambda>h key. Inr lagging_cm\<rparr>\<rparr>"

definition lagging_ts :: TypesenseCluster where
  "lagging_ts = sample_ts\<lparr>ts_Spec := sample_spec\<lparr>spec_AdditionalServerConfiguration := Some ''extra''\<rparr>\<rparr>"

theorem lag_thresholds_agree_witness:
  "snd (fst (getHealthyLagThresholds lagging_server lagging_ts [])) = 0 \<and>
   fst (getHealthyWriteLagThreshold lagging_server lagging_ts []) = HealthyWriteLagDefaultValue"
proof -
  have name: "spec_AdditionalServerConfiguration (ts_Spec lagging_ts) = Some ''extra''"
    by (simp add: lagging_ts_def)
  have get: "on_get (api_ConfigMap lagging_server) [] key = Inr lagging_cm" for key
    by (simp add: lagging_server_def)
  have "lookup (cm_Data lagging_cm) HealthyWriteLagKey = ''1k''" by (simp add: lagging_cm_def)
  moreover have "Atoi ''1k'' = (0, False)" by (simp add: Atoi_def is_digit_def)
  ultimately show ?thesis
    using lag_thresholds_agree [OF name get refl refl] by simp
qed

end
