(* ===== verification/Services_Correct.thy ===== *)
theory Services_Correct
  imports Cluster_Services
begin

text \<open>
  The services converge. The abstract view of the API server is the map from keys to the services
  it stores; the calls of the operator change it. Against this view one run of the phase is the
  function that brings the two services of the cluster up to date and leaves every other one alone,
  and a second run writes nothing.
\<close>

section \<open>The stored services\<close>

type_synonym services = "ObjectKey \<Rightarrow> Service option"

abbreviation service_key :: "Service \<Rightarrow> ObjectKey" where
  "service_key svc \<equiv> ObjectKeyFromObject (svc_meta svc)"

text \<open>What an accepted call does to the stored services.\<close>

fun apply_call :: "request \<Rightarrow> services \<Rightarrow> services" where
  "apply_call (ReqCreate (OService x)) S = S(service_key x \<mapsto> x)"
| "apply_call (ReqUpdate (OService x)) S = S(service_key x \<mapsto> x)"
| "apply_call (ReqPatch _ (OService x)) S = S(service_key x \<mapsto> x)"
| "apply_call (ReqDelete (OService x)) S = S(service_key x := None)"
| "apply_call _ S = S"

definition stored_after :: "services \<Rightarrow> history \<Rightarrow> services" where
  "stored_after S h = fold apply_call h S"

lemma stored_after_simps [simp]:
  "stored_after S [] = S" "stored_after S (h @ [q]) = apply_call q (stored_after S h)"
  by (simp_all add: stored_after_def)

definition well_keyed :: "services \<Rightarrow> bool" where
  "well_keyed S \<longleftrightarrow> (\<forall>k x. S k = Some x \<longrightarrow> service_key x = k)"

text \<open>
  A server that answers from what it stores: it finds an object exactly if it stores it, accepts
  the creation of an object it does not store, and a patch of or the deletion of an object it stores.
  This is the documented behaviour of the API server when nobody else writes the services meanwhile.
\<close>

definition answers_from :: "services \<Rightarrow> Reconciler \<Rightarrow> bool" where
  "answers_from S r \<longleftrightarrow>
     (\<forall>h key. on_get (api_Service r) h key =
        (case stored_after S h key of None \<Rightarrow> Inl (NotFound (key_Name key)) | Some x \<Rightarrow> Inr x)) \<and>
     (\<forall>h x. stored_after S h (service_key x) = None \<longrightarrow> on_create (api_Service r) h x = Inr x) \<and>
     (\<forall>h x y. stored_after S h (service_key x) = Some x \<and> service_key y = service_key x \<longrightarrow>
        on_patch (api_Service r) h x y = Inr y) \<and>
     (\<forall>h x. stored_after S h (service_key x) = Some x \<longrightarrow> on_delete (api_Service r) h x = None)"

section \<open>The abstract operation\<close>

text \<open>The owner is set on a service that is created.\<close>

definition owned_service :: "Reconciler \<Rightarrow> TypesenseCluster \<Rightarrow> Service \<Rightarrow> Service" where
  "owned_service r ts svc =
     (case ext_SetControllerReference r ''TypesenseCluster'' (ts_meta ts) (svc_meta svc) of
        Inl err \<Rightarrow> svc
      | Inr owners \<Rightarrow> svc\<lparr>svc_meta := (svc_meta svc)\<lparr>OwnerReferences := owners\<rparr>\<rparr>)"

definition with_port :: "int \<Rightarrow> Service \<Rightarrow> Service" where
  "with_port port svc = svc\<lparr>svc_Ports := (case svc_Ports svc of [] \<Rightarrow> [] | p # ps \<Rightarrow> p\<lparr>sp_Port := port\<rparr> # ps)\<rparr>"

lemma with_port_meta [simp]: "svc_meta (with_port port svc) = svc_meta svc"
  by (simp add: with_port_def)

definition up_to_date :: "TypesenseCluster \<Rightarrow> Service \<Rightarrow> Service" where
  "up_to_date ts svc = (with_port (int32 (spec_ApiPort (ts_Spec ts))) svc)\<lparr>svc_meta :=
     (svc_meta svc)\<lparr>Annotations := spec_ServiceAnnotations (ts_Spec ts)\<rparr>\<rparr>"

definition headless_goal :: "Reconciler \<Rightarrow> TypesenseCluster \<Rightarrow> Service option \<Rightarrow> Service" where
  "headless_goal r ts old = (case old of
     None \<Rightarrow> owned_service r ts (headless_service (headlessObjectKey ts) ts)
   | Some svc \<Rightarrow> with_port (int32 (spec_ApiPort (ts_Spec ts))) svc)"

text \<open>A service that has no port for the health check is replaced by a fresh one.\<close>

definition service_goal :: "Reconciler \<Rightarrow> TypesenseCluster \<Rightarrow> Service option \<Rightarrow> Service" where
  "service_goal r ts old = (case old of
     None \<Rightarrow> owned_service r ts (rest_service (svcObjectKey ts) ts)
   | Some svc \<Rightarrow>
       if length (svc_Ports svc) < 2 then owned_service r ts (rest_service (svcObjectKey ts) ts)
       else up_to_date ts svc)"

definition bring_up_to_date :: "Reconciler \<Rightarrow> TypesenseCluster \<Rightarrow> services \<Rightarrow> services" where
  "bring_up_to_date r ts S = S(headlessObjectKey ts \<mapsto> headless_goal r ts (S (headlessObjectKey ts)),
     svcObjectKey ts \<mapsto> service_goal r ts (S (svcObjectKey ts)))"

lemma service_keys_differ [simp]: "headlessObjectKey ts \<noteq> svcObjectKey ts" "svcObjectKey ts \<noteq> headlessObjectKey ts"
  by (auto simp: headlessObjectKey_def svcObjectKey_def ClusterHeadlessService_def ClusterRestService_def)

lemma with_port_same: "svc_Ports svc = p # ps \<Longrightarrow> sp_Port p = port \<Longrightarrow> with_port port svc = svc"
  by (cases p) (simp add: with_port_def)

lemma set_first_port_with_port: "svc_Ports svc \<noteq> [] \<Longrightarrow> set_first_port svc port = Some (with_port port svc)"
  by (cases "svc_Ports svc") (simp_all add: set_first_port_def store_index_def with_port_def)

lemma owned_service_key [simp]: "service_key (owned_service r ts svc) = service_key svc"
  by (simp add: owned_service_def ObjectKeyFromObject_def split: sum.split)

lemma fresh_keys [simp]:
  "service_key (headless_service (headlessObjectKey ts) ts) = headlessObjectKey ts"
  "service_key (rest_service (svcObjectKey ts) ts) = svcObjectKey ts"
  by (simp_all add: headless_service_def rest_service_def headlessObjectKey_def svcObjectKey_def
      ObjectKeyFromObject_def getObjectMeta_def object_meta_def)

lemma goal_ports:
  "(\<forall>x. old = Some x \<longrightarrow> svc_Ports x \<noteq> []) \<Longrightarrow>
     \<exists>p ps. svc_Ports (headless_goal r ts old) = p # ps \<and> sp_Port p = int32 (spec_ApiPort (ts_Spec ts))"
  "\<exists>p q ps. svc_Ports (service_goal r ts old) = p # q # ps \<and> sp_Port p = int32 (spec_ApiPort (ts_Spec ts))"
  by (auto simp: headless_goal_def service_goal_def up_to_date_def owned_service_def headless_service_def rest_service_def
      service_port_def with_port_def Suc_le_length_iff numeral_2_eq_2 neq_Nil_conv not_less
      split: option.split sum.split)

lemma service_goal_annotations:
  "Annotations (svc_meta (service_goal r ts old)) = spec_ServiceAnnotations (ts_Spec ts)"
  by (auto simp: service_goal_def up_to_date_def owned_service_def rest_service_def getObjectMeta_def object_meta_def
      split: option.split sum.split)

lemma goals_settled:
  "(\<forall>x. old = Some x \<longrightarrow> svc_Ports x \<noteq> []) \<Longrightarrow>
     with_port (int32 (spec_ApiPort (ts_Spec ts))) (headless_goal r ts old) = headless_goal r ts old"
  "up_to_date ts (service_goal r ts old) = service_goal r ts old"
proof -
  assume "\<forall>x. old = Some x \<longrightarrow> svc_Ports x \<noteq> []"
  then show "with_port (int32 (spec_ApiPort (ts_Spec ts))) (headless_goal r ts old) = headless_goal r ts old"
    using goal_ports(1) [of old r ts] with_port_same by blast
next
  have "with_port (int32 (spec_ApiPort (ts_Spec ts))) (service_goal r ts old) = service_goal r ts old"
    using goal_ports(2) [of r ts old] with_port_same by blast
  then show "up_to_date ts (service_goal r ts old) = service_goal r ts old"
    using service_goal_annotations [of r ts old] by (simp add: up_to_date_def)
qed

section \<open>One run\<close>

text \<open>Every controller reference can be set, as for objects of the namespace of their owner.\<close>

definition sets_owner :: "Reconciler \<Rightarrow> bool" where
  "sets_owner r \<longleftrightarrow> (\<forall>kind owner meta. \<exists>owners. ext_SetControllerReference r kind owner meta = Inr owners)"

lemma create_owned_service_stored:
  assumes "answers_from S r" and "sets_owner r" and "stored_after S h (service_key svc) = None"
  shows "create_owned_service r ts svc h = (Inr (owned_service r ts svc), h @ [ReqCreate (OService (owned_service r ts svc))])"
proof -
  obtain owners where owners: "ext_SetControllerReference r ''TypesenseCluster'' (ts_meta ts) (svc_meta svc) = Inr owners"
    using assms(2) unfolding sets_owner_def by blast
  then have own: "owned_service r ts svc = svc\<lparr>svc_meta := (svc_meta svc)\<lparr>OwnerReferences := owners\<rparr>\<rparr>"
    by (simp add: owned_service_def)
  have "on_create (api_Service r) h (owned_service r ts svc) = Inr (owned_service r ts svc)"
    using assms(1,3) by (simp add: answers_from_def)
  then show ?thesis using owners by (simp add: create_owned_service_def Create_def own)
qed

text \<open>
  The common shape of the two halves of the phase: create what is missing, patch what differs from
  the goal, leave the rest.
\<close>

definition sync_one ::
  "Reconciler \<Rightarrow> TypesenseCluster \<Rightarrow> ObjectKey \<Rightarrow> Service \<Rightarrow> (Service \<Rightarrow> Service) \<Rightarrow> history
     \<Rightarrow> (error option \<times> history) option" where
  "sync_one r ts key fresh goal h =
     (case Get r Services key h of
        (Inl err, h) \<Rightarrow>
          if IsNotFound err then
            (case create_owned_service r ts fresh h of
               (Inl err, h) \<Rightarrow> Some (Some err, h) | (Inr _, h) \<Rightarrow> Some (None, h))
          else Some (Some err, h)
      | (Inr svc, h) \<Rightarrow>
          if goal svc = svc then Some (None, h)
          else (case Patch r Services svc (goal svc) h of
                  (Inl err, h) \<Rightarrow> Some (Some err, h) | (Inr _, h) \<Rightarrow> Some (None, h)))"

lemma sync_one_refines:
  assumes "answers_from S r" and "sets_owner r" and "well_keyed (stored_after S h)"
    and "service_key fresh = key" and "\<And>svc. service_key (goal svc) = service_key svc"
    and "old = stored_after S h key"
    and "new = (case old of None \<Rightarrow> owned_service r ts fresh | Some svc \<Rightarrow> goal svc)"
  shows "\<exists>t. sync_one r ts key fresh goal h = Some (None, h @ t) \<and>
    stored_after S (h @ t) = (stored_after S h)(key \<mapsto> new) \<and> (old = Some new \<longrightarrow> writes t = [])"
proof -
  let ?q = "ReqGet KService key"
  have get: "on_get (api_Service r) h key = (case old of None \<Rightarrow> Inl (NotFound (key_Name key)) | Some x \<Rightarrow> Inr x)"
    using assms(1,6) by (simp add: answers_from_def)
  show ?thesis
  proof (cases old)
    case None
    have "sync_one r ts key fresh goal h = Some (None, h @ [?q, ReqCreate (OService new)])"
      using create_owned_service_stored [OF assms(1,2), of "h @ [?q]" fresh ts] None assms(4,6,7)
      by (simp add: sync_one_def Get_def get)
    moreover have "stored_after S (h @ [?q, ReqCreate (OService new)]) = (stored_after S h)(key \<mapsto> new)"
      using assms(4,7) None by (simp add: stored_after_def)
    ultimately show ?thesis using None by blast
  next
    case (Some x)
    have key: "service_key x = key" using assms(3,6) Some by (simp add: well_keyed_def)
    show ?thesis
    proof (cases "goal x = x")
      case True
      then have "sync_one r ts key fresh goal h = Some (None, h @ [?q])"
        using get Some by (simp add: sync_one_def Get_def)
      then show ?thesis
        using Some True assms(6,7) by (intro exI [of _ "[?q]"]) (simp add: writes_Cons fun_upd_idem)
    next
      case False
      have "on_patch (api_Service r) (h @ [?q]) x (goal x) = Inr (goal x)"
        using assms(1,5,6) Some key by (simp add: answers_from_def)
      then have "sync_one r ts key fresh goal h = Some (None, h @ [?q, ReqPatch (OService x) (OService (goal x))])"
        using get Some False by (simp add: sync_one_def req_simps)
      moreover have "stored_after S (h @ [?q, ReqPatch (OService x) (OService (goal x))]) = (stored_after S h)(key \<mapsto> new)"
        using key assms(5,7) Some by (simp add: stored_after_def)
      ultimately show ?thesis using Some False assms(7) by (intro exI [of _ "[?q, ReqPatch (OService x) (OService (goal x))]"]) simp
    qed
  qed
qed

lemma with_port_same_iff: "svc_Ports svc = p # ps \<Longrightarrow> with_port port svc = svc \<longleftrightarrow> sp_Port p = port"
  by (cases svc; cases p) (auto simp: with_port_def)

lemma reconcile_headless_sync:
  assumes "\<And>svc. on_get (api_Service r) h (headlessObjectKey ts) = Inr svc \<Longrightarrow> svc_Ports svc \<noteq> []"
  shows "reconcile_headless r ts h = sync_one r ts (headlessObjectKey ts)
    (headless_service (headlessObjectKey ts) ts) (with_port (int32 (spec_ApiPort (ts_Spec ts)))) h"
proof (cases "on_get (api_Service r) h (headlessObjectKey ts)")
  case (Inr svc)
  with assms obtain p ps where "svc_Ports svc = p # ps" by (meson neq_Nil_conv)
  with Inr show ?thesis
    using set_first_port_with_port [of svc] with_port_same_iff [of svc p ps]
    by (simp add: reconcile_headless_def sync_one_def updateHeadlessService_def Get_def)
qed (simp add: reconcile_headless_def sync_one_def createHeadlessService_def Get_def)

lemma up_to_date_same:
  assumes "svc_Ports svc = p # ps"
  shows "up_to_date ts svc = svc \<longleftrightarrow> sp_Port p = int32 (spec_ApiPort (ts_Spec ts)) \<and>
    Annotations (svc_meta svc) = spec_ServiceAnnotations (ts_Spec ts)"
  using assms by (cases svc; cases p; cases "svc_meta svc") (auto simp: up_to_date_def with_port_def)

lemma reconcile_service_sync:
  assumes "\<And>svc. on_get (api_Service r) h (svcObjectKey ts) = Inr svc \<Longrightarrow> 2 \<le> length (svc_Ports svc)"
  shows "reconcile_service r ts h = sync_one r ts (svcObjectKey ts)
    (rest_service (svcObjectKey ts) ts) (up_to_date ts) h"
proof (cases "on_get (api_Service r) h (svcObjectKey ts)")
  case (Inr svc)
  with assms have two: "2 \<le> length (svc_Ports svc)" by simp
  then obtain p ps where p: "svc_Ports svc = p # ps" by (cases "svc_Ports svc") auto
  with Inr p two show ?thesis
    using set_first_port_with_port [of svc] up_to_date_same [OF p, of ts]
    by (auto simp: reconcile_service_def recreate_service_def sync_one_def updateService_def up_to_date_def Get_def
        Let_def)
qed (simp add: reconcile_service_def sync_one_def createService_def Get_def)

text \<open>
  The services the phase brings to its goal in one run: each under its key, with the ports the code
  indexes. A service that still lacks the port of the health check has to be up to date otherwise;
  what happens to one that is not is the last lemma of this theory.
\<close>

definition comparable_service :: "TypesenseCluster \<Rightarrow> Service \<Rightarrow> bool" where
  "comparable_service ts x \<longleftrightarrow> svc_Ports x \<noteq> [] \<and> (length (svc_Ports x) < 2 \<longrightarrow> up_to_date ts x = x)"

definition comparable :: "TypesenseCluster \<Rightarrow> services \<Rightarrow> bool" where
  "comparable ts S \<longleftrightarrow> well_keyed S \<and>
     (\<forall>x. S (headlessObjectKey ts) = Some x \<longrightarrow> svc_Ports x \<noteq> []) \<and>
     (\<forall>x. S (svcObjectKey ts) = Some x \<longrightarrow> comparable_service ts x)"

lemma up_to_date_key [simp]: "service_key (up_to_date ts svc) = service_key svc"
  by (simp add: up_to_date_def ObjectKeyFromObject_def)

lemma goal_keys:
  assumes "well_keyed S"
  shows "service_key (headless_goal r ts (S (headlessObjectKey ts))) = headlessObjectKey ts"
    and "service_key (service_goal r ts (S (svcObjectKey ts))) = svcObjectKey ts"
  using assms by (auto simp: headless_goal_def service_goal_def well_keyed_def split: option.split)

lemma bring_up_to_date_comparable:
  assumes "comparable ts S"
  shows "comparable ts (bring_up_to_date r ts S)"
  using assms goal_ports(1) [of "S (headlessObjectKey ts)" r ts] goal_ports(2) [of r ts "S (svcObjectKey ts)"] goal_keys [of S]
  by (auto simp: comparable_def comparable_service_def bring_up_to_date_def well_keyed_def)

lemma bring_up_to_date_idem:
  assumes "comparable ts S"
  shows "bring_up_to_date r ts (bring_up_to_date r ts S) = bring_up_to_date r ts S"
proof -
  have "headless_goal r ts (Some (headless_goal r ts (S (headlessObjectKey ts)))) = headless_goal r ts (S (headlessObjectKey ts))"
    and "service_goal r ts (Some (service_goal r ts (S (svcObjectKey ts)))) = service_goal r ts (S (svcObjectKey ts))"
    using assms goals_settled(1) [of "S (headlessObjectKey ts)" ts r] goals_settled(2) [of ts r "S (svcObjectKey ts)"]
      goal_ports(2) [of r ts "S (svcObjectKey ts)"]
    by (auto simp: comparable_def headless_goal_def [of r ts "Some x" for x] service_goal_def [of r ts "Some x" for x])
  then show ?thesis by (simp add: bring_up_to_date_def)
qed

text \<open>The second half of the phase, the migration of an old service included.\<close>

lemma reconcile_service_refines:
  assumes "answers_from S r" and "sets_owner r" and "well_keyed (stored_after S h)"
    and "old = stored_after S h (svcObjectKey ts)" and "\<And>x. old = Some x \<Longrightarrow> comparable_service ts x"
  shows "\<exists>u. reconcile_service r ts h = Some (None, h @ u) \<and>
    stored_after S (h @ u) = (stored_after S h)(svcObjectKey ts \<mapsto> service_goal r ts old) \<and>
    (old = Some (service_goal r ts old) \<longrightarrow> writes u = [])"
proof -
  let ?sk = "svcObjectKey ts" and ?fresh = "rest_service (svcObjectKey ts) ts"
  have get: "on_get (api_Service r) h ?sk = (case old of None \<Rightarrow> Inl (NotFound (key_Name ?sk)) | Some x \<Rightarrow> Inr x)"
    using assms(1,4) by (simp add: answers_from_def)
  show ?thesis
  proof (cases "\<exists>x. old = Some x \<and> length (svc_Ports x) < 2")
    case True
    then obtain x where x: "old = Some x" "length (svc_Ports x) < 2" by blast
    let ?new = "owned_service r ts ?fresh"
    let ?u = "[ReqGet KService ?sk, ReqDelete (OService x), ReqCreate (OService ?new)]"
    have key: "service_key x = ?sk" using assms(3,4) x(1) by (simp add: well_keyed_def)
    have gone: "stored_after S (h @ [ReqGet KService ?sk, ReqDelete (OService x)]) ?sk = None"
      using key by (simp add: stored_after_def)
    have deleted: "on_delete (api_Service r) (h @ [ReqGet KService ?sk]) x = None"
      using assms(1,4) x(1) key by (simp add: answers_from_def)
    obtain p ps where p: "svc_Ports x = p # ps" "up_to_date ts x = x"
      using assms(5) [OF x(1)] x(2) by (auto simp: comparable_service_def neq_Nil_conv)
    have "reconcile_service r ts h = Some (None, h @ ?u)"
      using get x deleted create_owned_service_stored [OF assms(1,2), of "h @ [ReqGet KService ?sk, ReqDelete (OService x)]" ?fresh ts]
        gone p up_to_date_same [OF p(1), of ts]
      by (simp add: reconcile_service_def recreate_service_def createService_def deleteService_def Get_def Delete_def)
    moreover have "stored_after S (h @ ?u) = (stored_after S h)(?sk \<mapsto> service_goal r ts old)"
      using key x by (simp add: stored_after_def service_goal_def)
    moreover have "old \<noteq> Some (service_goal r ts old)" using x goal_ports(2) [of r ts old] by auto
    ultimately show ?thesis by blast
  next
    case False
    have "reconcile_service r ts h = sync_one r ts ?sk ?fresh (up_to_date ts) h"
      using get False by (intro reconcile_service_sync) (auto split: option.split_asm)
    moreover have "service_goal r ts old = (case old of None \<Rightarrow> owned_service r ts ?fresh | Some svc \<Rightarrow> up_to_date ts svc)"
      using False by (auto simp: service_goal_def split: option.split)
    ultimately show ?thesis
      using sync_one_refines [OF assms(1-3) fresh_keys(2) up_to_date_key assms(4)] by simp
  qed
qed

lemma ReconcileServices_run:
  assumes "answers_from S r" and "sets_owner r" and "comparable ts (stored_after S h)"
  shows "\<exists>t. ReconcileServices r ts h = Some (None, h @ t) \<and>
    stored_after S (h @ t) = bring_up_to_date r ts (stored_after S h) \<and>
    (bring_up_to_date r ts (stored_after S h) = stored_after S h \<longrightarrow> writes t = [])"
proof -
  let ?hk = "headlessObjectKey ts" and ?sk = "svcObjectKey ts" and ?S = "stored_after S h"
  have found: "stored_after S g k = Some x" if "on_get (api_Service r) g k = Inr x" for g k x
    using that assms(1) by (auto simp: answers_from_def split: option.split_asm)
  have keyed: "well_keyed ?S" using assms(3) by (simp add: comparable_def)
  have "\<exists>t. reconcile_headless r ts h = Some (None, h @ t) \<and>
      stored_after S (h @ t) = ?S(?hk \<mapsto> headless_goal r ts (?S ?hk)) \<and>
      (?S ?hk = Some (headless_goal r ts (?S ?hk)) \<longrightarrow> writes t = [])"
    using sync_one_refines [OF assms(1,2) keyed fresh_keys(1) _ refl headless_goal_def]
      reconcile_headless_sync [of r h ts] found assms(3)
    by (simp add: comparable_def)
  then obtain t where t: "reconcile_headless r ts h = Some (None, h @ t)"
    "stored_after S (h @ t) = ?S(?hk \<mapsto> headless_goal r ts (?S ?hk))"
    "?S ?hk = Some (headless_goal r ts (?S ?hk)) \<longrightarrow> writes t = []" by blast
  have keyed2: "well_keyed (stored_after S (h @ t))"
    using t(2) keyed goal_keys(1) [OF keyed] by (simp add: well_keyed_def)
  have "\<exists>u. reconcile_service r ts (h @ t) = Some (None, (h @ t) @ u) \<and>
      stored_after S ((h @ t) @ u) = (stored_after S (h @ t))(?sk \<mapsto> service_goal r ts (?S ?sk)) \<and>
      (?S ?sk = Some (service_goal r ts (?S ?sk)) \<longrightarrow> writes u = [])"
    using reconcile_service_refines [OF assms(1,2) keyed2, of "?S ?sk" ts] t(2) assms(3)
    by (simp add: comparable_def)
  then obtain u where u: "reconcile_service r ts (h @ t) = Some (None, (h @ t) @ u)"
    "stored_after S ((h @ t) @ u) = (stored_after S (h @ t))(?sk \<mapsto> service_goal r ts (?S ?sk))"
    "?S ?sk = Some (service_goal r ts (?S ?sk)) \<longrightarrow> writes u = []" by blast
  have quiet: "writes (t @ u) = []" if "bring_up_to_date r ts ?S = ?S"
  proof -
    have "bring_up_to_date r ts ?S ?hk = Some (headless_goal r ts (?S ?hk))"
      and "bring_up_to_date r ts ?S ?sk = Some (service_goal r ts (?S ?sk))"
      by (simp_all add: bring_up_to_date_def)
    then show ?thesis unfolding that using t(3) u(3) by simp
  qed
  have "stored_after S (h @ t @ u) = bring_up_to_date r ts ?S"
    using t(2) u(2) by (simp add: bring_up_to_date_def)
  moreover have "ReconcileServices r ts h = Some (None, h @ t @ u)"
    using t(1) u(1) by (simp add: ReconcileServices_def)
  ultimately show ?thesis using quiet by blast
qed

text \<open>
  C11: against a server that answers from what it stores, a run of the services ends without a
  panic and without an error, and what is stored afterwards is what the abstract operation makes of
  what was stored before: a service of the cluster that was missing is created, one that lacks the
  port of the health check is deleted and created anew, the others get the port and the annotations of the
  specification and keep whatever else they carried, and no other service changes. A run after
  that writes nothing. This holds if the stored services of the cluster have the ports the code
  indexes and if one without the port of the health check is up to date otherwise; one that is
  not does not reach the goal in one run (\<^verbatim>\<open>recreated_service_patched_back\<close>).
\<close>

theorem ReconcileServices_refines:
  assumes "answers_from S r" and "sets_owner r" and "comparable ts (stored_after S h)"
  shows "\<exists>h1 h2. ReconcileServices r ts h = Some (None, h1) \<and>
    stored_after S h1 = bring_up_to_date r ts (stored_after S h) \<and>
    ReconcileServices r ts h1 = Some (None, h2) \<and> writes h2 = writes h1 \<and> stored_after S h2 = stored_after S h1"
proof -
  from ReconcileServices_run [OF assms] obtain t where t: "ReconcileServices r ts h = Some (None, h @ t)"
    "stored_after S (h @ t) = bring_up_to_date r ts (stored_after S h)" by blast
  have "comparable ts (stored_after S (h @ t))"
    using bring_up_to_date_comparable [OF assms(3)] t(2) by simp
  from ReconcileServices_run [OF assms(1,2) this] bring_up_to_date_idem [OF assms(3), of r] t(2)
  obtain u where "ReconcileServices r ts (h @ t) = Some (None, (h @ t) @ u)"
    "stored_after S ((h @ t) @ u) = stored_after S (h @ t)" "writes u = []" by auto
  with t show ?thesis by (intro exI [of _ "h @ t"] exI [of _ "(h @ t) @ u"]) simp
qed

definition remembering_server :: Reconciler where
  "remembering_server = sample_reconciler\<lparr>api_Service := quiet_api\<lparr>on_get := \<lambda>h key.
     (case stored_after (\<lambda>_. None) h key of None \<Rightarrow> Inl (NotFound (key_Name key)) | Some x \<Rightarrow> Inr x)\<rparr>\<rparr>"

lemma remembering_server_answers: "answers_from (\<lambda>_. None) remembering_server"
  by (simp add: answers_from_def remembering_server_def quiet_api_def)

lemma remembering_server_owner: "sets_owner remembering_server"
  by (simp add: sets_owner_def remembering_server_def sample_reconciler_def)

theorem ReconcileServices_refines_witness:
  "\<exists>h1 h2. ReconcileServices remembering_server sample_ts [] = Some (None, h1) \<and>
     stored_after (\<lambda>_. None) h1 (svcObjectKey sample_ts) =
       Some (owned_service remembering_server sample_ts (rest_service (svcObjectKey sample_ts) sample_ts)) \<and>
     ReconcileServices remembering_server sample_ts h1 = Some (None, h2) \<and> writes h2 = writes h1"
proof -
  have "comparable sample_ts (stored_after (\<lambda>_. None) [])" by (simp add: comparable_def well_keyed_def)
  from ReconcileServices_refines [OF remembering_server_answers remembering_server_owner this]
  obtain h1 h2 where "ReconcileServices remembering_server sample_ts [] = Some (None, h1)"
    "stored_after (\<lambda>_. None) h1 = bring_up_to_date remembering_server sample_ts (\<lambda>_. None)"
    "ReconcileServices remembering_server sample_ts h1 = Some (None, h2)" "writes h2 = writes h1" by auto
  then show ?thesis by (simp add: bring_up_to_date_def service_goal_def)
qed

section \<open>The migration of old services\<close>

text \<open>
  A service without the port of the health check is deleted and created anew with both ports,
  but when its port or its annotations are out of date too, the comparison that follows still looks
  at the deleted object: the new service is patched at once with an object that has one port again.
\<close>

theorem recreated_service_patched_back:
  assumes "on_get (api_Service r) h (svcObjectKey ts) = Inr svc" and "svc_Ports svc = [p]"
    and "sp_Port p \<noteq> int32 (spec_ApiPort (ts_Spec ts)) \<or>
      Annotations (svc_meta svc) \<noteq> spec_ServiceAnnotations (ts_Spec ts)"
    and "reconcile_service r ts h = Some (None, h')"
  shows "\<exists>new reverted. writes h' = writes h @ [ReqDelete (OService svc), ReqCreate (OService new),
      ReqPatch (OService svc) (OService reverted)] \<and>
    length (svc_Ports new) = 2 \<and> length (svc_Ports reverted) = 1"
proof -
  have first: "set_first_port svc n = Some (with_port n svc)" for n
    using assms(2) by (simp add: set_first_port_with_port)
  let ?reverted = "up_to_date ts svc"
  from assms first obtain owners where
    "h' = h @ [ReqGet KService (svcObjectKey ts), ReqDelete (OService svc),
       ReqCreate (OService ((rest_service (svcObjectKey ts) ts)\<lparr>svc_meta :=
         (svc_meta (rest_service (svcObjectKey ts) ts))\<lparr>OwnerReferences := owners\<rparr>\<rparr>)),
       ReqPatch (OService svc) (OService ?reverted)]"
    by (auto simp: reconcile_service_def recreate_service_def createService_def create_owned_service_def
        deleteService_def updateService_def req_simps up_to_date_def Let_def
        split: option.split_asm sum.split_asm if_split_asm)
  moreover have "length (svc_Ports ?reverted) = 1"
    using assms(2) by (simp add: up_to_date_def with_port_def)
  ultimately show ?thesis by (simp add: writes_Cons rest_service_def)
qed

definition old_service :: Service where
  "old_service = (rest_service (svcObjectKey sample_ts) sample_ts)\<lparr>svc_Ports := [service_port ''http'' 80 8108]\<rparr>"

definition old_service_server :: Reconciler where
  "old_service_server = sample_reconciler\<lparr>api_Service := quiet_api\<lparr>on_get := \<lambda>h key. Inr old_service\<rparr>\<rparr>"

lemma old_service_server_simps:
  "on_get (api_Service old_service_server) h key = Inr old_service"
  "on_create (api_Service old_service_server) h svc = Inr svc"
  "on_patch (api_Service old_service_server) h svc svc' = Inr svc'"
  "on_delete (api_Service old_service_server) h svc = None"
  "ext_SetControllerReference old_service_server k m n = Inr [\<lparr>owner_Kind = k, owner_Name = Name m\<rparr>]"
  by (simp_all add: old_service_server_def quiet_api_def sample_reconciler_def)

theorem recreated_service_patched_back_witness:
  "\<exists>h' new reverted. reconcile_service old_service_server sample_ts [] = Some (None, h') \<and>
     writes h' = [ReqDelete (OService old_service), ReqCreate (OService new),
       ReqPatch (OService old_service) (OService reverted)] \<and> length (svc_Ports reverted) = 1"
proof -
  note get = old_service_server_simps(1)
  have ports: "svc_Ports old_service = [service_port ''http'' 80 8108]" by (simp add: old_service_def)
  have port: "sp_Port (service_port ''http'' 80 8108) \<noteq> int32 (spec_ApiPort (ts_Spec sample_ts))"
    by (simp add: service_port_def sample_ts_def sample_spec_def int32_id)
  obtain h' where run: "reconcile_service old_service_server sample_ts [] = Some (None, h')"
    using port set_first_port_with_port [of old_service]
    by (simp add: reconcile_service_def recreate_service_def createService_def create_owned_service_def
        deleteService_def updateService_def req_simps Let_def old_service_server_simps ports)
  from recreated_service_patched_back [OF get ports disjI1 [OF port] run] run show ?thesis by auto
qed

end
