(* ===== verification/Ingress_Correct.thy ===== *)
theory Ingress_Correct
  imports Ingress_Proxy Cluster_Services
begin

text \<open>
  Correctness of the ingress and its reverse proxy: what is sent is what the next run compares
  with, the four objects refer to each other and to the service of the cluster, and without an
  ingress in the specification the phase only removes the ingress.
\<close>

section \<open>The ingress settles\<close>

abbreviation ingress_filters :: "TypesenseCluster \<Rightarrow> string list" where
  "ingress_filters ts \<equiv> clusterIssuerAnnotationKey # rancherDomainAnnotationKey #
     spec_IgnoreAnnotationsFromExternalMutations (ts_Spec ts)"

lemma filtered_ingress_annotations:
  assumes "keeps_annotations (ingress_filters ts) (is_Annotations igs)"
  shows "filterMap (ingress_annotations igs) (ingress_filters ts) = is_Annotations igs"
proof (rule fmap_ext)
  fix k
  show "fmlookup (filterMap (ingress_annotations igs) (ingress_filters ts)) k = fmlookup (is_Annotations igs) k"
  proof (cases "list_ex (\<lambda>f. Contains k f) (ingress_filters ts)")
    case True
    then have "k |\<notin>| fmdom (is_Annotations igs)" using assms by (auto simp: keeps_annotations_def)
    with True show ?thesis by (auto simp: fmlookup_filterMap fmdom_notD list_ex_iff)
  next
    case False
    then have "k \<noteq> clusterIssuerAnnotationKey" using Contains_self by auto
    with False show ?thesis
      by (auto simp: fmlookup_filterMap ingress_annotations_def fmdom_notD list_ex_iff split: option.split)
  qed
qed

lemma issuer_annotated:
  assumes "keeps_annotations (ingress_filters ts) (is_Annotations igs)" and "is_ClusterIssuer igs = Some issuer"
  shows "lookup (ingress_annotations igs) clusterIssuerAnnotationKey = issuer"
proof -
  have "clusterIssuerAnnotationKey |\<notin>| fmdom (is_Annotations igs)"
    using assms(1) Contains_self by (auto simp: keeps_annotations_def)
  with assms(2) show ?thesis by (simp add: ingress_annotations_def lookup_def)
qed

text \<open>What the comparison looks at, in an object that carries the specification.\<close>

lemma ingress_unchanged:
  assumes "keeps_annotations (ingress_filters ts) (is_Annotations igs)" and "is_PathType igs = Some t"
    and "is_ClusterIssuer igs = None \<or> is_TLSSecretName igs \<noteq> None"
    and "Annotations (ing_meta ig) = ingress_annotations igs"
    and "ing_IngressClassName ig = Some (is_IngressClassName igs)"
    and "index (ing_Rules ig) 0 = Some rule" and "ir_Host rule = is_Host igs"
    and "ir_HTTP rule = Some paths" and "index paths 0 = Some path"
    and "ip_Path path = is_Path igs" and "ip_PathType path = is_PathType igs"
    and "index (ing_TLS ig) 0 = Some tls" and "tls_SecretName tls = tls_name ts igs"
  shows "ingress_changed igs ig ts = Some False"
  using assms filtered_ingress_annotations [OF assms(1)] issuer_annotated [OF assms(1)]
  by (auto simp: ingress_changed_def getIngressAnnotations_def tls_name_def split: option.split)

lemma ingress_object_unchanged:
  assumes "keeps_annotations (ingress_filters ts) (is_Annotations igs)" and "is_PathType igs = Some t"
    and "is_ClusterIssuer igs = None \<or> is_TLSSecretName igs \<noteq> None"
    and "ig = (ingress_object key ts igs)\<lparr>ing_meta := (ing_meta (ingress_object key ts igs))\<lparr>OwnerReferences := owners\<rparr>\<rparr>"
  shows "ingress_changed igs ig ts = Some False"
  using assms(4)
  by (intro ingress_unchanged [OF assms(1-3)])
     (auto simp: ingress_object_def getObjectMeta_def object_meta_def)

lemma updated_ingress_unchanged:
  assumes "keeps_annotations (ingress_filters ts) (is_Annotations igs)" and "is_PathType igs = Some t"
    and "is_ClusterIssuer igs = None \<or> is_TLSSecretName igs \<noteq> None"
    and "updated_ingress ig ts igs = Some sent"
  shows "ingress_changed igs sent ts = Some False"
  using assms(4)
  by (auto simp: updated_ingress_def store_index_def index_def elim!: bind_SomeE split: if_split_asm
      intro!: ingress_unchanged [OF assms(1-3)])

text \<open>
  C26: the ingress that a run creates or patches passes the comparison of the next run: nothing is
  left to change. This needs a path type, and annotations that are not among those the comparison
  leaves out.
\<close>

theorem sync_ingress_settles:
  assumes "spec_Ingress (ts_Spec ts) = Some igs" and "is_PathType igs = Some t"
    and "keeps_annotations (ingress_filters ts) (is_Annotations igs)"
    and "sync_ingress r ts existing h = Some (Inr ig, h')"
  shows "(\<exists>sent. h' = h @ [ReqCreate (OIngress sent)] \<and> ingress_changed igs sent ts = Some False) \<or>
    (\<exists>old sent. existing = Some old \<and> h' = h @ [ReqPatch (OIngress old) (OIngress sent)] \<and>
       ingress_changed igs sent ts = Some False) \<or>
    (existing = Some ig \<and> h' = h \<and> ingress_changed igs ig ts = Some False)"
proof (cases existing)
  case None
  with assms(1,4) have tls: "is_ClusterIssuer igs = None \<or> is_TLSSecretName igs \<noteq> None"
    by (auto simp: sync_ingress_def createIngress_def split: if_split_asm)
  from None assms(1,4) obtain owners where "h' = h @ [ReqCreate (OIngress ((ingress_object (ingressObjectKey ts) ts igs)
      \<lparr>ing_meta := (ing_meta (ingress_object (ingressObjectKey ts) ts igs))\<lparr>OwnerReferences := owners\<rparr>\<rparr>))]"
    by (auto simp: sync_ingress_def createIngress_def Create_def Let_def split: if_split_asm sum.split_asm)
  then show ?thesis using ingress_object_unchanged [OF assms(3,2) tls] by blast
next
  case (Some old)
  with assms(1,4) obtain c where c: "ingress_changed igs old ts = Some c"
    by (auto simp: sync_ingress_def elim!: bind_SomeE)
  show ?thesis
  proof (cases c)
    case False
    with Some assms(1,4) c show ?thesis by (simp add: sync_ingress_def)
  next
    case True
    with Some assms(1,4) c obtain sent where sent: "updated_ingress old ts igs = Some sent"
      and tls: "is_ClusterIssuer igs = None \<or> is_TLSSecretName igs \<noteq> None"
      and "h' = h @ [ReqPatch (OIngress old) (OIngress sent)]"
      by (auto simp: sync_ingress_def updateIngress_def Patch_def elim!: bind_SomeE split: if_split_asm)
    then show ?thesis using Some updated_ingress_unchanged [OF assms(3,2) tls sent] by blast
  qed
qed

definition sample_ingress :: IngressSpec where
  "sample_ingress = \<lparr>is_Referer = None, is_Host = ''h'', is_HttpDirectives = None, is_ServerDirectives = None,
     is_LocationDirectives = None, is_ClusterIssuer = Some ''letsencrypt'', is_IngressClassName = ''nginx'',
     is_ServiceAnnotations = fmempty, is_Annotations = fmempty, is_TLSSecretName = Some ''tls'',
     is_Resources = None, is_Image = ''nginx:alpine'',
     is_ReadOnlyRootFilesystem = Some \<lparr>ro_SecurityContext = None, ro_Volumes = [], ro_VolumeMounts = []\<rparr>,
     is_Path = ''/'', is_PathType = Some ''Prefix''\<rparr>"

definition exposed :: TypesenseCluster where
  "exposed = sample_ts\<lparr>ts_Spec := sample_spec\<lparr>spec_Ingress := Some sample_ingress\<rparr>\<rparr>"

lemma exposed_simps [simp]:
  "spec_Ingress (ts_Spec exposed) = Some sample_ingress" "is_PathType sample_ingress = Some ''Prefix''"
  "is_Annotations sample_ingress = fmempty" "is_TLSSecretName sample_ingress = Some ''tls''"
  "spec_ApiPort (ts_Spec exposed) = 8108"
  by (simp_all add: exposed_def sample_ingress_def sample_spec_def)

theorem sync_ingress_settles_witness:
  "\<exists>sent ig. sync_ingress sample_reconciler exposed None [] = Some (Inr ig, [ReqCreate (OIngress sent)]) \<and>
     ingress_changed sample_ingress sent exposed = Some False"
proof -
  obtain ig sent where run: "sync_ingress sample_reconciler exposed None [] = Some (Inr ig, [ReqCreate (OIngress sent)])"
    by (simp add: sync_ingress_def createIngress_def Create_def Let_def sample_reconciler_def quiet_api_def)
  have "keeps_annotations (ingress_filters exposed) (is_Annotations sample_ingress)" by simp
  from sync_ingress_settles [OF exposed_simps(1,2) this run] run show ?thesis by auto
qed

section \<open>The deployment of the proxy settles\<close>

lemma clear_mode_idem [simp]: "clear_mode (clear_mode v) = clear_mode v"
  by (simp add: clear_mode_def split: VolumeSource.split)

lemma map_clear_mode_idem [simp]: "map clear_mode (map clear_mode vs) = map clear_mode vs"
  by (simp add: comp_def)

lemma needsSyncVolumes_cleared:
  "needsSyncVolumes desired (map clear_mode desired) = (False, map clear_mode desired, map clear_mode desired)"
  by (simp add: needsSyncVolumes_def normalizeVolumes_def Let_def comp_def)

lemma needsSyncVolumes_self:
  "needsSyncVolumes desired desired = (False, map clear_mode desired, map clear_mode desired)"
  by (simp add: needsSyncVolumes_def normalizeVolumes_def Let_def)

lemma needsSyncVolumes_again:
  assumes "needsSyncVolumes desired existing = (b, d, e)"
  shows "needsSyncVolumes desired (if b then d else e) = (False, map clear_mode desired, if b then d else e)"
  using assms by (auto simp: needsSyncVolumes_def normalizeVolumes_def Let_def comp_def)

lemma needsSyncMounts_again: "\<not> needsSyncMounts desired (if needsSyncMounts desired existing then desired else existing)"
  by (simp add: needsSyncMounts_def)

lemma sync_read_only_again:
  assumes "sync_read_only ts igs vs c = (b, vs', c')"
  shows "sync_read_only ts igs vs' c' = (False, vs', c')"
proof (cases "is_ReadOnlyRootFilesystem igs")
  case None
  with assms show ?thesis by (auto simp: sync_read_only_def split: if_split_asm)
next
  case (Some ro)
  obtain b1 d e where n: "needsSyncVolumes (getDefaultReverseProxyVolumes (ts_Name ts) @ ro_Volumes ro) vs = (b1, d, e)"
    by (metis prod_cases3)
  have "(if Some x \<noteq> y then Some x else y) = Some x" for x and y :: "SecurityContext option"
    by simp
  with assms Some have "vs' = (if b1 then d else e)"
    and "c' = c\<lparr>c_SecurityContext := Some (read_only_context ro),
      c_VolumeMounts := (if needsSyncMounts (getDefaultReverseProxyVolumeMounts @ ro_VolumeMounts ro) (c_VolumeMounts c)
        then getDefaultReverseProxyVolumeMounts @ ro_VolumeMounts ro else c_VolumeMounts c)\<rparr>"
    by (simp_all add: sync_read_only_def n Let_def split del: if_split)
  then show ?thesis
    using Some needsSyncVolumes_again [OF n] needsSyncMounts_again
    by (simp add: sync_read_only_def Let_def split del: if_split)
qed

lemma sync_read_only_keeps:
  "sync_read_only ts igs vs c = (b, vs', c') \<Longrightarrow> c_Resources c' = c_Resources c \<and> c_Image c' = c_Image c"
  by (auto simp: sync_read_only_def Let_def split: option.split_asm if_split_asm prod.split_asm)

text \<open>
  C27: what the comparison of the deployment leaves behind is a fixed point: compared again, it
  needs no update and is not changed, also after the comparison of volumes has cleared the default
  modes behind the shared pointers. A deployment as the operator creates it needs no update.
\<close>

theorem sync_deployment_settles:
  assumes "sync_deployment ts igs deployment = Some (differs, synced)"
  shows "sync_deployment ts igs synced = Some (False, synced) \<and>
    (\<exists>same. sync_deployment ts igs (proxy_deployment key ts igs) = Some (False, same))"
proof
  from assms obtain c cs b vs' c' where cs: "ps_Containers (pt_spec (dep_Template deployment)) = c # cs"
    and ro: "sync_read_only ts igs (ps_Volumes (pt_spec (dep_Template deployment)))
       (c\<lparr>c_Resources := GetReverseProxyResources igs, c_Image := is_Image igs\<rparr>) = (b, vs', c')"
    and synced: "synced = deployment\<lparr>dep_Template := (dep_Template deployment)\<lparr>
       pt_spec := (pt_spec (dep_Template deployment))\<lparr>ps_Containers := c' # cs, ps_Volumes := vs'\<rparr>\<rparr>\<rparr>"
    by (cases "ps_Containers (pt_spec (dep_Template deployment))")
       (auto simp: sync_deployment_def store_index_def Let_def elim!: bind_SomeE split: prod.split_asm)
  have same: "c'\<lparr>c_Resources := GetReverseProxyResources igs, c_Image := is_Image igs\<rparr> = c'"
    using sync_read_only_keeps [OF ro] by (cases c') simp
  show "sync_deployment ts igs synced = Some (False, synced)"
    using sync_read_only_again [OF ro] sync_read_only_keeps [OF ro]
    by (simp add: sync_deployment_def synced store_index_def same)
  show "\<exists>same. sync_deployment ts igs (proxy_deployment key ts igs) = Some (False, same)"
    by (cases "is_ReadOnlyRootFilesystem igs")
       (auto simp: sync_deployment_def proxy_deployment_def proxy_container_def sync_read_only_def Let_def
         store_index_def needsSyncVolumes_self needsSyncMounts_def empty_Container_def)
qed

definition stray_deployment :: Deployment where
  "stray_deployment = (proxy_deployment (deploymentObjectKey exposed) exposed sample_ingress)\<lparr>
     dep_Template := \<lparr>pt_meta = empty_meta, pt_spec = empty_PodSpec\<lparr>ps_Containers := [empty_Container]\<rparr>\<rparr>\<rparr>"

theorem sync_deployment_settles_witness:
  "\<exists>synced. sync_deployment exposed sample_ingress stray_deployment = Some (True, synced) \<and>
     sync_deployment exposed sample_ingress synced = Some (False, synced)"
proof -
  have "is_Image sample_ingress \<noteq> c_Image empty_Container"
    by (simp add: sample_ingress_def empty_Container_def)
  moreover obtain b vs c where "sync_read_only exposed sample_ingress (ps_Volumes empty_PodSpec)
      (empty_Container\<lparr>c_Resources := GetReverseProxyResources sample_ingress, c_Image := is_Image sample_ingress\<rparr>) = (b, vs, c)"
    by (metis prod_cases3)
  ultimately obtain synced where "sync_deployment exposed sample_ingress stray_deployment = Some (True, synced)"
    by (simp add: sync_deployment_def stray_deployment_def store_index_def)
  then show ?thesis using sync_deployment_settles by blast
qed

section \<open>The objects refer to each other\<close>

lemma conf_passes_to:
  "Contains (confTemplate a b c d name port) (''proxy_pass http://'' @ name @ ''-svc:'' @ port @ ''/;'')"
proof -
  have "confTemplate a b c d name port =
    (''events {}'' @ nl_tabs 2 @ ''http {'' @ template_if (nl_tabs 2 @ ''  '') a @ nl_tabs 2 @ ''  server {'' @
     nl_tabs 3 @ ''listen 80;'' @ template_if (nl_tabs 3) d @ template_if (nl_tabs 3) b @
     nl_tabs 3 @ ''location / {'' @ nl_tabs 3 @ ''  '') @
    (''proxy_pass http://'' @ name @ ''-svc:'' @ port @ ''/;'') @
    (nl_tabs 3 @ ''  proxy_pass_request_headers on;'' @ template_if (nl_tabs 3 @ ''  '') c @
     nl_tabs 3 @ ''}'' @ nl_tabs 2 @ ''  }'' @ nl_tabs 2 @ ''}'')"
    by (simp add: confTemplate_def)
  then show ?thesis by (simp only: Contains_append_mid)
qed

text \<open>
  C28: the chain from the ingress to the cluster is closed. The ingress sends its traffic to the
  service of the proxy, at a port that service has; that service selects the pods of the deployment
  and forwards to the port of their container; the container mounts the configuration under the
  name it is created with, and the configuration passes every request on to the service of the
  cluster, at the port which that service has.
\<close>

theorem proxy_wiring:
  assumes "ing = ingress_object (ingressObjectKey ts) ts igs"
    and "svc = proxy_service (serviceNameObjectKey ts) ts igs"
    and "dep = proxy_deployment (deploymentObjectKey ts) ts igs"
    and "rest = rest_service (svcObjectKey ts) ts"
    and "- (2 ^ 31) \<le> spec_ApiPort (ts_Spec ts)" and "spec_ApiPort (ts_Spec ts) < 2 ^ 31"
  shows "\<exists>path port container mount volume.
    ing_Rules ing = [\<lparr>ir_Host = is_Host igs, ir_HTTP = Some [path]\<rparr>] \<and>
    ip_ServiceName path = Name (svc_meta svc) \<and> svc_Ports svc = [port] \<and> ip_ServicePort path = sp_Port port \<and>
    svc_Selector svc = Labels (pt_meta (dep_Template dep)) \<and> dep_Selector dep = Labels (pt_meta (dep_Template dep)) \<and>
    ps_Containers (pt_spec (dep_Template dep)) = [container] \<and>
    sp_TargetPort port \<in> set (map cp_ContainerPort (c_Ports container)) \<and>
    mount \<in> set (c_VolumeMounts container) \<and> volume \<in> set (ps_Volumes (pt_spec (dep_Template dep))) \<and>
    vm_Name mount = vol_Name volume \<and> vol_Source volume = ConfigMapVolume (key_Name (configMapObjectKey ts)) None \<and>
    Contains (getIngressNginxConf ts) (''proxy_pass http://'' @ Name (svc_meta rest) @ '':'' @
      Itoa (sp_Port (hd (svc_Ports rest))) @ ''/;'')"
proof -
  have port: "int32 (spec_ApiPort (ts_Spec ts)) = spec_ApiPort (ts_Spec ts)"
    using assms(5,6) by (rule int32_id)
  have conf: "Contains (getIngressNginxConf ts) (''proxy_pass http://'' @ Name (svc_meta rest) @ '':'' @
      Itoa (sp_Port (hd (svc_Ports rest))) @ ''/;'')"
    using conf_passes_to [of _ _ _ _ "ts_Name ts" "Itoa (spec_ApiPort (ts_Spec ts))"]
    by (simp add: getIngressNginxConf_def Let_def assms(4) rest_service_def svcObjectKey_def ClusterRestService_def
        getObjectMeta_def object_meta_def service_port_def port)
  show ?thesis
    using conf unfolding assms(1-3)
    by (intro exI [of _ "\<lparr>ip_Path = is_Path igs, ip_PathType = is_PathType igs,
          ip_ServiceName = ClusterReverseProxyService (ts_Name ts), ip_ServicePort = 80\<rparr>"]
        exI [of _ "\<lparr>sp_Name = ''http'', sp_Protocol = ''TCP'', sp_Port = 80, sp_TargetPort = 80\<rparr>"]
        exI [of _ "proxy_container ts igs"] exI [of _ "hd getDefaultReverseProxyVolumeMounts"]
        exI [of _ "hd (getDefaultReverseProxyVolumes (ts_Name ts))"])
      (simp add: ingress_object_def proxy_service_def proxy_deployment_def proxy_container_def
        getReverseProxyObjectMeta_def object_meta_def serviceNameObjectKey_def configMapObjectKey_def
        getDefaultReverseProxyVolumeMounts_def getDefaultReverseProxyVolumes_def)
qed

theorem proxy_wiring_witness:
  "\<exists>path. ing_Rules (ingress_object (ingressObjectKey exposed) exposed sample_ingress) =
     [\<lparr>ir_Host = is_Host sample_ingress, ir_HTTP = Some [path]\<rparr>] \<and>
     ip_ServiceName path = Name (svc_meta (proxy_service (serviceNameObjectKey exposed) exposed sample_ingress))"
proof -
  have "- (2 ^ 31) \<le> spec_ApiPort (ts_Spec exposed)" "spec_ApiPort (ts_Spec exposed) < 2 ^ 31" by simp_all
  from proxy_wiring [OF refl refl refl refl this] show ?thesis by blast
qed

section \<open>Without an ingress\<close>

text \<open>
  C29: when the specification has no ingress, or has routes, which take precedence over it, the
  phase does not panic whatever it reads, and its only possible write is the deletion of the
  ingress that exists; the proxy goes with its owner.
\<close>

theorem ReconcileIngress_off:
  assumes "spec_Ingress (ts_Spec ts) = None \<or> spec_HttpRoutes (ts_Spec ts) \<noteq> None"
  shows "\<exists>e h'. ReconcileIngress r ts h = Some (e, h') \<and>
    writes h' = writes h @ (case on_get (api_Ingress r) h (ingressObjectKey ts) of
      Inl err \<Rightarrow> [] | Inr ig \<Rightarrow> [ReqDelete (OIngress ig)])"
  using assms by (auto simp: ReconcileIngress_def req_simps deleteIngress_def writes_Cons split: sum.split)

theorem ReconcileIngress_off_witness:
  "spec_Ingress (ts_Spec sample_ts) = None \<and>
   (\<exists>e h'. ReconcileIngress sample_reconciler sample_ts [] = Some (e, h') \<and> writes h' = [])"
proof -
  have none: "spec_Ingress (ts_Spec sample_ts) = None" by (simp add: sample_ts_def sample_spec_def)
  have "on_get (api_Ingress sample_reconciler) [] k = Inl (NotFound (key_Name k))" for k
    by (simp add: sample_reconciler_def quiet_api_def)
  with ReconcileIngress_off [OF disjI1 [OF none], of sample_reconciler "[]"] none show ?thesis by simp
qed

end
