(* ===== verification/Routing_Correct.thy ===== *)
theory Routing_Correct
  imports Http_Routes Scrapers
begin

text \<open>
  Correctness of the routes, the reference grants and the scrapers: what the sweeps delete, when an
  updated route is left alone by the next run, and what happens to a route that is disabled.
\<close>

section \<open>Sweeps\<close>

text \<open>
  C30: the operator deletes a route only if the server lists it for the cluster and the
  specification does not name it. The deletions follow the order of the list, nothing else is
  sent, and when no deletion fails every such route is deleted.
\<close>

theorem deleteOrphanedHttpRoutes_spec:
  assumes "deleteOrphanedHttpRoutes r ts h = (e, h')"
    and "opts = \<lparr>lo_Namespace = Some (ts_Namespace ts), lo_LabelSelector = getLabels ts\<rparr>"
    and "on_list (api_HTTPRoute r) h opts = Inr listed"
  shows "\<exists>deleted. h' = h @ ReqList KHTTPRoute opts # map (\<lambda>x. ReqDelete (OHTTPRoute x)) deleted \<and>
    prefix deleted (filter (\<lambda>x. \<not> route_in_specs ts x) listed) \<and>
    (e = None \<longrightarrow> deleted = filter (\<lambda>x. \<not> route_in_specs ts x) listed)"
proof -
  from assms have "delete_orphaned_routes r ts listed (h @ [ReqList KHTTPRoute opts]) = (e, h')"
    by (simp add: deleteOrphanedHttpRoutes_def List_def)
  from orphaned_routes.spares [OF this] show ?thesis by auto
qed

definition sample_route_spec :: HttpRouteSpec where
  "sample_route_spec = \<lparr>hrs_Enabled = True, hrs_Name = ''r'',
     hrs_ParentRef = \<lparr>gp_Name = ''gw'', gp_Namespace = Some ''gws'', gp_SectionName = None\<rparr>,
     hrs_Hostnames = [''h''], hrs_Path = ''/'', hrs_PathType = Some ''PathPrefix'',
     hrs_Labels = fmempty, hrs_Annotations = fmempty, hrs_ReferenceGrant = Some True\<rparr>"

definition routed :: "HttpRouteSpec \<Rightarrow> TypesenseCluster" where
  "routed spec = sample_ts\<lparr>ts_Spec := sample_spec\<lparr>spec_HttpRoutes := Some [spec]\<rparr>\<rparr>"

definition sample_route :: "string \<Rightarrow> HTTPRoute" where
  "sample_route name = (route_object \<lparr>key_Namespace = ''ns'', key_Name = name\<rparr> sample_route_spec
     (routed sample_route_spec))\<lparr>hr_meta := sample_meta name\<rparr>"

definition routes_server :: Reconciler where
  "routes_server = sample_reconciler\<lparr>api_HTTPRoute := quiet_api\<lparr>on_list := \<lambda>h opts.
     Inr [sample_route ''old'', sample_route ''c-r'']\<rparr>\<rparr>"


lemma routes_server_simps [simp]:
  "on_list (api_HTTPRoute routes_server) h opts = Inr [sample_route ''old'', sample_route ''c-r'']"
  "on_delete (api_HTTPRoute routes_server) h x = None"
  "Name (hr_meta (sample_route n)) = n"
  by (simp_all add: routes_server_def quiet_api_def sample_route_def sample_meta_def)

lemma routed_simps [simp]:
  "spec_HttpRoutes (ts_Spec (routed spec)) = Some [spec]" "ts_Name (routed spec) = ''c''"
  "ts_Namespace (routed spec) = ''ns''"
  by (simp_all add: routed_def sample_ts_def sample_meta_def)

lemma in_specs_sample:
  "\<not> route_in_specs (routed sample_route_spec) (sample_route ''old'')"
  "route_in_specs (routed sample_route_spec) (sample_route ''c-r'')"
  by (simp_all add: route_in_specs_def ClusterHttpRoute_def sample_route_spec_def)

theorem deleteOrphanedHttpRoutes_spec_witness:
  "\<exists>h'. deleteOrphanedHttpRoutes routes_server (routed sample_route_spec) [] = (None, h') \<and>
     ReqDelete (OHTTPRoute (sample_route ''old'')) \<in> set h' \<and>
     ReqDelete (OHTTPRoute (sample_route ''c-r'')) \<notin> set h'"
proof -
  let ?ts = "routed sample_route_spec"
  obtain e h' where run: "deleteOrphanedHttpRoutes routes_server ?ts [] = (e, h')" by fastforce
  then have "e = None"
    by (auto simp: deleteOrphanedHttpRoutes_def req_simps in_specs_sample deleteHttpRoute_def)
  with deleteOrphanedHttpRoutes_spec [OF run refl routes_server_simps(1)] run show ?thesis
    by (auto simp: in_specs_sample dest: arg_cong [where f = "\<lambda>x. Name (hr_meta x)"])
qed

section \<open>Scrapers\<close>

text \<open>The job a run creates for a scraper: the object of the specification, owned by the cluster.\<close>

definition created_job :: "TypesenseCluster \<Rightarrow> DocSearchScraperSpec \<Rightarrow> OwnerReference list \<Rightarrow> CronJob" where
  "created_job ts s owners = (let job = scraper_object (scraperObjectKey ts s) ts s
     in job\<lparr>cj_meta := (cj_meta job)\<lparr>OwnerReferences := owners\<rparr>\<rparr>)"

text \<open>
  The calls of a turn without an error, which what the server answered in it determines: a missing
  job is created, one that differs is deleted and created, one that does not is left alone.
\<close>

inductive scraper_turn ::
  "Reconciler \<Rightarrow> TypesenseCluster \<Rightarrow> DocSearchScraperSpec \<Rightarrow> history \<Rightarrow> history \<Rightarrow> bool" for r ts s h where
  missing: "on_get (api_CronJob r) h (scraperObjectKey ts s) = Inl err \<Longrightarrow> IsNotFound err \<Longrightarrow>
    ext_SetControllerReference r ''TypesenseCluster'' (ts_meta ts)
      (cj_meta (scraper_object (scraperObjectKey ts s) ts s)) = Inr owners \<Longrightarrow>
    scraper_turn r ts s h (h @ [ReqGet KCronJob (scraperObjectKey ts s), ReqCreate (OCronJob (created_job ts s owners))])"
| different: "on_get (api_CronJob r) h (scraperObjectKey ts s) = Inr job \<Longrightarrow> scraper_changed job s = Some True \<Longrightarrow>
    ext_SetControllerReference r ''TypesenseCluster'' (ts_meta ts)
      (cj_meta (scraper_object (scraperObjectKey ts s) ts s)) = Inr owners \<Longrightarrow>
    scraper_turn r ts s h (h @ [ReqGet KCronJob (scraperObjectKey ts s), ReqDelete (OCronJob job),
      ReqCreate (OCronJob (created_job ts s owners))])"
| same: "on_get (api_CronJob r) h (scraperObjectKey ts s) = Inr job \<Longrightarrow> scraper_changed job s = Some False \<Longrightarrow>
    scraper_turn r ts s h (h @ [ReqGet KCronJob (scraperObjectKey ts s)])"

text \<open>The turns of all scrapers, in the order of the specification, each on the history of the one before.\<close>

inductive scraper_turns ::
  "Reconciler \<Rightarrow> TypesenseCluster \<Rightarrow> DocSearchScraperSpec list \<Rightarrow> history \<Rightarrow> history \<Rightarrow> bool" for r ts where
  none: "scraper_turns r ts [] h h"
| turn: "scraper_turn r ts s h h1 \<Longrightarrow> scraper_turns r ts ss h1 h' \<Longrightarrow> scraper_turns r ts (s # ss) h h'"

inductive_cases scraper_turns_NilE: "scraper_turns r ts [] h h'"
inductive_cases scraper_turns_ConsE: "scraper_turns r ts (s # ss) h h'"

lemma created_job_settled: "scraper_changed (created_job ts s owners) s = Some False"
  by (simp add: created_job_def scraper_object_def scraper_changed_def Let_def)

lemma createScraper_None:
  assumes "createScraper r (scraperObjectKey ts s) ts s h = (None, h')"
  obtains owners where "ext_SetControllerReference r ''TypesenseCluster'' (ts_meta ts)
      (cj_meta (scraper_object (scraperObjectKey ts s) ts s)) = Inr owners"
    and "h' = h @ [ReqCreate (OCronJob (created_job ts s owners))]"
  using assms
  by (auto simp: createScraper_def Create_def Let_def created_job_def split: sum.split_asm)

lemma reconcile_scraper_turn:
  assumes "reconcile_scraper r ts s h = Some (None, h')"
  shows "scraper_turn r ts s h h'"
proof -
  let ?key = "scraperObjectKey ts s"
  let ?h = "h @ [ReqGet KCronJob ?key]"
  consider (missing) err where "on_get (api_CronJob r) h ?key = Inl err" "IsNotFound err"
      "createScraper r ?key ts s ?h = (None, h')"
    | (different) job where "on_get (api_CronJob r) h ?key = Inr job" "scraper_changed job s = Some True"
        "createScraper r ?key ts s (?h @ [ReqDelete (OCronJob job)]) = (None, h')"
    | (same) job where "on_get (api_CronJob r) h ?key = Inr job" "scraper_changed job s = Some False" "h' = ?h"
    using assms
    by (auto simp: reconcile_scraper_def req_simps deleteScraper_def Let_def elim!: bind_SomeE
        split: sum.split_asm if_split_asm option.split_asm)
  then show ?thesis
  proof cases
    case missing
    from missing(3) show ?thesis
      by (rule createScraper_None) (use scraper_turn.missing [OF missing(1,2)] in simp)
  next
    case different
    from different(3) show ?thesis
      by (rule createScraper_None) (use scraper_turn.different [OF different(1,2)] in simp)
  next
    case same
    then show ?thesis using scraper_turn.same by simp
  qed
qed

lemma reconcile_scrapers_turns:
  "reconcile_scrapers r ts ss h = Some (None, h') \<Longrightarrow> scraper_turns r ts ss h h'"
proof (induction ss arbitrary: h)
  case (Cons s ss)
  then obtain h1 where turn: "reconcile_scraper r ts s h = Some (None, h1)"
    and rest: "reconcile_scrapers r ts ss h1 = Some (None, h')"
    by (auto elim!: bind_SomeE split: option.split_asm)
  from scraper_turns.turn [OF reconcile_scraper_turn [OF turn] Cons.IH [OF rest]] show ?case .
qed (simp add: scraper_turns.none)

text \<open>
  C31: a run of the scrapers that ends without an error lists the jobs of the cluster and deletes
  exactly those that no scraper of the specification claims, in the order of the list; then it takes
  the scrapers of the specification in order, and for each of them, by what the server answers at that
  moment, creates its job if there is none, deletes it and creates it anew if it differs, and writes
  nothing if it does not. A job it creates does not differ afterwards.
\<close>

theorem ReconcileScraper_spec:
  assumes "ReconcileScraper r ts h = Some (None, h')"
    and "opts = \<lparr>lo_Namespace = Some (ts_Namespace ts), lo_LabelSelector = getLabels ts\<rparr>"
    and "on_list (api_CronJob r) h opts = Inr listed"
    and "specs = (case spec_Scrapers (ts_Spec ts) of None \<Rightarrow> [] | Some ss \<Rightarrow> ss)"
  shows "scraper_turns r ts specs
      (h @ ReqList KCronJob opts #
         map (\<lambda>x. ReqDelete (OCronJob x)) (filter (\<lambda>x. \<not> inSpecs (Name (cj_meta x)) specs) listed)) h' \<and>
    (\<forall>s owners. scraper_changed (created_job ts s owners) s = Some False)"
proof -
  from assms obtain h1 where
    del: "delete_stale r (spec_Scrapers (ts_Spec ts)) listed (h @ [ReqList KCronJob opts]) = (None, h1)"
    and rest: "reconcile_scrapers r ts specs h1 = Some (None, h')"
    by (auto simp: ReconcileScraper_def List_def split: prod.split_asm option.split_asm)
  have "(case spec_Scrapers (ts_Spec ts) of None \<Rightarrow> True | Some ss \<Rightarrow> \<not> inSpecs n ss) \<longleftrightarrow> \<not> inSpecs n specs" for n
    using assms(4) by (simp add: inSpecs_def split: option.split)
  with stale_jobs.swept [OF del] have "h1 = h @ ReqList KCronJob opts #
      map (\<lambda>x. ReqDelete (OCronJob x)) (filter (\<lambda>x. \<not> inSpecs (Name (cj_meta x)) specs) listed)" by simp
  with reconcile_scrapers_turns [OF rest] show ?thesis by (simp add: created_job_settled)
qed

definition sample_scraper :: DocSearchScraperSpec where
  "sample_scraper = \<lparr>dss_Name = ''docs'', dss_Image = ''scraper:1'', dss_Config = ''{}'',
     dss_Schedule = ''0 * * * *'', dss_AuthConfiguration = None\<rparr>"

definition scraped :: TypesenseCluster where
  "scraped = sample_ts\<lparr>ts_Spec := sample_spec\<lparr>spec_Scrapers := Some [sample_scraper]\<rparr>\<rparr>"

definition stale_job :: CronJob where
  "stale_job = created_job scraped (sample_scraper\<lparr>dss_Name := ''old''\<rparr>) []"

definition jobs_server :: Reconciler where
  "jobs_server = sample_reconciler\<lparr>api_CronJob := quiet_api\<lparr>on_list := \<lambda>h opts. Inr [stale_job]\<rparr>\<rparr>"

lemma jobs_server_simps [simp]:
  "on_list (api_CronJob jobs_server) h opts = Inr [stale_job]"
  "on_get (api_CronJob jobs_server) h key = Inl (NotFound (key_Name key))"
  "on_create (api_CronJob jobs_server) h job = Inr job"
  "on_delete (api_CronJob jobs_server) h job = None"
  "ext_SetControllerReference jobs_server k m n = Inr [\<lparr>owner_Kind = k, owner_Name = Name m\<rparr>]"
  "spec_Scrapers (ts_Spec scraped) = Some [sample_scraper]"
  by (simp_all add: jobs_server_def quiet_api_def sample_reconciler_def scraped_def)

lemma stale_job_name: "Name (cj_meta stale_job) = ''old-scraper''"
  by (simp add: stale_job_def created_job_def scraper_object_def getObjectMeta_def object_meta_def
      scraperObjectKey_def ClusterScraperCronJob_def Let_def)

lemma stale_job_unclaimed: "\<not> inSpecs (Name (cj_meta stale_job)) [sample_scraper]"
  by (simp add: stale_job_name inSpecs_def ClusterScraperCronJob_def sample_scraper_def)

lemma missing_job_turn:
  assumes "scraper_turns jobs_server scraped [sample_scraper] h h'"
  shows "\<exists>owners. h' = h @ [ReqGet KCronJob (scraperObjectKey scraped sample_scraper),
    ReqCreate (OCronJob (created_job scraped sample_scraper owners))]"
  using assms by (auto elim!: scraper_turns_ConsE scraper_turns_NilE scraper_turn.cases)

theorem ReconcileScraper_spec_witness:
  "\<exists>h' opts owners. ReconcileScraper jobs_server scraped [] = Some (None, h') \<and>
     h' = [ReqList KCronJob opts, ReqDelete (OCronJob stale_job),
       ReqGet KCronJob (scraperObjectKey scraped sample_scraper),
       ReqCreate (OCronJob (created_job scraped sample_scraper owners))]"
proof -
  obtain h' where run: "ReconcileScraper jobs_server scraped [] = Some (None, h')"
    using stale_job_unclaimed
    by (simp add: ReconcileScraper_def req_simps deleteScraper_def reconcile_scraper_def createScraper_def Let_def)
  note ReconcileScraper_spec [OF run refl jobs_server_simps(1) refl, THEN conjunct1]
  then have "scraper_turns jobs_server scraped [sample_scraper]
      [ReqList KCronJob \<lparr>lo_Namespace = Some (ts_Namespace scraped), lo_LabelSelector = getLabels scraped\<rparr>,
       ReqDelete (OCronJob stale_job)] h'"
    using stale_job_unclaimed by simp
  from missing_job_turn [OF this] run show ?thesis by auto
qed

section \<open>When a route settles\<close>

text \<open>
  The API server fills in the group and the kind of a parent reference when they are absent, as the
  Gateway API documents it (a Gateway of the group of the Gateway API).
\<close>

definition defaulted_ref :: "ParentReference \<Rightarrow> ParentReference" where
  "defaulted_ref ref = ref\<lparr>
     pr_Group := Some (case pr_Group ref of None \<Rightarrow> gatewayApiGroup | Some g \<Rightarrow> g),
     pr_Kind := Some (case pr_Kind ref of None \<Rightarrow> ''Gateway'' | Some k \<Rightarrow> k)\<rparr>"

definition defaulted_route :: "HTTPRoute \<Rightarrow> HTTPRoute" where
  "defaulted_route route = route\<lparr>hr_ParentRefs := map defaulted_ref (hr_ParentRefs route)\<rparr>"

lemma defaulted_route_simps [simp]:
  "hr_meta (defaulted_route route) = hr_meta route"
  "hr_Hostnames (defaulted_route route) = hr_Hostnames route"
  "route_path (defaulted_route route) = route_path route"
  "observed_route_labels (defaulted_route route) spec ts = observed_route_labels route spec ts"
  "getHttpRouteAnnotations (defaulted_route route) ts = getHttpRouteAnnotations route ts"
  "index (hr_ParentRefs (defaulted_route route)) 0 = map_option defaulted_ref (index (hr_ParentRefs route) 0)"
  by (simp_all add: defaulted_route_def route_path_def observed_route_labels_def getHttpRouteAnnotations_def
      index_def)

lemma updated_route_facts:
  assumes "updated_route spec route ts = Some sent"
  shows "hr_Hostnames sent = hrs_Hostnames spec"
    and "route_path sent = Some \<lparr>pm_Type = hrs_PathType spec, pm_Value = Some (hrs_Path spec)\<rparr>"
    and "index (hr_ParentRefs sent) 0 = Some (getGatewayParentRef spec ts)"
    and "hr_meta sent = (hr_meta route)\<lparr>Annotations := hrs_Annotations spec\<rparr>"
  using assms
  by (auto simp: updated_route_def set_route_path_def route_path_def store_index_def index_def Let_def
      elim!: bind_SomeE split: if_split_asm)

lemma filterMap_keeps_iff: "filterMap m fs = m \<longleftrightarrow> keeps_annotations fs m"
proof
  assume same: "filterMap m fs = m"
  show "keeps_annotations fs m"
    unfolding keeps_annotations_def
  proof
    fix k assume k: "k |\<in>| fmdom m"
    then have "fmlookup (filterMap m fs) k \<noteq> None" using same by (simp add: fmlookup_dom_iff)
    then show "\<not> list_ex (\<lambda>f. Contains k f) fs" by (auto simp: fmlookup_filterMap list_ex_iff split: if_split_asm)
  qed
qed (rule filterMap_keeps)

text \<open>
  C32: what the next run makes of a route that was just updated, with the defaults of the server. The
  comparison finds a difference, so that every run patches the route again, exactly if the labels
  differ, or the specification leaves out the namespace of the gateway, or it has an annotation that the
  comparison ignores (the cluster issuer, those of Rancher, and those the specification lists to be
  ignored): an update sends everything the comparison looks at but the labels, the comparison
  expects an absent namespace where the operator itself sends the namespace of the cluster, and it
  compares the annotations of the specification with the filtered ones of the route. In all other
  cases it finds no difference; where the path type, which has a default, is left out, it panics.
\<close>

theorem updated_route_settles:
  assumes "updated_route spec route ts = Some sent"
  shows "route_changed spec (defaulted_route sent) ts =
    (if hrs_Labels spec \<noteq> observed_route_labels route spec ts \<or> gp_Namespace (hrs_ParentRef spec) = None \<or>
        \<not> keeps_annotations (clusterIssuerAnnotationKey # rancherDomainAnnotationKey #
            spec_IgnoreAnnotationsFromExternalMutations (ts_Spec ts)) (hrs_Annotations spec)
     then Some True
     else case hrs_PathType spec of None \<Rightarrow> None | Some t \<Rightarrow> Some False)"
proof -
  note sent = updated_route_facts [OF assms(1)]
  have "observed_route_labels sent spec ts = observed_route_labels route spec ts"
    by (simp add: observed_route_labels_def sent)
  moreover have "hrs_Annotations spec = getHttpRouteAnnotations sent ts \<longleftrightarrow>
      keeps_annotations (clusterIssuerAnnotationKey # rancherDomainAnnotationKey #
        spec_IgnoreAnnotationsFromExternalMutations (ts_Spec ts)) (hrs_Annotations spec)"
    by (metis filterMap_keeps_iff getHttpRouteAnnotations_def ObjectMeta.select_convs(4) ObjectMeta.surjective
        ObjectMeta.update_convs(4) sent(4))
  ultimately show ?thesis
    by (auto simp: route_changed_def sent defaulted_ref_def getGatewayParentRef_def Let_def
      split: option.split)
qed

definition labelled_spec :: HttpRouteSpec where
  "labelled_spec = sample_route_spec\<lparr>hrs_Labels := fmap_of_list [(''team'', ''search'')]\<rparr>"

lemma observed_labels_none:
  "Labels (hr_meta route) = fmempty \<Longrightarrow> observed_route_labels route spec ts = fmempty"
  by (simp add: observed_route_labels_def) (rule filterMap_keeps, simp)

lemma updated_sample:
  obtains sent where "updated_route spec (sample_route n) ts = Some sent"
  by (simp add: updated_route_def set_route_path_def sample_route_def route_object_def store_index_def index_def
      sample_route_spec_def Let_def)

theorem updated_route_settles_witness:
  "(\<exists>sent. updated_route sample_route_spec (sample_route ''c-r'') (routed sample_route_spec) = Some sent \<and>
      route_changed sample_route_spec (defaulted_route sent) (routed sample_route_spec) = Some False) \<and>
   (\<exists>sent. updated_route labelled_spec (sample_route ''c-r'') (routed labelled_spec) = Some sent \<and>
      route_changed labelled_spec (defaulted_route sent) (routed labelled_spec) = Some True)"
proof -
  have bare: "Labels (hr_meta (sample_route ''c-r'')) = fmempty"
    by (simp add: sample_route_def sample_meta_def)
  have type: "hrs_PathType labelled_spec = Some ''PathPrefix''" "hrs_PathType sample_route_spec = Some ''PathPrefix''"
    by (simp_all add: labelled_spec_def sample_route_spec_def)
  have kept: "keeps_annotations fs (hrs_Annotations labelled_spec)" "keeps_annotations fs (hrs_Annotations sample_route_spec)" for fs
    by (simp_all add: labelled_spec_def sample_route_spec_def)
  have labels: "hrs_Labels labelled_spec \<noteq> fmempty" "hrs_Labels sample_route_spec = fmempty"
    "gp_Namespace (hrs_ParentRef sample_route_spec) = Some ''gws''"
    by (auto simp: labelled_spec_def sample_route_spec_def dest: arg_cong [where f = "\<lambda>m. fmlookup m ''team''"])
  obtain s1 s2 where s1: "updated_route sample_route_spec (sample_route ''c-r'') (routed sample_route_spec) = Some s1"
    and s2: "updated_route labelled_spec (sample_route ''c-r'') (routed labelled_spec) = Some s2"
    using updated_sample by meson
  show ?thesis
    using s1 s2 updated_route_settles [OF s1] updated_route_settles [OF s2] type kept
      labels observed_labels_none [OF bare] by simp
qed

section \<open>Disabled routes\<close>

lemma empty_route_has_no_path: "route_changed hrt empty_HTTPRoute ts = None"
  by (simp add: route_changed_def route_path_def empty_HTTPRoute_def Let_def)

text \<open>
  C39: a route of the specification that is disabled and that the server does not have is never
  reconciled without an error. The code goes on with the empty object: it asks the server to
  delete a route without a name, and if that were accepted it would dereference the missing rules.
  A disabled route therefore blocks the phases after it, for as long as it stays in the
  specification.
\<close>

theorem disabled_missing_route_fails:
  assumes "\<not> hrs_Enabled hrt"
    and "on_get (api_HTTPRoute r) h (httpRouteObjectKey ts hrt) = Inl err"
  shows "reconcile_route r ts hrt h \<noteq> Some (None, h')"
  using assms
  by (auto simp: reconcile_route_def Get_def sync_route_def empty_route_has_no_path
      split: prod.split option.split)

theorem disabled_missing_route_fails_witness:
  "\<not> hrs_Enabled (sample_route_spec\<lparr>hrs_Enabled := False\<rparr>) \<and>
   (\<forall>h'. reconcile_route sample_reconciler (routed sample_route_spec) (sample_route_spec\<lparr>hrs_Enabled := False\<rparr>) []
      \<noteq> Some (None, h'))"
proof -
  let ?off = "sample_route_spec\<lparr>hrs_Enabled := False\<rparr>"
  have "on_get (api_HTTPRoute sample_reconciler) [] k = Inl (NotFound (key_Name k))" for k
    by (simp add: sample_reconciler_def quiet_api_def)
  then show ?thesis
    using disabled_missing_route_fails [of ?off sample_reconciler "[]" "routed sample_route_spec"] by simp
qed

text \<open>
  What the API server promises of a grant that is gone: after a deletion it accepted, and for as long as
  no grant is created, no grant is found under the key.
\<close>

definition forgets_deleted_grants :: "Reconciler \<Rightarrow> bool" where
  "forgets_deleted_grants r \<longleftrightarrow> (\<forall>g rg t. on_delete (api_ReferenceGrant r) g rg = None \<longrightarrow>
     (\<forall>x. ReqCreate (OReferenceGrant x) \<notin> set t) \<longrightarrow>
     (\<exists>err. IsNotFound err \<and> on_get (api_ReferenceGrant r) (g @ ReqDelete (OReferenceGrant rg) # t)
        (ObjectKeyFromObject (rg_meta rg)) = Inl err))"

lemma forgets_deleted_grantsD:
  assumes "forgets_deleted_grants r" and "on_delete (api_ReferenceGrant r) g rg = None"
    and "\<forall>x. ReqCreate (OReferenceGrant x) \<notin> set t"
    and "g' = g @ ReqDelete (OReferenceGrant rg) # t"
  shows "\<exists>err. IsNotFound err \<and> on_get (api_ReferenceGrant r) g' (ObjectKeyFromObject (rg_meta rg)) = Inl err"
  using assms by (simp add: forgets_deleted_grants_def)

abbreviation grant_key :: "TypesenseCluster \<Rightarrow> HttpRouteSpec \<Rightarrow> string \<Rightarrow> ObjectKey" where
  "grant_key ts hrt ns \<equiv> \<lparr>key_Namespace = ns, key_Name = ClusterHttpRouteReferenceGrant (ts_Name ts) (hrs_Name hrt)\<rparr>"

lemma delete_grants_eq: "delete_grants r rgs h = h @ map (\<lambda>rg. ReqDelete (OReferenceGrant rg)) rgs"
  by (induction r rgs h rule: delete_grants.induct) (simp_all add: deleteReferenceGrant_def Delete_def)

lemma remove_disabled_None:
  assumes "remove_disabled r route h = (None, h')"
    and "opts = \<lparr>lo_Namespace = None, lo_LabelSelector = fmap_of_list [(''route'', Name (hr_meta route))]\<rparr>"
    and "on_list (api_ReferenceGrant r) h opts = Inr rgs"
  shows "h' = h @ ReqList KReferenceGrant opts # map (\<lambda>rg. ReqDelete (OReferenceGrant rg)) rgs @
    [ReqDelete (OHTTPRoute route)]"
  using assms
  by (auto simp: remove_disabled_def List_def deleteHttpRoute_def Delete_def delete_grants_eq
      split: option.split_asm)

lemma sync_route_grants:
  assumes "sync_route r hrt route ts h = Some (None, h')"
    and "hrs_ReferenceGrant hrt = Some True" and "gp_Namespace (hrs_ParentRef hrt) = Some ns"
    and "\<And>t. \<forall>x. ReqCreate (OReferenceGrant x) \<notin> set t \<Longrightarrow>
      \<exists>err. IsNotFound err \<and> on_get (api_ReferenceGrant r) (h @ t) (grant_key ts hrt ns) = Inl err"
  obtains u rg where "h' = h @ u @ [ReqGet KReferenceGrant (grant_key ts hrt ns), ReqCreate (OReferenceGrant rg)]"
    and "u = [] \<or> (\<exists>sent. u = [ReqPatch (OHTTPRoute route) (OHTTPRoute sent)])"
    and "ObjectKeyFromObject (rg_meta rg) = grant_key ts hrt ns"
proof -
  consider "updateReferenceGrant r hrt ts h = Some (None, h')"
    | sent where "updateReferenceGrant r hrt ts (h @ [ReqPatch (OHTTPRoute route) (OHTTPRoute sent)]) = Some (None, h')"
    using assms(1)
    by (auto simp: sync_route_def updateHttpRoute_def Patch_def elim!: bind_SomeE
        split: if_split_asm sum.split_asm option.split_asm)
  then obtain u where grant: "updateReferenceGrant r hrt ts (h @ u) = Some (None, h')"
    and u: "u = [] \<or> (\<exists>sent. u = [ReqPatch (OHTTPRoute route) (OHTTPRoute sent)])"
    by cases (metis append_Nil2, blast)
  from u have "\<forall>x. ReqCreate (OReferenceGrant x) \<notin> set u" by auto
  from assms(4) [OF this] obtain err where
    "IsNotFound err" "on_get (api_ReferenceGrant r) (h @ u) (grant_key ts hrt ns) = Inl err" by blast
  with grant assms(2,3) obtain rg where
    "h' = h @ u @ [ReqGet KReferenceGrant (grant_key ts hrt ns), ReqCreate (OReferenceGrant rg)]"
    "ObjectKeyFromObject (rg_meta rg) = grant_key ts hrt ns"
    by (auto simp: updateReferenceGrant_def createReferenceGrant_def getReferenceGrantObjectMeta_def req_simps
        ObjectKeyFromObject_def Let_def elim!: bind_SomeE split: sum.split_asm)
  with u that show ?thesis by blast
qed

text \<open>
  C40: when a route with a reference grant is disabled and the server lists that grant for it, the run
  deletes every grant that is listed and then the route, and, because it goes on as for a route
  that is kept, looks for the grant it has just deleted, does not find it and creates it anew: a run that
  ends without an error ends with the creation of the grant it had removed. The server is assumed to
  accept the deletion of the grant and not to find a grant after its deletion.
\<close>

theorem disabled_route_grants_again:
  assumes "\<not> hrs_Enabled hrt" and "hrs_ReferenceGrant hrt = Some True"
    and "gp_Namespace (hrs_ParentRef hrt) = Some ns"
    and "on_get (api_HTTPRoute r) h (httpRouteObjectKey ts hrt) = Inr route"
    and "opts = \<lparr>lo_Namespace = None, lo_LabelSelector = fmap_of_list [(''route'', Name (hr_meta route))]\<rparr>"
    and "asked = h @ [ReqGet KHTTPRoute (httpRouteObjectKey ts hrt), ReqList KReferenceGrant opts]"
    and "on_list (api_ReferenceGrant r) (h @ [ReqGet KHTTPRoute (httpRouteObjectKey ts hrt)]) opts =
      Inr (before @ grant # after)"
    and "ObjectKeyFromObject (rg_meta grant) = grant_key ts hrt ns"
    and "on_delete (api_ReferenceGrant r)
      (asked @ map (\<lambda>x. ReqDelete (OReferenceGrant x)) before) grant = None"
    and "forgets_deleted_grants r"
    and "reconcile_route r ts hrt h = Some (None, h')"
  shows "\<exists>u rg. h' = asked @ map (\<lambda>x. ReqDelete (OReferenceGrant x)) (before @ grant # after) @
      [ReqDelete (OHTTPRoute route)] @ u @
      [ReqGet KReferenceGrant (grant_key ts hrt ns), ReqCreate (OReferenceGrant rg)] \<and>
    (u = [] \<or> (\<exists>sent. u = [ReqPatch (OHTTPRoute route) (OHTTPRoute sent)])) \<and>
    ObjectKeyFromObject (rg_meta rg) = ObjectKeyFromObject (rg_meta grant)"
proof -
  let ?h = "h @ [ReqGet KHTTPRoute (httpRouteObjectKey ts hrt)]"
  let ?del = "map (\<lambda>x. ReqDelete (OReferenceGrant x))"
  from assms(1,4,11) obtain h1 where rem: "remove_disabled r route ?h = (None, h1)"
    and sync: "sync_route r hrt route ts h1 = Some (None, h')"
    by (auto simp: reconcile_route_def Get_def split: prod.split_asm option.split_asm)
  from remove_disabled_None [OF rem assms(5,7)] assms(6)
  have h1: "h1 = asked @ ?del (before @ grant # after) @ [ReqDelete (OHTTPRoute route)]" by simp
  have gone: "\<exists>err. IsNotFound err \<and> on_get (api_ReferenceGrant r) (h1 @ t) (grant_key ts hrt ns) = Inl err"
    if "\<forall>x. ReqCreate (OReferenceGrant x) \<notin> set t" for t
    unfolding assms(8) [symmetric]
    by (rule forgets_deleted_grantsD [OF assms(10,9),
          where t = "?del after @ [ReqDelete (OHTTPRoute route)] @ t"]) (use that in \<open>auto simp: h1\<close>)
  from sync assms(2,3) gone show ?thesis
    by (rule sync_route_grants) (auto simp: h1 assms(8))
qed

definition route_grant :: ReferenceGrant where
  "route_grant = \<lparr>rg_meta = (sample_meta (ClusterHttpRouteReferenceGrant ''c'' ''r''))\<lparr>Namespace := ''gws''\<rparr>,
     rg_From = [], rg_To = []\<rparr>"

definition disabled_server :: Reconciler where
  "disabled_server = sample_reconciler\<lparr>
     api_HTTPRoute := quiet_api\<lparr>on_get := \<lambda>h key. Inr (sample_route ''c-r'')\<rparr>,
     api_ReferenceGrant := quiet_api\<lparr>on_list := \<lambda>h opts. Inr [route_grant]\<rparr>\<rparr>"

lemma disabled_server_simps [simp]:
  "on_get (api_HTTPRoute disabled_server) h key = Inr (sample_route ''c-r'')"
  "on_delete (api_HTTPRoute disabled_server) h route = None"
  "on_patch (api_HTTPRoute disabled_server) h route route' = Inr route'"
  "on_get (api_ReferenceGrant disabled_server) h key = Inl (NotFound (key_Name key))"
  "on_list (api_ReferenceGrant disabled_server) h opts = Inr [route_grant]"
  "on_create (api_ReferenceGrant disabled_server) h rg = Inr rg"
  "on_delete (api_ReferenceGrant disabled_server) h rg = None"
  by (simp_all add: disabled_server_def sample_reconciler_def quiet_api_def)

lemma sample_route_compared:
  "\<exists>c. route_changed (sample_route_spec\<lparr>hrs_Enabled := b\<rparr>) (sample_route n) ts = Some c"
  by (auto simp: route_changed_def route_path_def sample_route_def route_object_def sample_route_spec_def Let_def)

theorem disabled_route_grants_again_witness:
  "\<exists>h' t u rg. reconcile_route disabled_server (routed sample_route_spec)
       (sample_route_spec\<lparr>hrs_Enabled := False\<rparr>) [] = Some (None, h') \<and>
     h' = t @ [ReqDelete (OReferenceGrant route_grant), ReqDelete (OHTTPRoute (sample_route ''c-r''))] @ u @
       [ReqCreate (OReferenceGrant rg)] \<and>
     ObjectKeyFromObject (rg_meta rg) = ObjectKeyFromObject (rg_meta route_grant)"
proof -
  let ?off = "sample_route_spec\<lparr>hrs_Enabled := False\<rparr>" and ?ts = "routed sample_route_spec"
  obtain c where "route_changed ?off (sample_route ''c-r'') ?ts = Some c"
    using sample_route_compared by blast
  moreover obtain sent where "updated_route ?off (sample_route ''c-r'') ?ts = Some sent" by (rule updated_sample)
  moreover have grant: "\<not> hrs_Enabled ?off" "hrs_ReferenceGrant ?off = Some True"
      "gp_Namespace (hrs_ParentRef ?off) = Some ''gws''"
    by (simp_all add: sample_route_spec_def)
  ultimately obtain h' where run: "reconcile_route disabled_server ?ts ?off [] = Some (None, h')"
    by (cases c) (simp_all add: reconcile_route_def remove_disabled_def deleteHttpRoute_def sync_route_def
        updateHttpRoute_def updateReferenceGrant_def createReferenceGrant_def getReferenceGrantObjectMeta_def
        delete_grants_eq req_simps Let_def)
  have key: "ObjectKeyFromObject (rg_meta route_grant) = grant_key ?ts ?off ''gws''"
    by (simp add: route_grant_def sample_meta_def ObjectKeyFromObject_def sample_route_spec_def)
  have forgets: "forgets_deleted_grants disabled_server" by (simp add: forgets_deleted_grants_def)
  let ?asked = "[ReqGet KHTTPRoute (httpRouteObjectKey ?ts ?off), ReqList KReferenceGrant
    \<lparr>lo_Namespace = None, lo_LabelSelector = fmap_of_list [(''route'', Name (hr_meta (sample_route ''c-r'')))]\<rparr>]"
  from disabled_route_grants_again [OF grant disabled_server_simps(1) refl refl, where before = "[]" and after = "[]",
      OF _ key disabled_server_simps(7) forgets run]
  obtain u rg where h': "h' = ?asked @ [ReqDelete (OReferenceGrant route_grant),
      ReqDelete (OHTTPRoute (sample_route ''c-r''))] @ u @ [ReqGet KReferenceGrant (grant_key ?ts ?off ''gws''),
      ReqCreate (OReferenceGrant rg)]"
    and "ObjectKeyFromObject (rg_meta rg) = ObjectKeyFromObject (rg_meta route_grant)"
    by auto
  with run show ?thesis
    by (intro exI [of _ h'] exI [of _ ?asked] exI [of _ rg]
        exI [of _ "u @ [ReqGet KReferenceGrant (grant_key ?ts ?off ''gws'')]"] conjI) simp_all
qed

end
