(* ===== verification/Spec2Isabelle.thy ===== *)
theory Spec2Isabelle
  imports Type_Safety Recovery Startup StatefulSet_Correct Config_Correct Services_Correct Ingress_Correct Routing_Correct
begin

text \<open>
  The Typesense operator, modelled and verified.

  \<^bold>\<open>The program.\<close> The operator is a Kubernetes controller written in Go. For every
  TypesenseCluster resource it keeps a Raft cluster of the Typesense search engine running: a
  statefulset and the objects around it. The manager calls \<^verbatim>\<open>Reconcile\<close> with the name
  of a cluster whenever something about it changed or a delay is over. A run reads the resource and
  goes through phases in a fixed order (the admin secret, the config map with the list of the nodes, the
  services, the ingress with its reverse proxy, the HTTP routes, the scrapers, the pod monitor, the
  statefulset); a phase that fails ends the run and its reason is written to the status. At the end the
  members of the cluster are asked for their state and the size of the statefulset is adapted: a cluster
  that lost its quorum is brought down to one member and grown again.

  \<^bold>\<open>Theories and sources\<close> (all paths under \<^verbatim>\<open>src/\<close>; the controller's
  files are \<^verbatim>\<open>internal/controller/typesensecluster_*.go\<close>).

  \<^item> \<^verbatim>\<open>Go_Prelude\<close>: what the code uses of Go and its standard library, panics as
    \<open>None\<close>, integers of 32 and 64 bits, \<^verbatim>\<open>strings\<close>,
    \<^verbatim>\<open>strconv\<close>, maps. \<^verbatim>\<open>K8s_Types\<close>: the Kubernetes types the code
    builds and reads, with the fields it uses.
  \<^item> \<^verbatim>\<open>V1alpha1\<close>: the resource (\<^verbatim>\<open>api/v1alpha1\<close>) and its
    getters with their defaults. \<^verbatim>\<open>Quorum_Types\<close>: \<^verbatim>\<open>_constants.go\<close>,
    \<^verbatim>\<open>_condition_types.go\<close>, \<^verbatim>\<open>_quorum_types.go\<close>,
    \<^verbatim>\<open>_server_errors.go\<close>.
  \<^item> \<^verbatim>\<open>Requests\<close>: the calls to the outside as data. \<^verbatim>\<open>Role\<close>: the
    permissions the operator is installed with (the markers above \<^verbatim>\<open>Reconcile\<close>) and
    those a call needs.
  \<^item> \<^verbatim>\<open>Client\<close>: the reconciler's receiver and its calls to the outside, and what an
    operation may append to the history of these calls. \<^verbatim>\<open>Sweep\<close>: the loop that deletes
    what is not wanted, stated once.
  \<^item> \<^verbatim>\<open>Utils\<close> (\<^verbatim>\<open>utils.go\<close>) and
    \<^verbatim>\<open>Conditions\<close> (\<^verbatim>\<open>_helpers.go\<close> and the functions of
    \<^verbatim>\<open>_condition_types.go\<close>).
  \<^item> \<^verbatim>\<open>Admin_Secret\<close> (\<^verbatim>\<open>_secret.go\<close>);
    \<^verbatim>\<open>Nodes_ConfigMap\<close> (\<^verbatim>\<open>_configmap.go\<close>);
    \<^verbatim>\<open>Cluster_Services\<close> (\<^verbatim>\<open>_services.go\<close>);
    \<^verbatim>\<open>Ingress_Proxy\<close> (\<^verbatim>\<open>_ingress.go\<close>);
    \<^verbatim>\<open>Http_Routes\<close> (\<^verbatim>\<open>_httproute.go\<close>);
    \<^verbatim>\<open>Scrapers\<close> (\<^verbatim>\<open>_scraper.go\<close>);
    \<^verbatim>\<open>Pod_Monitors\<close> (\<^verbatim>\<open>_podmonitor.go\<close>).
  \<^item> \<^verbatim>\<open>StatefulSet_Ops\<close> and \<^verbatim>\<open>StatefulSet_Reconcile\<close>
    (\<^verbatim>\<open>_statefulset.go\<close>, \<^verbatim>\<open>_statefulset_hash.go\<close>).
  \<^item> \<^verbatim>\<open>Quorum_Helpers\<close> and \<^verbatim>\<open>Quorum\<close>
    (\<^verbatim>\<open>_quorum_helpers.go\<close>, \<^verbatim>\<open>_quorum.go\<close>).
    \<^verbatim>\<open>Quorum_View\<close>: what a run of the quorum reconciliation has read when it decides, as a
    function of its inputs, and the equation that splits the run into this view and its decision.
  \<^item> \<^verbatim>\<open>Controller\<close> (\<^verbatim>\<open>_controller.go\<close>): the whole run and the
    event predicates. \<^verbatim>\<open>Startup\<close> (\<^verbatim>\<open>cmd/main.go\<close>,
    \<^verbatim>\<open>api/v1alpha1/groupversion_info.go\<close>, \<^verbatim>\<open>SetupWithManager\<close>): the process
    up to the start of the manager, with its theorems.
  \<^item> \<^verbatim>\<open>Sample_Env\<close>: a small environment on which the theorems are instantiated.
  \<^item> The theorems: \<^verbatim>\<open>Controller_Correct\<close>, \<^verbatim>\<open>Control_Loop\<close>,
    \<^verbatim>\<open>Well_Formed\<close> and \<^verbatim>\<open>Type_Safety\<close>, \<^verbatim>\<open>Recovery\<close>,
    \<^verbatim>\<open>Quorum_Correct\<close>, \<^verbatim>\<open>StatefulSet_Correct\<close>,
    \<^verbatim>\<open>Config_Correct\<close>, \<^verbatim>\<open>Services_Correct\<close>,
    \<^verbatim>\<open>Ingress_Correct\<close>, \<^verbatim>\<open>Routing_Correct\<close>.

  \<^bold>\<open>State and operations.\<close> The operator keeps no state of its own between two calls; the
  state of the system is on the API server. An operation of the receiver is a function of the receiver, its
  arguments and the history of all calls to the outside so far; it returns its result and the extended
  history, so its effect is what it appends. The answers of the outside (the API server, the nodes of
  the cluster, the clock, the random source) are fields of the record \<^typ>\<open>Reconciler\<close>, functions of
  the history and the call. Nothing is assumed of them, except where a theorem names what it needs, so the
  theorems hold for caches that lag behind, for other actors that write in between, and for calls that
  fail at any point. The library functions the code calls (setting an owner, setting a condition, the
  hash, JSON, versions, URLs) are fields of the same record. A Go panic is \<open>None\<close>; an error result
  is \<open>Inl\<close>, or \<open>Some\<close> where there is only an error. A Go function of the source is one
  definition with its name; where a function is long, its stages are definitions of their own, named in
  the texts with the lines they translate. In-place changes of an object behind a pointer are
  returned as the new value.

  \<^bold>\<open>Interfaces.\<close> A phase is used by the run through the locale
  \<^verbatim>\<open>operation\<close> (it only appends, and what it appends satisfies its footprint), interpreted
  for every phase in its theory and for the run as a whole. The locale
  \<^verbatim>\<open>typed_resource\<close> is the contract of a kind of objects, \<^verbatim>\<open>sweep\<close>
  that of a deletion loop, interpreted for cron jobs, routes and grants;
  \<^verbatim>\<open>quorum_threshold\<close> that of a number of members that makes a majority.

  \<^bold>\<open>What the theorems show.\<close>

  \<^item> The run: it reports the cluster it was called for ready only on what it found itself, with the secret
    and the statefulset of its own phases; nothing is written to a
    statefulset before the earlier phases succeeded; whichever phase fails ends the run with its reason in
    the status; when the next run is due, by what the config map phase did and the grace
    period of the pods; every call is covered by the
    operator's role, secrets are only created, of the cluster only the status is patched. Over any
    sequence of runs a secret that is stored stays as it is.
  \<^item> Type safety: in an environment that keeps to the schema and the validation of the API server, and in
    which nobody else breaks the shape of the objects the operator manages (\<^verbatim>\<open>sound\<close>),
    a run panics at three known places only (\<^verbatim>\<open>known_panic\<close>): a route without the
    namespace of its gateway, a statefulset with fewer than three containers, a desired statefulset that
    cannot be built. No run sends an ill-formed object, so the runs keep the environment they need.
  \<^item> The quorum: what each cluster status says about the members, independently of their order; by what
    this very run has read of the members the statefulset is scaled or the quorum is ready; the number of
    members required, a majority for odd sizes only; readiness gates. The recovery ends: the runs after which
    the statefulset is larger are bounded by the missing replicas and the runs after which it is smaller,
    with a status that may lag behind.
  \<^item> The statefulset: the object that is built selects its own pods and is wired to the secret, the
    nodes list and the services; after an update the next comparison finds nothing to change; the phase
    leaves it alone while a reason to skip holds.
  \<^item> The process: the calls of the start are made in order, up to the first that fails, which decides the
    exit status; HTTP/2, the protection of the metrics and the certificates are as the flags say.
  \<^item> Secret and config map: when a secret is created and what it holds; when the nodes list is written;
    the first list is recognised as bootstrap values and names every replica; pods are annotated once; where the two readers of
    the lag thresholds agree.
  \<^item> Services: one run refines an abstract operation on the stored services, which includes the
    replacement of a service without the port of the health check, and a second run writes nothing.
  \<^item> Ingress, routes, scrapers: what the next comparison makes of what is sent; the objects of the proxy
    refer to each other; sweeps delete exactly what is unclaimed; each scraper's job is created, replaced or
    left alone by what the server answers.
  \<^item> Defects the proofs brought to light, each stated as a theorem about the code as it is: the reason
    for memory and disk problems that is never reported, the condition that is always true, the update that
    is ignored when replicas and template change together, the panics after a failed build and on missing
    containers and without the namespace of a gateway, a required number of members that is no majority for even sizes, labels of routes that
    never settle, disabled routes that fail or leave a grant behind, a recreated service that is patched
    back.

  \<^bold>\<open>Loops, bounds and fuel.\<close> All loops of the code run over finite slices and are
  structural recursions; \<^verbatim>\<open>ReplaceAll\<close> has a measure. No fuel is used, and no function
  of the model is partial other than by a panic. Integers keep their width where the code converts
  (\<^verbatim>\<open>int32\<close>, \<^verbatim>\<open>int64\<close>) or adds durations; other counters are
  lengths of slices and cannot overflow.

  \<^bold>\<open>Conventions.\<close> \<^verbatim>\<open>apiequality.Semantic.DeepEqual\<close> is equality of
  the model's values, in which a nil and an empty map or slice are the same. The order of a map iteration
  is fixed where the result does not depend on it. \<^verbatim>\<open>sort.Slice\<close> is a stable sort. A
  merge patch is the pair of the object it was computed from and the object sent. Fields of Kubernetes
  objects that the code copies as a whole are opaque numbers. Log output is left out.

  \<^bold>\<open>Not modelled.\<close> \<^verbatim>\<open>zz_generated.deepcopy.go\<close> (generated copies, which are
  the identity on values), log output, the tests, the Helm chart and the manifests. Of
  \<^verbatim>\<open>cmd/main.go\<close> the splitting of the command line and the flags of the logging library are
  library code. The work queue of the manager, which decides when a run happens, is library code; the
  theorems about sequences of runs hold for every order.
\<close>

end
